(* ===== verification/Prelude.thy ===== *)
theory Prelude
  imports Complex_Main "HOL-Library.Word" "HOL-Library.Multiset" "HOL-Library.Finite_Map"
    "HOL-Library.List_Lexorder" "HOL-Library.Char_ord" "HOL-Library.Product_Lexorder"
begin

text \<open>
  Shared ground of the fleetcore development: Go's fixed-width integers, the
  unspecified orders of Go (the iteration order of a map and the order in which
  \<open>sort.Slice\<close> leaves equal elements), Go maps as finite maps, and the generic lemmas
  and hint collections the component theories use.
\<close>

section \<open>Hint collections\<close>

named_theorems store_simps \<open>one step of a store operation\<close>
named_theorems handler_defs \<open>definitions of request handlers\<close>

section \<open>Integers\<close>

text \<open>
  Go's \<open>int64\<close>, and \<open>int\<close> on the 64-bit platforms fleetcore is built for, are two's
  complement words: \<open>+\<close> wraps, and comparisons are the signed ones. \<open>uint64\<close> is the
  same type read unsigned.
\<close>

type_synonym int64 = "64 word"
type_synonym gint = "64 word"
type_synonym uint64 = "64 word"

lemma sint_int64_bounds:
  fixes x :: int64
  shows "- (2 ^ 63) \<le> sint x" and "sint x < 2 ^ 63"
  using sint_ge [of x] sint_lt [of x] by simp_all

lemma sint_int64_eq:
  assumes "- (2 ^ 63) \<le> i" and "i < 2 ^ 63"
  shows "sint (word_of_int i :: int64) = i"
  using assms by (simp add: sint_sbintrunc' signed_take_bit_int_eq_self)

lemma sint_int64_add:
  fixes x y :: int64
  assumes "- (2 ^ 63) \<le> sint x + sint y" and "sint x + sint y < 2 ^ 63"
  shows "sint (x + y) = sint x + sint y"
proof -
  have "sint (x + y) = signed_take_bit 63 (sint x + sint y)"
    using sint_word_ariths(1) [of x y] by simp
  also have "\<dots> = sint x + sint y"
    using assms by (intro signed_take_bit_int_eq_self) simp_all
  finally show ?thesis .
qed

lemma sint_int64_inc:
  fixes x y :: int64
  assumes "x <s y"
  shows "sint (x + 1) = sint x + 1"
proof -
  have lt: "sint x < sint y"
    using assms by (simp add: word_sless_alt)
  have "sint (x + 1) = sint x + sint (1 :: int64)"
    using lt sint_int64_bounds [of x] sint_int64_bounds [of y] by (intro sint_int64_add) simp_all
  then show ?thesis by simp
qed

section \<open>Unspecified orders\<close>

text \<open>
  A \<open>shuffle\<close> stands for one unspecified choice of an order: for a list of \<open>n\<close>
  elements it names the indices in the order they come out. \<open>arrange\<close> applies it and
  falls back to the list itself when the indices are no permutation, so that every
  shuffle yields a rearrangement and no theorem needs an assumption about shuffles.
  \<open>arrange_complete\<close> shows that every rearrangement is reached by some shuffle.
\<close>

type_synonym shuffle = "nat \<Rightarrow> nat list"

definition arrange :: "shuffle \<Rightarrow> 'a list \<Rightarrow> 'a list" where
  "arrange p xs =
     (let ks = p (length xs)
      in if sort ks = [0..<length xs] then map ((!) xs) ks else xs)"

definition in_order :: shuffle where
  "in_order n = [0..<n]"

definition backwards :: shuffle where
  "backwards n = rev [0..<n]"

lemma mset_arrange [simp]: "mset (arrange p xs) = mset xs"
proof (cases "sort (p (length xs)) = [0..<length xs]")
  case True
  then have "mset (p (length xs)) = mset [0..<length xs]"
    by (metis mset_sort)
  then have "mset (map ((!) xs) (p (length xs))) = mset (map ((!) xs) [0..<length xs])"
    by (simp only: mset_map)
  with True show ?thesis by (simp add: arrange_def map_nth)
next
  case False
  then show ?thesis by (simp add: arrange_def)
qed

lemma set_arrange [simp]: "set (arrange p xs) = set xs"
  by (metis mset_arrange set_mset_mset)

lemma length_arrange [simp]: "length (arrange p xs) = length xs"
  by (metis mset_arrange size_mset)

lemma distinct_arrange [simp]: "distinct (arrange p xs) = distinct xs"
  by (metis mset_arrange mset_eq_imp_distinct_iff)

lemma arrange_in_order [simp]: "arrange in_order xs = xs"
  by (simp add: arrange_def in_order_def map_nth)

lemma mset_map_arrange [simp]: "mset (map f (arrange p xs)) = mset (map f xs)"
  by (simp only: mset_map mset_arrange)

lemma distinct_map_arrange [simp]: "distinct (map f (arrange p xs)) = distinct (map f xs)"
  by (metis mset_map_arrange mset_eq_imp_distinct_iff)

lemma image_mset_list_ex:
  "image_mset f M = mset ys \<Longrightarrow> \<exists>xs. mset xs = M \<and> map f xs = ys"
proof (induction ys arbitrary: M)
  case Nil
  then show ?case by simp
next
  case (Cons y ys)
  then have "y \<in># image_mset f M" by simp
  then obtain x where x: "x \<in># M" "f x = y" by auto
  then obtain N where N: "M = add_mset x N" by (meson multi_member_split)
  with Cons.prems x have "image_mset f N = mset ys" by simp
  from Cons.IH [OF this] obtain xs where "mset xs = N" "map f xs = ys" by blast
  with N x show ?case by (intro exI [of _ "x # xs"]) simp
qed

lemma arrange_complete:
  assumes "mset ys = mset xs"
  shows "\<exists>p. arrange p xs = ys"
proof -
  have "image_mset ((!) xs) (mset [0..<length xs]) = mset ys"
    using assms by (metis map_nth mset_map)
  then obtain ks where ks: "mset ks = mset [0..<length xs]" "map ((!) xs) ks = ys"
    using image_mset_list_ex by blast
  have "sort ks = [0..<length xs]"
    using ks(1) by (intro properties_for_sort) simp_all
  with ks(2) have "arrange (\<lambda>_. ks) xs = ys"
    by (simp add: arrange_def)
  then show ?thesis by blast
qed

section \<open>Sorting with a comparison, as \<open>sort.Slice\<close>\<close>

text \<open>
  \<open>sort.Slice\<close> gives some permutation that is sorted by the \<open>less\<close> function; it does
  not keep the order of equal elements. The model sorts stably after an arbitrary
  rearrangement, which reaches every such permutation.
\<close>

fun insert_by :: "('a \<Rightarrow> 'a \<Rightarrow> bool) \<Rightarrow> 'a \<Rightarrow> 'a list \<Rightarrow> 'a list" where
  "insert_by lt x [] = [x]"
| "insert_by lt x (y # ys) = (if lt y x then y # insert_by lt x ys else x # y # ys)"

definition sort_by :: "('a \<Rightarrow> 'a \<Rightarrow> bool) \<Rightarrow> 'a list \<Rightarrow> 'a list" where
  "sort_by lt xs = foldr (insert_by lt) xs []"

definition sort_slice :: "shuffle \<Rightarrow> ('a \<Rightarrow> 'a \<Rightarrow> bool) \<Rightarrow> 'a list \<Rightarrow> 'a list" where
  "sort_slice p lt xs = sort_by lt (arrange p xs)"

definition weak_order :: "('a \<Rightarrow> 'a \<Rightarrow> bool) \<Rightarrow> bool" where
  "weak_order lt \<longleftrightarrow> (\<forall>x y. lt x y \<longrightarrow> \<not> lt y x) \<and> (\<forall>x y z. lt x z \<longrightarrow> lt x y \<or> lt y z)"

lemma sort_by_simps [simp]:
  "sort_by lt [] = []"
  "sort_by lt (x # xs) = insert_by lt x (sort_by lt xs)"
  by (simp_all add: sort_by_def)

lemma mset_insert_by [simp]: "mset (insert_by lt x ys) = add_mset x (mset ys)"
  by (induction ys) auto

lemma mset_sort_by [simp]: "mset (sort_by lt xs) = mset xs"
  by (induction xs) auto

lemma mset_sort_slice [simp]: "mset (sort_slice p lt xs) = mset xs"
  by (simp add: sort_slice_def)

lemma set_sort_slice [simp]: "set (sort_slice p lt xs) = set xs"
  by (metis mset_sort_slice set_mset_mset)

lemma length_sort_slice [simp]: "length (sort_slice p lt xs) = length xs"
  by (metis mset_sort_slice size_mset)

lemma distinct_sort_slice [simp]: "distinct (sort_slice p lt xs) = distinct xs"
  by (metis mset_sort_slice mset_eq_imp_distinct_iff)

lemma mset_map_sort_slice [simp]: "mset (map f (sort_slice p lt xs)) = mset (map f xs)"
  by (simp only: mset_map mset_sort_slice)

lemma set_insert_by [simp]: "set (insert_by lt x ys) = insert x (set ys)"
  by (induction ys) auto

lemma sorted_wrt_insert_by:
  assumes "weak_order lt" and "sorted_wrt (\<lambda>a b. \<not> lt b a) ys"
  shows "sorted_wrt (\<lambda>a b. \<not> lt b a) (insert_by lt x ys)"
  using assms(2)
proof (induction ys)
  case Nil
  then show ?case by simp
next
  case (Cons y ys)
  have tail: "\<not> lt z x" if "\<not> lt y x" and "\<not> lt z y" for z
    using assms(1) that unfolding weak_order_def by blast
  show ?case
  proof (cases "lt y x")
    case True
    then have "\<not> lt x y" using assms(1) by (simp add: weak_order_def)
    with True Cons show ?thesis by simp
  next
    case False
    with Cons tail show ?thesis by simp
  qed
qed

lemma sorted_wrt_sort_by: "weak_order lt \<Longrightarrow> sorted_wrt (\<lambda>a b. \<not> lt b a) (sort_by lt xs)"
  by (induction xs) (auto intro: sorted_wrt_insert_by)

lemma sorted_wrt_sort_slice:
  "weak_order lt \<Longrightarrow> sorted_wrt (\<lambda>a b. \<not> lt b a) (sort_slice p lt xs)"
  by (simp add: sort_slice_def sorted_wrt_sort_by)

lemma insert_by_key: "insert_by (\<lambda>a b. f a < f b) x ys = insort_key f x ys"
  by (induction ys) (auto simp: not_less)

lemma sort_by_key: "sort_by (\<lambda>a b. f a < f b) xs = sort_key f xs"
  by (induction xs) (auto simp: insert_by_key)

lemma weak_order_key: "weak_order (\<lambda>a b. (f a :: 'b :: linorder) < f b)"
  by (auto simp: weak_order_def)

lemma weak_order_key_desc: "weak_order (\<lambda>a b. (f a :: 'b :: linorder) > f b)"
  by (auto simp: weak_order_def)

lemma sort_slice_key: "sort_slice p (\<lambda>a b. f a < f b) xs = sort_key f (arrange p xs)"
  by (simp add: sort_slice_def sort_by_key)

text \<open>With distinct keys the unspecified choices do not show in the result.\<close>

lemma sort_key_eqI:
  assumes "mset ys = mset xs" and "distinct (map f xs)"
  shows "sort_key f ys = sort_key f xs"
proof (rule sort_key_inj_key_eq)
  show "mset ys = mset (sort_key f xs)" using assms(1) by simp
  have "set ys = set xs" using assms(1) by (rule mset_eq_setD)
  then show "inj_on f (set ys)" using assms(2) by (simp add: distinct_map)
  show "sorted (map f (sort_key f xs))" by simp
qed

lemma sort_slice_key_determined:
  "distinct (map f xs) \<Longrightarrow> sort_slice p (\<lambda>a b. f a < f b) xs = sort_key f xs"
  unfolding sort_slice_key by (rule sort_key_eqI) simp_all

section \<open>Go maps\<close>

text \<open>
  A Go map with string keys is a finite map. Reading an absent key gives the zero
  value, \<open>delete\<close> of an absent key does nothing, and \<open>range\<close> visits every entry once
  in an order the language leaves open: \<open>range_map p m\<close> is the list of entries in the
  order the shuffle \<open>p\<close> picks. A nil map reads like an empty one; the code never
  writes to a nil map, so both are \<open>fmempty\<close>.
\<close>

type_synonym 'v gomap = "(string, 'v) fmap"

definition range_map :: "shuffle \<Rightarrow> ('k :: linorder, 'v) fmap \<Rightarrow> ('k \<times> 'v) list" where
  "range_map p m = arrange p (sorted_list_of_fmap m)"

definition go_index :: "'v \<Rightarrow> ('k, 'v) fmap \<Rightarrow> 'k \<Rightarrow> 'v" where
  "go_index zero m k = (case fmlookup m k of None \<Rightarrow> zero | Some v \<Rightarrow> v)"

definition gomap_len :: "('k, 'v) fmap \<Rightarrow> nat" where
  "gomap_len m = fcard (fmdom m)"

lemma set_sorted_list_of_fmap [simp]:
  "set (sorted_list_of_fmap m) = {(k, v). fmlookup m k = Some v}"
  by (auto simp: sorted_list_of_fmap_def fmlookup_dom_iff)

lemma map_fst_sorted_list_of_fmap [simp]:
  "map fst (sorted_list_of_fmap m) = sorted_list_of_fset (fmdom m)"
  by (simp add: sorted_list_of_fmap_def comp_def)

lemma distinct_sorted_list_of_fset [simp]: "distinct (sorted_list_of_fset A)"
  by (simp add: sorted_list_of_fset.rep_eq)

lemma sorted_sorted_list_of_fset [simp]: "sorted (sorted_list_of_fset A)"
  by (simp add: sorted_list_of_fset.rep_eq)

lemma set_range_map [simp]: "set (range_map p m) = {(k, v). fmlookup m k = Some v}"
  by (simp add: range_map_def)

lemma distinct_keys_range_map [simp]: "distinct (map fst (range_map p m))"
  by (simp add: range_map_def)

lemma length_range_map [simp]: "length (range_map p m) = gomap_len m"
proof -
  have "length (range_map p m) = length (sorted_list_of_fset (fmdom m))"
    by (simp add: range_map_def sorted_list_of_fmap_def)
  also have "\<dots> = card (set (sorted_list_of_fset (fmdom m)))"
    by (rule distinct_card [symmetric]) simp
  finally show ?thesis by (simp add: gomap_len_def fcard.rep_eq)
qed

lemma mset_range_map: "mset (range_map p m) = mset (range_map q m)"
  by (simp add: range_map_def)

lemma gomap_len_0 [simp]: "gomap_len m = 0 \<longleftrightarrow> m = fmempty"
proof
  assume "gomap_len m = 0"
  then have "fmdom m = {||}" by (simp add: gomap_len_def)
  then show "m = fmempty" by (intro fmap_ext) (simp add: fmdom_notD)
qed (simp add: gomap_len_def)

end
