(* ===== verification/Go_Strings.thy ===== *)
theory Go_Strings
  imports Prelude
begin

text \<open>
  The functions of Go's \<open>strings\<close> and \<open>strconv\<close> packages that fleetcore uses. A Go
  string is a sequence of bytes, which is what \<^typ>\<open>string\<close> is (a list of 8-bit
  characters); a length is a number of bytes and \<open><\<close> is the bytewise lexicographic
  order. White space is recognised in its UTF-8 encoding, as \<open>unicode.IsSpace\<close> does
  on valid UTF-8.
\<close>

section \<open>Prefixes, cutting, splitting, replacing\<close>

definition HasPrefix :: "string \<Rightarrow> string \<Rightarrow> bool" where
  "HasPrefix s p \<longleftrightarrow> take (length p) s = p"

definition TrimPrefix :: "string \<Rightarrow> string \<Rightarrow> string" where
  "TrimPrefix s p = (if HasPrefix s p then drop (length p) s else s)"

definition CutPrefix :: "string \<Rightarrow> string \<Rightarrow> string \<times> bool" where
  "CutPrefix s p = (if HasPrefix s p then (drop (length p) s, True) else (s, False))"

fun Cut :: "string \<Rightarrow> string \<Rightarrow> string \<times> string \<times> bool" where
  "Cut [] sep = (if sep = [] then ([], [], True) else ([], [], False))"
| "Cut (c # cs) sep =
     (if HasPrefix (c # cs) sep then ([], drop (length sep) (c # cs), True)
      else (case Cut cs sep of (before, after, found) \<Rightarrow> (c # before, after, found)))"

fun Contains :: "string \<Rightarrow> string \<Rightarrow> bool" where
  "Contains [] sub = (sub = [])"
| "Contains (c # cs) sub = (HasPrefix (c # cs) sub \<or> Contains cs sub)"

text \<open>\<open>strings.Split\<close> with a one-byte separator.\<close>

fun Split :: "string \<Rightarrow> char \<Rightarrow> string list" where
  "Split [] c = [[]]"
| "Split (x # xs) c =
     (if x = c then [] # Split xs c
      else (case Split xs c of [] \<Rightarrow> [[x]] | y # ys \<Rightarrow> (x # y) # ys))"

fun Join :: "string list \<Rightarrow> string \<Rightarrow> string" where
  "Join [] sep = []"
| "Join [x] sep = x"
| "Join (x # y # xs) sep = x @ sep @ Join (y # xs) sep"

text \<open>\<open>strings.ReplaceAll\<close> with a one-byte old string.\<close>

definition ReplaceAll :: "string \<Rightarrow> char \<Rightarrow> string \<Rightarrow> string" where
  "ReplaceAll s old new = concat (map (\<lambda>x. if x = old then new else [x]) s)"

section \<open>White space\<close>

definition space_runes :: "string list" where
  "space_runes =
     [[CHR 0x20], [CHR 0x09], [CHR 0x0A], [CHR 0x0B], [CHR 0x0C], [CHR 0x0D],
      [CHR 0xC2, CHR 0x85], [CHR 0xC2, CHR 0xA0], [CHR 0xE1, CHR 0x9A, CHR 0x80],
      [CHR 0xE2, CHR 0x80, CHR 0x80], [CHR 0xE2, CHR 0x80, CHR 0x81],
      [CHR 0xE2, CHR 0x80, CHR 0x82], [CHR 0xE2, CHR 0x80, CHR 0x83],
      [CHR 0xE2, CHR 0x80, CHR 0x84], [CHR 0xE2, CHR 0x80, CHR 0x85],
      [CHR 0xE2, CHR 0x80, CHR 0x86], [CHR 0xE2, CHR 0x80, CHR 0x87],
      [CHR 0xE2, CHR 0x80, CHR 0x88], [CHR 0xE2, CHR 0x80, CHR 0x89],
      [CHR 0xE2, CHR 0x80, CHR 0x8A], [CHR 0xE2, CHR 0x80, CHR 0xA8],
      [CHR 0xE2, CHR 0x80, CHR 0xA9], [CHR 0xE2, CHR 0x80, CHR 0xAF],
      [CHR 0xE2, CHR 0x81, CHR 0x9F], [CHR 0xE3, CHR 0x80, CHR 0x80]]"

definition leading_space :: "string list \<Rightarrow> string \<Rightarrow> nat" where
  "leading_space runes s =
     (case find (\<lambda>r. HasPrefix s r) runes of None \<Rightarrow> 0 | Some r \<Rightarrow> length r)"

function trim_leading :: "string list \<Rightarrow> string \<Rightarrow> string" where
  "trim_leading runes s =
     (if s = [] \<or> leading_space runes s = 0 then s
      else trim_leading runes (drop (leading_space runes s) s))"
  by pat_completeness auto
termination
  by (relation "measure (\<lambda>(runes, s). length s)") auto

declare trim_leading.simps [simp del]

definition TrimSpace :: "string \<Rightarrow> string" where
  "TrimSpace s =
     rev (trim_leading (map rev space_runes) (rev (trim_leading space_runes s)))"

function fields_from :: "string \<Rightarrow> string \<Rightarrow> string list" where
  "fields_from cur s =
     (if s = [] then (if cur = [] then [] else [cur])
      else (let n = leading_space space_runes s
            in if n = 0 then fields_from (cur @ [hd s]) (tl s)
               else (if cur = [] then [] else [cur]) @ fields_from [] (drop n s)))"
  by pat_completeness auto
termination
  by (relation "measure (\<lambda>(cur, s). length s)") (auto simp: Let_def)

declare fields_from.simps [simp del]

definition Fields :: "string \<Rightarrow> string list" where
  "Fields s = fields_from [] s"

text \<open>\<open>strings.FieldsFunc\<close> with a test on single bytes.\<close>

fun fields_func_from :: "(char \<Rightarrow> bool) \<Rightarrow> string \<Rightarrow> string \<Rightarrow> string list" where
  "fields_func_from sep cur [] = (if cur = [] then [] else [cur])"
| "fields_func_from sep cur (c # cs) =
     (if sep c then (if cur = [] then [] else [cur]) @ fields_func_from sep [] cs
      else fields_func_from sep (cur @ [c]) cs)"

definition FieldsFunc :: "string \<Rightarrow> (char \<Rightarrow> bool) \<Rightarrow> string list" where
  "FieldsFunc s sep = fields_func_from sep [] s"

section \<open>Numbers\<close>

definition digit_char :: "nat \<Rightarrow> char" where
  "digit_char d = char_of (48 + d)"

fun show_nat :: "nat \<Rightarrow> string" where
  "show_nat n = (if n < 10 then [digit_char n] else show_nat (n div 10) @ [digit_char (n mod 10)])"

declare show_nat.simps [simp del]

text \<open>\<open>strconv.Itoa\<close>, \<open>strconv.FormatInt(x, 10)\<close> and the verb \<open>%d\<close>.\<close>

definition show_int :: "int \<Rightarrow> string" where
  "show_int i = (if i < 0 then ''-'' @ show_nat (nat (- i)) else show_nat (nat i))"

definition FormatInt :: "int64 \<Rightarrow> string" where
  "FormatInt x = show_int (sint x)"

datatype num_error = NumOk | NumSyntax | NumRange

definition is_digit :: "char \<Rightarrow> bool" where
  "is_digit c \<longleftrightarrow> 48 \<le> (of_char c :: nat) \<and> (of_char c :: nat) \<le> 57"

text \<open>
  The loop of \<open>strconv.ParseUint\<close> in base 10: a byte that is no digit gives 0 and a
  syntax error, and a value that passes \<open>2 ^ 64 - 1\<close> gives that maximum and a range
  error at once, before the bytes that follow are looked at.
\<close>

fun parse_uint_from :: "nat \<Rightarrow> string \<Rightarrow> nat \<times> num_error" where
  "parse_uint_from n [] = (n, NumOk)"
| "parse_uint_from n (c # cs) =
     (if \<not> is_digit c then (0, NumSyntax)
      else (let n1 = 10 * n + (of_char c - 48)
            in if 2 ^ 64 \<le> n1 then (2 ^ 64 - 1, NumRange) else parse_uint_from n1 cs))"

definition ParseUint :: "string \<Rightarrow> uint64 \<times> num_error" where
  "ParseUint s =
     (if s = [] then (0, NumSyntax)
      else (case parse_uint_from 0 s of (n, e) \<Rightarrow> (of_nat n, e)))"

text \<open>
  \<open>strconv.ParseInt(s, 10, 64)\<close>: an optional sign, then \<open>ParseUint\<close>; the value is
  clipped to the range of \<open>int64\<close>, with a range error.
\<close>

definition ParseInt :: "string \<Rightarrow> int64 \<times> num_error" where
  "ParseInt s =
     (let neg = (s \<noteq> [] \<and> hd s = CHR ''-'');
          rest = (if s \<noteq> [] \<and> (hd s = CHR ''-'' \<or> hd s = CHR ''+'') then tl s else s)
      in if rest = [] then (0, NumSyntax)
         else (case parse_uint_from 0 rest of (n, e) \<Rightarrow>
           (if e = NumSyntax then (0, NumSyntax)
            else if \<not> neg \<and> 2 ^ 63 \<le> n then (word_of_int (2 ^ 63 - 1), NumRange)
            else if neg \<and> 2 ^ 63 < n then (word_of_int (- (2 ^ 63)), NumRange)
            else (word_of_int (if neg then - int n else int n), e))))"

section \<open>Facts\<close>

lemma HasPrefix_append [simp]: "HasPrefix (p @ s) p"
  by (simp add: HasPrefix_def)

lemma HasPrefix_iff: "HasPrefix s p \<longleftrightarrow> (\<exists>t. s = p @ t)"
proof
  assume "HasPrefix s p"
  then have "take (length p) s = p" by (simp add: HasPrefix_def)
  then show "\<exists>t. s = p @ t" by (metis append_take_drop_id)
qed auto

lemma CutPrefix_append [simp]: "CutPrefix (p @ s) p = (s, True)"
  by (simp add: CutPrefix_def)

lemma Cut_char:
  "c \<notin> set xs \<Longrightarrow> Cut (xs @ c # ys) [c] = (xs, ys, True)"
  by (induction xs) (auto simp: HasPrefix_def)

lemma Cut_char_absent:
  "c \<notin> set xs \<Longrightarrow> Cut xs [c] = (xs, [], False)"
  by (induction xs) (auto simp: HasPrefix_def)

lemma Split_not_Nil [simp]: "Split s c \<noteq> []"
  by (cases s) (auto split: list.splits)

lemma Join_Cons: "xs \<noteq> [] \<Longrightarrow> Join (x # xs) sep = x @ sep @ Join xs sep"
  by (cases xs) auto

lemma Join_Split: "Join (Split s c) [c] = s"
proof (induction s)
  case Nil
  then show ?case by simp
next
  case (Cons x xs)
  show ?case
  proof (cases "x = c")
    case True
    with Cons show ?thesis by (simp add: Join_Cons)
  next
    case False
    obtain y ys where ys: "Split xs c = y # ys" by (meson Split_not_Nil neq_Nil_conv)
    with Cons False show ?thesis by (cases ys) simp_all
  qed
qed

lemma is_digit_digit_char: "d < 10 \<Longrightarrow> is_digit (digit_char d)"
  by (simp add: is_digit_def digit_char_def)

lemma of_char_digit_char: "d < 10 \<Longrightarrow> of_char (digit_char d) = (48 + d :: nat)"
  by (simp add: digit_char_def)

lemma parse_uint_from_show_nat:
  "n < 2 ^ 64 \<Longrightarrow> parse_uint_from 0 (show_nat n @ cs) = parse_uint_from n cs"
proof (induction n arbitrary: cs rule: show_nat.induct)
  case (1 n)
  show ?case
  proof (cases "n < 10")
    case True
    with "1.prems" show ?thesis
      by (subst show_nat.simps) (simp add: is_digit_digit_char of_char_digit_char)
  next
    case False
    have small: "n div 10 < 2 ^ 64"
      using "1.prems" by simp
    have "parse_uint_from 0 (show_nat n @ cs) =
        parse_uint_from 0 (show_nat (n div 10) @ digit_char (n mod 10) # cs)"
      using False by (subst show_nat.simps) simp
    also have "\<dots> = parse_uint_from (n div 10) (digit_char (n mod 10) # cs)"
      by (rule "1.IH" [OF False small])
    also have "\<dots> = parse_uint_from n cs"
      using "1.prems" by (simp add: is_digit_digit_char of_char_digit_char Let_def)
    finally show ?thesis .
  qed
qed

lemma show_nat_not_Nil [simp]: "show_nat n \<noteq> []"
  by (subst show_nat.simps) simp

lemma show_nat_digits: "c \<in> set (show_nat n) \<Longrightarrow> is_digit c"
proof (induction n rule: show_nat.induct)
  case (1 n)
  then show ?case
    by (cases "n < 10") (auto simp: show_nat.simps [of n] is_digit_digit_char)
qed

lemma is_digit_simps [simp]:
  "\<not> is_digit (CHR ''-'')" "\<not> is_digit (CHR ''+'')" "\<not> is_digit (CHR 0x7C)"
  "\<not> is_digit (CHR 0x40)"
  by (simp_all add: is_digit_def)

lemma show_nat_hd:
  "hd (show_nat n) \<noteq> CHR ''-''" "hd (show_nat n) \<noteq> CHR ''+''"
  using show_nat_digits [of "hd (show_nat n)" n] by (auto simp del: is_digit_simps)
    (simp_all add: is_digit_def)

text \<open>Printing and parsing an \<open>int64\<close> gives it back.\<close>

lemma ParseInt_FormatInt: "ParseInt (FormatInt x) = (x, NumOk)"
proof -
  have b: "- (2 ^ 63) \<le> sint x" "sint x < 2 ^ 63" by (rule sint_int64_bounds)+
  show ?thesis
  proof (cases "sint x < 0")
    case True
    define n where "n = nat (- sint x)"
    have n: "n \<le> 2 ^ 63" "- int n = sint x" using b True by (simp_all add: n_def)
    then have "n < 2 ^ 64" by simp
    from parse_uint_from_show_nat [OF this, of "[]"]
    have "parse_uint_from 0 (show_nat n) = (n, NumOk)" by simp
    with True n show ?thesis
      by (simp add: FormatInt_def show_int_def ParseInt_def Let_def flip: n_def)
  next
    case False
    define n where "n = nat (sint x)"
    have n: "n < 2 ^ 63" "int n = sint x" using b False by (simp_all add: n_def)
    then have "n < 2 ^ 64" by simp
    from parse_uint_from_show_nat [OF this, of "[]"]
    have "parse_uint_from 0 (show_nat n) = (n, NumOk)" by simp
    with False n show_nat_hd [of n] show ?thesis
      by (simp add: FormatInt_def show_int_def ParseInt_def Let_def flip: n_def)
  qed
qed

end
