(* ===== verification/Api_Types.thy ===== *)
theory Api_Types
  imports Go_Strings
begin

text \<open>
  The wire types of \<open>internal/api/types.go\<close>, one record per struct and one field per
  field, in the source's order. The names carry a prefix per struct, because record
  fields share one name space. Byte slices are strings of bytes, with nil as the empty
  one. A \<open>float64\<close> is a real number: the control plane copies and compares these
  values and does no arithmetic on them. The one nil slice the code tells from an
  empty one is \<open>DesiredState.Modules\<close>, whose JSON is compared as text (\<open>null\<close>
  against \<open>[]\<close>): it is an option.
\<close>

type_synonym bytes = string
type_synonym float64 = real

section \<open>Enrollment\<close>

record enroll_request =
  er_Token :: string
  er_CSRPEM :: string
  er_Name :: string

record enroll_response =
  rs_MachineID :: string
  rs_TenantID :: string
  rs_CertPEM :: string
  rs_CAPEM :: string
  rs_ModulePubPEM :: string

section \<open>Inventory and heartbeat\<close>

text \<open>A recognised piece of server software: its name and its category.\<close>

datatype service = Service (svc_Name: string) (svc_Category: string)

record net_interface =
  if_Name :: string
  if_MAC :: string
  if_MTU :: gint
  if_SpeedMbps :: gint
  if_Up :: bool
  if_Primary :: bool
  if_Virtual :: bool
  if_IPv4 :: "string list"
  if_IPv6 :: "string list"

record updates =
  up_Manager :: string
  up_Total :: gint
  up_Security :: gint
  up_Packages :: "string list"
  up_RebootReq :: bool
  up_AtUnix :: int64

record inventory =
  inv_Hostname :: string
  inv_OS :: string
  inv_OSVersion :: string
  inv_Kernel :: string
  inv_Arch :: string
  inv_CPUCores :: gint
  inv_UptimeSec :: int64
  inv_Packages :: gint
  inv_Processes :: gint
  inv_GPUs :: "string list"
  inv_Services :: "service list"
  inv_Kubernetes :: string
  inv_Updates :: "updates option"
  inv_AgentVersion :: string
  inv_Interfaces :: "net_interface list"
  inv_PrimaryIP :: string

record heartbeat =
  hb_Inventory :: inventory

text \<open>The zero value of \<open>api.Inventory\<close>, which a fresh machine record carries.\<close>

definition zero_inventory :: inventory where
  "zero_inventory =
     \<lparr>inv_Hostname = [], inv_OS = [], inv_OSVersion = [], inv_Kernel = [], inv_Arch = [],
      inv_CPUCores = 0, inv_UptimeSec = 0, inv_Packages = 0, inv_Processes = 0,
      inv_GPUs = [], inv_Services = [], inv_Kubernetes = [], inv_Updates = None,
      inv_AgentVersion = [], inv_Interfaces = [], inv_PrimaryIP = []\<rparr>"

section \<open>Live samples\<close>

record proc_sample =
  ps_PID :: gint
  ps_Comm :: string
  ps_CPUPercent :: float64
  ps_MemBytes :: uint64
  ps_Service :: string

record net_sample =
  ns_Name :: string
  ns_RxBps :: float64
  ns_TxBps :: float64
  ns_RxBytes :: uint64
  ns_TxBytes :: uint64

record container_sample =
  cs_Name :: string
  cs_CPUPercent :: float64
  cs_MemBytes :: uint64

record pod_sample =
  pod_Namespace :: string
  pod_Name :: string
  pod_UID :: string
  pod_CPUPercent :: float64
  pod_MemBytes :: uint64
  pod_Source :: string
  pod_Containers :: "container_sample list"

record gpu_sample =
  gpu_Index :: gint
  gpu_Name :: string
  gpu_UtilPercent :: float64
  gpu_MemUsed :: uint64
  gpu_MemTotal :: uint64
  gpu_TempC :: float64
  gpu_PowerW :: float64

record metrics_sample =
  mt_AtUnix :: int64
  mt_CPUPercent :: float64
  mt_Load1 :: float64
  mt_MemTotal :: uint64
  mt_MemUsed :: uint64
  mt_DiskTotal :: uint64
  mt_DiskUsed :: uint64
  mt_NetRxBps :: float64
  mt_NetTxBps :: float64
  mt_TopProcesses :: "proc_sample list"
  mt_GPUs :: "gpu_sample list"
  mt_ProcCount :: gint
  mt_ProcTotalRSS :: uint64
  mt_Interfaces :: "net_sample list"
  mt_Pods :: "pod_sample list"

section \<open>Desired state and modules\<close>

record module_spec =
  ms_Name :: string
  ms_Version :: string
  ms_Config :: "string gomap"

record desired_state =
  ds_Revision :: int64
  ds_Modules :: "module_spec list option"

definition zero_desired :: desired_state where
  "zero_desired = \<lparr>ds_Revision = 0, ds_Modules = None\<rparr>"

record module_artifact =
  art_Name :: string
  art_Version :: string
  art_Exec :: string
  art_Payload :: bytes
  art_Signature :: bytes

record module_status =
  st_Name :: string
  st_Version :: string
  st_State :: string
  st_Detail :: string
  st_AtUnix :: int64

record status_report =
  rep_Revision :: int64
  rep_Modules :: "module_status list"

section \<open>Control-plane records\<close>

record tenant =
  t_ID :: string
  t_Name :: string
  t_Created :: int64

record enroll_token =
  tok_Token :: string
  tok_TenantID :: string
  tok_Labels :: "string gomap"
  tok_Created :: int64
  tok_ExpiresAt :: int64
  tok_MaxUses :: gint
  tok_Uses :: gint
  tok_Used :: bool

record machine =
  m_ID :: string
  m_TenantID :: string
  m_Name :: string
  m_Labels :: "string gomap"
  m_Enrolled :: int64
  m_LastSeen :: int64
  m_Inventory :: inventory
  m_Override :: "module_spec list"
  m_Desired :: desired_state
  m_Status :: "module_status list"

record group =
  g_ID :: string
  g_TenantID :: string
  g_Name :: string
  g_MatchAll :: bool
  g_Selector :: "string gomap"
  g_Modules :: "module_spec list"
  g_Created :: int64

section \<open>The order of services\<close>

text \<open>
  Services are reported by category and then by name (\<open>scanProcs\<close> sorts them so): this
  is their linear order, and the library's facts about sorted lists apply to them.
\<close>

instantiation service :: linorder
begin

definition less_eq_service :: "service \<Rightarrow> service \<Rightarrow> bool" where
  "less_eq_service a b \<longleftrightarrow>
     (svc_Category a, svc_Name a) \<le> (svc_Category b, svc_Name b)"

definition less_service :: "service \<Rightarrow> service \<Rightarrow> bool" where
  "less_service a b \<longleftrightarrow>
     (svc_Category a, svc_Name a) < (svc_Category b, svc_Name b)"

instance
proof
  fix x y z :: service
  show "(x < y) = (x \<le> y \<and> \<not> y \<le> x)"
    by (auto simp: less_eq_service_def less_service_def)
  show "x \<le> x" by (simp add: less_eq_service_def)
  show "x \<le> y \<Longrightarrow> y \<le> z \<Longrightarrow> x \<le> z"
    unfolding less_eq_service_def by (rule order_trans)
  show "x \<le> y \<Longrightarrow> y \<le> x \<Longrightarrow> x = y"
    unfolding less_eq_service_def by (cases x; cases y) (auto dest: order_antisym)
  show "x \<le> y \<or> y \<le> x"
    unfolding less_eq_service_def by (rule linear)
qed

end

lemma less_service_iff:
  "a < b \<longleftrightarrow>
     (if svc_Category a \<noteq> svc_Category b then svc_Category a < svc_Category b
      else svc_Name a < svc_Name b)"
  by (auto simp: less_service_def)

end
