(* ===== verification/Store_Interface.thy ===== *)
theory Store_Interface
  imports Api_Types
begin

text \<open>
  The persistence contract of \<open>internal/store/store.go\<close>: the error values, the \<open>Store\<close>
  interface as a record of operations over a state of the implementation's own, and the
  laws the control plane relies on, as a locale. An operation returns Go's pair of a
  value and an error as a sum (\<^term>\<open>Inl\<close> the error) and the store's next state. The
  handlers are written against this record, so they run on every implementation.
\<close>

section \<open>Errors and operations\<close>

text \<open>
  \<open>ErrIO\<close> stands for every error that is neither of the two the package names: a failed
  write of the file, a failed request to the database.
\<close>

datatype store_error = ErrNotFound | ErrTokenUsed | ErrIO

type_synonym ('s, 'a) action = "'s \<Rightarrow> (store_error + 'a) \<times> 's"

text \<open>
  The methods of the interface, in the source's order. \<open>ConsumeToken\<close> reads the wall
  clock; the reading is its first argument here.
\<close>

record 's store_ops =
  SaveTenant :: "tenant \<Rightarrow> ('s, unit) action"
  GetTenant :: "string \<Rightarrow> ('s, tenant) action"
  ListTenants :: "('s, tenant list) action"
  SaveToken :: "enroll_token \<Rightarrow> ('s, unit) action"
  ConsumeToken :: "int64 \<Rightarrow> string \<Rightarrow> ('s, enroll_token) action"
  SaveMachine :: "machine \<Rightarrow> ('s, unit) action"
  GetMachine :: "string \<Rightarrow> ('s, machine) action"
  ListMachines :: "string \<Rightarrow> ('s, machine list) action"
  DeleteMachine :: "string \<Rightarrow> ('s, unit) action"
  TouchHeartbeat :: "string \<Rightarrow> int64 \<Rightarrow> inventory \<Rightarrow> ('s, unit) action"
  SetStatus :: "string \<Rightarrow> int64 \<Rightarrow> module_status list \<Rightarrow> ('s, unit) action"
  SaveModule :: "module_artifact \<Rightarrow> ('s, unit) action"
  GetModule :: "string \<Rightarrow> string \<Rightarrow> ('s, module_artifact) action"
  ListModules :: "('s, module_artifact list) action"
  DeleteModule :: "string \<Rightarrow> string \<Rightarrow> ('s, unit) action"
  SaveGroup :: "group \<Rightarrow> ('s, unit) action"
  GetGroup :: "string \<Rightarrow> ('s, group) action"
  ListGroups :: "string \<Rightarrow> ('s, group list) action"
  DeleteGroup :: "string \<Rightarrow> ('s, unit) action"
  AddGroupMember :: "string \<Rightarrow> string \<Rightarrow> ('s, unit) action"
  RemoveGroupMember :: "string \<Rightarrow> string \<Rightarrow> ('s, unit) action"
  ListGroupMembers :: "string \<Rightarrow> ('s, string list) action"

section \<open>The contents of a store\<close>

text \<open>
  What the control plane keeps, apart from tokens: the view an implementation gives of
  its state. Membership is a relation between group and machine IDs; artifacts are
  found by name and version.
\<close>

record fleet =
  fl_tenants :: "tenant gomap"
  fl_machines :: "machine gomap"
  fl_groups :: "group gomap"
  fl_members :: "(string \<times> string) set"

definition in_tenant :: "string \<Rightarrow> string \<Rightarrow> bool" where
  "in_tenant wanted actual \<longleftrightarrow> wanted = [] \<or> actual = wanted"

definition machines_of :: "fleet \<Rightarrow> string \<Rightarrow> machine set" where
  "machines_of fl t = {m. fmlookup (fl_machines fl) (m_ID m) = Some m \<and> in_tenant t (m_TenantID m)}"

definition groups_of :: "fleet \<Rightarrow> string \<Rightarrow> group set" where
  "groups_of fl t = {g. fmlookup (fl_groups fl) (g_ID g) = Some g \<and> in_tenant t (g_TenantID g)}"

definition put_machine :: "machine \<Rightarrow> fleet \<Rightarrow> fleet" where
  "put_machine m fl = fl\<lparr>fl_machines := fmupd (m_ID m) m (fl_machines fl)\<rparr>"

definition put_group :: "group \<Rightarrow> fleet \<Rightarrow> fleet" where
  "put_group g fl = fl\<lparr>fl_groups := fmupd (g_ID g) g (fl_groups fl)\<rparr>"

definition put_tenant :: "tenant \<Rightarrow> fleet \<Rightarrow> fleet" where
  "put_tenant t fl = fl\<lparr>fl_tenants := fmupd (t_ID t) t (fl_tenants fl)\<rparr>"

definition drop_machine :: "string \<Rightarrow> fleet \<Rightarrow> fleet" where
  "drop_machine k fl =
     fl\<lparr>fl_machines := fmdrop k (fl_machines fl),
        fl_members := {(g, m) \<in> fl_members fl. m \<noteq> k}\<rparr>"

definition drop_group :: "string \<Rightarrow> fleet \<Rightarrow> fleet" where
  "drop_group k fl =
     fl\<lparr>fl_groups := fmdrop k (fl_groups fl),
        fl_members := {(g, m) \<in> fl_members fl. g \<noteq> k}\<rparr>"

definition add_member :: "string \<Rightarrow> string \<Rightarrow> fleet \<Rightarrow> fleet" where
  "add_member g m fl = fl\<lparr>fl_members := insert (g, m) (fl_members fl)\<rparr>"

definition remove_member :: "string \<Rightarrow> string \<Rightarrow> fleet \<Rightarrow> fleet" where
  "remove_member g m fl = fl\<lparr>fl_members := fl_members fl - {(g, m)}\<rparr>"

lemmas fleet_defs =
  put_machine_def put_group_def put_tenant_def drop_machine_def drop_group_def
  add_member_def remove_member_def

text \<open>
  Every record is filed under its own ID: the shape every implementation keeps, since a
  record is only ever stored under the ID it carries.
\<close>

definition keyed :: "fleet \<Rightarrow> bool" where
  "keyed fl \<longleftrightarrow>
     fmpred (\<lambda>k m. m_ID m = k) (fl_machines fl) \<and>
     fmpred (\<lambda>k g. g_ID g = k) (fl_groups fl) \<and>
     fmpred (\<lambda>k t. t_ID t = k) (fl_tenants fl)"

lemma keyed_machine: "keyed fl \<Longrightarrow> fmlookup (fl_machines fl) k = Some m \<Longrightarrow> m_ID m = k"
  by (auto simp: keyed_def)

lemma keyed_group: "keyed fl \<Longrightarrow> fmlookup (fl_groups fl) k = Some g \<Longrightarrow> g_ID g = k"
  by (auto simp: keyed_def)

lemma keyed_updates:
  assumes "keyed fl"
  shows "keyed (put_tenant t fl)" "keyed (put_machine m fl)" "keyed (put_group g fl)"
    "keyed (drop_machine k fl)" "keyed (drop_group k fl)"
    "keyed (add_member k j fl)" "keyed (remove_member k j fl)"
  using assms by (auto simp: keyed_def fleet_defs)

lemma fleet_fields:
  "fl_tenants (put_machine m fl) = fl_tenants fl"
  "fl_machines (put_machine m fl) = fmupd (m_ID m) m (fl_machines fl)"
  "fl_groups (put_machine m fl) = fl_groups fl"
  "x \<in> fl_members (put_machine m fl) \<longleftrightarrow> x \<in> fl_members fl"
  "fl_tenants (put_group g fl) = fl_tenants fl"
  "fl_machines (put_group g fl) = fl_machines fl"
  "fl_groups (put_group g fl) = fmupd (g_ID g) g (fl_groups fl)"
  "x \<in> fl_members (put_group g fl) \<longleftrightarrow> x \<in> fl_members fl"
  "fl_tenants (put_tenant tn fl) = fmupd (t_ID tn) tn (fl_tenants fl)"
  "fl_machines (put_tenant tn fl) = fl_machines fl"
  "fl_groups (put_tenant tn fl) = fl_groups fl"
  "x \<in> fl_members (put_tenant tn fl) \<longleftrightarrow> x \<in> fl_members fl"
  "fl_tenants (drop_machine i fl) = fl_tenants fl"
  "fl_machines (drop_machine i fl) = fmdrop i (fl_machines fl)"
  "fl_groups (drop_machine i fl) = fl_groups fl"
  "x \<in> fl_members (drop_machine i fl) \<longleftrightarrow> x \<in> fl_members fl \<and> snd x \<noteq> i"
  "fl_tenants (drop_group i fl) = fl_tenants fl"
  "fl_machines (drop_group i fl) = fl_machines fl"
  "fl_groups (drop_group i fl) = fmdrop i (fl_groups fl)"
  "x \<in> fl_members (drop_group i fl) \<longleftrightarrow> x \<in> fl_members fl \<and> fst x \<noteq> i"
  "fl_tenants (add_member h i fl) = fl_tenants fl"
  "fl_machines (add_member h i fl) = fl_machines fl"
  "fl_groups (add_member h i fl) = fl_groups fl"
  "x \<in> fl_members (add_member h i fl) \<longleftrightarrow> x = (h, i) \<or> x \<in> fl_members fl"
  "fl_tenants (remove_member h i fl) = fl_tenants fl"
  "fl_machines (remove_member h i fl) = fl_machines fl"
  "fl_groups (remove_member h i fl) = fl_groups fl"
  "x \<in> fl_members (remove_member h i fl) \<longleftrightarrow> x \<in> fl_members fl \<and> x \<noteq> (h, i)"
  by (auto simp: fleet_defs split: prod.splits)

lemma machines_of_iff:
  "keyed fl \<Longrightarrow>
   m \<in> machines_of fl t \<longleftrightarrow> (\<exists>k. fmlookup (fl_machines fl) k = Some m) \<and> in_tenant t (m_TenantID m)"
  by (auto simp: machines_of_def dest: keyed_machine)

lemma groups_of_iff:
  "keyed fl \<Longrightarrow>
   g \<in> groups_of fl t \<longleftrightarrow> (\<exists>k. fmlookup (fl_groups fl) k = Some g) \<and> in_tenant t (g_TenantID g)"
  by (auto simp: groups_of_def dest: keyed_group)

text \<open>Saving a record under an existing ID keeps the fields that place it in the fleet.\<close>

definition same_place :: "fleet \<Rightarrow> machine \<Rightarrow> bool" where
  "same_place fl m \<longleftrightarrow>
     (\<forall>m0. fmlookup (fl_machines fl) (m_ID m) = Some m0 \<longrightarrow>
        m_TenantID m0 = m_TenantID m \<and> m_Enrolled m0 = m_Enrolled m)"

definition same_group_place :: "fleet \<Rightarrow> group \<Rightarrow> bool" where
  "same_group_place fl g \<longleftrightarrow>
     (\<forall>g0. fmlookup (fl_groups fl) (g_ID g) = Some g0 \<longrightarrow>
        g_TenantID g0 = g_TenantID g \<and> g_Created g0 = g_Created g)"

definition touch :: "int64 \<Rightarrow> inventory \<Rightarrow> machine \<Rightarrow> machine" where
  "touch now iv m = m\<lparr>m_LastSeen := now, m_Inventory := iv\<rparr>"

definition report :: "int64 \<Rightarrow> module_status list \<Rightarrow> machine \<Rightarrow> machine" where
  "report now sts m = m\<lparr>m_LastSeen := now, m_Status := sts\<rparr>"

section \<open>The contract\<close>

text \<open>
  \<open>healthy s\<close> says that the I/O behind the store succeeds from \<open>s\<close> on; the laws hold
  then. Reads leave the view alone; a write gives the view the stated update. The order
  of a listing is left open. \<open>ConsumeToken\<close> may refuse for reasons of its own; what it
  returns names a token it holds, and it changes nothing outside the tokens.
\<close>

locale store_contract =
  fixes S :: "'s store_ops"
    and view :: "'s \<Rightarrow> fleet"
    and healthy :: "'s \<Rightarrow> bool"
  assumes view_keyed: "healthy s \<Longrightarrow> keyed (view s)"
    and save_tenant: "healthy s \<Longrightarrow> fmlookup (fl_tenants (view s)) (t_ID tn) = None \<Longrightarrow>
      fst (SaveTenant S tn s) = Inr () \<and> healthy (snd (SaveTenant S tn s)) \<and>
      view (snd (SaveTenant S tn s)) = put_tenant tn (view s)"
    and get_tenant: "healthy s \<Longrightarrow>
      fst (GetTenant S k s) =
        (case fmlookup (fl_tenants (view s)) k of None \<Rightarrow> Inl ErrNotFound | Some t \<Rightarrow> Inr t) \<and>
      healthy (snd (GetTenant S k s)) \<and> view (snd (GetTenant S k s)) = view s"
    and save_machine: "healthy s \<Longrightarrow> same_place (view s) m \<Longrightarrow>
      fst (SaveMachine S m s) = Inr () \<and> healthy (snd (SaveMachine S m s)) \<and>
      view (snd (SaveMachine S m s)) = put_machine m (view s)"
    and get_machine: "healthy s \<Longrightarrow>
      fst (GetMachine S k s) =
        (case fmlookup (fl_machines (view s)) k of None \<Rightarrow> Inl ErrNotFound | Some m \<Rightarrow> Inr m) \<and>
      healthy (snd (GetMachine S k s)) \<and> view (snd (GetMachine S k s)) = view s"
    and list_machines: "healthy s \<Longrightarrow>
      (\<exists>ms. fst (ListMachines S t s) = Inr ms \<and> distinct (map m_ID ms) \<and> set ms = machines_of (view s) t) \<and>
      healthy (snd (ListMachines S t s)) \<and> view (snd (ListMachines S t s)) = view s"
    and delete_machine: "healthy s \<Longrightarrow>
      fst (DeleteMachine S k s) = Inr () \<and> healthy (snd (DeleteMachine S k s)) \<and>
      view (snd (DeleteMachine S k s)) = drop_machine k (view s)"
    and touch_heartbeat: "healthy s \<Longrightarrow>
      healthy (snd (TouchHeartbeat S k now iv s)) \<and>
      (case fmlookup (fl_machines (view s)) k of
         None \<Rightarrow> fst (TouchHeartbeat S k now iv s) = Inl ErrNotFound \<and>
                 view (snd (TouchHeartbeat S k now iv s)) = view s
       | Some m \<Rightarrow> fst (TouchHeartbeat S k now iv s) = Inr () \<and>
                 view (snd (TouchHeartbeat S k now iv s)) = put_machine (touch now iv m) (view s))"
    and set_status: "healthy s \<Longrightarrow>
      healthy (snd (SetStatus S k now sts s)) \<and>
      (case fmlookup (fl_machines (view s)) k of
         None \<Rightarrow> fst (SetStatus S k now sts s) = Inl ErrNotFound \<and>
                 view (snd (SetStatus S k now sts s)) = view s
       | Some m \<Rightarrow> fst (SetStatus S k now sts s) = Inr () \<and>
                 view (snd (SetStatus S k now sts s)) = put_machine (report now sts m) (view s))"
    and save_group: "healthy s \<Longrightarrow> same_group_place (view s) g \<Longrightarrow>
      fst (SaveGroup S g s) = Inr () \<and> healthy (snd (SaveGroup S g s)) \<and>
      view (snd (SaveGroup S g s)) = put_group g (view s)"
    and get_group: "healthy s \<Longrightarrow>
      fst (GetGroup S k s) =
        (case fmlookup (fl_groups (view s)) k of None \<Rightarrow> Inl ErrNotFound | Some g \<Rightarrow> Inr g) \<and>
      healthy (snd (GetGroup S k s)) \<and> view (snd (GetGroup S k s)) = view s"
    and list_groups: "healthy s \<Longrightarrow>
      (\<exists>gs. fst (ListGroups S t s) = Inr gs \<and> distinct (map g_ID gs) \<and> set gs = groups_of (view s) t) \<and>
      healthy (snd (ListGroups S t s)) \<and> view (snd (ListGroups S t s)) = view s"
    and delete_group: "healthy s \<Longrightarrow>
      fst (DeleteGroup S k s) = Inr () \<and> healthy (snd (DeleteGroup S k s)) \<and>
      view (snd (DeleteGroup S k s)) = drop_group k (view s)"
    and add_group_member: "healthy s \<Longrightarrow>
      fst (AddGroupMember S k mid s) = Inr () \<and> healthy (snd (AddGroupMember S k mid s)) \<and>
      view (snd (AddGroupMember S k mid s)) = add_member k mid (view s)"
    and remove_group_member: "healthy s \<Longrightarrow>
      fst (RemoveGroupMember S k mid s) = Inr () \<and> healthy (snd (RemoveGroupMember S k mid s)) \<and>
      view (snd (RemoveGroupMember S k mid s)) = remove_member k mid (view s)"
    and list_group_members: "healthy s \<Longrightarrow>
      (\<exists>ids. fst (ListGroupMembers S k s) = Inr ids \<and> set ids = {m. (k, m) \<in> fl_members (view s)}) \<and>
      healthy (snd (ListGroupMembers S k s)) \<and> view (snd (ListGroupMembers S k s)) = view s"
    and consume_token: "healthy s \<Longrightarrow>
      healthy (snd (ConsumeToken S now tok s)) \<and> view (snd (ConsumeToken S now tok s)) = view s"
    and save_token: "healthy s \<Longrightarrow>
      healthy (snd (SaveToken S tk s)) \<and> view (snd (SaveToken S tk s)) = view s"
    and list_tenants: "healthy s \<Longrightarrow>
      healthy (snd (ListTenants S s)) \<and> view (snd (ListTenants S s)) = view s"
    and save_module: "healthy s \<Longrightarrow>
      fst (SaveModule S a s) = Inr () \<and> healthy (snd (SaveModule S a s)) \<and>
      view (snd (SaveModule S a s)) = view s"
    and get_module: "healthy s \<Longrightarrow>
      fst (GetModule S n v s) \<noteq> Inl ErrIO \<and> healthy (snd (GetModule S n v s)) \<and>
      view (snd (GetModule S n v s)) = view s"
    and delete_module: "healthy s \<Longrightarrow>
      fst (DeleteModule S n v s) = Inr () \<and> healthy (snd (DeleteModule S n v s)) \<and>
      view (snd (DeleteModule S n v s)) = view s"
    and list_modules: "healthy s \<Longrightarrow>
      (\<exists>as. fst (ListModules S s) = Inr as) \<and> healthy (snd (ListModules S s)) \<and>
      view (snd (ListModules S s)) = view s"

end
