(* ===== verification/Event_Bus.thy ===== *)
theory Event_Bus
  imports Prelude
begin

text \<open>
  The notification layer of \<open>internal/bus/bus.go\<close>: topics, subscribers with a one-slot
  channel each, and a publisher that never blocks. The \<open>Bus\<close> interface is a record of
  operations over an implementation's state; \<open>InProc\<close> is the implementation in the
  process. Every method holds the mutex and is one step.
\<close>

section \<open>The interface\<close>

text \<open>
  A channel is named by a number. \<open>Receive\<close> is the receive side of the channel that
  \<open>Subscribe\<close> returns (it gives \<^term>\<open>None\<close> where the Go receive would block), and
  \<open>Cancel\<close> the function returned beside it.
\<close>

record 'b bus_ops =
  Publish :: "string \<Rightarrow> 'b \<Rightarrow> 'b"
  Subscribe :: "string \<Rightarrow> 'b \<Rightarrow> nat \<times> 'b"
  Cancel :: "string \<Rightarrow> nat \<Rightarrow> 'b \<Rightarrow> 'b"
  Receive :: "nat \<Rightarrow> 'b \<Rightarrow> 'b option"

text \<open>
  What a stream relies on: a publish leaves a signal with every subscriber of the topic,
  a signal stays until it is received, and nobody else's signals or subscriptions are
  touched. \<open>alive\<close> is the implementation's invariant.
\<close>

locale event_bus =
  fixes B :: "'b bus_ops"
    and alive :: "'b \<Rightarrow> bool"
    and listening :: "'b \<Rightarrow> string \<Rightarrow> nat \<Rightarrow> bool"
    and pending :: "'b \<Rightarrow> nat \<Rightarrow> bool"
  assumes publish: "alive b \<Longrightarrow>
      alive (Publish B t b) \<and> listening (Publish B t b) = listening b \<and>
      (\<forall>ch. pending (Publish B t b) ch \<longleftrightarrow> pending b ch \<or> listening b t ch)"
    and subscribe: "alive b \<Longrightarrow> Subscribe B t b = (ch, b') \<Longrightarrow>
      alive b' \<and> (\<forall>t'. \<not> listening b t' ch) \<and> \<not> pending b' ch \<and>
      (\<forall>t' ch'. listening b' t' ch' \<longleftrightarrow> listening b t' ch' \<or> t' = t \<and> ch' = ch) \<and>
      (\<forall>ch'. ch' \<noteq> ch \<longrightarrow> pending b' ch' = pending b ch')"
    and cancel: "alive b \<Longrightarrow>
      alive (Cancel B t ch b) \<and>
      (\<forall>t' ch'. listening (Cancel B t ch b) t' ch' \<longleftrightarrow> listening b t' ch' \<and> \<not> (t' = t \<and> ch' = ch)) \<and>
      (\<forall>ch'. pending (Cancel B t ch b) ch' = pending b ch')"
    and receive: "alive b \<Longrightarrow>
      (case Receive B ch b of
         None \<Rightarrow> \<not> pending b ch
       | Some b' \<Rightarrow> pending b ch \<and> alive b' \<and> \<not> pending b' ch \<and> listening b' = listening b \<and>
           (\<forall>ch'. ch' \<noteq> ch \<longrightarrow> pending b' ch' = pending b ch'))"
begin

lemma publish_all:
  assumes "alive b"
  shows "alive (fold (Publish B) ts b) \<and> listening (fold (Publish B) ts b) = listening b \<and>
    (\<forall>ch. pending (fold (Publish B) ts b) ch \<longleftrightarrow> pending b ch \<or> (\<exists>t\<in>set ts. listening b t ch))"
  using assms
proof (induction ts arbitrary: b)
  case Nil
  then show ?case by simp
next
  case (Cons t ts)
  from Cons.IH [of "Publish B t b"] publish [OF Cons.prems, of t] show ?case by auto
qed

end

section \<open>The in-process bus\<close>

record inproc =
  bus_subs :: "(string, (nat, unit) fmap) fmap"
  bus_signal :: "nat \<Rightarrow> bool"
  bus_next :: nat

definition NewInProc :: inproc where
  "NewInProc = \<lparr>bus_subs = fmempty, bus_signal = (\<lambda>_. False), bus_next = 0\<rparr>"

text \<open>The subscribers of a topic; an absent topic has the nil map, which reads empty.\<close>

definition subscribers :: "inproc \<Rightarrow> string \<Rightarrow> (nat, unit) fmap" where
  "subscribers b topic = (case fmlookup (bus_subs b) topic of None \<Rightarrow> fmempty | Some chans \<Rightarrow> chans)"

text \<open>The non-blocking send: a full slot is left as it is.\<close>

definition try_send :: "nat \<Rightarrow> (nat \<Rightarrow> bool) \<Rightarrow> nat \<Rightarrow> bool" where
  "try_send ch signal = (if signal ch then signal else signal(ch := True))"

text \<open>
  \<open>Publish\<close> ranges over the subscribers; the order makes no difference
  (\<open>publish_any_order\<close>), so the model takes them as they are listed.
\<close>

definition inproc_Publish :: "string \<Rightarrow> inproc \<Rightarrow> inproc" where
  "inproc_Publish topic b =
     b\<lparr>bus_signal := fold try_send (map fst (range_map in_order (subscribers b topic))) (bus_signal b)\<rparr>"

definition inproc_Subscribe :: "string \<Rightarrow> inproc \<Rightarrow> nat \<times> inproc" where
  "inproc_Subscribe topic b =
     (let ch = bus_next b
      in (ch, b\<lparr>bus_next := Suc ch, bus_signal := (bus_signal b)(ch := False),
               bus_subs := fmupd topic (fmupd ch () (subscribers b topic)) (bus_subs b)\<rparr>))"

definition inproc_Cancel :: "string \<Rightarrow> nat \<Rightarrow> inproc \<Rightarrow> inproc" where
  "inproc_Cancel topic ch b =
     (let rest = fmdrop ch (subscribers b topic)
      in b\<lparr>bus_subs := (if gomap_len rest = 0 then fmdrop topic (bus_subs b)
                       else fmupd topic rest (bus_subs b))\<rparr>)"

definition inproc_Receive :: "nat \<Rightarrow> inproc \<Rightarrow> inproc option" where
  "inproc_Receive ch b =
     (if bus_signal b ch then Some (b\<lparr>bus_signal := (bus_signal b)(ch := False)\<rparr>) else None)"

definition inproc_ops :: "inproc bus_ops" where
  "inproc_ops =
     \<lparr>Publish = inproc_Publish, Subscribe = inproc_Subscribe, Cancel = inproc_Cancel,
      Receive = inproc_Receive\<rparr>"

section \<open>The in-process bus keeps the contract\<close>

definition bus_listening :: "inproc \<Rightarrow> string \<Rightarrow> nat \<Rightarrow> bool" where
  "bus_listening b topic ch \<longleftrightarrow> ch |\<in>| fmdom (subscribers b topic)"

text \<open>Channels handed out are below the next free number.\<close>

definition bus_alive :: "inproc \<Rightarrow> bool" where
  "bus_alive b \<longleftrightarrow> (\<forall>topic ch. bus_listening b topic ch \<longrightarrow> ch < bus_next b)"

lemma fold_try_send: "fold try_send chs signal = (\<lambda>ch. signal ch \<or> ch \<in> set chs)"
  by (induction chs arbitrary: signal) (auto simp: try_send_def fun_eq_iff)

lemma publish_any_order:
  "fold try_send (map fst (range_map p m)) signal = fold try_send (map fst (range_map q m)) signal"
  by (simp add: fold_try_send)

lemma subscribers_update:
  "subscribers (b\<lparr>bus_subs := fmupd topic chans (bus_subs b)\<rparr>) topic' =
     (if topic' = topic then chans else subscribers b topic')"
  "subscribers (b\<lparr>bus_subs := fmdrop topic (bus_subs b)\<rparr>) topic' =
     (if topic' = topic then fmempty else subscribers b topic')"
  "subscribers (b\<lparr>bus_signal := sg\<rparr>) = subscribers b"
  "subscribers (b\<lparr>bus_next := n\<rparr>) = subscribers b"
  by (simp_all add: subscribers_def fun_eq_iff)

lemma inproc_Publish_signal:
  "bus_signal (inproc_Publish topic b) ch \<longleftrightarrow> bus_signal b ch \<or> bus_listening b topic ch"
  by (force simp: inproc_Publish_def fold_try_send bus_listening_def fmlookup_dom_iff)

interpretation bus: event_bus inproc_ops bus_alive bus_listening bus_signal
proof
  fix b t
  assume "bus_alive b"
  moreover have "bus_listening (inproc_Publish t b) = bus_listening b"
    by (simp add: inproc_Publish_def bus_listening_def subscribers_update fun_eq_iff)
  moreover have "bus_next (inproc_Publish t b) = bus_next b"
    by (simp add: inproc_Publish_def)
  ultimately show "bus_alive (Publish inproc_ops t b) \<and>
      bus_listening (Publish inproc_ops t b) = bus_listening b \<and>
      (\<forall>ch. bus_signal (Publish inproc_ops t b) ch \<longleftrightarrow> bus_signal b ch \<or> bus_listening b t ch)"
    by (simp add: inproc_ops_def bus_alive_def inproc_Publish_signal)
next
  fix b t ch b'
  assume b: "bus_alive b" and sub: "Subscribe inproc_ops t b = (ch, b')"
  from sub have ch: "ch = bus_next b" and b': "b' = snd (inproc_Subscribe t b)"
    by (auto simp: inproc_ops_def inproc_Subscribe_def Let_def)
  have lst: "bus_listening b' t' ch' \<longleftrightarrow> bus_listening b t' ch' \<or> t' = t \<and> ch' = ch" for t' ch'
    by (auto simp: b' ch inproc_Subscribe_def Let_def bus_listening_def subscribers_def)
  have fresh: "\<not> bus_listening b t' ch" for t'
    using b ch by (auto simp: bus_alive_def)
  have "bus_alive b'"
    using b lst by (auto simp: bus_alive_def b' ch inproc_Subscribe_def Let_def less_Suc_eq)
  with lst fresh show "bus_alive b' \<and> (\<forall>t'. \<not> bus_listening b t' ch) \<and> \<not> bus_signal b' ch \<and>
      (\<forall>t' ch'. bus_listening b' t' ch' \<longleftrightarrow> bus_listening b t' ch' \<or> t' = t \<and> ch' = ch) \<and>
      (\<forall>ch'. ch' \<noteq> ch \<longrightarrow> bus_signal b' ch' = bus_signal b ch')"
    by (simp add: b' ch inproc_Subscribe_def Let_def)
next
  fix b t ch
  assume b: "bus_alive b"
  have lst: "bus_listening (inproc_Cancel t ch b) t' ch' \<longleftrightarrow>
      bus_listening b t' ch' \<and> \<not> (t' = t \<and> ch' = ch)" for t' ch'
  proof (cases "fmdrop ch (subscribers b t) = fmempty")
    case True
    then have "fmdom (subscribers b t) |-| {|ch|} = {||}"
      by (metis fmdom_drop fmdom_empty)
    with True show ?thesis
      by (auto simp: inproc_Cancel_def Let_def bus_listening_def subscribers_update)
  next
    case False
    then show ?thesis
      by (auto simp: inproc_Cancel_def Let_def bus_listening_def subscribers_update)
  qed
  have same: "bus_next (inproc_Cancel t ch b) = bus_next b"
      "bus_signal (inproc_Cancel t ch b) = bus_signal b"
    by (simp_all add: inproc_Cancel_def Let_def)
  have "bus_alive (inproc_Cancel t ch b)"
    using b by (auto simp: bus_alive_def lst same)
  with lst same show "bus_alive (Cancel inproc_ops t ch b) \<and>
      (\<forall>t' ch'. bus_listening (Cancel inproc_ops t ch b) t' ch' \<longleftrightarrow>
        bus_listening b t' ch' \<and> \<not> (t' = t \<and> ch' = ch)) \<and>
      (\<forall>ch'. bus_signal (Cancel inproc_ops t ch b) ch' = bus_signal b ch')"
    by (simp add: inproc_ops_def)
next
  fix b ch
  assume "bus_alive b"
  then show "case Receive inproc_ops ch b of
      None \<Rightarrow> \<not> bus_signal b ch
    | Some b' \<Rightarrow> bus_signal b ch \<and> bus_alive b' \<and> \<not> bus_signal b' ch \<and>
        bus_listening b' = bus_listening b \<and>
        (\<forall>ch'. ch' \<noteq> ch \<longrightarrow> bus_signal b' ch' = bus_signal b ch')"
    by (simp add: inproc_ops_def inproc_Receive_def bus_alive_def bus_listening_def
        subscribers_update fun_eq_iff)
qed

end
