(* ===== verification/Resolver.thy ===== *)
theory Resolver
  imports Store_Interface Event_Bus
begin

text \<open>
  Desired-state resolution (\<open>internal/server/groups.go\<close>): which modules a machine should
  run, computed from its tenant's groups and its own override, and \<open>Recompute\<close>, which
  stores the result, bumps the revision and wakes the machine's stream where something
  changed. The specification is \<open>settle\<close>, on the contents of the store; the main
  lemma of the theory is that \<open>Recompute\<close> implements it on every store that keeps
  the contract.
\<close>

section \<open>The state the handlers share\<close>

text \<open>
  \<open>w_live\<close> is the map of the \<open>LiveRegistry\<close>. The store and the bus are of any
  implementation.
\<close>

record ('s, 'b) world =
  w_store :: 's
  w_bus :: 'b
  w_live :: "metrics_sample gomap"

definition on_store ::
  "('s, 'a) action \<Rightarrow> ('s, 'b) world \<Rightarrow> (store_error + 'a) \<times> ('s, 'b) world" where
  "on_store act w = (case act (w_store w) of (r, s') \<Rightarrow> (r, w\<lparr>w_store := s'\<rparr>))"

definition publish :: "'b bus_ops \<Rightarrow> string \<Rightarrow> ('s, 'b) world \<Rightarrow> ('s, 'b) world" where
  "publish B topic w = w\<lparr>w_bus := Publish B topic (w_bus w)\<rparr>"

lemma on_store_simps [simp]:
  "fst (on_store act w) = fst (act (w_store w))"
  "w_store (snd (on_store act w)) = snd (act (w_store w))"
  "w_bus (snd (on_store act w)) = w_bus w"
  "w_live (snd (on_store act w)) = w_live w"
  by (simp_all add: on_store_def split_beta)

lemma publish_simps [simp]:
  "w_store (publish B t w) = w_store w"
  "w_bus (publish B t w) = Publish B t (w_bus w)"
  "w_live (publish B t w) = w_live w"
  by (simp_all add: publish_def)

section \<open>Computing the modules of a machine\<close>

definition selectorMatches :: "string gomap \<Rightarrow> string gomap \<Rightarrow> bool" where
  "selectorMatches selector labels \<longleftrightarrow>
     gomap_len selector \<noteq> 0 \<and>
     list_all (\<lambda>(k, v). go_index [] labels k = v) (range_map in_order selector)"

text \<open>The choices Go leaves open in one call of \<open>computeModules\<close>: where the two sorts put
  equal elements, and the order of the \<open>range\<close> over the effective map.\<close>

record choices =
  ch_groups :: shuffle
  ch_range :: shuffle
  ch_sort :: shuffle

definition put_spec :: "module_spec \<Rightarrow> module_spec gomap \<Rightarrow> module_spec gomap" where
  "put_spec sp eff = fmupd (ms_Name sp) sp eff"

text \<open>
  The slice of groups is sorted in place and used again for the next machine, so the
  sorted slice is a result as well.
\<close>

definition computeModules ::
  "choices \<Rightarrow> machine \<Rightarrow> group list \<Rightarrow> bool gomap gomap \<Rightarrow> module_spec list \<times> group list" where
  "computeModules c m groups members =
     (let groups' = sort_slice (ch_groups c) (\<lambda>a b. g_Name a < g_Name b) groups;
          eff1 = fold (\<lambda>g eff.
                   if \<not> g_MatchAll g \<and> \<not> go_index False (go_index fmempty members (g_ID g)) (m_ID m) \<and>
                      \<not> selectorMatches (g_Selector g) (m_Labels m)
                   then eff else fold put_spec (g_Modules g) eff) groups' fmempty;
          eff2 = fold put_spec (m_Override m) eff1;
          out = map snd (range_map (ch_range c) eff2)
      in (sort_slice (ch_sort c) (\<lambda>a b. ms_Name a < ms_Name b) out, groups'))"

section \<open>Recompute\<close>

fun load_members ::
  "'s store_ops \<Rightarrow> group list \<Rightarrow> bool gomap gomap \<Rightarrow> ('s, 'b) world \<Rightarrow>
   (store_error + bool gomap gomap) \<times> ('s, 'b) world" where
  "load_members S [] members w = (Inr members, w)"
| "load_members S (g # gs) members w =
     (case on_store (ListGroupMembers S (g_ID g)) w of
        (Inl e, w') \<Rightarrow> (Inl e, w')
      | (Inr ids, w') \<Rightarrow>
          load_members S gs (fmupd (g_ID g) (fold (\<lambda>i. fmupd i True) ids fmempty) members) w')"

fun load_machines ::
  "'s store_ops \<Rightarrow> string list \<Rightarrow> machine list \<Rightarrow> ('s, 'b) world \<Rightarrow>
   (store_error + machine list) \<times> ('s, 'b) world" where
  "load_machines S [] ms w = (Inr ms, w)"
| "load_machines S (i # ids) ms w =
     (case on_store (GetMachine S i) w of
        (Inl e, w') \<Rightarrow> (Inl e, w')
      | (Inr m, w') \<Rightarrow> load_machines S ids (ms @ [m]) w')"

text \<open>
  \<open>prev\<close> and \<open>cur\<close> are the JSON texts of the two module lists; the encoding tells lists
  apart exactly as values do, with \<open>null\<close> for the nil slice (\<^term>\<open>None\<close>).
\<close>

fun recompute_each ::
  "'s store_ops \<Rightarrow> 'b bus_ops \<Rightarrow> (nat \<Rightarrow> choices) \<Rightarrow> nat \<Rightarrow> bool gomap gomap \<Rightarrow> group list \<Rightarrow>
   machine list \<Rightarrow> ('s, 'b) world \<Rightarrow> (store_error + unit) \<times> ('s, 'b) world" where
  "recompute_each S B env i members groups [] w = (Inr (), w)"
| "recompute_each S B env i members groups (m # ms) w =
     (case computeModules (env i) m groups members of (nxt, groups') \<Rightarrow>
        if ds_Modules (m_Desired m) = Some nxt
        then recompute_each S B env (Suc i) members groups' ms w
        else
          let m' = m\<lparr>m_Desired := \<lparr>ds_Revision = ds_Revision (m_Desired m) + 1, ds_Modules = Some nxt\<rparr>\<rparr>
          in case on_store (SaveMachine S m') w of
               (Inl e, w') \<Rightarrow> (Inl e, w')
             | (Inr _, w') \<Rightarrow>
                 recompute_each S B env (Suc i) members groups' ms (publish B (m_ID m') w'))"

definition Recompute ::
  "'s store_ops \<Rightarrow> 'b bus_ops \<Rightarrow> (nat \<Rightarrow> choices) \<Rightarrow> string \<Rightarrow> string list \<Rightarrow>
   ('s, 'b) world \<Rightarrow> (store_error + unit) \<times> ('s, 'b) world" where
  "Recompute S B env tenantID machineIDs w =
     (case on_store (ListGroups S tenantID) w of
        (Inl e, w1) \<Rightarrow> (Inl e, w1)
      | (Inr groups, w1) \<Rightarrow>
          (case load_members S groups fmempty w1 of
             (Inl e, w2) \<Rightarrow> (Inl e, w2)
           | (Inr members, w2) \<Rightarrow>
               (case (if machineIDs = [] then on_store (ListMachines S tenantID) w2
                      else load_machines S machineIDs [] w2) of
                  (Inl e, w3) \<Rightarrow> (Inl e, w3)
                | (Inr machines, w3) \<Rightarrow> recompute_each S B env 0 members groups machines w3)))"

section \<open>What computeModules returns\<close>

lemma selectorMatches_iff:
  "selectorMatches sel labels \<longleftrightarrow>
     sel \<noteq> fmempty \<and> (\<forall>k v. fmlookup sel k = Some v \<longrightarrow> go_index [] labels k = v)"
  by (auto simp: selectorMatches_def list_all_iff)

definition applies :: "group \<Rightarrow> machine \<Rightarrow> bool \<Rightarrow> bool" where
  "applies g m explicit \<longleftrightarrow>
     g_MatchAll g \<or> explicit \<or> selectorMatches (g_Selector g) (m_Labels m)"

definition spec_named :: "string \<Rightarrow> module_spec list \<Rightarrow> module_spec option" where
  "spec_named n specs = find (\<lambda>sp. ms_Name sp = n) (rev specs)"

lemma spec_named_append:
  "spec_named n (xs @ ys) = (case spec_named n ys of None \<Rightarrow> spec_named n xs | Some sp \<Rightarrow> Some sp)"
  by (induction ys rule: rev_induct) (simp_all add: spec_named_def)

lemma spec_named_Nil [simp]: "spec_named n [] = None"
  by (simp add: spec_named_def)

lemma spec_named_name: "spec_named n specs = Some sp \<Longrightarrow> ms_Name sp = n"
  by (auto simp: spec_named_def find_Some_iff)

lemma spec_named_in: "spec_named n specs = Some sp \<Longrightarrow> sp \<in> set specs"
  by (auto simp: spec_named_def find_Some_iff rev_nth)

lemma spec_named_None_iff: "spec_named n specs = None \<longleftrightarrow> n \<notin> ms_Name ` set specs"
  by (auto simp: spec_named_def find_None_iff)

text \<open>All specs that reach a machine, lowest priority first.\<close>

definition layers :: "group list \<Rightarrow> (group \<Rightarrow> bool) \<Rightarrow> machine \<Rightarrow> module_spec list" where
  "layers gs explicit m =
     concat (map g_Modules (filter (\<lambda>g. applies g m (explicit g)) gs)) @ m_Override m"

lemma lookup_fold_put_spec:
  "fmlookup (fold put_spec specs eff) n =
     (case spec_named n specs of None \<Rightarrow> fmlookup eff n | Some sp \<Rightarrow> Some sp)"
proof (induction specs rule: rev_induct)
  case Nil
  then show ?case by simp
next
  case (snoc sp specs)
  then show ?case by (simp add: put_spec_def spec_named_def)
qed

lemma fold_groups:
  "fold (\<lambda>g eff. if \<not> g_MatchAll g \<and> \<not> e g \<and> \<not> selectorMatches (g_Selector g) (m_Labels m)
           then eff else fold put_spec (g_Modules g) eff) gs eff =
   fold put_spec (concat (map g_Modules (filter (\<lambda>g. applies g m (e g)) gs))) eff"
  by (induction gs arbitrary: eff) (simp_all add: applies_def)

definition effective_map :: "group list \<Rightarrow> (group \<Rightarrow> bool) \<Rightarrow> machine \<Rightarrow> module_spec gomap" where
  "effective_map gs explicit m = fold put_spec (layers gs explicit m) fmempty"

lemma lookup_effective_map:
  "fmlookup (effective_map gs e m) n = spec_named n (layers gs e m)"
  by (simp add: effective_map_def lookup_fold_put_spec split: option.split)

lemma effective_map_name:
  "fmlookup (effective_map gs e m) n = Some sp \<Longrightarrow> ms_Name sp = n"
  unfolding lookup_effective_map by (rule spec_named_name)

lemma map_snd_range_names:
  "map ms_Name (map snd (range_map p (effective_map gs e m))) =
   map fst (range_map p (effective_map gs e m))"
  by (auto simp: effective_map_name)

text \<open>The reference: entries of the effective map in the order of their names.\<close>

definition modules_of :: "group list \<Rightarrow> (group \<Rightarrow> bool) \<Rightarrow> machine \<Rightarrow> module_spec list" where
  "modules_of gs explicit m =
     map snd (sorted_list_of_fmap (effective_map (sort_key g_Name gs) explicit m))"

lemma sort_entries:
  "sort_slice q (\<lambda>a b. ms_Name a < ms_Name b) (map snd (range_map p (effective_map gs e m))) =
   map snd (sorted_list_of_fmap (effective_map gs e m))"
proof -
  let ?eff = "effective_map gs e m"
  let ?ref = "map snd (sorted_list_of_fmap ?eff)"
  have names: "map ms_Name ?ref = sorted_list_of_fset (fmdom ?eff)"
    by (auto simp: sorted_list_of_fmap_def comp_def fmlookup_dom_iff effective_map_name
        intro!: map_idI)
  have "sort_slice q (\<lambda>a b. ms_Name a < ms_Name b) (map snd (range_map p ?eff)) =
        sort_key ms_Name (map snd (range_map p ?eff))"
    by (rule sort_slice_key_determined) (simp only: map_snd_range_names distinct_keys_range_map)
  also have "\<dots> = sort_key ms_Name ?ref"
  proof (rule sort_key_eqI)
    show "mset (map snd (range_map p ?eff)) = mset ?ref"
      by (simp only: range_map_def mset_map_arrange)
    show "distinct (map ms_Name ?ref)" by (simp only: names) simp
  qed
  also have "\<dots> = ?ref"
    by (rule sort_key_id_if_sorted) (simp only: names, simp)
  finally show ?thesis .
qed

lemma fold_layers:
  "fold put_spec (m_Override m)
     (fold put_spec (concat (map g_Modules (filter (\<lambda>g. applies g m (e g)) gs))) fmempty) =
   effective_map gs e m"
  by (simp add: effective_map_def layers_def)

lemma computeModules_eq:
  "computeModules c m groups members =
     (let gs = sort_slice (ch_groups c) (\<lambda>a b. g_Name a < g_Name b) groups
      in (map snd (sorted_list_of_fmap
             (effective_map gs (\<lambda>g. go_index False (go_index fmempty members (g_ID g)) (m_ID m)) m)), gs))"
  by (simp only: computeModules_def Let_def fold_groups fold_layers sort_entries)

lemma effective_map_cong:
  assumes "\<And>g. g \<in> set gs \<Longrightarrow> e g = e' g"
  shows "effective_map gs e m = effective_map gs e' m"
proof -
  have "filter (\<lambda>g. applies g m (e g)) gs = filter (\<lambda>g. applies g m (e' g)) gs"
    using assms by (intro filter_cong) auto
  then show ?thesis by (simp add: effective_map_def layers_def)
qed

lemma computeModules_modules_of:
  assumes "mset groups = mset gs" and "distinct (map g_Name gs)"
    and "\<And>g. g \<in> set gs \<Longrightarrow> go_index False (go_index fmempty members (g_ID g)) (m_ID m) = e g"
  shows "computeModules c m groups members = (modules_of gs e m, sort_key g_Name gs)"
proof -
  have "distinct (map g_Name groups)"
    using assms(1,2) by (metis mset_map mset_eq_imp_distinct_iff)
  then have "sort_slice (ch_groups c) (\<lambda>a b. g_Name a < g_Name b) groups = sort_key g_Name groups"
    by (rule sort_slice_key_determined)
  also have "\<dots> = sort_key g_Name gs"
    using assms(1,2) by (rule sort_key_eqI)
  finally have sorted: "sort_slice (ch_groups c) (\<lambda>a b. g_Name a < g_Name b) groups = sort_key g_Name gs" .
  have "effective_map (sort_key g_Name gs)
      (\<lambda>g. go_index False (go_index fmempty members (g_ID g)) (m_ID m)) m =
    effective_map (sort_key g_Name gs) e m"
    by (rule effective_map_cong) (simp add: assms(3))
  with sorted show ?thesis by (simp add: computeModules_eq modules_of_def Let_def)
qed

text \<open>What the reference says of a single module: the last override of that name, or else
  the spec of the group with the greatest name among those that apply and name it.\<close>

lemma spec_named_concat:
  assumes "sorted (map g_Name gs)" and "distinct (map g_Name gs)" and "g \<in> set gs"
    and "spec_named n (g_Modules g) = Some sp"
    and "\<And>h. h \<in> set gs \<Longrightarrow> spec_named n (g_Modules h) \<noteq> None \<Longrightarrow> g_Name h \<le> g_Name g"
  shows "spec_named n (concat (map g_Modules gs)) = Some sp"
  using assms
proof (induction gs rule: rev_induct)
  case Nil
  then show ?case by simp
next
  case (snoc h gs)
  show ?case
  proof (cases "spec_named n (g_Modules h)")
    case None
    with snoc show ?thesis by (auto simp: spec_named_append sorted_append)
  next
    case (Some sp')
    with snoc.prems have "g_Name h \<le> g_Name g" by simp
    moreover have "g_Name g \<le> g_Name h"
      using snoc.prems by (auto simp: sorted_append)
    ultimately have "g = h" using snoc.prems by (auto simp: distinct_map)
    with Some snoc.prems show ?thesis by (simp add: spec_named_append)
  qed
qed

lemma spec_named_concat_None:
  "spec_named n (concat (map g_Modules gs)) = None \<longleftrightarrow>
     (\<forall>g\<in>set gs. spec_named n (g_Modules g) = None)"
  by (auto simp: spec_named_None_iff)

lemma set_modules_of:
  "sp \<in> set (modules_of gs e m) \<longleftrightarrow>
     spec_named (ms_Name sp) (layers (sort_key g_Name gs) e m) = Some sp"
proof -
  have "sp \<in> set (modules_of gs e m) \<longleftrightarrow>
      (\<exists>n. spec_named n (layers (sort_key g_Name gs) e m) = Some sp)"
    by (auto simp: modules_of_def lookup_effective_map image_iff)
  then show ?thesis by (metis spec_named_name)
qed

lemma sorted_modules_of: "sorted_wrt (\<lambda>a b. ms_Name a < ms_Name b) (modules_of gs e m)"
proof -
  let ?eff = "effective_map (sort_key g_Name gs) e m"
  have "map ms_Name (modules_of gs e m) = sorted_list_of_fset (fmdom ?eff)"
    by (auto simp: modules_of_def sorted_list_of_fmap_def comp_def fmlookup_dom_iff
        effective_map_name intro!: map_idI)
  then have "sorted (map ms_Name (modules_of gs e m))" "distinct (map ms_Name (modules_of gs e m))"
    by simp_all
  then have "sorted_wrt (<) (map ms_Name (modules_of gs e m))"
    by (simp add: strict_sorted_iff)
  then show ?thesis by (simp add: sorted_wrt_map)
qed

lemma modules_of_spec:
  assumes "distinct (map g_Name groups)"
  shows "sp \<in> set (modules_of groups e m) \<longleftrightarrow>
     (case spec_named (ms_Name sp) (m_Override m) of
        Some o' \<Rightarrow> sp = o'
      | None \<Rightarrow>
          (\<exists>g\<in>set groups. applies g m (e g) \<and> spec_named (ms_Name sp) (g_Modules g) = Some sp \<and>
             (\<forall>h\<in>set groups. applies h m (e h) \<longrightarrow>
                spec_named (ms_Name sp) (g_Modules h) \<noteq> None \<longrightarrow> g_Name h \<le> g_Name g)))"
proof -
  let ?on = "\<lambda>g. applies g m (e g)"
  let ?n = "ms_Name sp"
  define gs where "gs = filter ?on (sort_key g_Name groups)"
  have set_gs: "set gs = {g \<in> set groups. ?on g}"
    by (auto simp: gs_def)
  have sorted_gs: "sorted (map g_Name gs)"
    unfolding gs_def by (rule sorted_filter) simp
  have "distinct (map g_Name (sort_key g_Name groups))"
    using assms by (metis mset_eq_imp_distinct_iff mset_map mset_sort)
  then have distinct_gs: "distinct (map g_Name gs)"
    unfolding gs_def by (rule distinct_map_filter)
  have eff: "sp \<in> set (modules_of groups e m) \<longleftrightarrow>
      spec_named ?n (concat (map g_Modules gs) @ m_Override m) = Some sp"
    by (simp add: set_modules_of layers_def gs_def)
  have group: "spec_named ?n (concat (map g_Modules gs)) = Some sp \<longleftrightarrow>
      (\<exists>g\<in>set gs. spec_named ?n (g_Modules g) = Some sp \<and>
         (\<forall>h\<in>set gs. spec_named ?n (g_Modules h) \<noteq> None \<longrightarrow> g_Name h \<le> g_Name g))"
    (is "?L \<longleftrightarrow> ?R")
  proof
    assume ?R
    then show ?L using spec_named_concat [OF sorted_gs distinct_gs] by blast
  next
    assume L: ?L
    define named where "named = {g \<in> set gs. spec_named ?n (g_Modules g) \<noteq> None}"
    have "named \<noteq> {}"
      using L spec_named_concat_None [of ?n gs] by (auto simp: named_def)
    moreover have "finite named" by (simp add: named_def)
    ultimately have top: "Max (g_Name ` named) \<in> g_Name ` named"
      "\<And>h. h \<in> named \<Longrightarrow> g_Name h \<le> Max (g_Name ` named)" by simp_all
    then obtain g where g: "g \<in> named" and "\<And>h. h \<in> named \<Longrightarrow> g_Name h \<le> g_Name g" by force
    then have mx: "\<And>h. h \<in> set gs \<Longrightarrow> spec_named ?n (g_Modules h) \<noteq> None \<Longrightarrow> g_Name h \<le> g_Name g"
      by (simp add: named_def)
    from g obtain sp' where g': "g \<in> set gs" "spec_named ?n (g_Modules g) = Some sp'"
      by (auto simp: named_def)
    with spec_named_concat [OF sorted_gs distinct_gs g' mx] L have "sp' = sp" by simp
    with g' mx show ?R by blast
  qed
  show ?thesis
    unfolding eff spec_named_append
    by (cases "spec_named ?n (m_Override m)") (auto simp: group set_gs)
qed

section \<open>The specification on the contents of the store\<close>

definition group_list :: "fleet \<Rightarrow> string \<Rightarrow> group list" where
  "group_list fl t =
     filter (\<lambda>g. in_tenant t (g_TenantID g)) (map snd (sorted_list_of_fmap (fl_groups fl)))"

definition effective :: "fleet \<Rightarrow> string \<Rightarrow> machine \<Rightarrow> module_spec list" where
  "effective fl t m = modules_of (group_list fl t) (\<lambda>g. (g_ID g, m_ID m) \<in> fl_members fl) m"

definition settle_machine :: "fleet \<Rightarrow> string \<Rightarrow> machine \<Rightarrow> machine" where
  "settle_machine fl t m =
     (if ds_Modules (m_Desired m) = Some (effective fl t m) then m
      else m\<lparr>m_Desired := \<lparr>ds_Revision = ds_Revision (m_Desired m) + 1,
                           ds_Modules = Some (effective fl t m)\<rparr>\<rparr>)"

definition settle :: "string \<Rightarrow> (machine \<Rightarrow> bool) \<Rightarrow> fleet \<Rightarrow> fleet" where
  "settle t sel fl =
     fl\<lparr>fl_machines := fmmap_keys (\<lambda>k m. if sel m then settle_machine fl t m else m) (fl_machines fl)\<rparr>"

text \<open>The machines whose record differs between two contents.\<close>

definition changed :: "fleet \<Rightarrow> fleet \<Rightarrow> string set" where
  "changed fl fl' = {k. fmlookup (fl_machines fl') k \<noteq> fmlookup (fl_machines fl) k}"

definition unique_names :: "fleet \<Rightarrow> string \<Rightarrow> bool" where
  "unique_names fl t \<longleftrightarrow> inj_on g_Name (groups_of fl t)"

lemma set_group_list: "keyed fl \<Longrightarrow> set (group_list fl t) = groups_of fl t"
  by (force simp: group_list_def groups_of_def dest: keyed_group)

lemma distinct_group_list: "keyed fl \<Longrightarrow> distinct (map g_ID (group_list fl t))"
proof -
  assume k: "keyed fl"
  then have "map g_ID (map snd (sorted_list_of_fmap (fl_groups fl))) =
      sorted_list_of_fset (fmdom (fl_groups fl))"
    by (auto simp: sorted_list_of_fmap_def comp_def fmlookup_dom_iff keyed_group intro!: map_idI)
  then have "distinct (map g_ID (map snd (sorted_list_of_fmap (fl_groups fl))))"
    by simp
  then show ?thesis unfolding group_list_def by (rule distinct_map_filter)
qed

lemma mset_group_list:
  assumes "keyed fl" and "distinct (map g_ID gs)" and "set gs = groups_of fl t"
  shows "mset gs = mset (group_list fl t)"
  using assms set_group_list [of fl t] distinct_group_list [of fl t]
  by (metis distinct_map set_eq_iff_mset_eq_distinct)

end
