(* ===== verification/File_Store.thy ===== *)
theory File_Store
  imports Store_Interface
begin

text \<open>
  The bundled \<open>FileStore\<close> of \<open>internal/store/store.go\<close>: everything in memory, written
  to one JSON file after each change. The model keeps the maps, the contents of the
  file and of its temporary sibling, and what the environment decides: how each flush
  ends and in which order each \<open>range\<close> visits a map. Every method holds the mutex, so a
  method is one step and concurrent callers are an interleaving of such steps.
\<close>

section \<open>State\<close>

record file_data =
  fd_Tenants :: "tenant gomap"
  fd_Tokens :: "enroll_token gomap"
  fd_Machines :: "machine gomap"
  fd_Modules :: "module_artifact gomap"
  fd_Groups :: "group gomap"
  fd_Members :: "unit gomap gomap"

text \<open>A file is absent, cut short by a failed write, or the JSON of a whole \<open>fileData\<close>.\<close>

datatype file_content = Missing | Partial | Whole file_data

datatype flush_outcome = FlushOk | MkdirFails | WriteFails | RenameFails

record file_store =
  fs_data :: file_data
  fs_path :: file_content
  fs_tmp :: file_content
  fs_outcome :: "nat \<Rightarrow> flush_outcome"
  fs_flushes :: nat
  fs_order :: "nat \<Rightarrow> shuffle"
  fs_ranges :: nat

definition empty_data :: file_data where
  "empty_data =
     \<lparr>fd_Tenants = fmempty, fd_Tokens = fmempty, fd_Machines = fmempty,
      fd_Modules = fmempty, fd_Groups = fmempty, fd_Members = fmempty\<rparr>"

text \<open>
  \<open>OpenFile\<close>: no file is a fresh store, a file that cannot be read or parsed is an
  error, anything else is loaded. The environment supplies \<open>readable\<close>, what an earlier
  run left of the temporary file, and the two streams of its later decisions.
\<close>

definition OpenFile ::
  "(nat \<Rightarrow> flush_outcome) \<Rightarrow> (nat \<Rightarrow> shuffle) \<Rightarrow> bool \<Rightarrow> file_content \<Rightarrow> file_content \<Rightarrow>
   store_error + file_store" where
  "OpenFile outcome order readable tmp content =
     (let fs = \<lparr>fs_data = empty_data, fs_path = content, fs_tmp = tmp,
                fs_outcome = outcome, fs_flushes = 0, fs_order = order, fs_ranges = 0\<rparr>
      in case content of
           Missing \<Rightarrow> Inr fs
         | Partial \<Rightarrow> Inl ErrIO
         | Whole d \<Rightarrow> (if readable then Inr (fs\<lparr>fs_data := d\<rparr>) else Inl ErrIO))"

text \<open>
  \<open>flush\<close> creates the directory, writes the temporary file and renames it over the
  store's path. Each of the three steps can fail, and then the later ones do not run.
\<close>

definition flush :: "(file_store, unit) action" where
  "flush fs =
     (let fs1 = fs\<lparr>fs_flushes := Suc (fs_flushes fs)\<rparr>
      in case fs_outcome fs (fs_flushes fs) of
           MkdirFails \<Rightarrow> (Inl ErrIO, fs1)
         | WriteFails \<Rightarrow> (Inl ErrIO, fs1\<lparr>fs_tmp := Partial\<rparr>)
         | RenameFails \<Rightarrow> (Inl ErrIO, fs1\<lparr>fs_tmp := Whole (fs_data fs)\<rparr>)
         | FlushOk \<Rightarrow> (Inr (), fs1\<lparr>fs_tmp := Missing, fs_path := Whole (fs_data fs)\<rparr>))"

text \<open>A change of the maps followed by \<open>return fs.flush()\<close>: the change stays in memory
  also when the flush fails.\<close>

definition commit :: "(file_data \<Rightarrow> file_data) \<Rightarrow> (file_store, unit) action" where
  "commit upd fs = flush (fs\<lparr>fs_data := upd (fs_data fs)\<rparr>)"

text \<open>\<open>for _, v := range m\<close>: the values, in the order the next shuffle gives.\<close>

definition range_values :: "(file_data \<Rightarrow> 'v gomap) \<Rightarrow> file_store \<Rightarrow> 'v list \<times> file_store" where
  "range_values tbl fs =
     (map snd (range_map (fs_order fs (fs_ranges fs)) (tbl (fs_data fs))),
      fs\<lparr>fs_ranges := Suc (fs_ranges fs)\<rparr>)"

section \<open>Operations\<close>

definition lookup_table :: "(file_data \<Rightarrow> 'v gomap) \<Rightarrow> string \<Rightarrow> (file_store, 'v) action" where
  "lookup_table tbl k fs =
     (case fmlookup (tbl (fs_data fs)) k of None \<Rightarrow> (Inl ErrNotFound, fs) | Some v \<Rightarrow> (Inr v, fs))"

definition fs_SaveTenant :: "tenant \<Rightarrow> (file_store, unit) action" where
  "fs_SaveTenant t = commit (\<lambda>d. d\<lparr>fd_Tenants := fmupd (t_ID t) t (fd_Tenants d)\<rparr>)"

definition fs_GetTenant :: "string \<Rightarrow> (file_store, tenant) action" where
  "fs_GetTenant = lookup_table fd_Tenants"

definition fs_ListTenants :: "(file_store, tenant list) action" where
  "fs_ListTenants fs = (case range_values fd_Tenants fs of (ts, fs') \<Rightarrow> (Inr ts, fs'))"

definition fs_SaveToken :: "enroll_token \<Rightarrow> (file_store, unit) action" where
  "fs_SaveToken t = commit (\<lambda>d. d\<lparr>fd_Tokens := fmupd (tok_Token t) t (fd_Tokens d)\<rparr>)"

definition fs_ConsumeToken :: "int64 \<Rightarrow> string \<Rightarrow> (file_store, enroll_token) action" where
  "fs_ConsumeToken now token fs =
     (case fmlookup (fd_Tokens (fs_data fs)) token of
        None \<Rightarrow> (Inl ErrTokenUsed, fs)
      | Some t0 \<Rightarrow>
          if 0 <s tok_ExpiresAt t0 \<and> tok_ExpiresAt t0 <s now then (Inl ErrTokenUsed, fs)
          else
            let t1 = (if tok_Used t0 \<and> tok_Uses t0 = 0 then t0\<lparr>tok_Uses := 1\<rparr> else t0);
                limit = (if tok_MaxUses t1 = 0 then 1 else tok_MaxUses t1)
            in if 0 <s limit \<and> limit \<le>s tok_Uses t1 then (Inl ErrTokenUsed, fs)
               else
                 let t2 = t1\<lparr>tok_Uses := tok_Uses t1 + 1\<rparr>;
                     t3 = t2\<lparr>tok_Used := (0 <s limit \<and> limit \<le>s tok_Uses t2)\<rparr>
                 in case commit (\<lambda>d. d\<lparr>fd_Tokens := fmupd token t3 (fd_Tokens d)\<rparr>) fs of
                      (Inl e, fs') \<Rightarrow> (Inl e, fs')
                    | (Inr _, fs') \<Rightarrow> (Inr t3, fs'))"

definition fs_SaveMachine :: "machine \<Rightarrow> (file_store, unit) action" where
  "fs_SaveMachine m = commit (\<lambda>d. d\<lparr>fd_Machines := fmupd (m_ID m) m (fd_Machines d)\<rparr>)"

definition fs_GetMachine :: "string \<Rightarrow> (file_store, machine) action" where
  "fs_GetMachine = lookup_table fd_Machines"

definition fs_ListMachines :: "string \<Rightarrow> (file_store, machine list) action" where
  "fs_ListMachines tenantID fs =
     (case range_values fd_Machines fs of (ms, fs') \<Rightarrow>
        (Inr (filter (\<lambda>m. tenantID = [] \<or> m_TenantID m = tenantID) ms), fs'))"

definition fs_DeleteMachine :: "string \<Rightarrow> (file_store, unit) action" where
  "fs_DeleteMachine mid =
     commit (\<lambda>d. d\<lparr>fd_Machines := fmdrop mid (fd_Machines d),
                    fd_Members := fmmap (fmdrop mid) (fd_Members d)\<rparr>)"

definition fs_TouchHeartbeat :: "string \<Rightarrow> int64 \<Rightarrow> inventory \<Rightarrow> (file_store, unit) action" where
  "fs_TouchHeartbeat mid lastSeen iv fs =
     (case fmlookup (fd_Machines (fs_data fs)) mid of
        None \<Rightarrow> (Inl ErrNotFound, fs)
      | Some m \<Rightarrow> commit (\<lambda>d. d\<lparr>fd_Machines :=
          fmupd mid (m\<lparr>m_LastSeen := lastSeen, m_Inventory := iv\<rparr>) (fd_Machines d)\<rparr>) fs)"

definition fs_SetStatus :: "string \<Rightarrow> int64 \<Rightarrow> module_status list \<Rightarrow> (file_store, unit) action" where
  "fs_SetStatus mid lastSeen sts fs =
     (case fmlookup (fd_Machines (fs_data fs)) mid of
        None \<Rightarrow> (Inl ErrNotFound, fs)
      | Some m \<Rightarrow> commit (\<lambda>d. d\<lparr>fd_Machines :=
          fmupd mid (m\<lparr>m_LastSeen := lastSeen, m_Status := sts\<rparr>) (fd_Machines d)\<rparr>) fs)"

definition moduleKey :: "string \<Rightarrow> string \<Rightarrow> string" where
  "moduleKey name version = name @ ''@'' @ version"

definition fs_SaveModule :: "module_artifact \<Rightarrow> (file_store, unit) action" where
  "fs_SaveModule a =
     commit (\<lambda>d. d\<lparr>fd_Modules := fmupd (moduleKey (art_Name a) (art_Version a)) a (fd_Modules d)\<rparr>)"

definition fs_DeleteModule :: "string \<Rightarrow> string \<Rightarrow> (file_store, unit) action" where
  "fs_DeleteModule name version =
     commit (\<lambda>d. d\<lparr>fd_Modules := fmdrop (moduleKey name version) (fd_Modules d)\<rparr>)"

definition fs_GetModule :: "string \<Rightarrow> string \<Rightarrow> (file_store, module_artifact) action" where
  "fs_GetModule name version = lookup_table fd_Modules (moduleKey name version)"

definition fs_ListModules :: "(file_store, module_artifact list) action" where
  "fs_ListModules fs =
     (case range_values fd_Modules fs of (as, fs') \<Rightarrow>
        (Inr (map (\<lambda>a. a\<lparr>art_Payload := [], art_Signature := []\<rparr>) as), fs'))"

definition fs_SaveGroup :: "group \<Rightarrow> (file_store, unit) action" where
  "fs_SaveGroup g = commit (\<lambda>d. d\<lparr>fd_Groups := fmupd (g_ID g) g (fd_Groups d)\<rparr>)"

definition fs_GetGroup :: "string \<Rightarrow> (file_store, group) action" where
  "fs_GetGroup = lookup_table fd_Groups"

definition fs_ListGroups :: "string \<Rightarrow> (file_store, group list) action" where
  "fs_ListGroups tenantID fs =
     (case range_values fd_Groups fs of (gs, fs') \<Rightarrow>
        (Inr (filter (\<lambda>g. tenantID = [] \<or> g_TenantID g = tenantID) gs), fs'))"

definition fs_DeleteGroup :: "string \<Rightarrow> (file_store, unit) action" where
  "fs_DeleteGroup gid =
     commit (\<lambda>d. d\<lparr>fd_Groups := fmdrop gid (fd_Groups d), fd_Members := fmdrop gid (fd_Members d)\<rparr>)"

text \<open>The member set of a group; a group with no entry has the nil map, which reads empty.\<close>

definition members_entry :: "file_data \<Rightarrow> string \<Rightarrow> unit gomap" where
  "members_entry d gid = (case fmlookup (fd_Members d) gid of None \<Rightarrow> fmempty | Some s \<Rightarrow> s)"

definition fs_AddGroupMember :: "string \<Rightarrow> string \<Rightarrow> (file_store, unit) action" where
  "fs_AddGroupMember gid mid =
     commit (\<lambda>d. d\<lparr>fd_Members := fmupd gid (fmupd mid () (members_entry d gid)) (fd_Members d)\<rparr>)"

definition fs_RemoveGroupMember :: "string \<Rightarrow> string \<Rightarrow> (file_store, unit) action" where
  "fs_RemoveGroupMember gid mid =
     commit (\<lambda>d. case fmlookup (fd_Members d) gid of
        None \<Rightarrow> d
      | Some s \<Rightarrow> d\<lparr>fd_Members := fmupd gid (fmdrop mid s) (fd_Members d)\<rparr>)"

definition fs_ListGroupMembers :: "string \<Rightarrow> (file_store, string list) action" where
  "fs_ListGroupMembers gid fs =
     (Inr (map fst (range_map (fs_order fs (fs_ranges fs)) (members_entry (fs_data fs) gid))),
      fs\<lparr>fs_ranges := Suc (fs_ranges fs)\<rparr>)"

definition file_ops :: "file_store store_ops" where
  "file_ops =
     \<lparr>SaveTenant = fs_SaveTenant, GetTenant = fs_GetTenant, ListTenants = fs_ListTenants,
      SaveToken = fs_SaveToken, ConsumeToken = fs_ConsumeToken,
      SaveMachine = fs_SaveMachine, GetMachine = fs_GetMachine,
      ListMachines = fs_ListMachines, DeleteMachine = fs_DeleteMachine,
      TouchHeartbeat = fs_TouchHeartbeat, SetStatus = fs_SetStatus,
      SaveModule = fs_SaveModule, GetModule = fs_GetModule, ListModules = fs_ListModules,
      DeleteModule = fs_DeleteModule,
      SaveGroup = fs_SaveGroup, GetGroup = fs_GetGroup, ListGroups = fs_ListGroups,
      DeleteGroup = fs_DeleteGroup, AddGroupMember = fs_AddGroupMember,
      RemoveGroupMember = fs_RemoveGroupMember, ListGroupMembers = fs_ListGroupMembers\<rparr>"

lemmas fs_op_defs =
  fs_SaveTenant_def fs_GetTenant_def fs_ListTenants_def fs_SaveToken_def
  fs_SaveMachine_def fs_GetMachine_def fs_ListMachines_def fs_DeleteMachine_def
  fs_TouchHeartbeat_def fs_SetStatus_def fs_SaveModule_def fs_DeleteModule_def
  fs_GetModule_def fs_ListModules_def fs_SaveGroup_def fs_GetGroup_def fs_ListGroups_def
  fs_DeleteGroup_def fs_AddGroupMember_def fs_RemoveGroupMember_def fs_ListGroupMembers_def

section \<open>The file store keeps the contract\<close>

definition fs_view :: "file_store \<Rightarrow> fleet" where
  "fs_view fs =
     \<lparr>fl_tenants = fd_Tenants (fs_data fs), fl_machines = fd_Machines (fs_data fs),
      fl_groups = fd_Groups (fs_data fs),
      fl_members = {(g, m). m |\<in>| fmdom (members_entry (fs_data fs) g)}\<rparr>"

definition io_ok :: "file_store \<Rightarrow> bool" where
  "io_ok fs \<longleftrightarrow> (\<forall>n. fs_outcome fs n = FlushOk)"

definition fs_healthy :: "file_store \<Rightarrow> bool" where
  "fs_healthy fs \<longleftrightarrow> io_ok fs \<and> keyed (fs_view fs)"

lemma fs_view_simps [simp]:
  "fl_tenants (fs_view fs) = fd_Tenants (fs_data fs)"
  "fl_machines (fs_view fs) = fd_Machines (fs_data fs)"
  "fl_groups (fs_view fs) = fd_Groups (fs_data fs)"
  "(g, m) \<in> fl_members (fs_view fs) \<longleftrightarrow> m |\<in>| fmdom (members_entry (fs_data fs) g)"
  by (simp_all add: fs_view_def)

lemma commit_ok:
  "io_ok fs \<Longrightarrow>
   commit upd fs =
     (Inr (), fs\<lparr>fs_data := upd (fs_data fs), fs_flushes := Suc (fs_flushes fs),
                fs_tmp := Missing, fs_path := Whole (upd (fs_data fs))\<rparr>)"
  by (simp add: commit_def flush_def io_ok_def Let_def)

lemma commit_ok_simps [simp]:
  assumes "io_ok fs"
  shows "fst (commit upd fs) = Inr ()"
    and "fs_data (snd (commit upd fs)) = upd (fs_data fs)"
    and "io_ok (snd (commit upd fs))"
  using assms by (simp_all add: commit_ok) (simp add: io_ok_def)

lemma lookup_table_simps [simp]:
  "fst (lookup_table tbl k fs) =
     (case fmlookup (tbl (fs_data fs)) k of None \<Rightarrow> Inl ErrNotFound | Some v \<Rightarrow> Inr v)"
  "snd (lookup_table tbl k fs) = fs"
  by (simp_all add: lookup_table_def split: option.splits)

lemma fs_healthy_io [simp]: "fs_healthy fs \<Longrightarrow> io_ok fs"
  by (simp add: fs_healthy_def)

lemma fs_healthy_keyed: "fs_healthy fs \<Longrightarrow> keyed (fs_view fs)"
  by (simp add: fs_healthy_def)

lemma view_eqI:
  assumes "fl_tenants (fs_view fs) = fl_tenants fl" "fl_machines (fs_view fs) = fl_machines fl"
    and "fl_groups (fs_view fs) = fl_groups fl"
    and "\<And>g m. (g, m) \<in> fl_members (fs_view fs) \<longleftrightarrow> (g, m) \<in> fl_members fl"
  shows "fs_view fs = fl"
  using assms by (intro fleet.equality) auto

lemma distinct_range_values:
  assumes "fmpred (\<lambda>k v. key v = k) m"
  shows "distinct (map key (map snd (range_map p m)))"
proof -
  have "key (snd kv) = fst kv" if "kv \<in> set (range_map p m)" for kv
    using assms that by (auto simp: fmpred_iff)
  then have "map key (map snd (range_map p m)) = map fst (range_map p m)"
    by (simp add: comp_def)
  then show ?thesis by (metis distinct_keys_range_map)
qed

lemma set_range_values: "set (map snd (range_map p m)) = {v. \<exists>k. fmlookup m k = Some v}"
  by force

lemma members_entry_simps [simp]:
  "members_entry (d\<lparr>fd_Tenants := a\<rparr>) g = members_entry d g"
  "members_entry (d\<lparr>fd_Tokens := b\<rparr>) g = members_entry d g"
  "members_entry (d\<lparr>fd_Machines := c\<rparr>) g = members_entry d g"
  "members_entry (d\<lparr>fd_Modules := e\<rparr>) g = members_entry d g"
  "members_entry (d\<lparr>fd_Groups := f\<rparr>) g = members_entry d g"
  by (simp_all add: members_entry_def)

text \<open>What each writing operation does to the view when the flush succeeds.\<close>

lemma view_commit:
  assumes "io_ok fs"
  shows
    "fs_view (snd (fs_SaveTenant t fs)) = put_tenant t (fs_view fs)"
    "fs_view (snd (fs_SaveMachine m fs)) = put_machine m (fs_view fs)"
    "fs_view (snd (fs_SaveGroup g fs)) = put_group g (fs_view fs)"
    "fs_view (snd (fs_SaveToken tk fs)) = fs_view fs"
    "fs_view (snd (fs_SaveModule a fs)) = fs_view fs"
    "fs_view (snd (fs_DeleteModule n v fs)) = fs_view fs"
  using assms
  by (auto intro!: view_eqI simp: fs_op_defs fleet_defs)

lemma view_members_commit:
  assumes "io_ok fs"
  shows
    "fs_view (snd (fs_DeleteMachine k fs)) = drop_machine k (fs_view fs)"
    "fs_view (snd (fs_DeleteGroup k fs)) = drop_group k (fs_view fs)"
    "fs_view (snd (fs_AddGroupMember k j fs)) = add_member k j (fs_view fs)"
    "fs_view (snd (fs_RemoveGroupMember k j fs)) = remove_member k j (fs_view fs)"
  using assms
  by (auto intro!: view_eqI simp: fs_op_defs fleet_defs members_entry_def
      split: option.splits if_splits)

lemma view_read:
  "fs_view (fs\<lparr>fs_ranges := n\<rparr>) = fs_view fs"
  by (simp add: fs_view_def)

lemma io_ok_simps [simp]:
  "io_ok (fs\<lparr>fs_ranges := n\<rparr>) = io_ok fs"
  "io_ok (fs\<lparr>fs_data := d\<rparr>) = io_ok fs"
  by (simp_all add: io_ok_def)

lemma healthy_after:
  assumes "fs_healthy fs"
  shows
    "fs_healthy (snd (fs_SaveTenant t fs))" "fs_healthy (snd (fs_SaveMachine m fs))"
    "fs_healthy (snd (fs_SaveGroup g fs))" "fs_healthy (snd (fs_SaveToken tk fs))"
    "fs_healthy (snd (fs_SaveModule a fs))" "fs_healthy (snd (fs_DeleteModule n v fs))"
    "fs_healthy (snd (fs_DeleteMachine k fs))" "fs_healthy (snd (fs_DeleteGroup k fs))"
    "fs_healthy (snd (fs_AddGroupMember k j fs))" "fs_healthy (snd (fs_RemoveGroupMember k j fs))"
  using assms
  by (auto simp: fs_healthy_def view_commit view_members_commit keyed_updates)
    (auto simp: fs_op_defs)

lemma consume_token_view:
  assumes "fs_healthy fs"
  shows "fs_healthy (snd (fs_ConsumeToken now k fs))"
    and "fs_view (snd (fs_ConsumeToken now k fs)) = fs_view fs"
proof -
  have "fs_view (snd (fs_ConsumeToken now k fs)) = fs_view fs \<and> io_ok (snd (fs_ConsumeToken now k fs))"
    using assms
    by (auto intro!: view_eqI simp: fs_ConsumeToken_def Let_def commit_ok io_ok_def fs_healthy_def
        split: option.splits)
  then show "fs_healthy (snd (fs_ConsumeToken now k fs))"
    and "fs_view (snd (fs_ConsumeToken now k fs)) = fs_view fs"
    using assms by (simp_all add: fs_healthy_def)
qed

lemma heartbeat_view:
  assumes "fs_healthy fs"
  shows "fs_TouchHeartbeat k now iv fs =
      (case fmlookup (fd_Machines (fs_data fs)) k of
         None \<Rightarrow> (Inl ErrNotFound, fs) | Some m \<Rightarrow> fs_SaveMachine (touch now iv m) fs)"
    and "fs_SetStatus k now sts fs =
      (case fmlookup (fd_Machines (fs_data fs)) k of
         None \<Rightarrow> (Inl ErrNotFound, fs) | Some m \<Rightarrow> fs_SaveMachine (report now sts m) fs)"
proof -
  have "m_ID m = k" if "fmlookup (fd_Machines (fs_data fs)) k = Some m" for m
    using keyed_machine [OF fs_healthy_keyed [OF assms]] that by simp
  then show "fs_TouchHeartbeat k now iv fs =
      (case fmlookup (fd_Machines (fs_data fs)) k of
         None \<Rightarrow> (Inl ErrNotFound, fs) | Some m \<Rightarrow> fs_SaveMachine (touch now iv m) fs)"
    and "fs_SetStatus k now sts fs =
      (case fmlookup (fd_Machines (fs_data fs)) k of
         None \<Rightarrow> (Inl ErrNotFound, fs) | Some m \<Rightarrow> fs_SaveMachine (report now sts m) fs)"
    by (auto simp: fs_op_defs touch_def report_def split: option.splits)
qed

lemma fs_ListMachines_law:
  assumes "fs_healthy fs"
  shows "\<exists>ms. fst (fs_ListMachines t fs) = Inr ms \<and> distinct (map m_ID ms) \<and>
    set ms = machines_of (fs_view fs) t"
proof -
  let ?es = "map snd (range_map (fs_order fs (fs_ranges fs)) (fd_Machines (fs_data fs)))"
  have keyed: "fmpred (\<lambda>k m. m_ID m = k) (fd_Machines (fs_data fs))"
    using fs_healthy_keyed [OF assms] by (simp add: keyed_def)
  have "set (filter (\<lambda>m. t = [] \<or> m_TenantID m = t) ?es) = machines_of (fs_view fs) t"
    using machines_of_iff [OF fs_healthy_keyed [OF assms]]
    by (auto simp: set_range_values in_tenant_def simp del: set_map)
  then show ?thesis
    using distinct_range_values [OF keyed]
    by (auto simp: fs_ListMachines_def range_values_def simp del: map_map
        intro: distinct_map_filter)
qed

lemma fs_ListGroups_law:
  assumes "fs_healthy fs"
  shows "\<exists>gs. fst (fs_ListGroups t fs) = Inr gs \<and> distinct (map g_ID gs) \<and>
    set gs = groups_of (fs_view fs) t"
proof -
  let ?es = "map snd (range_map (fs_order fs (fs_ranges fs)) (fd_Groups (fs_data fs)))"
  have keyed: "fmpred (\<lambda>k g. g_ID g = k) (fd_Groups (fs_data fs))"
    using fs_healthy_keyed [OF assms] by (simp add: keyed_def)
  have "set (filter (\<lambda>g. t = [] \<or> g_TenantID g = t) ?es) = groups_of (fs_view fs) t"
    using groups_of_iff [OF fs_healthy_keyed [OF assms]]
    by (auto simp: set_range_values in_tenant_def simp del: set_map)
  then show ?thesis
    using distinct_range_values [OF keyed]
    by (auto simp: fs_ListGroups_def range_values_def simp del: map_map
        intro: distinct_map_filter)
qed

lemma fs_ListGroupMembers_law:
  "\<exists>ids. fst (fs_ListGroupMembers k fs) = Inr ids \<and> set ids = {m. (k, m) \<in> fl_members (fs_view fs)}"
  by (force simp: fs_ListGroupMembers_def fmlookup_dom_iff)

lemma read_state:
  "snd (fs_GetTenant k fs) = fs" "snd (fs_GetMachine k fs) = fs" "snd (fs_GetGroup k fs) = fs"
  "snd (fs_GetModule n v fs) = fs"
  "snd (fs_ListMachines t fs) = fs\<lparr>fs_ranges := Suc (fs_ranges fs)\<rparr>"
  "snd (fs_ListGroups t fs) = fs\<lparr>fs_ranges := Suc (fs_ranges fs)\<rparr>"
  "snd (fs_ListGroupMembers k fs) = fs\<lparr>fs_ranges := Suc (fs_ranges fs)\<rparr>"
  "snd (fs_ListTenants fs) = fs\<lparr>fs_ranges := Suc (fs_ranges fs)\<rparr>"
  "snd (fs_ListModules fs) = fs\<lparr>fs_ranges := Suc (fs_ranges fs)\<rparr>"
  by (simp_all add: fs_op_defs range_values_def)

lemma healthy_read [simp]: "fs_healthy (fs\<lparr>fs_ranges := n\<rparr>) = fs_healthy fs"
  by (simp add: fs_healthy_def view_read)

lemma write_result:
  assumes "io_ok fs"
  shows
    "fst (fs_SaveTenant t fs) = Inr ()" "fst (fs_SaveMachine m fs) = Inr ()"
    "fst (fs_SaveGroup g fs) = Inr ()" "fst (fs_SaveModule a fs) = Inr ()"
    "fst (fs_DeleteModule n v fs) = Inr ()" "fst (fs_DeleteMachine k fs) = Inr ()"
    "fst (fs_DeleteGroup k fs) = Inr ()" "fst (fs_AddGroupMember k j fs) = Inr ()"
    "fst (fs_RemoveGroupMember k j fs) = Inr ()"
  using assms by (simp_all add: fs_op_defs)

lemmas fs_laws =
  healthy_after view_commit view_members_commit consume_token_view read_state view_read
  write_result fs_ListMachines_law fs_ListGroups_law fs_ListGroupMembers_law fs_healthy_keyed

interpretation fs: store_contract file_ops fs_view fs_healthy
proof (unfold_locales, goal_cases)
  case (8 s k now iv)
  then show ?case
    by (auto simp: file_ops_def heartbeat_view fs_laws split: option.splits)
next
  case (9 s k now sts)
  then show ?case
    by (auto simp: file_ops_def heartbeat_view fs_laws split: option.splits)
next
  case (16 s k)
  then show ?case
    using fs_ListGroupMembers_law [of k s] by (simp add: file_ops_def read_state view_read)
qed (auto simp: file_ops_def fs_laws fs_GetTenant_def fs_GetMachine_def fs_GetGroup_def
    fs_GetModule_def fs_ListModules_def range_values_def split: option.splits)

end
