(* ===== verification/Recompute_Correct.thy ===== *)
theory Recompute_Correct
  imports Resolver File_Store
begin

text \<open>
  \<open>Recompute\<close> against its specification: on a store that keeps the contract, and while
  the group names of the tenant are distinct, it takes the contents of the store to
  \<^const>\<open>settle\<close> of them and publishes the topic of exactly the machines it changed. The
  proof is done once over \<open>store_contract\<close>; the properties are its instance on the file
  store.
\<close>

section \<open>Steps that leave the contents alone\<close>

definition steady ::
  "('s \<Rightarrow> fleet) \<Rightarrow> ('s \<Rightarrow> bool) \<Rightarrow> ('s, 'b) world \<Rightarrow> ('s, 'b) world \<Rightarrow> bool" where
  "steady view healthy w w' \<longleftrightarrow>
     healthy (w_store w') \<and> view (w_store w') = view (w_store w) \<and>
     w_bus w' = w_bus w \<and> w_live w' = w_live w"

lemma steady_trans:
  "steady view healthy w w1 \<Longrightarrow> steady view healthy w1 w2 \<Longrightarrow> steady view healthy w w2"
  by (simp add: steady_def)

lemma go_index_set:
  "go_index False (fold (\<lambda>i. fmupd i True) ids s) mid \<longleftrightarrow> mid \<in> set ids \<or> go_index False s mid"
  by (induction ids arbitrary: s) (auto simp: go_index_def)

context store_contract
begin

lemma read_group_members:
  assumes "healthy (w_store w)" and "on_store (ListGroupMembers S k) w = (r, w')"
  shows "steady view healthy w w' \<and> (\<exists>ids. r = Inr ids \<and> set ids = {m. (k, m) \<in> fl_members (view (w_store w))})"
  using list_group_members [OF assms(1), of k] assms(2)
  by (auto simp: on_store_def steady_def split: prod.splits)

lemma load_members_ok:
  assumes "healthy (w_store w)"
  shows "\<exists>ms w'. load_members S gs members w = (Inr ms, w') \<and> steady view healthy w w' \<and>
    (\<forall>gid mid. go_index False (go_index fmempty ms gid) mid =
      (if gid \<in> g_ID ` set gs then (gid, mid) \<in> fl_members (view (w_store w))
       else go_index False (go_index fmempty members gid) mid))"
  using assms
proof (induction gs arbitrary: members w)
  case Nil
  then show ?case by (simp add: steady_def)
next
  case (Cons g gs)
  obtain r w1 where r: "on_store (ListGroupMembers S (g_ID g)) w = (r, w1)" by fastforce
  from read_group_members [OF Cons.prems r] obtain ids where
    st: "steady view healthy w w1" and
    ids: "r = Inr ids" "set ids = {m. (g_ID g, m) \<in> fl_members (view (w_store w))}" by blast
  from st have h: "healthy (w_store w1)" and v: "view (w_store w1) = view (w_store w)"
    by (simp_all add: steady_def)
  let ?new = "fmupd (g_ID g) (fold (\<lambda>i. fmupd i True) ids fmempty) members"
  from Cons.IH [OF h, of ?new] obtain ms w' where
    ld: "load_members S gs ?new w1 = (Inr ms, w')" and st': "steady view healthy w1 w'" and
    look: "\<And>gid mid. go_index False (go_index fmempty ms gid) mid =
      (if gid \<in> g_ID ` set gs then (gid, mid) \<in> fl_members (view (w_store w1))
       else go_index False (go_index fmempty ?new gid) mid)" by blast
  have "go_index False (go_index fmempty ms gid) mid =
      (if gid \<in> g_ID ` set (g # gs) then (gid, mid) \<in> fl_members (view (w_store w))
       else go_index False (go_index fmempty members gid) mid)" for gid mid
    using look [of gid mid] ids(2) v go_index_set [of ids fmempty mid]
    by (auto simp: go_index_def)
  with r ids ld steady_trans [OF st st'] show ?case by auto
qed

lemma load_machines_ok:
  assumes "healthy (w_store w)"
    and "\<And>i. i \<in> set ids \<Longrightarrow> fmlookup (fl_machines (view (w_store w))) i = Some (f i)"
  shows "\<exists>w'. load_machines S ids ms w = (Inr (ms @ map f ids), w') \<and> steady view healthy w w'"
  using assms
proof (induction ids arbitrary: ms w)
  case Nil
  then show ?case by (simp add: steady_def)
next
  case (Cons i ids)
  from get_machine [OF Cons.prems(1), of i] Cons.prems(2) [of i]
  obtain w1 where g: "on_store (GetMachine S i) w = (Inr (f i), w1)" and st: "steady view healthy w w1"
    by (cases "GetMachine S i (w_store w)") (auto simp: on_store_def steady_def)
  with Cons.IH [of w1 "ms @ [f i]"] Cons.prems(2) obtain w' where
    "load_machines S ids (ms @ [f i]) w1 = (Inr (ms @ f i # map f ids), w')" "steady view healthy w1 w'"
    by (auto simp: steady_def)
  with g steady_trans [OF st] show ?case by auto
qed

lemma load_machines_missing:
  assumes "healthy (w_store w)"
    and "i \<in> set ids" "fmlookup (fl_machines (view (w_store w))) i = None"
  shows "\<exists>w'. load_machines S ids ms w = (Inl ErrNotFound, w') \<and> steady view healthy w w'"
  using assms
proof (induction ids arbitrary: ms w)
  case Nil
  then show ?case by simp
next
  case (Cons j ids)
  show ?case
  proof (cases "fmlookup (fl_machines (view (w_store w))) j")
    case None
    with get_machine [OF Cons.prems(1), of j] show ?thesis
      by (cases "GetMachine S j (w_store w)") (auto simp: on_store_def steady_def)
  next
    case (Some m)
    with get_machine [OF Cons.prems(1), of j]
    obtain w1 where g: "on_store (GetMachine S j) w = (Inr m, w1)" and st: "steady view healthy w w1"
      by (cases "GetMachine S j (w_store w)") (auto simp: on_store_def steady_def)
    from Cons.prems Some have "i \<in> set ids" by auto
    with st Cons.prems have pre: "healthy (w_store w1)" "i \<in> set ids"
        "fmlookup (fl_machines (view (w_store w1))) i = None"
      by (auto simp: steady_def)
    from Cons.IH [OF pre, of "ms @ [m]"] g st show ?thesis by (auto intro: steady_trans)
  qed
qed

end

text \<open>One machine after the other: the specification of the loop.\<close>

definition put_desired :: "(machine \<Rightarrow> module_spec list) \<Rightarrow> machine \<Rightarrow> machine" where
  "put_desired eff m =
     (if ds_Modules (m_Desired m) = Some (eff m) then m
      else m\<lparr>m_Desired := \<lparr>ds_Revision = ds_Revision (m_Desired m) + 1, ds_Modules = Some (eff m)\<rparr>\<rparr>)"

definition put_desired_for :: "(machine \<Rightarrow> module_spec list) \<Rightarrow> string set \<Rightarrow> fleet \<Rightarrow> fleet" where
  "put_desired_for eff ids fl =
     fl\<lparr>fl_machines := fmmap_keys (\<lambda>k m. if k \<in> ids then put_desired eff m else m) (fl_machines fl)\<rparr>"

lemma settle_machine_put_desired: "settle_machine fl t m = put_desired (effective fl t) m"
  by (simp add: settle_machine_def put_desired_def)

lemma put_desired_id [simp]:
  "m_ID (put_desired eff m) = m_ID m" "m_TenantID (put_desired eff m) = m_TenantID m"
  "m_Enrolled (put_desired eff m) = m_Enrolled m" "m_Labels (put_desired eff m) = m_Labels m"
  "m_Override (put_desired eff m) = m_Override m"
  by (simp_all add: put_desired_def)

lemma put_desired_for_simps [simp]:
  "fl_tenants (put_desired_for eff ids fl) = fl_tenants fl"
  "fl_groups (put_desired_for eff ids fl) = fl_groups fl"
  "fl_members (put_desired_for eff ids fl) = fl_members fl"
  "fmlookup (fl_machines (put_desired_for eff ids fl)) k =
     map_option (\<lambda>m. if k \<in> ids then put_desired eff m else m) (fmlookup (fl_machines fl) k)"
  by (simp_all add: put_desired_for_def)

lemma put_desired_for_step:
  assumes "fmlookup (fl_machines fl) (m_ID m) = Some m" and "m_ID m \<notin> ids"
  shows "put_desired_for eff ids (put_machine (put_desired eff m) fl) =
         put_desired_for eff (insert (m_ID m) ids) fl"
  using assms
  by (intro fleet.equality fmap_ext) (auto simp: put_machine_def put_desired_for_def)

lemma put_machine_same: "fmlookup (fl_machines fl) (m_ID m) = Some m \<Longrightarrow> put_machine m fl = fl"
  by (intro fleet.equality fmap_ext) (auto simp: put_machine_def)

context store_contract
begin

lemma recompute_each_ok:
  assumes "healthy (w_store w)" and "distinct (map m_ID ms)"
    and "\<And>m. m \<in> set ms \<Longrightarrow> fmlookup (fl_machines (view (w_store w))) (m_ID m) = Some m"
    and "mset groups = mset gs"
    and "\<And>c m groups. mset groups = mset gs \<Longrightarrow>
           fst (computeModules c m groups members) = eff m"
  shows "\<exists>w' ts. recompute_each S B env i members groups ms w = (Inr (), w') \<and>
    healthy (w_store w') \<and>
    view (w_store w') = put_desired_for eff (m_ID ` set ms) (view (w_store w)) \<and>
    w_bus w' = fold (Publish B) ts (w_bus w) \<and>
    set ts = {m_ID m | m. m \<in> set ms \<and> put_desired eff m \<noteq> m} \<and> w_live w' = w_live w"
  using assms
proof (induction ms arbitrary: i groups w)
  case Nil
  have "put_desired_for eff {} fl = fl" for fl
    by (intro fleet.equality fmap_ext) (auto simp: put_desired_for_def option.map_ident)
  with Nil show ?case by (intro exI [of _ w] exI [of _ "[]"]) simp
next
  case (Cons m ms)
  obtain nxt groups' where c: "computeModules (env i) m groups members = (nxt, groups')"
    by fastforce
  with Cons.prems(4,5) have nxt: "nxt = eff m" by (metis fst_conv)
  from c have gr: "mset groups' = mset gs"
    using Cons.prems(4) by (auto simp: computeModules_eq Let_def)
  have lk: "fmlookup (fl_machines (view (w_store w))) (m_ID m) = Some m"
    using Cons.prems(3) by simp
  have fresh: "m_ID m \<notin> m_ID ` set ms" and dist: "distinct (map m_ID ms)"
    using Cons.prems(2) by auto
  show ?case
  proof (cases "ds_Modules (m_Desired m) = Some nxt")
    case True
    with nxt have keep: "put_desired eff m = m" by (simp add: put_desired_def)
    from Cons.IH [OF Cons.prems(1) dist _ gr Cons.prems(5), of "Suc i"] Cons.prems(3)
    obtain w' ts where
      r: "recompute_each S B env (Suc i) members groups' ms w = (Inr (), w')" "healthy (w_store w')"
        "view (w_store w') = put_desired_for eff (m_ID ` set ms) (view (w_store w))"
        "w_bus w' = fold (Publish B) ts (w_bus w)"
        "set ts = {m_ID m | m. m \<in> set ms \<and> put_desired eff m \<noteq> m}" "w_live w' = w_live w"
      by auto
    have "put_desired_for eff (m_ID ` set ms) (view (w_store w)) =
        put_desired_for eff (m_ID ` set (m # ms)) (view (w_store w))"
      using put_desired_for_step [OF lk fresh, of eff] keep put_machine_same [OF lk] by simp
    moreover have "{m_ID x | x. x \<in> set (m # ms) \<and> put_desired eff x \<noteq> x} =
        {m_ID x | x. x \<in> set ms \<and> put_desired eff x \<noteq> x}"
      using keep by auto
    ultimately show ?thesis
      using r True c by (intro exI [of _ w'] exI [of _ ts]) simp
  next
    case False
    let ?m' = "put_desired eff m"
    from False nxt have m': "m\<lparr>m_Desired := \<lparr>ds_Revision = ds_Revision (m_Desired m) + 1,
        ds_Modules = Some nxt\<rparr>\<rparr> = ?m'" by (simp add: put_desired_def)
    have ne: "?m' \<noteq> m"
    proof
      assume "?m' = m"
      then have "ds_Modules (m_Desired ?m') = ds_Modules (m_Desired m)" by simp
      with False nxt show False by (simp add: put_desired_def)
    qed
    have "same_place (view (w_store w)) ?m'" using lk by (simp add: same_place_def)
    from save_machine [OF Cons.prems(1) this]
    obtain w1 where w1: "on_store (SaveMachine S ?m') w = (Inr (), w1)" "healthy (w_store w1)"
        "view (w_store w1) = put_machine ?m' (view (w_store w))" "w_bus w1 = w_bus w" "w_live w1 = w_live w"
      by (cases "SaveMachine S ?m' (w_store w)") (auto simp: on_store_def)
    let ?w2 = "publish B (m_ID ?m') w1"
    have lk2: "fmlookup (fl_machines (view (w_store ?w2))) (m_ID x) = Some x" if "x \<in> set ms" for x
      using that Cons.prems(3) [of x] fresh by (auto simp: w1 put_machine_def)
    from Cons.IH [OF _ dist lk2 gr Cons.prems(5), of "Suc i"] w1(2)
    obtain w' ts where
      r: "recompute_each S B env (Suc i) members groups' ms ?w2 = (Inr (), w')" "healthy (w_store w')"
        "view (w_store w') = put_desired_for eff (m_ID ` set ms) (view (w_store ?w2))"
        "w_bus w' = fold (Publish B) ts (w_bus ?w2)"
        "set ts = {m_ID m | m. m \<in> set ms \<and> put_desired eff m \<noteq> m}" "w_live w' = w_live ?w2"
      by auto
    have v: "view (w_store w') = put_desired_for eff (m_ID ` set (m # ms)) (view (w_store w))"
      using r(3) w1(3) put_desired_for_step [OF lk fresh, of eff] by simp
    have "recompute_each S B env i members groups (m # ms) w = (Inr (), w')"
      using False c r(1) w1(1) by (simp add: Let_def m')
    moreover have "w_bus w' = fold (Publish B) (m_ID m # ts) (w_bus w)"
      using r(4) w1(4) by simp
    moreover have "set (m_ID m # ts) = {m_ID x | x. x \<in> set (m # ms) \<and> put_desired eff x \<noteq> x}"
      using r(5) ne by auto
    ultimately show ?thesis using r(2,6) v w1(5) by (metis publish_simps(3))
  qed
qed

lemma load_machines_distinct:
  assumes "healthy (w_store w)" "distinct ids"
    and "\<And>i. i \<in> set ids \<Longrightarrow> fmlookup (fl_machines (view (w_store w))) i \<noteq> None"
  shows "\<exists>ms w'. load_machines S ids [] w = (Inr ms, w') \<and> steady view healthy w w' \<and>
    map m_ID ms = ids \<and> (\<forall>m\<in>set ms. fmlookup (fl_machines (view (w_store w))) (m_ID m) = Some m)"
proof -
  let ?f = "\<lambda>i. the (fmlookup (fl_machines (view (w_store w))) i)"
  have lk: "fmlookup (fl_machines (view (w_store w))) i = Some (?f i)" if "i \<in> set ids" for i
    using assms(3) [OF that] by auto
  from load_machines_ok [of w ids ?f "[]", OF assms(1) lk] obtain w' where
    "load_machines S ids [] w = (Inr (map ?f ids), w')" "steady view healthy w w'" by auto
  moreover have key: "m_ID (?f i) = i" if "i \<in> set ids" for i
    using keyed_machine [OF view_keyed [OF assms(1)] lk [OF that]] .
  then have "map m_ID (map ?f ids) = ids" by (simp add: map_idI)
  ultimately show ?thesis using lk key by (intro exI [of _ "map ?f ids"] exI [of _ w']) auto
qed

text \<open>The machines a call is about.\<close>

lemma recompute_machines:
  assumes "healthy (w_store w)" "distinct ids"
    and "\<And>i. i \<in> set ids \<Longrightarrow> fmlookup (fl_machines (view (w_store w))) i \<noteq> None"
  shows "\<exists>ms w'. (if ids = [] then on_store (ListMachines S t) w else load_machines S ids [] w) = (Inr ms, w') \<and>
    steady view healthy w w' \<and> distinct (map m_ID ms) \<and>
    set ms = {m. fmlookup (fl_machines (view (w_store w))) (m_ID m) = Some m \<and>
      (if ids = [] then in_tenant t (m_TenantID m) else m_ID m \<in> set ids)}"
proof (cases "ids = []")
  case True
  from list_machines [OF assms(1), of t] obtain ms where
    "fst (ListMachines S t (w_store w)) = Inr ms" "distinct (map m_ID ms)"
    "set ms = machines_of (view (w_store w)) t" by blast
  moreover have "steady view healthy w (snd (on_store (ListMachines S t) w))"
    using list_machines [OF assms(1), of t] by (simp add: steady_def)
  ultimately show ?thesis
    using True by (intro exI [of _ ms] exI [of _ "snd (on_store (ListMachines S t) w)"])
      (simp add: machines_of_def prod_eq_iff)
next
  case False
  from load_machines_distinct [OF assms] obtain ms w' where
    ms: "load_machines S ids [] w = (Inr ms, w')" "steady view healthy w w'" "map m_ID ms = ids"
      "\<And>m. m \<in> set ms \<Longrightarrow> fmlookup (fl_machines (view (w_store w))) (m_ID m) = Some m" by blast
  have "m \<in> set ms" if "fmlookup (fl_machines (view (w_store w))) (m_ID m) = Some m" "m_ID m \<in> set ids" for m
  proof -
    from that(2) ms(3) obtain m0 where m0: "m0 \<in> set ms" "m_ID m0 = m_ID m" by (metis imageE set_map)
    from ms(4) [OF m0(1)] that(1) have "Some m0 = Some m" unfolding m0(2) by (rule trans [OF sym])
    with m0(1) show ?thesis by simp
  qed
  moreover have "m_ID m \<in> set ids" if "m \<in> set ms" for m
    using ms(3) that by (metis imageI set_map)
  ultimately have "set ms = {m. fmlookup (fl_machines (view (w_store w))) (m_ID m) = Some m \<and> m_ID m \<in> set ids}"
    using ms(4) by blast
  moreover have "distinct (map m_ID ms)" using ms(3) assms(2) by simp
  ultimately show ?thesis
    using False ms(1,2) by (intro exI [of _ ms] exI [of _ w']) simp
qed

end

lemma settle_put_desired_for:
  assumes "keyed fl"
  shows "put_desired_for (effective fl t) (m_ID ` {m. fmlookup (fl_machines fl) (m_ID m) = Some m \<and> P m}) fl =
         settle t P fl"
  using assms
  by (intro fleet.equality fmap_ext)
     (auto simp: put_desired_for_def settle_def settle_machine_put_desired image_iff map_option_case
        split: option.splits dest: keyed_machine)

lemma machine_ids_iff:
  assumes "keyed fl"
  shows "k \<in> m_ID ` {m. fmlookup (fl_machines fl) (m_ID m) = Some m \<and> P m} \<longleftrightarrow>
    (\<exists>m. fmlookup (fl_machines fl) k = Some m \<and> P m)"
  using keyed_machine [OF assms] by (auto simp: image_iff)

lemma changed_put_desired_for:
  assumes "keyed fl"
  shows "changed fl (put_desired_for eff (m_ID ` {m. fmlookup (fl_machines fl) (m_ID m) = Some m \<and> P m}) fl) =
    {m_ID m | m. m \<in> {m. fmlookup (fl_machines fl) (m_ID m) = Some m \<and> P m} \<and> put_desired eff m \<noteq> m}"
    (is "changed fl (put_desired_for eff ?ids fl) = ?rhs")
proof (rule set_eqI)
  fix k
  have "k \<in> changed fl (put_desired_for eff ?ids fl) \<longleftrightarrow>
      (\<exists>m. fmlookup (fl_machines fl) k = Some m \<and> P m \<and> put_desired eff m \<noteq> m)"
    unfolding changed_def mem_Collect_eq put_desired_for_simps machine_ids_iff [OF assms]
    by (cases "fmlookup (fl_machines fl) k") simp_all
  also have "\<dots> \<longleftrightarrow> k \<in> m_ID ` {m. fmlookup (fl_machines fl) (m_ID m) = Some m \<and>
      (P m \<and> put_desired eff m \<noteq> m)}"
    unfolding machine_ids_iff [OF assms] ..
  also have "m_ID ` {m. fmlookup (fl_machines fl) (m_ID m) = Some m \<and> (P m \<and> put_desired eff m \<noteq> m)} = ?rhs"
    by blast
  finally show "k \<in> changed fl (put_desired_for eff ?ids fl) \<longleftrightarrow> k \<in> ?rhs" .
qed

context store_contract
begin

theorem Recompute_ok:
  assumes "healthy (w_store w)" and "unique_names (view (w_store w)) t" and "distinct ids"
    and "\<And>i. i \<in> set ids \<Longrightarrow> fmlookup (fl_machines (view (w_store w))) i \<noteq> None"
  shows "\<exists>w' ts. Recompute S B env t ids w = (Inr (), w') \<and> healthy (w_store w') \<and>
    view (w_store w') =
      settle t (\<lambda>m. if ids = [] then in_tenant t (m_TenantID m) else m_ID m \<in> set ids) (view (w_store w)) \<and>
    w_bus w' = fold (Publish B) ts (w_bus w) \<and>
    set ts = changed (view (w_store w)) (view (w_store w')) \<and> w_live w' = w_live w"
proof -
  let ?fl = "view (w_store w)"
  have k: "keyed ?fl" using view_keyed assms(1) .
  from list_groups [OF assms(1), of t] obtain gs w1 where
    gs: "on_store (ListGroups S t) w = (Inr gs, w1)" "distinct (map g_ID gs)" "set gs = groups_of ?fl t"
    and st1: "steady view healthy w w1"
    by (cases "ListGroups S t (w_store w)") (auto simp: on_store_def steady_def)
  then have h1: "healthy (w_store w1)" and v1: "view (w_store w1) = ?fl" by (simp_all add: steady_def)
  from load_members_ok [OF h1, of gs fmempty] obtain members w2 where
    mem: "load_members S gs fmempty w1 = (Inr members, w2)" and st2: "steady view healthy w1 w2"
    and look: "\<And>gid mid. gid \<in> g_ID ` set gs \<Longrightarrow>
      go_index False (go_index fmempty members gid) mid = ((gid, mid) \<in> fl_members ?fl)"
    unfolding v1 by auto
  from st2 v1 have h2: "healthy (w_store w2)" and v2: "view (w_store w2) = ?fl" by (simp_all add: steady_def)
  from recompute_machines [OF h2 assms(3), of t] assms(4) obtain ms w3 where
    ms: "(if ids = [] then on_store (ListMachines S t) w2 else load_machines S ids [] w2) = (Inr ms, w3)"
      "distinct (map m_ID ms)"
      "set ms = {m. fmlookup (fl_machines ?fl) (m_ID m) = Some m \<and>
        (if ids = [] then in_tenant t (m_TenantID m) else m_ID m \<in> set ids)}"
    and st3: "steady view healthy w2 w3"
    unfolding v2 by blast
  from st3 v2 have h3: "healthy (w_store w3)" and v3: "view (w_store w3) = ?fl" by (simp_all add: steady_def)
  have same: "w_bus w3 = w_bus w" "w_live w3 = w_live w"
    using st1 st2 st3 by (simp_all add: steady_def)
  have mset: "mset gs = mset (group_list ?fl t)" by (rule mset_group_list [OF k gs(2,3)])
  have names: "distinct (map g_Name (group_list ?fl t))"
    using assms(2) distinct_group_list [OF k, of t]
    by (auto simp: distinct_map unique_names_def set_group_list [OF k])
  have eff: "fst (computeModules c m groups members) = effective ?fl t m"
    if "mset groups = mset gs" for c m groups
  proof -
    have "computeModules c m groups members =
      (modules_of (group_list ?fl t) (\<lambda>g. (g_ID g, m_ID m) \<in> fl_members ?fl) m,
       sort_key g_Name (group_list ?fl t))"
      using that mset names gs(3) look
      by (intro computeModules_modules_of) (auto simp: set_group_list [OF k])
    then show ?thesis by (simp add: effective_def)
  qed
  have lk: "fmlookup (fl_machines (view (w_store w3))) (m_ID m) = Some m" if "m \<in> set ms" for m
    using that by (simp add: v3 ms(3))
  from recompute_each_ok [where B = B and env = env and i = 0, OF h3 ms(2) lk refl eff]
  obtain w' ts where r: "recompute_each S B env 0 members gs ms w3 = (Inr (), w')" "healthy (w_store w')"
      "view (w_store w') = put_desired_for (effective ?fl t) (m_ID ` set ms) ?fl"
      "w_bus w' = fold (Publish B) ts (w_bus w)" "w_live w' = w_live w"
      "set ts = {m_ID m | m. m \<in> set ms \<and> put_desired (effective ?fl t) m \<noteq> m}"
    unfolding v3 same by blast
  have "Recompute S B env t ids w = (Inr (), w')"
    using gs(1) mem ms(1) r(1) by (simp add: Recompute_def split: if_splits)
  moreover have "view (w_store w') =
      settle t (\<lambda>m. if ids = [] then in_tenant t (m_TenantID m) else m_ID m \<in> set ids) ?fl"
    using r(3) unfolding ms(3) settle_put_desired_for [OF k] .
  moreover have "set ts = changed ?fl (view (w_store w'))"
    unfolding r(3,6) ms(3) changed_put_desired_for [OF k] ..
  ultimately show ?thesis
    using r(2,4,5) by (intro exI [of _ w'] exI [of _ ts]) simp
qed

lemma Recompute_missing:
  assumes "healthy (w_store w)"
    and "i \<in> set ids" "fmlookup (fl_machines (view (w_store w))) i = None"
  shows "\<exists>w'. Recompute S B env t ids w = (Inl ErrNotFound, w') \<and> steady view healthy w w'"
proof -
  from list_groups [OF assms(1), of t] obtain gs w1 where
    gs: "on_store (ListGroups S t) w = (Inr gs, w1)" and st1: "steady view healthy w w1"
    by (cases "ListGroups S t (w_store w)") (auto simp: on_store_def steady_def)
  then have h1: "healthy (w_store w1)" by (simp add: steady_def)
  from load_members_ok [OF h1, of gs fmempty] obtain members w2 where
    mem: "load_members S gs fmempty w1 = (Inr members, w2)" and st2: "steady view healthy w1 w2" by blast
  then have h2: "healthy (w_store w2)" by (simp add: steady_def)
  have "fmlookup (fl_machines (view (w_store w2))) i = None"
    using assms(3) st1 st2 by (simp add: steady_def)
  from load_machines_missing [OF h2 assms(2) this] obtain w3 where
    "load_machines S ids [] w2 = (Inl ErrNotFound, w3)" "steady view healthy w2 w3" by blast
  moreover have "ids \<noteq> []" using assms(2) by auto
  ultimately show ?thesis
    using gs mem st1 st2 by (auto simp: Recompute_def intro: steady_trans)
qed

end

end
