(* ===== verification/Fleet_Steps.thy ===== *)
theory Fleet_Steps
  imports Resolver
begin

text \<open>
  The control plane on its contents alone: the specification the handlers implement, as
  a step relation on \<^typ>\<open>fleet\<close>. Every edit of groups, memberships or machines is
  followed by \<^const>\<open>settle\<close> of the machines it can affect, and the invariant is that
  every machine's desired modules are then the ones its groups and its override give.
\<close>

section \<open>Being settled\<close>

definition settled_machine :: "fleet \<Rightarrow> machine \<Rightarrow> bool" where
  "settled_machine fl m \<longleftrightarrow> ds_Modules (m_Desired m) = Some (effective fl (m_TenantID m) m)"

definition settled :: "fleet \<Rightarrow> bool" where
  "settled fl \<longleftrightarrow> (\<forall>k m. fmlookup (fl_machines fl) k = Some m \<longrightarrow> settled_machine fl m)"

text \<open>An empty tenant ID would make a listing return every tenant's records.\<close>

definition tenants_named :: "fleet \<Rightarrow> bool" where
  "tenants_named fl \<longleftrightarrow>
     (\<forall>k m. fmlookup (fl_machines fl) k = Some m \<longrightarrow> m_TenantID m \<noteq> []) \<and>
     (\<forall>k g. fmlookup (fl_groups fl) k = Some g \<longrightarrow> g_TenantID g \<noteq> [])"

definition tidy :: "fleet \<Rightarrow> bool" where
  "tidy fl \<longleftrightarrow> keyed fl \<and> tenants_named fl \<and> settled fl"

section \<open>What the effective modules depend on\<close>

lemma group_list_ids:
  "keyed fl \<Longrightarrow> sorted (map g_ID (group_list fl t))"
proof -
  assume k: "keyed fl"
  then have "map g_ID (map snd (sorted_list_of_fmap (fl_groups fl))) =
      sorted_list_of_fset (fmdom (fl_groups fl))"
    by (auto simp: sorted_list_of_fmap_def comp_def fmlookup_dom_iff keyed_group intro!: map_idI)
  then have "sorted (map g_ID (map snd (sorted_list_of_fmap (fl_groups fl))))"
    by simp
  then show ?thesis unfolding group_list_def by (rule sorted_filter)
qed

lemma group_list_cong:
  assumes "keyed fl" "keyed fl'" "groups_of fl t = groups_of fl' t"
  shows "group_list fl t = group_list fl' t"
proof (rule map_sorted_distinct_set_unique [of g_ID])
  have "inj_on g_ID (set (group_list fl t))"
    using distinct_group_list [OF assms(1)] by (simp add: distinct_map)
  then show "inj_on g_ID (set (group_list fl t) \<union> set (group_list fl' t))"
    using assms by (simp add: set_group_list)
qed (use assms in \<open>simp_all add: group_list_ids distinct_group_list set_group_list del: distinct_map\<close>)

lemma modules_of_cong:
  assumes "\<And>g. g \<in> set gs \<Longrightarrow> e g = e' g"
    and "m_Labels m = m_Labels m'" "m_Override m = m_Override m'"
  shows "modules_of gs e m = modules_of gs e' m'"
proof -
  have "filter (\<lambda>g. applies g m (e g)) (sort_key g_Name gs) =
        filter (\<lambda>g. applies g m' (e' g)) (sort_key g_Name gs)"
    using assms by (intro filter_cong) (auto simp: applies_def)
  with assms(3) show ?thesis by (simp add: modules_of_def effective_map_def layers_def)
qed

lemma effective_cong:
  assumes "keyed fl" "keyed fl'" "groups_of fl t = groups_of fl' t"
    and "\<And>g. g \<in> groups_of fl t \<Longrightarrow>
           (g_ID g, m_ID m) \<in> fl_members fl \<longleftrightarrow> (g_ID g, m_ID m') \<in> fl_members fl'"
    and "m_Labels m = m_Labels m'" "m_Override m = m_Override m'"
  shows "effective fl t m = effective fl' t m'"
  unfolding effective_def group_list_cong [OF assms(1-3)]
  by (rule modules_of_cong) (use assms in \<open>auto simp: set_group_list\<close>)

lemma settle_simps [simp]:
  "fl_tenants (settle t P fl) = fl_tenants fl"
  "fl_groups (settle t P fl) = fl_groups fl"
  "fl_members (settle t P fl) = fl_members fl"
  "fmlookup (fl_machines (settle t P fl)) k =
     map_option (\<lambda>m. if P m then settle_machine fl t m else m) (fmlookup (fl_machines fl) k)"
  by (simp_all add: settle_def)

lemma settle_machine_simps [simp]:
  "m_ID (settle_machine fl t m) = m_ID m" "m_TenantID (settle_machine fl t m) = m_TenantID m"
  "m_Labels (settle_machine fl t m) = m_Labels m"
  "m_Override (settle_machine fl t m) = m_Override m"
  "ds_Modules (m_Desired (settle_machine fl t m)) = Some (effective fl t m)"
  by (simp_all add: settle_machine_def)

lemma keyed_settle [simp]: "keyed (settle t P fl) \<longleftrightarrow> keyed fl"
  by (auto simp: keyed_def fmpred_iff map_option_case split: option.splits if_splits)

lemma groups_of_same [simp]:
  "groups_of (settle t' P fl) t = groups_of fl t" "groups_of (put_machine m fl) t = groups_of fl t"
  "groups_of (put_tenant tn fl) t = groups_of fl t" "groups_of (drop_machine k fl) t = groups_of fl t"
  "groups_of (add_member g k fl) t = groups_of fl t" "groups_of (remove_member g k fl) t = groups_of fl t"
  by (simp_all add: groups_of_def fleet_defs)

lemma effective_settle:
  assumes "keyed fl" "m_ID m = m_ID m'" "m_Labels m = m_Labels m'" "m_Override m = m_Override m'"
  shows "effective (settle t P fl) t' m = effective fl t' m'"
  by (rule effective_cong) (use assms in simp_all)

text \<open>Settling a set of machines of one tenant settles them, if the others were settled.\<close>

lemma tidy_settle:
  assumes "keyed fl" "tenants_named fl"
    and "\<And>k m. fmlookup (fl_machines fl) k = Some m \<Longrightarrow>
           if P m then m_TenantID m = t else settled_machine fl m"
  shows "tidy (settle t P fl)"
proof -
  have "settled_machine (settle t P fl) (if P m then settle_machine fl t m else m)"
    if "fmlookup (fl_machines fl) k = Some m" for k m
    using assms(3) [OF that] effective_settle [OF assms(1), where m = m and m' = m and P = P and t = t]
      effective_settle [OF assms(1), where m = "settle_machine fl t m" and m' = m and P = P and t = t]
    by (auto simp: settled_machine_def)
  then have "settled (settle t P fl)"
    unfolding settled_def settle_simps map_option_eq_Some by blast
  moreover have "tenants_named (settle t P fl)"
    using assms(2) by (auto simp: tenants_named_def split: if_splits)
  ultimately show ?thesis using assms(1) by (simp add: tidy_def)
qed

text \<open>Settling twice changes nothing the second time: no revision moves.\<close>

lemma settle_settle:
  assumes "keyed fl" and "\<And>m. P (settle_machine fl t m) = P m"
  shows "settle t P (settle t P fl) = settle t P fl"
proof -
  have "settle_machine (settle t P fl) t (settle_machine fl t m) = settle_machine fl t m" for m
    using effective_settle [OF assms(1), where m = "settle_machine fl t m" and m' = m and P = P and t = t]
    by (simp add: settle_machine_def [of "settle t P fl"])
  then show ?thesis
    using assms(2)
    by (intro fleet.equality fmap_ext) (simp_all add: map_option_case split: option.split)
qed

section \<open>Steps\<close>

text \<open>An edit of the fields an operator owns: labels and override.\<close>

definition edit_machines :: "(machine \<Rightarrow> machine) \<Rightarrow> string set \<Rightarrow> fleet \<Rightarrow> fleet" where
  "edit_machines f ids fl =
     fl\<lparr>fl_machines := fmmap_keys (\<lambda>k m. if k \<in> ids then f m else m) (fl_machines fl)\<rparr>"

definition keeps_place :: "(machine \<Rightarrow> machine) \<Rightarrow> bool" where
  "keeps_place f \<longleftrightarrow> (\<forall>m. m_ID (f m) = m_ID m \<and> m_TenantID (f m) = m_TenantID m \<and>
     m_Enrolled (f m) = m_Enrolled m \<and> m_Desired (f m) = m_Desired m)"

definition keeps_inputs :: "(machine \<Rightarrow> machine) \<Rightarrow> bool" where
  "keeps_inputs f \<longleftrightarrow> keeps_place f \<and>
     (\<forall>m. m_Labels (f m) = m_Labels m \<and> m_Override (f m) = m_Override m)"

inductive fleet_step :: "fleet \<Rightarrow> fleet \<Rightarrow> bool" where
  tenant_created:
    "fmlookup (fl_tenants fl) (t_ID tn) = None \<Longrightarrow> fmlookup (fl_groups fl) (g_ID g) = None \<Longrightarrow>
     t_ID tn \<noteq> [] \<Longrightarrow> g_TenantID g = t_ID tn \<Longrightarrow>
     (\<And>k m. fmlookup (fl_machines fl) k = Some m \<Longrightarrow> m_TenantID m \<noteq> t_ID tn) \<Longrightarrow>
     fleet_step fl (put_group g (put_tenant tn fl))"
| group_saved:
    "same_group_place fl g \<Longrightarrow> g_TenantID g \<noteq> [] \<Longrightarrow>
     fleet_step fl (settle (g_TenantID g) (\<lambda>m. m_TenantID m = g_TenantID g) (put_group g fl))"
| group_deleted:
    "fmlookup (fl_groups fl) k = Some g \<Longrightarrow>
     fleet_step fl (settle (g_TenantID g) (\<lambda>m. m_TenantID m = g_TenantID g) (drop_group k fl))"
| member_added:
    "fmlookup (fl_groups fl) k = Some g \<Longrightarrow> fmlookup (fl_machines fl) i = Some m \<Longrightarrow>
     m_TenantID m = g_TenantID g \<Longrightarrow>
     fleet_step fl (settle (g_TenantID g) (\<lambda>m. m_ID m = i) (add_member k i fl))"
| member_removed:
    "fmlookup (fl_groups fl) k = Some g \<Longrightarrow> fmlookup (fl_machines fl) i = Some m \<Longrightarrow>
     m_TenantID m = g_TenantID g \<Longrightarrow>
     fleet_step fl (settle (g_TenantID g) (\<lambda>m. m_ID m = i) (remove_member k i fl))"
| absent_member_removed:
    "fmlookup (fl_machines fl) i = None \<Longrightarrow> fleet_step fl (remove_member k i fl)"
| machines_edited:
    "keeps_place f \<Longrightarrow>
     (\<And>i m. i \<in> ids \<Longrightarrow> fmlookup (fl_machines fl) i = Some m \<Longrightarrow> m_TenantID m = t) \<Longrightarrow>
     fleet_step fl (settle t (\<lambda>m. m_ID m \<in> ids) (edit_machines f ids fl))"
| machine_enrolled:
    "fmlookup (fl_machines fl) (m_ID m) = None \<Longrightarrow> m_TenantID m \<noteq> [] \<Longrightarrow>
     fleet_step fl (settle (m_TenantID m) (\<lambda>m'. m_ID m' = m_ID m) (put_machine m fl))"
| machine_reported:
    "keeps_inputs f \<Longrightarrow> fleet_step fl (edit_machines f ids fl)"
| machine_deleted:
    "fleet_step fl (drop_machine k fl)"

lemma keyed_edit: "keyed fl \<Longrightarrow> keeps_place f \<Longrightarrow> keyed (edit_machines f ids fl)"
  by (auto simp: keyed_def fmpred_iff edit_machines_def keeps_place_def split: if_splits)

lemma groups_of_edit [simp]: "groups_of (edit_machines f ids fl) t = groups_of fl t"
  by (simp add: groups_of_def edit_machines_def)

lemma in_tenant_named: "t \<noteq> [] \<Longrightarrow> in_tenant t a \<longleftrightarrow> a = t"
  by (simp add: in_tenant_def)

lemma groups_of_put_group:
  assumes "keyed fl" "same_group_place fl g" "t \<noteq> g_TenantID g" "t \<noteq> []"
  shows "groups_of (put_group g fl) t = groups_of fl t"
  using assms by (auto simp: groups_of_def put_group_def in_tenant_named same_group_place_def)

lemma groups_of_drop_group:
  assumes "keyed fl" "fmlookup (fl_groups fl) k = Some g" "t \<noteq> g_TenantID g" "t \<noteq> []"
  shows "groups_of (drop_group k fl) t = groups_of fl t"
  using assms by (auto simp: groups_of_def drop_group_def in_tenant_named)

lemma settled_machine_cong:
  assumes "settled_machine fl m" "keyed fl" "keyed fl'"
    and "groups_of fl (m_TenantID m) = groups_of fl' (m_TenantID m)"
    and "\<And>g. g \<in> groups_of fl (m_TenantID m) \<Longrightarrow>
           (g_ID g, m_ID m) \<in> fl_members fl \<longleftrightarrow> (g_ID g, m_ID m) \<in> fl_members fl'"
    and "m_ID m' = m_ID m" "m_TenantID m' = m_TenantID m" "m_Labels m' = m_Labels m"
    and "m_Override m' = m_Override m" "m_Desired m' = m_Desired m"
  shows "settled_machine fl' m'"
  using assms effective_cong [of fl fl' "m_TenantID m" m m']
  by (simp add: settled_machine_def)

lemma tidy_tenant_created:
  assumes fl: "tidy fl" and g: "fmlookup (fl_groups fl) (g_ID g) = None"
    and t: "t_ID tn \<noteq> []" "g_TenantID g = t_ID tn"
    and ms: "\<And>k m. fmlookup (fl_machines fl) k = Some m \<Longrightarrow> m_TenantID m \<noteq> t_ID tn"
  shows "tidy (put_group g (put_tenant tn fl))" (is "tidy ?fl")
proof -
  have k: "keyed (put_tenant tn fl)" using fl by (simp add: tidy_def keyed_updates)
  have "settled_machine ?fl m" if lk: "fmlookup (fl_machines fl) i = Some m" for i m
  proof (rule settled_machine_cong [of fl m])
    show "settled_machine fl m" using lk fl by (auto simp: tidy_def settled_def)
    have "m_TenantID m \<noteq> []" using lk fl by (auto simp: tidy_def tenants_named_def)
    moreover have "same_group_place (put_tenant tn fl) g"
      using g by (simp add: same_group_place_def fleet_fields)
    ultimately show "groups_of fl (m_TenantID m) = groups_of ?fl (m_TenantID m)"
      using groups_of_put_group [OF k, of g "m_TenantID m"] ms [OF lk] t by simp
  qed (use fl in \<open>auto simp: tidy_def keyed_updates fleet_fields\<close>)
  then show ?thesis
    using fl t by (auto simp: tidy_def settled_def keyed_updates tenants_named_def fleet_fields)
qed

lemma tidy_group_saved:
  assumes fl: "tidy fl" and g: "same_group_place fl g" "g_TenantID g \<noteq> []"
  shows "tidy (settle (g_TenantID g) (\<lambda>m. m_TenantID m = g_TenantID g) (put_group g fl))"
proof (rule tidy_settle)
  fix k m
  assume "fmlookup (fl_machines (put_group g fl)) k = Some m"
  then have "settled_machine fl m" "m_TenantID m \<noteq> []"
    using fl by (auto simp: tidy_def settled_def tenants_named_def fleet_fields)
  then show "if m_TenantID m = g_TenantID g then m_TenantID m = g_TenantID g
      else settled_machine (put_group g fl) m"
    using fl g groups_of_put_group [of fl g "m_TenantID m"]
    by (auto simp: tidy_def keyed_updates intro!: settled_machine_cong [of fl m])
       (simp_all add: fleet_fields)
qed (use fl g in \<open>auto simp: tidy_def keyed_updates tenants_named_def fleet_fields\<close>)

lemma tidy_group_deleted:
  assumes fl: "tidy fl" and g: "fmlookup (fl_groups fl) k = Some g"
  shows "tidy (settle (g_TenantID g) (\<lambda>m. m_TenantID m = g_TenantID g) (drop_group k fl))"
proof (rule tidy_settle)
  fix i m
  assume "fmlookup (fl_machines (drop_group k fl)) i = Some m"
  then have sm: "settled_machine fl m" "m_TenantID m \<noteq> []"
    using fl by (auto simp: tidy_def settled_def tenants_named_def fleet_fields)
  have "g_ID g' \<noteq> k" if "g' \<in> groups_of fl (m_TenantID m)" "m_TenantID m \<noteq> g_TenantID g" for g'
    using that g sm by (auto simp: groups_of_def in_tenant_named)
  with sm show "if m_TenantID m = g_TenantID g then m_TenantID m = g_TenantID g
      else settled_machine (drop_group k fl) m"
    using fl g groups_of_drop_group [of fl k g "m_TenantID m"]
    by (auto simp: tidy_def keyed_updates intro!: settled_machine_cong [of fl m])
       (simp_all add: fleet_fields)
qed (use fl g in \<open>auto simp: tidy_def keyed_updates tenants_named_def fleet_fields\<close>)

text \<open>A change of memberships that concerns one machine only.\<close>

lemma tidy_members:
  assumes fl: "tidy fl" and same: "fl_tenants fl' = fl_tenants fl" "fl_machines fl' = fl_machines fl"
      "fl_groups fl' = fl_groups fl"
    and mem: "\<And>g j. j \<noteq> i \<Longrightarrow> (g, j) \<in> fl_members fl \<longleftrightarrow> (g, j) \<in> fl_members fl'"
    and m: "\<And>m. fmlookup (fl_machines fl) i = Some m \<Longrightarrow> m_TenantID m = t"
  shows "tidy (settle t (\<lambda>m. m_ID m = i) fl')"
proof (rule tidy_settle)
  have k: "keyed fl'" using fl same by (simp add: tidy_def keyed_def)
  then show "keyed fl'" .
  show "tenants_named fl'" using fl same by (simp add: tidy_def tenants_named_def)
  fix j x
  assume "fmlookup (fl_machines fl') j = Some x"
  then have lk: "fmlookup (fl_machines fl) j = Some x" using same by simp
  with fl have sm: "settled_machine fl x" "m_ID x = j" "keyed fl"
    by (auto simp: tidy_def settled_def dest: keyed_machine)
  show "if m_ID x = i then m_TenantID x = t else settled_machine fl' x"
  proof (cases "j = i")
    case True
    with sm m lk show ?thesis by simp
  next
    case False
    have "groups_of fl (m_TenantID x) = groups_of fl' (m_TenantID x)"
      using same by (simp add: groups_of_def)
    then have "settled_machine fl' x"
      by (rule settled_machine_cong [OF sm(1,3) k]) (use mem False sm in auto)
    with False sm show ?thesis by simp
  qed
qed

lemma settle_nobody:
  "keyed fl \<Longrightarrow> fmlookup (fl_machines fl) i = None \<Longrightarrow> settle t (\<lambda>m. m_ID m = i) fl = fl"
  by (intro fleet.equality fmap_ext) (auto simp: map_option_case split: option.split dest: keyed_machine)

lemma tidy_machines_edited:
  assumes fl: "tidy fl" and f: "keeps_place f"
    and t: "\<And>i m. i \<in> ids \<Longrightarrow> fmlookup (fl_machines fl) i = Some m \<Longrightarrow> m_TenantID m = t"
  shows "tidy (settle t (\<lambda>m. m_ID m \<in> ids) (edit_machines f ids fl))"
proof (rule tidy_settle)
  fix j m
  assume "fmlookup (fl_machines (edit_machines f ids fl)) j = Some m"
  then obtain m1 where lk: "fmlookup (fl_machines fl) j = Some m1"
    and m1: "m = (if j \<in> ids then f m1 else m1)" by (auto simp: edit_machines_def)
  with fl f have "settled_machine fl m1" "m_ID m1 = j" "m_ID m = j"
    by (auto simp: tidy_def settled_def keeps_place_def dest: keyed_machine)
  with lk m1 show "if m_ID m \<in> ids then m_TenantID m = t else settled_machine (edit_machines f ids fl) m"
    using fl f t keyed_edit
    by (auto simp: tidy_def keeps_place_def intro!: settled_machine_cong [of fl m1])
       (simp_all add: edit_machines_def)
qed (use fl f keyed_edit in
    \<open>auto simp: tidy_def tenants_named_def edit_machines_def keeps_place_def split: if_splits\<close>)

lemma tidy_machine_enrolled:
  assumes fl: "tidy fl" and m: "fmlookup (fl_machines fl) (m_ID m) = None" "m_TenantID m \<noteq> []"
  shows "tidy (settle (m_TenantID m) (\<lambda>m'. m_ID m' = m_ID m) (put_machine m fl))"
proof (rule tidy_settle)
  fix j x
  assume x: "fmlookup (fl_machines (put_machine m fl)) j = Some x"
  show "if m_ID x = m_ID m then m_TenantID x = m_TenantID m else settled_machine (put_machine m fl) x"
  proof (cases "j = m_ID m")
    case True
    with x show ?thesis by (simp add: fleet_fields)
  next
    case False
    with x have lk: "fmlookup (fl_machines fl) j = Some x" by (simp add: fleet_fields)
    with fl False have "m_ID x \<noteq> m_ID m" "settled_machine fl x"
      by (auto simp: tidy_def settled_def dest: keyed_machine)
    then show ?thesis
      using fl by (auto simp: tidy_def keyed_updates intro!: settled_machine_cong [of fl x])
        (simp_all add: fleet_fields)
  qed
qed (use fl m in \<open>auto simp: tidy_def keyed_updates tenants_named_def fleet_fields\<close>)

lemma tidy_settled: "tidy fl \<Longrightarrow> fmlookup (fl_machines fl) k = Some m \<Longrightarrow> settled_machine fl m"
  by (simp add: tidy_def settled_def)

lemma tidy_keyed: "tidy fl \<Longrightarrow> keyed fl"
  by (simp add: tidy_def)

lemma tidy_machine_reported:
  assumes fl: "tidy fl" and f: "keeps_inputs f"
  shows "tidy (edit_machines f ids fl)"
proof -
  have kp: "keeps_place f" using f by (simp add: keeps_inputs_def)
  have kd: "keyed (edit_machines f ids fl)" by (rule keyed_edit [OF tidy_keyed [OF fl] kp])
  have "settled_machine (edit_machines f ids fl) (if j \<in> ids then f m else m)"
    if lk: "fmlookup (fl_machines fl) j = Some m" for j m
    by (rule settled_machine_cong [OF tidy_settled [OF fl lk] tidy_keyed [OF fl] kd])
       (use f in \<open>simp_all add: keeps_inputs_def keeps_place_def edit_machines_def groups_of_def\<close>)
  moreover have lk: "fmlookup (fl_machines (edit_machines f ids fl)) j =
      map_option (\<lambda>m. if j \<in> ids then f m else m) (fmlookup (fl_machines fl) j)" for j
    by (simp add: edit_machines_def)
  ultimately have "settled (edit_machines f ids fl)"
    unfolding settled_def lk map_option_eq_Some by blast
  with kd fl kp show ?thesis
    by (auto simp: tidy_def tenants_named_def edit_machines_def keeps_place_def split: if_splits)
qed

lemma tidy_machine_deleted:
  assumes fl: "tidy fl"
  shows "tidy (drop_machine k fl)"
proof -
  have kd: "keyed (drop_machine k fl)" by (rule keyed_updates [OF tidy_keyed [OF fl]])
  have "settled_machine (drop_machine k fl) m"
    if lk: "fmlookup (fl_machines fl) j = Some m" and "j \<noteq> k" for j m
  proof (rule settled_machine_cong [OF tidy_settled [OF fl lk] tidy_keyed [OF fl] kd])
    have "m_ID m \<noteq> k" using keyed_machine [OF tidy_keyed [OF fl] lk] that(2) by simp
    then show "(g_ID g, m_ID m) \<in> fl_members fl \<longleftrightarrow> (g_ID g, m_ID m) \<in> fl_members (drop_machine k fl)" for g
      by (simp add: fleet_fields)
  qed simp_all
  with kd fl show ?thesis
    by (simp add: tidy_def settled_def tenants_named_def fleet_fields)
qed

theorem fleet_step_tidy:
  assumes "fleet_step fl fl'" and "tidy fl"
  shows "tidy fl'"
  using assms
proof cases
  case (tenant_created tn g)
  then show ?thesis using assms(2) tidy_tenant_created by blast
next
  case (group_saved g)
  then show ?thesis using assms(2) tidy_group_saved by blast
next
  case (group_deleted k g)
  then show ?thesis using assms(2) tidy_group_deleted by blast
next
  case (member_added k g i m)
  then show ?thesis using tidy_members [OF assms(2), of "add_member k i fl" i "g_TenantID g"]
    by (auto simp: fleet_fields)
next
  case (member_removed k g i m)
  then show ?thesis using tidy_members [OF assms(2), of "remove_member k i fl" i "g_TenantID g"]
    by (auto simp: fleet_fields)
next
  case (absent_member_removed i k)
  then have "tidy (settle [] (\<lambda>m. m_ID m = i) fl')"
    using tidy_members [OF assms(2), of "remove_member k i fl" i "[]"] by (auto simp: fleet_fields)
  moreover have "keyed fl'" "fmlookup (fl_machines fl') i = None"
    using assms(2) absent_member_removed by (simp_all add: tidy_def keyed_updates fleet_fields)
  ultimately show ?thesis by (simp add: settle_nobody)
next
  case (machines_edited f ids t)
  then show ?thesis using assms(2) tidy_machines_edited by blast
next
  case (machine_enrolled m)
  then show ?thesis using assms(2) tidy_machine_enrolled by blast
next
  case (machine_reported f ids)
  then show ?thesis using assms(2) tidy_machine_reported by blast
next
  case (machine_deleted k)
  then show ?thesis using assms(2) tidy_machine_deleted by blast
qed

end
