(* ===== verification/Handler_Steps.thy ===== *)
theory Handler_Steps
  imports Recompute_Correct Fleet_Steps
begin

text \<open>
  What a handler owes: on a store that keeps the contract its effect on the contents is
  nothing or one \<^const>\<open>fleet_step\<close>, and every machine whose desired state changed, or
  that is gone, has had its topic published. The lemmas here are the steps the
  handlers are made of, in the form their proofs chain them.
\<close>

text \<open>The machines whose streams have something new to send, or must end.\<close>

definition stale_streams :: "fleet \<Rightarrow> fleet \<Rightarrow> string set" where
  "stale_streams fl fl' =
     {k. fmlookup (fl_machines fl) k \<noteq> None \<and>
         map_option m_Desired (fmlookup (fl_machines fl') k) \<noteq>
         map_option m_Desired (fmlookup (fl_machines fl) k)}"

definition unique_group_names :: "fleet \<Rightarrow> bool" where
  "unique_group_names fl \<longleftrightarrow> (\<forall>t. t \<noteq> [] \<longrightarrow> unique_names fl t)"

definition implements ::
  "('s \<Rightarrow> fleet) \<Rightarrow> ('s \<Rightarrow> bool) \<Rightarrow> 'b bus_ops \<Rightarrow> ('s, 'b) world \<Rightarrow> ('s, 'b) world \<Rightarrow> bool" where
  "implements view healthy B w w' \<longleftrightarrow>
     healthy (w_store w') \<and>
     (view (w_store w') = view (w_store w) \<or> fleet_step (view (w_store w)) (view (w_store w'))) \<and>
     (\<exists>ts. w_bus w' = fold (Publish B) ts (w_bus w) \<and>
        stale_streams (view (w_store w)) (view (w_store w')) \<subseteq> set ts)"

text \<open>A write: the contents get the stated update, the rest of the world is as before.\<close>

definition wrote ::
  "('s \<Rightarrow> fleet) \<Rightarrow> ('s \<Rightarrow> bool) \<Rightarrow> (fleet \<Rightarrow> fleet) \<Rightarrow> ('s, 'b) world \<Rightarrow> ('s, 'b) world \<Rightarrow> bool" where
  "wrote view healthy f w w' \<longleftrightarrow>
     healthy (w_store w') \<and> view (w_store w') = f (view (w_store w)) \<and>
     w_bus w' = w_bus w \<and> w_live w' = w_live w"

lemma steady_healthy: "steady view healthy w w' \<Longrightarrow> healthy (w_store w')"
  by (simp add: steady_def)

lemma steady_view: "steady view healthy w w' \<Longrightarrow> view (w_store w') = view (w_store w)"
  by (simp add: steady_def)

lemma steady_wrote:
  "steady view healthy w w1 \<Longrightarrow> wrote view healthy f w1 w2 \<Longrightarrow> wrote view healthy f w w2"
  by (simp add: steady_def wrote_def)

lemma wrote_healthy: "wrote view healthy f w w' \<Longrightarrow> healthy (w_store w')"
  by (simp add: wrote_def)

lemma steady_implements:
  "steady view healthy w w' \<Longrightarrow> implements view healthy B w w'"
  by (auto simp: steady_def implements_def stale_streams_def intro: exI [of _ "[]"])

lemma settle_cong:
  assumes "\<And>k m. fmlookup (fl_machines fl) k = Some m \<Longrightarrow> P m = Q m"
  shows "settle t P fl = settle t Q fl"
  using assms by (intro fleet.equality fmap_ext) (simp_all add: map_option_case split: option.split)

lemma stale_after:
  assumes "\<And>k. fmlookup (fl_machines fl) k \<noteq> None \<Longrightarrow>
      map_option m_Desired (fmlookup (fl_machines fl1) k) = map_option m_Desired (fmlookup (fl_machines fl) k)"
  shows "stale_streams fl fl2 \<subseteq> changed fl1 fl2"
  using assms by (force simp: stale_streams_def changed_def)

lemma unique_names_groups:
  "fl_groups fl = fl_groups fl' \<Longrightarrow> unique_names fl t = unique_names fl' t"
  by (simp add: unique_names_def groups_of_def)

context store_contract
begin

lemma get_tenant_step:
  "healthy (w_store w) \<Longrightarrow> on_store (GetTenant S k) w = (r, w') \<Longrightarrow>
   steady view healthy w w' \<and>
   r = (case fmlookup (fl_tenants (view (w_store w))) k of None \<Rightarrow> Inl ErrNotFound | Some t \<Rightarrow> Inr t)"
  using get_tenant [of "w_store w" k] by (auto simp: on_store_def steady_def split: prod.splits)

lemma get_group_step:
  "healthy (w_store w) \<Longrightarrow> on_store (GetGroup S k) w = (r, w') \<Longrightarrow>
   steady view healthy w w' \<and>
   r = (case fmlookup (fl_groups (view (w_store w))) k of None \<Rightarrow> Inl ErrNotFound | Some g \<Rightarrow> Inr g)"
  using get_group [of "w_store w" k] by (auto simp: on_store_def steady_def split: prod.splits)

lemma get_machine_step:
  "healthy (w_store w) \<Longrightarrow> on_store (GetMachine S k) w = (r, w') \<Longrightarrow>
   steady view healthy w w' \<and>
   r = (case fmlookup (fl_machines (view (w_store w))) k of None \<Rightarrow> Inl ErrNotFound | Some m \<Rightarrow> Inr m)"
  using get_machine [of "w_store w" k] by (auto simp: on_store_def steady_def split: prod.splits)

lemma get_module_step:
  "healthy (w_store w) \<Longrightarrow> on_store (GetModule S n v) w = (r, w') \<Longrightarrow>
   steady view healthy w w' \<and> r \<noteq> Inl ErrIO"
  using get_module [of "w_store w" n v] by (auto simp: on_store_def steady_def split: prod.splits)

lemma list_machines_step:
  "healthy (w_store w) \<Longrightarrow> on_store (ListMachines S t) w = (r, w') \<Longrightarrow>
   steady view healthy w w' \<and>
   (\<exists>ms. r = Inr ms \<and> distinct (map m_ID ms) \<and> set ms = machines_of (view (w_store w)) t)"
  using list_machines [of "w_store w" t] by (auto simp: on_store_def steady_def split: prod.splits)

lemma list_groups_step:
  "healthy (w_store w) \<Longrightarrow> on_store (ListGroups S t) w = (r, w') \<Longrightarrow>
   steady view healthy w w' \<and>
   (\<exists>gs. r = Inr gs \<and> distinct (map g_ID gs) \<and> set gs = groups_of (view (w_store w)) t)"
  using list_groups [of "w_store w" t] by (auto simp: on_store_def steady_def split: prod.splits)

lemma list_modules_step:
  "healthy (w_store w) \<Longrightarrow> on_store (ListModules S) w = (r, w') \<Longrightarrow>
   steady view healthy w w' \<and> (\<exists>as. r = Inr as)"
  using list_modules [of "w_store w"] by (auto simp: on_store_def steady_def split: prod.splits)

lemma list_tenants_step:
  "healthy (w_store w) \<Longrightarrow> on_store (ListTenants S) w = (r, w') \<Longrightarrow> steady view healthy w w'"
  using list_tenants [of "w_store w"] by (auto simp: on_store_def steady_def split: prod.splits)

lemma token_steps:
  "healthy (w_store w) \<Longrightarrow> on_store (ConsumeToken S now tok) w = (r, w') \<Longrightarrow> steady view healthy w w'"
  "healthy (w_store w) \<Longrightarrow> on_store (SaveToken S tk) w = (r2, w') \<Longrightarrow> steady view healthy w w'"
  using consume_token [of "w_store w" now tok] save_token [of "w_store w" tk]
  by (auto simp: on_store_def steady_def split: prod.splits)

lemma module_write_steps:
  "healthy (w_store w) \<Longrightarrow> on_store (SaveModule S a) w = (r, w') \<Longrightarrow>
   steady view healthy w w' \<and> r = Inr ()"
  "healthy (w_store w) \<Longrightarrow> on_store (DeleteModule S n v) w = (r, w') \<Longrightarrow>
   steady view healthy w w' \<and> r = Inr ()"
  using save_module [of "w_store w" a] delete_module [of "w_store w" n v]
  by (auto simp: on_store_def steady_def split: prod.splits)

lemma save_tenant_step:
  "healthy (w_store w) \<Longrightarrow> fmlookup (fl_tenants (view (w_store w))) (t_ID tn) = None \<Longrightarrow>
   on_store (SaveTenant S tn) w = (r, w') \<Longrightarrow> r = Inr () \<and> wrote view healthy (put_tenant tn) w w'"
  using save_tenant [of "w_store w" tn] by (auto simp: on_store_def wrote_def split: prod.splits)

lemma save_group_step:
  "healthy (w_store w) \<Longrightarrow> same_group_place (view (w_store w)) g \<Longrightarrow>
   on_store (SaveGroup S g) w = (r, w') \<Longrightarrow> r = Inr () \<and> wrote view healthy (put_group g) w w'"
  using save_group [of "w_store w" g] by (auto simp: on_store_def wrote_def split: prod.splits)

lemma delete_group_step:
  "healthy (w_store w) \<Longrightarrow> on_store (DeleteGroup S k) w = (r, w') \<Longrightarrow>
   r = Inr () \<and> wrote view healthy (drop_group k) w w'"
  using delete_group [of "w_store w" k] by (auto simp: on_store_def wrote_def split: prod.splits)

lemma member_steps:
  "healthy (w_store w) \<Longrightarrow> on_store (AddGroupMember S k i) w = (r, w') \<Longrightarrow>
   r = Inr () \<and> wrote view healthy (add_member k i) w w'"
  "healthy (w_store w) \<Longrightarrow> on_store (RemoveGroupMember S k i) w = (r, w') \<Longrightarrow>
   r = Inr () \<and> wrote view healthy (remove_member k i) w w'"
  using add_group_member [of "w_store w" k i] remove_group_member [of "w_store w" k i]
  by (auto simp: on_store_def wrote_def split: prod.splits)

lemma save_machine_step:
  "healthy (w_store w) \<Longrightarrow> same_place (view (w_store w)) m \<Longrightarrow>
   on_store (SaveMachine S m) w = (r, w') \<Longrightarrow> r = Inr () \<and> wrote view healthy (put_machine m) w w'"
  using save_machine [of "w_store w" m] by (auto simp: on_store_def wrote_def split: prod.splits)

lemma delete_machine_step:
  "healthy (w_store w) \<Longrightarrow> on_store (DeleteMachine S k) w = (r, w') \<Longrightarrow>
   r = Inr () \<and> wrote view healthy (drop_machine k) w w'"
  using delete_machine [of "w_store w" k] by (auto simp: on_store_def wrote_def split: prod.splits)

end

section \<open>Recompute touches desired states only\<close>

text \<open>
  Without any assumption on names: whatever \<open>Recompute\<close> does, tenants, groups and
  memberships stay, and of a machine only the desired state moves.
\<close>

definition only_desired :: "fleet \<Rightarrow> fleet \<Rightarrow> bool" where
  "only_desired fl fl' \<longleftrightarrow>
     fl_tenants fl' = fl_tenants fl \<and> fl_groups fl' = fl_groups fl \<and> fl_members fl' = fl_members fl \<and>
     (\<forall>k. map_option (m_Desired_update (\<lambda>_. zero_desired)) (fmlookup (fl_machines fl') k) =
          map_option (m_Desired_update (\<lambda>_. zero_desired)) (fmlookup (fl_machines fl) k))"

lemma only_desired_refl: "only_desired fl fl"
  by (simp add: only_desired_def)

lemma only_desired_trans: "only_desired fl fl1 \<Longrightarrow> only_desired fl1 fl2 \<Longrightarrow> only_desired fl fl2"
  by (simp add: only_desired_def)

lemma only_desired_put:
  assumes "only_desired fl fl1" and "fmlookup (fl_machines fl) (m_ID m) = Some m"
  shows "only_desired fl (put_machine (m\<lparr>m_Desired := d\<rparr>) fl1)"
  using assms by (auto simp: only_desired_def put_machine_def)

lemma only_desired_place:
  assumes "only_desired fl fl1" and "fmlookup (fl_machines fl) (m_ID m) = Some m"
  shows "same_place fl1 (m\<lparr>m_Desired := d\<rparr>)"
proof -
  have "m_TenantID m0 = m_TenantID m \<and> m_Enrolled m0 = m_Enrolled m"
    if "fmlookup (fl_machines fl1) (m_ID m) = Some m0" for m0
  proof -
    have "m0\<lparr>m_Desired := zero_desired\<rparr> = m\<lparr>m_Desired := zero_desired\<rparr>"
      using assms that by (auto simp: only_desired_def dest!: spec [of _ "m_ID m"])
    then show ?thesis by (metis machine.select_convs machine.update_convs(9) machine.surjective)
  qed
  then show ?thesis by (simp add: same_place_def)
qed

context store_contract
begin

lemma recompute_each_only_desired:
  assumes "healthy (w_store w)" and "only_desired fl (view (w_store w))"
    and "\<And>m. m \<in> set ms \<Longrightarrow> fmlookup (fl_machines fl) (m_ID m) = Some m"
  shows "healthy (w_store (snd (recompute_each S B env i members groups ms w))) \<and>
    only_desired fl (view (w_store (snd (recompute_each S B env i members groups ms w))))"
  using assms
proof (induction ms arbitrary: i groups w)
  case Nil
  then show ?case by simp
next
  case (Cons m ms)
  obtain nxt groups' where c: "computeModules (env i) m groups members = (nxt, groups')" by fastforce
  have lk: "fmlookup (fl_machines fl) (m_ID m) = Some m" using Cons.prems(3) by simp
  have rest: "\<And>x. x \<in> set ms \<Longrightarrow> fmlookup (fl_machines fl) (m_ID x) = Some x"
    using Cons.prems(3) by simp
  show ?case
  proof (cases "ds_Modules (m_Desired m) = Some nxt")
    case True
    with c Cons.IH [OF Cons.prems(1,2) rest] show ?thesis by simp
  next
    case False
    let ?m' = "m\<lparr>m_Desired := \<lparr>ds_Revision = ds_Revision (m_Desired m) + 1, ds_Modules = Some nxt\<rparr>\<rparr>"
    obtain r w1 where s: "on_store (SaveMachine S ?m') w = (r, w1)" by fastforce
    from save_machine_step [OF Cons.prems(1) only_desired_place [OF Cons.prems(2) lk] s]
    have r: "r = Inr ()" and wr: "wrote view healthy (put_machine ?m') w w1" by simp_all
    then have "only_desired fl (view (w_store (publish B (m_ID ?m') w1)))"
      using only_desired_put [OF Cons.prems(2) lk] by (simp add: wrote_def)
    moreover have "healthy (w_store (publish B (m_ID ?m') w1))" using wr by (simp add: wrote_def)
    ultimately show ?thesis
      using Cons.IH [of "publish B (m_ID ?m') w1" "Suc i" groups'] rest False c s r
      by (simp add: Let_def)
  qed
qed

lemma load_machines_found:
  assumes "healthy (w_store w)" and "load_machines S ids ms0 w = (r, w')"
    and "\<And>m. m \<in> set ms0 \<Longrightarrow> fmlookup (fl_machines (view (w_store w))) (m_ID m) = Some m"
  shows "steady view healthy w w' \<and>
    (\<forall>ms. r = Inr ms \<longrightarrow> (\<forall>m\<in>set ms. fmlookup (fl_machines (view (w_store w))) (m_ID m) = Some m))"
  using assms
proof (induction ids arbitrary: ms0 w)
  case Nil
  then show ?case by (auto simp: steady_def)
next
  case (Cons i ids)
  obtain r1 w1 where g: "on_store (GetMachine S i) w = (r1, w1)" by fastforce
  note st = get_machine_step [OF Cons.prems(1) g]
  show ?case
  proof (cases "fmlookup (fl_machines (view (w_store w))) i")
    case None
    with st g Cons.prems(2) show ?thesis by auto
  next
    case (Some m)
    have v: "view (w_store w1) = view (w_store w)" using st by (simp add: steady_def)
    have "m_ID m = i" using Some keyed_machine [OF view_keyed [OF Cons.prems(1)]] by blast
    with Some Cons.prems(3) have "\<And>x. x \<in> set (ms0 @ [m]) \<Longrightarrow>
        fmlookup (fl_machines (view (w_store w1))) (m_ID x) = Some x" by (auto simp: v)
    moreover have "load_machines S ids (ms0 @ [m]) w1 = (r, w')"
      using st g Cons.prems(2) Some by simp
    ultimately have "steady view healthy w1 w' \<and> (\<forall>ms. r = Inr ms \<longrightarrow>
        (\<forall>m\<in>set ms. fmlookup (fl_machines (view (w_store w1))) (m_ID m) = Some m))"
      using Cons.IH [of w1 "ms0 @ [m]"] st by (simp add: steady_def)
    then show ?thesis using st v by (metis steady_trans)
  qed
qed

theorem Recompute_only_desired:
  assumes "healthy (w_store w)"
  shows "healthy (w_store (snd (Recompute S B env t ids w))) \<and>
    only_desired (view (w_store w)) (view (w_store (snd (Recompute S B env t ids w))))"
proof -
  obtain r1 w1 where g: "on_store (ListGroups S t) w = (r1, w1)" by fastforce
  from list_groups_step [OF assms g] obtain gs where
    st1: "steady view healthy w w1" and r1: "r1 = Inr gs" by blast
  from load_members_ok [OF steady_healthy [OF st1], of gs fmempty] obtain members w2 where
    mem: "load_members S gs fmempty w1 = (Inr members, w2)" and st2: "steady view healthy w1 w2" by blast
  note st12 = steady_trans [OF st1 st2]
  obtain r3 w3 where m: "(if ids = [] then on_store (ListMachines S t) w2 else load_machines S ids [] w2) = (r3, w3)"
    by fastforce
  have "steady view healthy w2 w3 \<and>
      (\<forall>ms. r3 = Inr ms \<longrightarrow> (\<forall>x\<in>set ms. fmlookup (fl_machines (view (w_store w2))) (m_ID x) = Some x))"
    using m list_machines_step [OF steady_healthy [OF st12], of t r3 w3]
      load_machines_found [OF steady_healthy [OF st12], of ids "[]" r3 w3]
    by (auto simp: machines_of_def split: if_splits)
  then have st: "steady view healthy w w3" and found: "\<And>ms x. r3 = Inr ms \<Longrightarrow> x \<in> set ms \<Longrightarrow>
      fmlookup (fl_machines (view (w_store w))) (m_ID x) = Some x"
    using steady_trans [OF st12] steady_view [OF st12] by auto
  show ?thesis
  proof (cases r3)
    case (Inl e)
    with g r1 mem m st show ?thesis
      by (simp add: Recompute_def steady_def only_desired_refl)
  next
    case (Inr ms)
    with g r1 mem m have "Recompute S B env t ids w = recompute_each S B env 0 members gs ms w3"
      by (simp add: Recompute_def)
    then show ?thesis
      using recompute_each_only_desired [of w3 "view (w_store w)" ms] found [OF Inr] st
      by (simp add: steady_def only_desired_refl)
  qed
qed

text \<open>The end of every handler that edits: the edit is in the store, \<open>Recompute\<close> follows.\<close>

lemma recompute_implements:
  assumes w1: "wrote view healthy f w w1"
    and names: "unique_group_names (view (w_store (snd (Recompute S B env t ids w1))))"
    and t: "t \<noteq> []" and ids: "distinct ids" "\<And>i. i \<in> set ids \<Longrightarrow> fmlookup (fl_machines (f (view (w_store w)))) i \<noteq> None"
    and P: "\<And>k m. fmlookup (fl_machines (f (view (w_store w)))) k = Some m \<Longrightarrow>
      P m = (if ids = [] then m_TenantID m = t else m_ID m \<in> set ids)"
    and step: "fleet_step (view (w_store w)) (settle t P (f (view (w_store w))))"
    and same: "\<And>k. fmlookup (fl_machines (view (w_store w))) k \<noteq> None \<Longrightarrow>
      map_option m_Desired (fmlookup (fl_machines (f (view (w_store w)))) k) =
      map_option m_Desired (fmlookup (fl_machines (view (w_store w))) k)"
  shows "implements view healthy B w (snd (Recompute S B env t ids w1)) \<and>
    view (w_store (snd (Recompute S B env t ids w1))) = settle t P (f (view (w_store w))) \<and>
    w_live (snd (Recompute S B env t ids w1)) = w_live w"
proof -
  have h1: "healthy (w_store w1)" and v1: "view (w_store w1) = f (view (w_store w))"
    and b1: "w_bus w1 = w_bus w" "w_live w1 = w_live w" using w1 by (simp_all add: wrote_def)
  have "fl_groups (view (w_store (snd (Recompute S B env t ids w1)))) = fl_groups (view (w_store w1))"
    using Recompute_only_desired [OF h1, of B env t ids] by (simp add: only_desired_def)
  with names t have u: "unique_names (view (w_store w1)) t"
    using unique_names_groups by (metis unique_group_names_def)
  have ex: "\<And>i. i \<in> set ids \<Longrightarrow> fmlookup (fl_machines (view (w_store w1))) i \<noteq> None"
    using ids(2) by (simp add: v1)
  from Recompute_ok [OF h1 u ids(1) ex, of B env] obtain w' ts where
    r: "Recompute S B env t ids w1 = (Inr (), w')" "healthy (w_store w')"
      "view (w_store w') =
        settle t (\<lambda>m. if ids = [] then in_tenant t (m_TenantID m) else m_ID m \<in> set ids) (view (w_store w1))"
      "w_bus w' = fold (Publish B) ts (w_bus w1)"
      "set ts = changed (view (w_store w1)) (view (w_store w'))" "w_live w' = w_live w1" by blast
  have "settle t (\<lambda>m. if ids = [] then in_tenant t (m_TenantID m) else m_ID m \<in> set ids) (view (w_store w1)) =
      settle t P (f (view (w_store w)))"
    unfolding v1 by (rule settle_cong) (simp add: P in_tenant_def t)
  with r(3) have v': "view (w_store w') = settle t P (f (view (w_store w)))" by simp
  have "stale_streams (view (w_store w)) (view (w_store w')) \<subseteq> set ts"
    unfolding r(5) v1 by (rule stale_after) (rule same)
  then have "implements view healthy B w w'"
    unfolding implements_def using r(2,4) step b1(1) by (intro conjI exI [of _ ts]) (simp_all add: v')
  with r(1,6) v' b1 show ?thesis by simp
qed

end

end
