(* ===== verification/Http.thy ===== *)
theory Http
  imports Prelude
begin

text \<open>
  What a handler answers, and the status codes of \<open>net/http\<close> the code uses. A handler is
  a function of the decoded request (\<^term>\<open>None\<close> when the body does not decode) and the
  state, and gives a response and the next state. Headers and logging are left out.
\<close>

abbreviation StatusBadRequest :: nat where "StatusBadRequest \<equiv> 400"
abbreviation StatusUnauthorized :: nat where "StatusUnauthorized \<equiv> 401"
abbreviation StatusForbidden :: nat where "StatusForbidden \<equiv> 403"
abbreviation StatusNotFound :: nat where "StatusNotFound \<equiv> 404"
abbreviation StatusInternalServerError :: nat where "StatusInternalServerError \<equiv> 500"
abbreviation StatusServiceUnavailable :: nat where "StatusServiceUnavailable \<equiv> 503"

text \<open>\<open>http.Error\<close>, \<open>WriteHeader(StatusNoContent)\<close>, \<open>writeJSON\<close>, and a plain body.\<close>

datatype 'a response = HttpError nat string | NoContent | Json 'a | Plain string

fun is_error :: "'a response \<Rightarrow> bool" where
  "is_error (HttpError _ _) = True"
| "is_error _ = False"

end
