(* ===== verification/Group_Api.thy ===== *)
theory Group_Api
  imports Recompute_Correct Http
begin

text \<open>
  The group endpoints and the label endpoint of the operator API
  (\<open>internal/server/groups.go\<close>), over any store and any bus. Identifiers from \<open>newID\<close> and
  readings of the clock are arguments. A failed \<open>Recompute\<close> is logged and otherwise
  ignored, as in the code.
\<close>

section \<open>Handlers\<close>

fun validateModules ::
  "'s store_ops \<Rightarrow> module_spec list \<Rightarrow> ('s, 'b) world \<Rightarrow> 'a response option \<times> ('s, 'b) world" where
  "validateModules S [] w = (None, w)"
| "validateModules S (spec # specs) w =
     (case on_store (GetModule S (ms_Name spec) (ms_Version spec)) w of
        (Inl e, w') \<Rightarrow>
          (if e = ErrNotFound
           then (Some (HttpError StatusBadRequest
                   (''unknown module '' @ ms_Name spec @ ''@'' @ ms_Version spec)), w')
           else (Some (HttpError StatusInternalServerError ''store error''), w'))
      | (Inr _, w') \<Rightarrow> validateModules S specs w')"

record create_group_req =
  cg_TenantID :: string
  cg_Name :: string
  cg_MatchAll :: bool
  cg_Selector :: "string gomap"
  cg_Modules :: "module_spec list"

definition createGroup ::
  "'s store_ops \<Rightarrow> 'b bus_ops \<Rightarrow> (nat \<Rightarrow> choices) \<Rightarrow> int64 \<Rightarrow> string \<Rightarrow> create_group_req option \<Rightarrow>
   ('s, 'b) world \<Rightarrow> group response \<times> ('s, 'b) world" where
  "createGroup S B env now newID body w =
     (case body of
        None \<Rightarrow> (HttpError StatusBadRequest ''tenant_id and name required'', w)
      | Some req \<Rightarrow>
          if cg_TenantID req = [] \<or> cg_Name req = []
          then (HttpError StatusBadRequest ''tenant_id and name required'', w)
          else (case on_store (GetTenant S (cg_TenantID req)) w of
             (Inl _, w1) \<Rightarrow> (HttpError StatusNotFound ''unknown tenant'', w1)
           | (Inr _, w1) \<Rightarrow>
               (case validateModules S (cg_Modules req) w1 of
                  (Some r, w2) \<Rightarrow> (r, w2)
                | (None, w2) \<Rightarrow>
                    let g = \<lparr>g_ID = newID, g_TenantID = cg_TenantID req, g_Name = cg_Name req,
                             g_MatchAll = cg_MatchAll req, g_Selector = cg_Selector req,
                             g_Modules = cg_Modules req, g_Created = now\<rparr>
                    in (case on_store (SaveGroup S g) w2 of
                          (Inl _, w3) \<Rightarrow> (HttpError StatusInternalServerError ''store error'', w3)
                        | (Inr _, w3) \<Rightarrow> (Json g, snd (Recompute S B env (g_TenantID g) [] w3))))))"

definition listGroups ::
  "'s store_ops \<Rightarrow> string \<Rightarrow> ('s, 'b) world \<Rightarrow> group list response \<times> ('s, 'b) world" where
  "listGroups S tenant w =
     (case on_store (ListGroups S tenant) w of
        (Inl _, w1) \<Rightarrow> (HttpError StatusInternalServerError ''store error'', w1)
      | (Inr gs, w1) \<Rightarrow> (Json gs, w1))"

text \<open>The fields of a \<open>PATCH\<close> are pointers: absent ones leave the group as it is.\<close>

record update_group_req =
  ug_Name :: "string option"
  ug_Selector :: "string gomap option"
  ug_Modules :: "module_spec list option"

definition updateGroup ::
  "'s store_ops \<Rightarrow> 'b bus_ops \<Rightarrow> (nat \<Rightarrow> choices) \<Rightarrow> string \<Rightarrow> update_group_req option \<Rightarrow>
   ('s, 'b) world \<Rightarrow> group response \<times> ('s, 'b) world" where
  "updateGroup S B env pid body w =
     (case on_store (GetGroup S pid) w of
        (Inl _, w1) \<Rightarrow> (HttpError StatusNotFound ''not found'', w1)
      | (Inr g, w1) \<Rightarrow>
          (case body of
             None \<Rightarrow> (HttpError StatusBadRequest ''bad request'', w1)
           | Some req \<Rightarrow>
               let g1 = (case ug_Name req of None \<Rightarrow> g | Some n \<Rightarrow> g\<lparr>g_Name := n\<rparr>);
                   g2 = (case ug_Selector req of None \<Rightarrow> g1 | Some s \<Rightarrow> g1\<lparr>g_Selector := s\<rparr>)
               in (case (case ug_Modules req of
                           None \<Rightarrow> (None, w1, g2)
                         | Some ms \<Rightarrow>
                             (case validateModules S ms w1 of
                                (Some r, w2) \<Rightarrow> (Some r, w2, g2)
                              | (None, w2) \<Rightarrow> (None, w2, g2\<lparr>g_Modules := ms\<rparr>))) of
                     (Some r, w2, g3) \<Rightarrow> (r, w2)
                   | (None, w2, g3) \<Rightarrow>
                       (case on_store (SaveGroup S g3) w2 of
                          (Inl _, w3) \<Rightarrow> (HttpError StatusInternalServerError ''store error'', w3)
                        | (Inr _, w3) \<Rightarrow> (Json g3, snd (Recompute S B env (g_TenantID g3) [] w3))))))"

definition deleteGroup ::
  "'s store_ops \<Rightarrow> 'b bus_ops \<Rightarrow> (nat \<Rightarrow> choices) \<Rightarrow> string \<Rightarrow>
   ('s, 'b) world \<Rightarrow> unit response \<times> ('s, 'b) world" where
  "deleteGroup S B env pid w =
     (case on_store (GetGroup S pid) w of
        (Inl _, w1) \<Rightarrow> (HttpError StatusNotFound ''not found'', w1)
      | (Inr g, w1) \<Rightarrow>
          (case on_store (DeleteGroup S (g_ID g)) w1 of
             (Inl _, w2) \<Rightarrow> (HttpError StatusInternalServerError ''store error'', w2)
           | (Inr _, w2) \<Rightarrow> (NoContent, snd (Recompute S B env (g_TenantID g) [] w2))))"

definition addGroupMember ::
  "'s store_ops \<Rightarrow> 'b bus_ops \<Rightarrow> (nat \<Rightarrow> choices) \<Rightarrow> string \<Rightarrow> string option \<Rightarrow>
   ('s, 'b) world \<Rightarrow> unit response \<times> ('s, 'b) world" where
  "addGroupMember S B env pid body w =
     (case on_store (GetGroup S pid) w of
        (Inl _, w1) \<Rightarrow> (HttpError StatusNotFound ''group not found'', w1)
      | (Inr g, w1) \<Rightarrow>
          (case body of
             None \<Rightarrow> (HttpError StatusBadRequest ''machine_id required'', w1)
           | Some machineID \<Rightarrow>
               if machineID = [] then (HttpError StatusBadRequest ''machine_id required'', w1)
               else (case on_store (GetMachine S machineID) w1 of
                  (Inl _, w2) \<Rightarrow> (HttpError StatusNotFound ''unknown machine in this tenant'', w2)
                | (Inr m, w2) \<Rightarrow>
                    if m_TenantID m \<noteq> g_TenantID g
                    then (HttpError StatusNotFound ''unknown machine in this tenant'', w2)
                    else (case on_store (AddGroupMember S (g_ID g) (m_ID m)) w2 of
                       (Inl _, w3) \<Rightarrow> (HttpError StatusInternalServerError ''store error'', w3)
                     | (Inr _, w3) \<Rightarrow>
                         (NoContent, snd (Recompute S B env (g_TenantID g) [m_ID m] w3))))))"

definition removeGroupMember ::
  "'s store_ops \<Rightarrow> 'b bus_ops \<Rightarrow> (nat \<Rightarrow> choices) \<Rightarrow> string \<Rightarrow> string \<Rightarrow>
   ('s, 'b) world \<Rightarrow> unit response \<times> ('s, 'b) world" where
  "removeGroupMember S B env pid mid w =
     (case on_store (GetGroup S pid) w of
        (Inl _, w1) \<Rightarrow> (HttpError StatusNotFound ''group not found'', w1)
      | (Inr g, w1) \<Rightarrow>
          (case on_store (RemoveGroupMember S (g_ID g) mid) w1 of
             (Inl _, w2) \<Rightarrow> (HttpError StatusInternalServerError ''store error'', w2)
           | (Inr _, w2) \<Rightarrow> (NoContent, snd (Recompute S B env (g_TenantID g) [mid] w2))))"

record member_row =
  mem_MachineID :: string
  mem_Name :: string
  mem_Via :: string

definition member_row_of :: "group \<Rightarrow> bool gomap \<Rightarrow> machine \<Rightarrow> member_row list" where
  "member_row_of g explicitSet m =
     (let exp = go_index False explicitSet (m_ID m);
          sel = selectorMatches (g_Selector g) (m_Labels m)
      in if \<not> g_MatchAll g \<and> \<not> exp \<and> \<not> sel then []
         else [\<lparr>mem_MachineID = m_ID m, mem_Name = m_Name m,
                mem_Via = (if g_MatchAll g then ''all''
                           else if exp \<and> sel then ''both''
                           else if sel then ''selector'' else ''explicit'')\<rparr>])"

definition listGroupMembers ::
  "'s store_ops \<Rightarrow> string \<Rightarrow> ('s, 'b) world \<Rightarrow> member_row list response \<times> ('s, 'b) world" where
  "listGroupMembers S pid w =
     (case on_store (GetGroup S pid) w of
        (Inl _, w1) \<Rightarrow> (HttpError StatusNotFound ''group not found'', w1)
      | (Inr g, w1) \<Rightarrow>
          (case on_store (ListGroupMembers S (g_ID g)) w1 of
             (Inl _, w2) \<Rightarrow> (HttpError StatusInternalServerError ''store error'', w2)
           | (Inr explicit, w2) \<Rightarrow>
               let explicitSet = fold (\<lambda>i. fmupd i True) explicit fmempty
               in (case on_store (ListMachines S (g_TenantID g)) w2 of
                     (Inl _, w3) \<Rightarrow> (HttpError StatusInternalServerError ''store error'', w3)
                   | (Inr machines, w3) \<Rightarrow>
                       (Json (concat (map (member_row_of g explicitSet) machines)), w3))))"

text \<open>\<open>putLabels\<close> echoes the machine's ID and its labels.\<close>

definition putLabels ::
  "'s store_ops \<Rightarrow> 'b bus_ops \<Rightarrow> (nat \<Rightarrow> choices) \<Rightarrow> string \<Rightarrow> string gomap option \<Rightarrow>
   ('s, 'b) world \<Rightarrow> (string \<times> string gomap) response \<times> ('s, 'b) world" where
  "putLabels S B env pid body w =
     (case on_store (GetMachine S pid) w of
        (Inl _, w1) \<Rightarrow> (HttpError StatusNotFound ''not found'', w1)
      | (Inr m0, w1) \<Rightarrow>
          (case body of
             None \<Rightarrow> (HttpError StatusBadRequest ''bad request'', w1)
           | Some labels \<Rightarrow>
               let m = m0\<lparr>m_Labels := labels\<rparr>
               in (case on_store (SaveMachine S m) w1 of
                     (Inl _, w2) \<Rightarrow> (HttpError StatusInternalServerError ''store error'', w2)
                   | (Inr _, w2) \<Rightarrow>
                       (Json (m_ID m, m_Labels m), snd (Recompute S B env (m_TenantID m) [m_ID m] w2)))))"

end
