(* ===== verification/Group_Api_Correct.thy ===== *)
theory Group_Api_Correct
  imports Handler_Steps Group_Api
begin

text \<open>
  The group and label endpoints implement the steps of the specification: on a store
  that keeps the contract each leaves the contents alone or makes one
  \<^const>\<open>fleet_step\<close>, and wakes the streams of the machines it changed.
\<close>

definition edit_labels :: "string gomap \<Rightarrow> machine \<Rightarrow> machine" where
  "edit_labels labels m = m\<lparr>m_Labels := labels\<rparr>"

lemma put_machine_edit:
  assumes "keyed fl" "fmlookup (fl_machines fl) k = Some m" "keeps_place f"
  shows "put_machine (f m) fl = edit_machines f {k} fl"
proof -
  have "m_ID (f m) = k" using assms by (simp add: keyed_machine keeps_place_def)
  with assms(2) show ?thesis
    by (intro fleet.equality fmap_ext)
      (auto simp: put_machine_def edit_machines_def map_option_case split: option.split)
qed

lemma edit_machines_simps [simp]:
  "fmlookup (fl_machines (edit_machines f ids fl)) k =
     map_option (\<lambda>m. if k \<in> ids then f m else m) (fmlookup (fl_machines fl) k)"
  "fl_groups (edit_machines f ids fl) = fl_groups fl"
  "fl_members (edit_machines f ids fl) = fl_members fl"
  "fl_tenants (edit_machines f ids fl) = fl_tenants fl"
  by (simp_all add: edit_machines_def)

context store_contract
begin

lemma validateModules_steady:
  assumes "healthy (w_store w)" "validateModules S specs w = (r, w')"
  shows "steady view healthy w w'"
  using assms
proof (induction specs arbitrary: w)
  case Nil
  then show ?case by (simp add: steady_def)
next
  case (Cons sp specs)
  obtain r1 w1 where g: "on_store (GetModule S (ms_Name sp) (ms_Version sp)) w = (r1, w1)" by fastforce
  from get_module_step [OF Cons.prems(1) g] have st: "steady view healthy w w1" by simp
  show ?case
  proof (cases r1)
    case (Inl e)
    with g st Cons.prems show ?thesis by (auto split: if_splits)
  next
    case (Inr a)
    with g Cons.prems have "validateModules S specs w1 = (r, w')" by simp
    from steady_trans [OF st Cons.IH [OF steady_healthy [OF st] this]] show ?thesis .
  qed
qed

text \<open>Saving a group and recomputing its tenant: the end of four handlers.\<close>

lemma saved_group_implements:
  assumes w3: "wrote view healthy (put_group g) w w3"
    and g: "same_group_place (view (w_store w)) g" "g_TenantID g \<noteq> []"
    and names: "unique_group_names (view (w_store (snd (Recompute S B env (g_TenantID g) [] w3))))"
  shows "implements view healthy B w (snd (Recompute S B env (g_TenantID g) [] w3))"
  using recompute_implements [OF w3 names g(2), where P = "\<lambda>m. m_TenantID m = g_TenantID g"]
    group_saved [OF g] by (simp add: fleet_fields)

lemma save_group_implements:
  assumes st: "steady view healthy w w2" and g: "same_group_place (view (w_store w)) g"
    and s: "on_store (SaveGroup S g) w2 = (r, w3)"
  shows "r = Inr () \<and> wrote view healthy (put_group g) w w3"
proof -
  have "same_group_place (view (w_store w2)) g" using g(1) by (simp add: steady_view [OF st])
  from save_group_step [OF steady_healthy [OF st] this s] show ?thesis
    using steady_wrote [OF st] by simp
qed

lemma createGroup_implements:
  assumes "healthy (w_store w)" "tidy (view (w_store w))"
    and c: "createGroup S B env now newID body w = (r, w')"
    and fresh: "fmlookup (fl_groups (view (w_store w))) newID = None"
    and names: "unique_group_names (view (w_store w'))"
  shows "implements view healthy B w w'"
proof (cases "\<exists>req. body = Some req \<and> cg_TenantID req \<noteq> [] \<and> cg_Name req \<noteq> []")
  case False
  then have "w' = w" using c by (auto simp: createGroup_def split: option.splits if_splits)
  then show ?thesis using assms(1) by (simp add: steady_implements steady_def)
next
  case True
  then obtain req where req: "body = Some req" "cg_TenantID req \<noteq> []" "cg_Name req \<noteq> []" by blast
  obtain r1 w1 where t: "on_store (GetTenant S (cg_TenantID req)) w = (r1, w1)" by fastforce
  have st1: "steady view healthy w w1" using get_tenant_step [OF assms(1) t] by simp
  obtain v :: "group response option" and w2 where v: "validateModules S (cg_Modules req) w1 = (v, w2)" by fastforce
  have st2: "steady view healthy w w2"
    using steady_trans [OF st1 validateModules_steady [OF steady_healthy [OF st1] v]] .
  let ?g = "\<lparr>g_ID = newID, g_TenantID = cg_TenantID req, g_Name = cg_Name req,
      g_MatchAll = cg_MatchAll req, g_Selector = cg_Selector req,
      g_Modules = cg_Modules req, g_Created = now\<rparr>"
  obtain r3 w3 where s: "on_store (SaveGroup S ?g) w2 = (r3, w3)" by fastforce
  have g: "same_group_place (view (w_store w)) ?g" using fresh by (simp add: same_group_place_def)
  from save_group_implements [OF st2 this s]
  have r3: "r3 = Inr ()" and w3: "wrote view healthy (put_group ?g) w w3" by simp_all
  with c req t v s have "w' = w1 \<or> w' = w2 \<or> w' = snd (Recompute S B env (cg_TenantID req) [] w3)"
    by (auto simp: createGroup_def Let_def split: sum.splits option.splits)
  then show ?thesis
    using steady_implements [OF st1] steady_implements [OF st2] names req
      saved_group_implements [OF w3 g, of B env]
    by auto
qed

lemma updateGroup_implements:
  assumes "healthy (w_store w)" "tidy (view (w_store w))"
    and c: "updateGroup S B env pid body w = (r, w')"
    and names: "unique_group_names (view (w_store w'))"
  shows "implements view healthy B w w'"
proof -
  obtain r1 w1 where g: "on_store (GetGroup S pid) w = (r1, w1)" by fastforce
  note gg = get_group_step [OF assms(1) g]
  then have st1: "steady view healthy w w1" by simp
  show ?thesis
  proof (cases "\<exists>g req. r1 = Inr g \<and> body = Some req")
    case False
    then have "w' = w1" using c g by (auto simp: updateGroup_def split: option.splits sum.splits)
    then show ?thesis using steady_implements [OF st1] by simp
  next
    case True
    then obtain g0 req where req: "r1 = Inr g0" "body = Some req" by blast
    then have lk: "fmlookup (fl_groups (view (w_store w))) pid = Some g0"
      using gg by (auto split: option.splits)
    let ?g1 = "case ug_Name req of None \<Rightarrow> g0 | Some n \<Rightarrow> g0\<lparr>g_Name := n\<rparr>"
    let ?g2 = "case ug_Selector req of None \<Rightarrow> ?g1 | Some s \<Rightarrow> ?g1\<lparr>g_Selector := s\<rparr>"
    let ?g3 = "case ug_Modules req of None \<Rightarrow> ?g2 | Some ms \<Rightarrow> ?g2\<lparr>g_Modules := ms\<rparr>"
    obtain v :: "group response option" and w2 where
      v: "(case ug_Modules req of None \<Rightarrow> (None, w1) | Some ms \<Rightarrow> validateModules S ms w1) = (v, w2)"
      by fastforce
    have "steady view healthy w1 w2"
      using v validateModules_steady [OF steady_healthy [OF st1]] steady_healthy [OF st1]
      by (auto simp: steady_def split: option.splits)
    with st1 have st2: "steady view healthy w w2" by (rule steady_trans)
    obtain r3 w3 where s: "on_store (SaveGroup S ?g3) w2 = (r3, w3)" by fastforce
    have "g_ID g0 = pid" using keyed_group [OF tidy_keyed [OF assms(2)] lk] .
    with lk have same: "same_group_place (view (w_store w)) ?g3"
      by (auto simp: same_group_place_def split: option.splits)
    have tn: "g_TenantID ?g3 \<noteq> []" using lk assms(2)
      by (auto simp: tidy_def tenants_named_def split: option.splits)
    from save_group_implements [OF st2 same s]
    have r3: "r3 = Inr ()" and w3: "wrote view healthy (put_group ?g3) w w3" by simp_all
    then have "w' = w2 \<or> w' = snd (Recompute S B env (g_TenantID ?g3) [] w3)"
      using c g req v s by (auto simp: updateGroup_def Let_def split: option.splits)
    then show ?thesis
      using steady_implements [OF st2] saved_group_implements [OF w3 same tn, of B env] names by auto
  qed
qed

lemma deleteGroup_implements:
  assumes "healthy (w_store w)" "tidy (view (w_store w))"
    and c: "deleteGroup S B env pid w = (r, w')"
    and names: "unique_group_names (view (w_store w'))"
  shows "implements view healthy B w w'"
proof -
  obtain r1 w1 where g: "on_store (GetGroup S pid) w = (r1, w1)" by fastforce
  note gg = get_group_step [OF assms(1) g]
  then have st1: "steady view healthy w w1" by simp
  show ?thesis
  proof (cases "fmlookup (fl_groups (view (w_store w))) pid")
    case None
    with gg c g have "w' = w1" by (auto simp: deleteGroup_def)
    then show ?thesis using steady_implements [OF st1] by simp
  next
    case (Some g0)
    have gid: "g_ID g0 = pid" using keyed_group [OF tidy_keyed [OF assms(2)] Some] .
    have tn: "g_TenantID g0 \<noteq> []" using Some assms(2) by (auto simp: tidy_def tenants_named_def)
    obtain r2 w2 where d: "on_store (DeleteGroup S pid) w1 = (r2, w2)" by fastforce
    have w2: "r2 = Inr ()" "wrote view healthy (drop_group pid) w w2"
      using delete_group_step [OF steady_healthy [OF st1] d] steady_wrote [OF st1] by simp_all
    have w': "w' = snd (Recompute S B env (g_TenantID g0) [] w2)"
      using c g gg Some gid d w2(1) by (simp add: deleteGroup_def)
    show ?thesis
      using recompute_implements [OF w2(2) names [unfolded w'] tn, where P = "\<lambda>m. m_TenantID m = g_TenantID g0"]
        group_deleted [OF Some] by (simp add: w' fleet_fields)
  qed
qed

lemma addGroupMember_implements:
  assumes "healthy (w_store w)" "tidy (view (w_store w))"
    and c: "addGroupMember S B env pid body w = (r, w')"
    and names: "unique_group_names (view (w_store w'))"
  shows "implements view healthy B w w'"
proof -
  obtain r1 w1 where g: "on_store (GetGroup S pid) w = (r1, w1)" by fastforce
  note gg = get_group_step [OF assms(1) g]
  then have st1: "steady view healthy w w1" by simp
  obtain mid where mid: "body = None \<or> body = Some mid" by (cases body) auto
  obtain r2 w2 where m: "on_store (GetMachine S mid) w1 = (r2, w2)" by fastforce
  note mm = get_machine_step [OF steady_healthy [OF st1] m]
  then have st2: "steady view healthy w w2" using steady_trans [OF st1] by blast
  show ?thesis
  proof (cases "\<exists>g0 m0. fmlookup (fl_groups (view (w_store w))) pid = Some g0 \<and> body = Some mid \<and> mid \<noteq> [] \<and>
      fmlookup (fl_machines (view (w_store w))) mid = Some m0 \<and> m_TenantID m0 = g_TenantID g0")
    case False
    then have "w' = w1 \<or> w' = w2"
      using c g gg m mm mid steady_view [OF st1]
      by (auto simp: addGroupMember_def split: option.splits if_splits)
    then show ?thesis using steady_implements [OF st1] steady_implements [OF st2] by auto
  next
    case True
    then obtain g0 m0 where lk: "fmlookup (fl_groups (view (w_store w))) pid = Some g0"
        "fmlookup (fl_machines (view (w_store w))) mid = Some m0" "m_TenantID m0 = g_TenantID g0"
      and b: "body = Some mid" "mid \<noteq> []" by blast
    have keys: "g_ID g0 = pid" "m_ID m0 = mid"
      using keyed_group [OF tidy_keyed [OF assms(2)] lk(1)] keyed_machine [OF tidy_keyed [OF assms(2)] lk(2)]
      by simp_all
    have tn: "g_TenantID g0 \<noteq> []" using lk(1) assms(2) by (auto simp: tidy_def tenants_named_def)
    obtain r3 w3 where a: "on_store (AddGroupMember S pid mid) w2 = (r3, w3)" by fastforce
    have w3: "r3 = Inr ()" "wrote view healthy (add_member pid mid) w w3"
      using member_steps(1) [OF steady_healthy [OF st2] a] steady_wrote [OF st2] by simp_all
    have w': "w' = snd (Recompute S B env (g_TenantID g0) [mid] w3)"
      using c g gg m mm lk b keys a w3(1) steady_view [OF st1] by (simp add: addGroupMember_def)
    show ?thesis
      using recompute_implements [OF w3(2) names [unfolded w'] tn, where P = "\<lambda>m. m_ID m = mid"]
        member_added [OF lk] lk(2) by (simp add: w' fleet_fields)
  qed
qed

text \<open>
  Removing a member implements the specification when the machine named in the path is
  of the group's tenant, or is no machine at all. The handler does not check this.
\<close>

lemma removeGroupMember_implements:
  assumes "healthy (w_store w)" "tidy (view (w_store w))"
    and c: "removeGroupMember S B env pid mid w = (r, w')"
    and names: "unique_group_names (view (w_store w'))"
    and own: "\<And>g m. fmlookup (fl_groups (view (w_store w))) pid = Some g \<Longrightarrow>
      fmlookup (fl_machines (view (w_store w))) mid = Some m \<Longrightarrow> m_TenantID m = g_TenantID g"
  shows "implements view healthy B w w'"
proof -
  obtain r1 w1 where g: "on_store (GetGroup S pid) w = (r1, w1)" by fastforce
  note gg = get_group_step [OF assms(1) g]
  then have st1: "steady view healthy w w1" by simp
  show ?thesis
  proof (cases "fmlookup (fl_groups (view (w_store w))) pid")
    case None
    with gg c g have "w' = w1" by (auto simp: removeGroupMember_def)
    then show ?thesis using steady_implements [OF st1] by simp
  next
    case (Some g0)
    have gid: "g_ID g0 = pid" using keyed_group [OF tidy_keyed [OF assms(2)] Some] .
    have tn: "g_TenantID g0 \<noteq> []" using Some assms(2) by (auto simp: tidy_def tenants_named_def)
    obtain r2 w2 where d: "on_store (RemoveGroupMember S pid mid) w1 = (r2, w2)" by fastforce
    have w2: "r2 = Inr ()" "wrote view healthy (remove_member pid mid) w w2"
      using member_steps(2) [OF steady_healthy [OF st1] d] steady_wrote [OF st1] by simp_all
    have w': "w' = snd (Recompute S B env (g_TenantID g0) [mid] w2)"
      using c g gg Some gid d w2(1) by (simp add: removeGroupMember_def)
    show ?thesis
    proof (cases "fmlookup (fl_machines (view (w_store w))) mid")
      case None
      have v2: "view (w_store w2) = remove_member pid mid (view (w_store w))" "w_bus w2 = w_bus w"
        using w2(2) by (simp_all add: wrote_def)
      have "steady view healthy w2 w'"
        using Recompute_missing [OF wrote_healthy [OF w2(2)], of mid "[mid]" B env "g_TenantID g0"] None
        by (auto simp: w' v2 fleet_fields)
      moreover have "fleet_step (view (w_store w)) (remove_member pid mid (view (w_store w)))"
        using None by (rule absent_member_removed)
      ultimately show ?thesis
        using v2 by (auto simp: implements_def steady_def stale_streams_def fleet_fields intro!: exI [of _ "[]"])
    next
      case m0: (Some m0)
      show ?thesis
        using recompute_implements [OF w2(2) names [unfolded w'] tn, where P = "\<lambda>m. m_ID m = mid"]
          member_removed [OF Some m0 own [OF Some m0]] m0 by (simp add: w' fleet_fields)
    qed
  qed
qed

text \<open>Saving an edited machine and recomputing it: the end of the machine handlers.\<close>

lemma save_machine_implements:
  assumes st: "steady view healthy w w1" and fl: "tidy (view (w_store w))"
    and m: "fmlookup (fl_machines (view (w_store w))) k = Some m" and f: "keeps_place f"
    and s: "on_store (SaveMachine S (f m)) w1 = (r, w2)"
  shows "r = Inr () \<and> wrote view healthy (edit_machines f {k}) w w2"
proof -
  have key: "m_ID m = k" using keyed_machine [OF tidy_keyed [OF fl] m] .
  have "same_place (view (w_store w1)) (f m)"
    using m f key by (auto simp: steady_view [OF st] same_place_def keeps_place_def)
  from save_machine_step [OF steady_healthy [OF st] this s] steady_wrote [OF st]
  have r: "r = Inr ()" and "wrote view healthy (put_machine (f m)) w w2" by simp_all
  then show ?thesis using put_machine_edit [OF tidy_keyed [OF fl] m f] by (simp add: wrote_def)
qed

text \<open>For a set of machines of one tenant at once, as the selector commands need it.\<close>

lemma edited_machines_implement:
  assumes w2: "wrote view healthy (edit_machines f (set ids)) w w2" and f: "keeps_place f"
    and ids: "distinct ids" "ids \<noteq> []" "t \<noteq> []"
    and own: "\<And>i. i \<in> set ids \<Longrightarrow> \<exists>m. fmlookup (fl_machines (view (w_store w))) i = Some m \<and> m_TenantID m = t"
    and names: "unique_group_names (view (w_store (snd (Recompute S B env t ids w2))))"
  shows "implements view healthy B w (snd (Recompute S B env t ids w2)) \<and>
    view (w_store (snd (Recompute S B env t ids w2))) =
      settle t (\<lambda>m. m_ID m \<in> set ids) (edit_machines f (set ids) (view (w_store w)))"
proof -
  have "fleet_step (view (w_store w))
      (settle t (\<lambda>m. m_ID m \<in> set ids) (edit_machines f (set ids) (view (w_store w))))"
    by (rule machines_edited [OF f]) (use own in fastforce)
  then show ?thesis
    using recompute_implements [OF w2 names ids(3,1), where P = "\<lambda>m. m_ID m \<in> set ids"] ids(2) f own
    by (force simp: keeps_place_def map_option_case split: option.split)
qed

lemma edited_machine_implements:
  assumes w2: "wrote view healthy (edit_machines f {k}) w w2" and f: "keeps_place f"
    and fl: "tidy (view (w_store w))" and m: "fmlookup (fl_machines (view (w_store w))) k = Some m"
    and names: "unique_group_names (view (w_store (snd (Recompute S B env (m_TenantID m) [k] w2))))"
  shows "implements view healthy B w (snd (Recompute S B env (m_TenantID m) [k] w2))"
  using edited_machines_implement [where ids = "[k]" and f = f, OF _ f _ _ _ _ names] w2 m fl
  by (auto simp: tidy_def tenants_named_def)

lemma keeps_place_edit_labels: "keeps_place (edit_labels labels)"
  by (simp add: keeps_place_def edit_labels_def)

lemma putLabels_implements:
  assumes "healthy (w_store w)" "tidy (view (w_store w))"
    and c: "putLabels S B env pid body w = (r, w')"
    and names: "unique_group_names (view (w_store w'))"
  shows "implements view healthy B w w'"
proof -
  obtain r1 w1 where g: "on_store (GetMachine S pid) w = (r1, w1)" by fastforce
  note gg = get_machine_step [OF assms(1) g]
  then have st1: "steady view healthy w w1" by simp
  show ?thesis
  proof (cases "\<exists>m labels. fmlookup (fl_machines (view (w_store w))) pid = Some m \<and> body = Some labels")
    case False
    with gg c g have "w' = w1" by (auto simp: putLabels_def split: option.splits)
    then show ?thesis using steady_implements [OF st1] by simp
  next
    case True
    then obtain m labels where lk: "fmlookup (fl_machines (view (w_store w))) pid = Some m"
      and b: "body = Some labels" by blast
    obtain r2 w2 where s: "on_store (SaveMachine S (edit_labels labels m)) w1 = (r2, w2)" by fastforce
    from save_machine_implements [OF st1 assms(2) lk keeps_place_edit_labels s]
    have r2: "r2 = Inr ()" and w2: "wrote view healthy (edit_machines (edit_labels labels) {pid}) w w2"
      by simp_all
    then have w': "w' = snd (Recompute S B env (m_TenantID m) [pid] w2)"
      using c g gg lk b s keyed_machine [OF tidy_keyed [OF assms(2)] lk]
      by (auto simp: putLabels_def edit_labels_def Let_def)
    then show ?thesis
      using edited_machine_implements [OF w2 keeps_place_edit_labels assms(2) lk] names by simp
  qed
qed

end

end
