(* ===== verification/Admin_Api.thy ===== *)
theory Admin_Api
  imports Group_Api
begin

text \<open>
  The rest of the operator API except commands (\<open>internal/server/admin.go\<close>): the bearer
  token in front of it, tenants, enrollment tokens, machines, overrides, module upload,
  health. The signature of a module is the CA's (an argument, \<open>signModule\<close>).
\<close>

section \<open>Authentication\<close>

text \<open>
  The guard takes the header's value and passes or answers 401.
  \<open>subtle.ConstantTimeCompare\<close> returns 1 exactly on equal contents.
\<close>

definition auth ::
  "string \<Rightarrow> string \<Rightarrow> string \<Rightarrow> ('w \<Rightarrow> 'a response \<times> 'w) \<Rightarrow> 'w \<Rightarrow> 'a response \<times> 'w" where
  "auth token path authorization nxt w =
     (if path = ''/healthz'' \<or> path = ''/dashboard'' then nxt w
      else (case CutPrefix authorization ''Bearer '' of (got, ok) \<Rightarrow>
        if \<not> ok \<or> got \<noteq> token then (HttpError StatusUnauthorized ''unauthorized'', w)
        else nxt w))"

section \<open>Tenants and tokens\<close>

definition createTenant ::
  "'s store_ops \<Rightarrow> int64 \<Rightarrow> string \<Rightarrow> string \<Rightarrow> string option \<Rightarrow>
   ('s, 'b) world \<Rightarrow> tenant response \<times> ('s, 'b) world" where
  "createTenant S now newID newID2 body w =
     (case body of
        None \<Rightarrow> (HttpError StatusBadRequest ''name required'', w)
      | Some name \<Rightarrow>
          if name = [] then (HttpError StatusBadRequest ''name required'', w)
          else
            let t = \<lparr>t_ID = newID, t_Name = name, t_Created = now\<rparr>
            in (case on_store (SaveTenant S t) w of
                  (Inl _, w1) \<Rightarrow> (HttpError StatusInternalServerError ''store error'', w1)
                | (Inr _, w1) \<Rightarrow>
                    let allg = \<lparr>g_ID = newID2, g_TenantID = t_ID t, g_Name = ''all'', g_MatchAll = True,
                               g_Selector = fmempty, g_Modules = [], g_Created = t_Created t\<rparr>
                    in (case on_store (SaveGroup S allg) w1 of
                          (Inl _, w2) \<Rightarrow> (HttpError StatusInternalServerError ''store error'', w2)
                        | (Inr _, w2) \<Rightarrow> (Json t, w2))))"

definition listTenants ::
  "'s store_ops \<Rightarrow> ('s, 'b) world \<Rightarrow> tenant list response \<times> ('s, 'b) world" where
  "listTenants S w =
     (case on_store (ListTenants S) w of
        (Inl _, w1) \<Rightarrow> (HttpError StatusInternalServerError ''store error'', w1)
      | (Inr ts, w1) \<Rightarrow> (Json ts, w1))"

record create_token_req =
  ct_TenantID :: string
  ct_Labels :: "string gomap"
  ct_TTLSec :: int64
  ct_MaxUses :: gint

definition createToken ::
  "'s store_ops \<Rightarrow> int64 \<Rightarrow> string \<Rightarrow> string \<Rightarrow> create_token_req option \<Rightarrow>
   ('s, 'b) world \<Rightarrow> enroll_token response \<times> ('s, 'b) world" where
  "createToken S now newID newID2 body w =
     (case body of
        None \<Rightarrow> (HttpError StatusBadRequest ''tenant_id required'', w)
      | Some req \<Rightarrow>
          if ct_TenantID req = [] then (HttpError StatusBadRequest ''tenant_id required'', w)
          else (case on_store (GetTenant S (ct_TenantID req)) w of
             (Inl _, w1) \<Rightarrow> (HttpError StatusNotFound ''unknown tenant'', w1)
           | (Inr _, w1) \<Rightarrow>
               let expires = (if ct_TTLSec req = 0 then now + 86400
                              else if 0 <s ct_TTLSec req then now + ct_TTLSec req else 0);
                   t = \<lparr>tok_Token = newID @ newID2, tok_TenantID = ct_TenantID req,
                        tok_Labels = ct_Labels req, tok_Created = now, tok_ExpiresAt = expires,
                        tok_MaxUses = ct_MaxUses req, tok_Uses = 0, tok_Used = False\<rparr>
               in (case on_store (SaveToken S t) w1 of
                     (Inl _, w2) \<Rightarrow> (HttpError StatusInternalServerError ''store error'', w2)
                   | (Inr _, w2) \<Rightarrow> (Json t, w2))))"

section \<open>Machines\<close>

definition listMachines ::
  "'s store_ops \<Rightarrow> string \<Rightarrow> ('s, 'b) world \<Rightarrow> machine list response \<times> ('s, 'b) world" where
  "listMachines S tenant w =
     (case on_store (ListMachines S tenant) w of
        (Inl _, w1) \<Rightarrow> (HttpError StatusInternalServerError ''store error'', w1)
      | (Inr ms, w1) \<Rightarrow> (Json ms, w1))"

definition getMachine ::
  "'s store_ops \<Rightarrow> string \<Rightarrow> ('s, 'b) world \<Rightarrow> machine response \<times> ('s, 'b) world" where
  "getMachine S pid w =
     (case on_store (GetMachine S pid) w of
        (Inl _, w1) \<Rightarrow> (HttpError StatusNotFound ''not found'', w1)
      | (Inr m, w1) \<Rightarrow> (Json m, w1))"

text \<open>The last read ignores its error: the zero \<open>Machine\<close> has the zero desired state.\<close>

definition putDesired ::
  "'s store_ops \<Rightarrow> 'b bus_ops \<Rightarrow> (nat \<Rightarrow> choices) \<Rightarrow> string \<Rightarrow> module_spec list option \<Rightarrow>
   ('s, 'b) world \<Rightarrow> desired_state response \<times> ('s, 'b) world" where
  "putDesired S B env pid body w =
     (case on_store (GetMachine S pid) w of
        (Inl _, w1) \<Rightarrow> (HttpError StatusNotFound ''not found'', w1)
      | (Inr m0, w1) \<Rightarrow>
          (case body of
             None \<Rightarrow> (HttpError StatusBadRequest ''bad request'', w1)
           | Some specs \<Rightarrow>
               (case validateModules S specs w1 of
                  (Some r, w2) \<Rightarrow> (r, w2)
                | (None, w2) \<Rightarrow>
                    let m = m0\<lparr>m_Override := specs\<rparr>
                    in (case on_store (SaveMachine S m) w2 of
                          (Inl _, w3) \<Rightarrow> (HttpError StatusInternalServerError ''store error'', w3)
                        | (Inr _, w3) \<Rightarrow>
                            (case Recompute S B env (m_TenantID m) [m_ID m] w3 of
                               (Inl _, w4) \<Rightarrow> (HttpError StatusInternalServerError ''recompute error'', w4)
                             | (Inr _, w4) \<Rightarrow>
                                 (case on_store (GetMachine S pid) w4 of
                                    (Inl _, w5) \<Rightarrow> (Json zero_desired, w5)
                                  | (Inr m', w5) \<Rightarrow> (Json (m_Desired m'), w5)))))))"

definition deleteMachine ::
  "'s store_ops \<Rightarrow> 'b bus_ops \<Rightarrow> string \<Rightarrow> ('s, 'b) world \<Rightarrow> unit response \<times> ('s, 'b) world" where
  "deleteMachine S B pid w =
     (case on_store (GetMachine S pid) w of
        (Inl _, w1) \<Rightarrow> (HttpError StatusNotFound ''not found'', w1)
      | (Inr m, w1) \<Rightarrow>
          (case on_store (DeleteMachine S (m_ID m)) w1 of
             (Inl _, w2) \<Rightarrow> (HttpError StatusInternalServerError ''store error'', w2)
           | (Inr _, w2) \<Rightarrow> (NoContent, publish B (m_ID m) w2)))"

section \<open>Modules and health\<close>

record upload_req =
  ul_Name :: string
  ul_Version :: string
  ul_Exec :: string
  ul_Payload :: bytes

definition uploadModule ::
  "'s store_ops \<Rightarrow> (bytes \<Rightarrow> bytes) \<Rightarrow> upload_req option \<Rightarrow>
   ('s, 'b) world \<Rightarrow> module_artifact response \<times> ('s, 'b) world" where
  "uploadModule S signModule body w =
     (case body of
        None \<Rightarrow> (HttpError StatusBadRequest ''bad request'', w)
      | Some req \<Rightarrow>
          if ul_Name req = [] \<or> ul_Version req = [] \<or> length (ul_Payload req) = 0
          then (HttpError StatusBadRequest ''name, version, payload required'', w)
          else
            let exec = (if ul_Exec req = [] then ''payload'' else ul_Exec req);
                a = \<lparr>art_Name = ul_Name req, art_Version = ul_Version req, art_Exec = exec,
                     art_Payload = ul_Payload req, art_Signature = signModule (ul_Payload req)\<rparr>
            in (case on_store (SaveModule S a) w of
                  (Inl _, w1) \<Rightarrow> (HttpError StatusInternalServerError ''store error'', w1)
                | (Inr _, w1) \<Rightarrow> (Json (a\<lparr>art_Payload := [], art_Signature := []\<rparr>), w1)))"

definition listModules ::
  "'s store_ops \<Rightarrow> ('s, 'b) world \<Rightarrow> module_artifact list response \<times> ('s, 'b) world" where
  "listModules S w =
     (case on_store (ListModules S) w of
        (Inl _, w1) \<Rightarrow> (HttpError StatusInternalServerError ''store error'', w1)
      | (Inr as, w1) \<Rightarrow> (Json as, w1))"

definition healthz :: "'s store_ops \<Rightarrow> ('s, 'b) world \<Rightarrow> unit response \<times> ('s, 'b) world" where
  "healthz S w =
     (case on_store (ListTenants S) w of
        (Inl _, w1) \<Rightarrow> (HttpError StatusServiceUnavailable ''store unavailable'', w1)
      | (Inr _, w1) \<Rightarrow> (Plain ''ok'', w1))"

end
