(* ===== verification/Command_Api.thy ===== *)
theory Command_Api
  imports Group_Api
begin

text \<open>
  Ad-hoc commands (\<open>internal/server/commands.go\<close>): a command is a module with a generated
  name that carries its creation time; it is added to the specs of a group, a machine,
  or every machine a selector matches, and the oldest ones beyond the retention limit
  are dropped together with their stored payloads.
\<close>

section \<open>Names and retention\<close>

definition cmdPrefix :: string where
  "cmdPrefix = ''cmd-''"

definition defaultCommandHistory :: gint where
  "defaultCommandHistory = 20"

definition maxCommands :: "gint \<Rightarrow> gint" where
  "maxCommands maxCommandHistory =
     (if 0 <s maxCommandHistory then maxCommandHistory else defaultCommandHistory)"

definition commandName :: "int64 \<Rightarrow> string \<Rightarrow> string" where
  "commandName now newID = cmdPrefix @ FormatInt now @ ''-'' @ take 6 newID"

definition commandCreatedAt :: "string \<Rightarrow> int64" where
  "commandCreatedAt name =
     (case CutPrefix name cmdPrefix of (rest, ok) \<Rightarrow>
        if \<not> ok then 0
        else (case Cut rest ''-'' of (ts, _, _) \<Rightarrow> fst (ParseInt ts)))"

definition isCommand :: "string \<Rightarrow> bool" where
  "isCommand name = HasPrefix name cmdPrefix"

text \<open>The newest \<open>limit\<close> commands stay; \<open>remove\<close> is the set of the names that go.\<close>

definition pruneCommands ::
  "shuffle \<Rightarrow> module_spec list \<Rightarrow> gint \<Rightarrow> module_spec list \<times> string list" where
  "pruneCommands p specs limit0 =
     (let cmds = filter (\<lambda>sp. isCommand (ms_Name sp)) specs;
          limit = (if limit0 \<le>s 0 then defaultCommandHistory else limit0)
      in if int (length cmds) \<le> sint limit then (specs, [])
         else
           let sorted = sort_slice p (\<lambda>a b. commandCreatedAt (ms_Name b) <s commandCreatedAt (ms_Name a)) cmds;
               dropped = map ms_Name (drop (unat limit) sorted)
           in (filter (\<lambda>sp. ms_Name sp \<notin> set dropped) specs, dropped))"

text \<open>A failed deletion is logged and skipped.\<close>

fun forgetCommands :: "'s store_ops \<Rightarrow> string list \<Rightarrow> ('s, 'b) world \<Rightarrow> ('s, 'b) world" where
  "forgetCommands S [] w = w"
| "forgetCommands S (n # ns) w = forgetCommands S ns (snd (on_store (DeleteModule S n ''1'') w))"

section \<open>Which groups is a machine in\<close>

record group_row =
  gr_ID :: string
  gr_Name :: string
  gr_Via :: string
  gr_Selector :: "string gomap"
  gr_Modules :: nat

fun group_rows ::
  "'s store_ops \<Rightarrow> machine \<Rightarrow> group list \<Rightarrow> group_row list \<Rightarrow> ('s, 'b) world \<Rightarrow>
   group_row list \<times> ('s, 'b) world" where
  "group_rows S m [] out w = (out, w)"
| "group_rows S m (g # gs) out w =
     (case (if g_MatchAll g then (Some ''match_all'', w)
            else if selectorMatches (g_Selector g) (m_Labels m) \<and> 0 < gomap_len (g_Selector g)
            then (Some ''selector'', w)
            else (case on_store (ListGroupMembers S (g_ID g)) w of
                    (Inl _, w') \<Rightarrow> (None, w')
                  | (Inr members, w') \<Rightarrow>
                      (Some (if m_ID m \<in> set members then ''explicit'' else ''''), w'))) of
        (None, w') \<Rightarrow> group_rows S m gs out w'
      | (Some via, w') \<Rightarrow>
          if via = '''' then group_rows S m gs out w'
          else group_rows S m gs
            (out @ [\<lparr>gr_ID = g_ID g, gr_Name = g_Name g, gr_Via = via,
                     gr_Selector = (if via = ''selector'' then g_Selector g else fmempty),
                     gr_Modules = length (g_Modules g)\<rparr>]) w')"

definition machineGroups ::
  "'s store_ops \<Rightarrow> shuffle \<Rightarrow> string \<Rightarrow> ('s, 'b) world \<Rightarrow> group_row list response \<times> ('s, 'b) world" where
  "machineGroups S p pid w =
     (case on_store (GetMachine S pid) w of
        (Inl _, w1) \<Rightarrow> (HttpError StatusNotFound ''not found'', w1)
      | (Inr m, w1) \<Rightarrow>
          (case on_store (ListGroups S (m_TenantID m)) w1 of
             (Inl _, w2) \<Rightarrow> (HttpError StatusInternalServerError ''store error'', w2)
           | (Inr groups, w2) \<Rightarrow>
               (case group_rows S m groups [] w2 of (out, w3) \<Rightarrow>
                  (Json (sort_slice p (\<lambda>a b. gr_Name a < gr_Name b) out), w3))))"

section \<open>Queueing a command\<close>

record create_command_req =
  cc_Script :: string
  cc_TargetKind :: string
  cc_TargetID :: string
  cc_Selector :: "string gomap"
  cc_Label :: string
  cc_Config :: "string gomap"

record command_reply =
  cr_Name :: string
  cr_Version :: string
  cr_Created :: int64
  cr_TargetKind :: string
  cr_TargetID :: string
  cr_Selector :: "string gomap"
  cr_Matched :: nat
  cr_Script :: string

definition newline :: string where
  "newline = [CHR 0x0A]"

text \<open>A script with no interpreter line gets one, and starts at the root directory.\<close>

definition command_script :: "string \<Rightarrow> string" where
  "command_script script =
     (if HasPrefix script ''#!'' then script
      else ''#!/bin/sh'' @ newline @ ''set -eu'' @ newline @ ''cd /'' @ newline @ script @ newline)"

definition command_spec :: "string \<Rightarrow> string gomap \<Rightarrow> string \<Rightarrow> module_spec" where
  "command_spec name config label =
     \<lparr>ms_Name = name, ms_Version = ''1'',
      ms_Config = (if label \<noteq> [] then fmupd ''label'' label config else config)\<rparr>"

text \<open>The loop of the selector case: a machine that cannot be saved is skipped.\<close>

fun queue_each ::
  "'s store_ops \<Rightarrow> gint \<Rightarrow> (nat \<Rightarrow> shuffle) \<Rightarrow> nat \<Rightarrow> string gomap \<Rightarrow> module_spec \<Rightarrow> machine list \<Rightarrow>
   string list \<Rightarrow> ('s, 'b) world \<Rightarrow> string list \<times> ('s, 'b) world" where
  "queue_each S hist ps i selector spec [] hit w = (hit, w)"
| "queue_each S hist ps i selector spec (m # ms) hit w =
     (if \<not> selectorMatches selector (m_Labels m)
      then queue_each S hist ps (Suc i) selector spec ms hit w
      else (case pruneCommands (ps i) (m_Override m @ [spec]) (maxCommands hist) of (kept, dropped) \<Rightarrow>
        (case on_store (SaveMachine S (m\<lparr>m_Override := kept\<rparr>)) w of
           (Inl _, w1) \<Rightarrow> queue_each S hist ps (Suc i) selector spec ms hit w1
         | (Inr _, w1) \<Rightarrow>
             queue_each S hist ps (Suc i) selector spec ms (hit @ [m_ID m]) (forgetCommands S dropped w1))))"

text \<open>The three ways to queue the spec: \<^term>\<open>Inl\<close> is an answer given early, \<^term>\<open>Inr\<close> the
  number of machines or groups it reached.\<close>

definition queue_group ::
  "'s store_ops \<Rightarrow> 'b bus_ops \<Rightarrow> (nat \<Rightarrow> choices) \<Rightarrow> shuffle \<Rightarrow> gint \<Rightarrow> string \<Rightarrow> module_spec \<Rightarrow>
   ('s, 'b) world \<Rightarrow> (command_reply response + nat) \<times> ('s, 'b) world" where
  "queue_group S B env p hist targetID spec w =
     (case on_store (GetGroup S targetID) w of
        (Inl _, w1) \<Rightarrow> (Inl (HttpError StatusNotFound ''unknown group''), w1)
      | (Inr g0, w1) \<Rightarrow>
          (case pruneCommands p (g_Modules g0 @ [spec]) (maxCommands hist) of (kept, dropped) \<Rightarrow>
             let g = g0\<lparr>g_Modules := kept\<rparr>
             in (case on_store (SaveGroup S g) w1 of
                   (Inl _, w2) \<Rightarrow> (Inl (HttpError StatusInternalServerError ''store error''), w2)
                 | (Inr _, w2) \<Rightarrow>
                     (Inr 1, snd (Recompute S B env (g_TenantID g) [] (forgetCommands S dropped w2))))))"

definition queue_machine ::
  "'s store_ops \<Rightarrow> 'b bus_ops \<Rightarrow> (nat \<Rightarrow> choices) \<Rightarrow> shuffle \<Rightarrow> gint \<Rightarrow> string \<Rightarrow> module_spec \<Rightarrow>
   ('s, 'b) world \<Rightarrow> (command_reply response + nat) \<times> ('s, 'b) world" where
  "queue_machine S B env p hist targetID spec w =
     (case on_store (GetMachine S targetID) w of
        (Inl _, w1) \<Rightarrow> (Inl (HttpError StatusNotFound ''unknown machine''), w1)
      | (Inr m0, w1) \<Rightarrow>
          (case pruneCommands p (m_Override m0 @ [spec]) (maxCommands hist) of (kept, dropped) \<Rightarrow>
             let m = m0\<lparr>m_Override := kept\<rparr>
             in (case on_store (SaveMachine S m) w1 of
                   (Inl _, w2) \<Rightarrow> (Inl (HttpError StatusInternalServerError ''store error''), w2)
                 | (Inr _, w2) \<Rightarrow>
                     (Inr 1, snd (Recompute S B env (m_TenantID m) [m_ID m] (forgetCommands S dropped w2))))))"

definition queue_selector ::
  "'s store_ops \<Rightarrow> 'b bus_ops \<Rightarrow> (nat \<Rightarrow> choices) \<Rightarrow> (nat \<Rightarrow> shuffle) \<Rightarrow> gint \<Rightarrow> string \<Rightarrow>
   string gomap \<Rightarrow> module_spec \<Rightarrow>
   ('s, 'b) world \<Rightarrow> (command_reply response + nat) \<times> ('s, 'b) world" where
  "queue_selector S B env ps hist targetID selector spec w =
     (case on_store (ListMachines S targetID) w of
        (Inl _, w1) \<Rightarrow> (Inl (HttpError StatusInternalServerError ''store error''), w1)
      | (Inr machines, w1) \<Rightarrow>
          (case queue_each S hist ps 0 selector spec machines [] w1 of (hit, w2) \<Rightarrow>
             if hit = []
             then (Inl (HttpError StatusNotFound ''selector matched no machines''),
                   snd (on_store (DeleteModule S (ms_Name spec) ''1'') w2))
             else (Inr (length hit), snd (Recompute S B env targetID hit w2))))"

definition createCommand ::
  "'s store_ops \<Rightarrow> 'b bus_ops \<Rightarrow> (bytes \<Rightarrow> bytes) \<Rightarrow> (nat \<Rightarrow> choices) \<Rightarrow> (nat \<Rightarrow> shuffle) \<Rightarrow> gint \<Rightarrow>
   int64 \<Rightarrow> string \<Rightarrow> create_command_req option \<Rightarrow>
   ('s, 'b) world \<Rightarrow> command_reply response \<times> ('s, 'b) world" where
  "createCommand S B signModule env ps hist now newID body w =
     (case body of
        None \<Rightarrow> (HttpError StatusBadRequest ''bad request'', w)
      | Some req \<Rightarrow>
          let trimmed = TrimSpace (cc_Script req) in
          if trimmed = [] then (HttpError StatusBadRequest ''script required'', w)
          else if \<not> (cc_TargetKind req = ''group'' \<or> cc_TargetKind req = ''machine'' \<or>
                     cc_TargetKind req = ''selector'')
          then (HttpError StatusBadRequest ''target_kind must be group, machine or selector'', w)
          else if cc_TargetKind req = ''selector'' \<and> gomap_len (cc_Selector req) = 0
          then (HttpError StatusBadRequest ''selector required'', w)
          else if cc_TargetID req = []
          then (HttpError StatusBadRequest
                  (if cc_TargetKind req = ''selector''
                   then ''target_id must be the tenant id for selector targeting''
                   else ''target_id required''), w)
          else
            let script = command_script trimmed;
                name = commandName now newID;
                art = \<lparr>art_Name = name, art_Version = ''1'', art_Exec = ''payload'',
                       art_Payload = script, art_Signature = signModule script\<rparr>
            in (case on_store (SaveModule S art) w of
                  (Inl _, w1) \<Rightarrow> (HttpError StatusInternalServerError ''store error'', w1)
                | (Inr _, w1) \<Rightarrow>
                    let spec = command_spec name (cc_Config req) (cc_Label req)
                    in (case (if cc_TargetKind req = ''group''
                              then queue_group S B env (ps 0) hist (cc_TargetID req) spec w1
                              else if cc_TargetKind req = ''machine''
                              then queue_machine S B env (ps 0) hist (cc_TargetID req) spec w1
                              else queue_selector S B env ps hist (cc_TargetID req) (cc_Selector req) spec w1) of
                          (Inl r, w2) \<Rightarrow> (r, w2)
                        | (Inr matched, w2) \<Rightarrow>
                            (Json \<lparr>cr_Name = name, cr_Version = ''1'', cr_Created = now,
                                   cr_TargetKind = cc_TargetKind req, cr_TargetID = cc_TargetID req,
                                   cr_Selector = cc_Selector req, cr_Matched = matched,
                                   cr_Script = script\<rparr>, w2))))"

section \<open>Listing and cancelling\<close>

record command_row =
  cmd_Name :: string
  cmd_Version :: string
  cmd_Created :: int64
  cmd_Script :: string

fun fetch_scripts ::
  "'s store_ops \<Rightarrow> command_row list \<Rightarrow> ('s, 'b) world \<Rightarrow> command_row list \<times> ('s, 'b) world" where
  "fetch_scripts S [] w = ([], w)"
| "fetch_scripts S (c # cs) w =
     (case on_store (GetModule S (cmd_Name c) (cmd_Version c)) w of (r, w1) \<Rightarrow>
        let c' = (case r of Inl _ \<Rightarrow> c | Inr full \<Rightarrow> c\<lparr>cmd_Script := art_Payload full\<rparr>)
        in (case fetch_scripts S cs w1 of (cs', w2) \<Rightarrow> (c' # cs', w2)))"

text \<open>The page is 50 commands unless the query names a positive number; \<open>Atoi\<close> is
  \<open>ParseInt\<close> on a 64-bit platform.\<close>

definition listCommands ::
  "'s store_ops \<Rightarrow> shuffle \<Rightarrow> string \<Rightarrow> ('s, 'b) world \<Rightarrow> command_row list response \<times> ('s, 'b) world" where
  "listCommands S p limitArg w =
     (case on_store (ListModules S) w of
        (Inl _, w1) \<Rightarrow> (HttpError StatusInternalServerError ''store error'', w1)
      | (Inr mods, w1) \<Rightarrow>
          let rows = map (\<lambda>m. \<lparr>cmd_Name = art_Name m, cmd_Version = art_Version m,
                               cmd_Created = commandCreatedAt (art_Name m), cmd_Script = []\<rparr>)
                       (filter (\<lambda>m. isCommand (art_Name m)) mods);
              sorted = sort_slice p (\<lambda>a b. cmd_Created b <s cmd_Created a) rows;
              limit = (case ParseInt limitArg of (v, e) \<Rightarrow> if e = NumOk \<and> 0 <s v then v else 50);
              page = (if sint limit < int (length sorted) then take (unat limit) sorted else sorted)
          in (case fetch_scripts S page w1 of (out, w2) \<Rightarrow> (Json out, w2)))"

definition drop_named :: "string \<Rightarrow> module_spec list \<Rightarrow> module_spec list" where
  "drop_named name specs = filter (\<lambda>sp. ms_Name sp \<noteq> name) specs"

definition cancelCommand ::
  "'s store_ops \<Rightarrow> 'b bus_ops \<Rightarrow> (nat \<Rightarrow> choices) \<Rightarrow> string \<Rightarrow> string \<Rightarrow> string \<Rightarrow>
   ('s, 'b) world \<Rightarrow> unit response \<times> ('s, 'b) world" where
  "cancelCommand S B env name kind tid w =
     (if \<not> isCommand name then (HttpError StatusBadRequest ''not a command'', w)
      else if kind = ''group'' then
        (case on_store (GetGroup S tid) w of
           (Inl _, w1) \<Rightarrow> (HttpError StatusNotFound ''unknown group'', w1)
         | (Inr g0, w1) \<Rightarrow>
             let g = g0\<lparr>g_Modules := drop_named name (g_Modules g0)\<rparr>
             in (case on_store (SaveGroup S g) w1 of
                   (Inl _, w2) \<Rightarrow> (HttpError StatusInternalServerError ''store error'', w2)
                 | (Inr _, w2) \<Rightarrow> (NoContent, snd (Recompute S B env (g_TenantID g) [] w2))))
      else if kind = ''machine'' then
        (case on_store (GetMachine S tid) w of
           (Inl _, w1) \<Rightarrow> (HttpError StatusNotFound ''unknown machine'', w1)
         | (Inr m0, w1) \<Rightarrow>
             let m = m0\<lparr>m_Override := drop_named name (m_Override m0)\<rparr>
             in (case on_store (SaveMachine S m) w1 of
                   (Inl _, w2) \<Rightarrow> (HttpError StatusInternalServerError ''store error'', w2)
                 | (Inr _, w2) \<Rightarrow> (NoContent, snd (Recompute S B env (m_TenantID m) [m_ID m] w2))))
      else (HttpError StatusBadRequest ''target_kind must be group or machine'', w))"

end
