(* ===== verification/Agent_Api.thy ===== *)
theory Agent_Api
  imports Resolver Http
begin

text \<open>
  The agent-facing API (\<open>internal/server/server.go\<close>) and the live registry
  (\<open>internal/server/live.go\<close>): enrollment, heartbeat, certificate renewal, status, module
  download, metric samples. The CA's operations are arguments: \<open>signAgent\<close> gives the
  certificate for a CSR or fails, \<open>modulePubPEM\<close> the verification key.
\<close>

section \<open>Identity\<close>

text \<open>
  What the handlers see of a TLS connection: none, or the subjects of the client's
  certificates, each with its common name and its organizational units. TLS has checked
  that the CA signed them.
\<close>

record subject =
  sub_CommonName :: string
  sub_OrganizationalUnit :: "string list"

record identity =
  idn_MachineID :: string
  idn_TenantID :: string

definition withIdentity ::
  "subject list option \<Rightarrow> (identity \<Rightarrow> 'w \<Rightarrow> 'a response \<times> 'w) \<Rightarrow> 'w \<Rightarrow> 'a response \<times> 'w" where
  "withIdentity tls nxt w =
     (case tls of
        None \<Rightarrow> (HttpError StatusUnauthorized ''client certificate required'', w)
      | Some [] \<Rightarrow> (HttpError StatusUnauthorized ''client certificate required'', w)
      | Some (leaf # _) \<Rightarrow>
          (case sub_OrganizationalUnit leaf of
             [] \<Rightarrow> (HttpError StatusForbidden ''certificate missing tenant'', w)
           | ou # _ \<Rightarrow> nxt \<lparr>idn_MachineID = sub_CommonName leaf, idn_TenantID = ou\<rparr> w))"

section \<open>Enrollment\<close>

definition handleEnroll ::
  "'s store_ops \<Rightarrow> 'b bus_ops \<Rightarrow> (string \<Rightarrow> string \<Rightarrow> string \<Rightarrow> string option) \<Rightarrow> string option \<Rightarrow>
   string \<Rightarrow> (nat \<Rightarrow> choices) \<Rightarrow> int64 \<Rightarrow> string \<Rightarrow> enroll_request option \<Rightarrow>
   ('s, 'b) world \<Rightarrow> enroll_response response \<times> ('s, 'b) world" where
  "handleEnroll S B signAgent modulePubPEM caPEM env now newID body w =
     (case body of
        None \<Rightarrow> (HttpError StatusBadRequest ''bad request'', w)
      | Some req \<Rightarrow>
          (case on_store (ConsumeToken S now (er_Token req)) w of
             (Inl _, w1) \<Rightarrow> (HttpError StatusForbidden ''invalid token'', w1)
           | (Inr tok, w1) \<Rightarrow>
               (case signAgent (er_CSRPEM req) newID (tok_TenantID tok) of
                  None \<Rightarrow> (HttpError StatusBadRequest ''csr rejected'', w1)
                | Some certPEM \<Rightarrow>
                    let m = \<lparr>m_ID = newID, m_TenantID = tok_TenantID tok, m_Name = er_Name req,
                             m_Labels = tok_Labels tok, m_Enrolled = now, m_LastSeen = now,
                             m_Inventory = zero_inventory, m_Override = [],
                             m_Desired = zero_desired, m_Status = []\<rparr>
                    in (case on_store (SaveMachine S m) w1 of
                          (Inl _, w2) \<Rightarrow> (HttpError StatusInternalServerError ''store error'', w2)
                        | (Inr _, w2) \<Rightarrow>
                            (case modulePubPEM of
                               None \<Rightarrow> (HttpError StatusInternalServerError ''internal error'', w2)
                             | Some modPub \<Rightarrow>
                                 (Json \<lparr>rs_MachineID = newID, rs_TenantID = tok_TenantID tok,
                                        rs_CertPEM = certPEM, rs_CAPEM = caPEM,
                                        rs_ModulePubPEM = modPub\<rparr>,
                                  snd (Recompute S B env (tok_TenantID tok) [newID] w2)))))))"

section \<open>Reports of an enrolled machine\<close>

definition handleHeartbeat ::
  "'s store_ops \<Rightarrow> int64 \<Rightarrow> heartbeat option \<Rightarrow> identity \<Rightarrow>
   ('s, 'b) world \<Rightarrow> unit response \<times> ('s, 'b) world" where
  "handleHeartbeat S now body idn w =
     (case body of
        None \<Rightarrow> (HttpError StatusBadRequest ''bad request'', w)
      | Some hb \<Rightarrow>
          (case on_store (TouchHeartbeat S (idn_MachineID idn) now (hb_Inventory hb)) w of
             (Inl e, w1) \<Rightarrow>
               (if e = ErrNotFound then (HttpError StatusForbidden ''unknown machine'', w1)
                else (HttpError StatusInternalServerError ''store error'', w1))
           | (Inr _, w1) \<Rightarrow> (NoContent, w1)))"

definition handleStatus ::
  "'s store_ops \<Rightarrow> int64 \<Rightarrow> status_report option \<Rightarrow> identity \<Rightarrow>
   ('s, 'b) world \<Rightarrow> unit response \<times> ('s, 'b) world" where
  "handleStatus S now body idn w =
     (case body of
        None \<Rightarrow> (HttpError StatusBadRequest ''bad request'', w)
      | Some rep \<Rightarrow>
          (case on_store (SetStatus S (idn_MachineID idn) now (rep_Modules rep)) w of
             (Inl e, w1) \<Rightarrow>
               (if e = ErrNotFound then (HttpError StatusForbidden ''unknown machine'', w1)
                else (HttpError StatusInternalServerError ''store error'', w1))
           | (Inr _, w1) \<Rightarrow> (NoContent, w1)))"

text \<open>The machine must be in the store before the body is read; the new certificate is for
  the identity of the connection.\<close>

definition handleRenew ::
  "'s store_ops \<Rightarrow> (string \<Rightarrow> string \<Rightarrow> string \<Rightarrow> string option) \<Rightarrow> string option \<Rightarrow> identity \<Rightarrow>
   ('s, 'b) world \<Rightarrow> string response \<times> ('s, 'b) world" where
  "handleRenew S signAgent body idn w =
     (case on_store (GetMachine S (idn_MachineID idn)) w of
        (Inl _, w1) \<Rightarrow> (HttpError StatusForbidden ''unknown machine'', w1)
      | (Inr _, w1) \<Rightarrow>
          (case body of
             None \<Rightarrow> (HttpError StatusBadRequest ''bad request'', w1)
           | Some csr \<Rightarrow>
               (case signAgent csr (idn_MachineID idn) (idn_TenantID idn) of
                  None \<Rightarrow> (HttpError StatusBadRequest ''csr rejected'', w1)
                | Some certPEM \<Rightarrow> (Json certPEM, w1))))"

definition handleModule ::
  "'s store_ops \<Rightarrow> string \<Rightarrow> string \<Rightarrow> identity \<Rightarrow>
   ('s, 'b) world \<Rightarrow> module_artifact response \<times> ('s, 'b) world" where
  "handleModule S name version idn w =
     (case on_store (GetModule S name version) w of
        (Inl e, w1) \<Rightarrow>
          (if e = ErrNotFound then (HttpError StatusNotFound ''module not found'', w1)
           else (HttpError StatusInternalServerError ''store error'', w1))
      | (Inr a, w1) \<Rightarrow> (Json a, w1))"

section \<open>The live registry\<close>

definition NewLiveRegistry :: "metrics_sample gomap" where
  "NewLiveRegistry = fmempty"

definition live_Set ::
  "string \<Rightarrow> metrics_sample \<Rightarrow> ('s, 'b) world \<Rightarrow> ('s, 'b) world" where
  "live_Set machineID sample w = w\<lparr>w_live := fmupd machineID sample (w_live w)\<rparr>"

definition live_Get :: "string \<Rightarrow> ('s, 'b) world \<Rightarrow> metrics_sample option" where
  "live_Get machineID w = fmlookup (w_live w) machineID"

definition live_topic :: "string \<Rightarrow> string" where
  "live_topic machineID = ''live:'' @ machineID"

definition handleMetricsPush ::
  "'b bus_ops \<Rightarrow> metrics_sample option \<Rightarrow> identity \<Rightarrow>
   ('s, 'b) world \<Rightarrow> unit response \<times> ('s, 'b) world" where
  "handleMetricsPush B body idn w =
     (case body of
        None \<Rightarrow> (HttpError StatusBadRequest ''bad request'', w)
      | Some sample \<Rightarrow>
          let plain = (NoContent, publish B (live_topic (idn_MachineID idn))
                         (live_Set (idn_MachineID idn) sample w))
          in if mt_GPUs sample \<noteq> [] \<and> mt_CPUPercent sample = 0 \<and> mt_MemTotal sample = 0
             then (case live_Get (idn_MachineID idn) w of
                     None \<Rightarrow> plain
                   | Some prev \<Rightarrow>
                       (NoContent, publish B (live_topic (idn_MachineID idn))
                          (live_Set (idn_MachineID idn)
                             (prev\<lparr>mt_GPUs := mt_GPUs sample, mt_AtUnix := mt_AtUnix sample\<rparr>) w)))
             else plain)"

text \<open>
  \<open>now.Sub(time.Unix(at, 0)) <= 30s\<close>: the clock has a reading in nanoseconds since the
  epoch; the difference saturates far outside the comparison. \<open>time.Unix\<close> adds its
  argument to the seconds from year 1 to 1970 in \<open>int64\<close>.
\<close>

definition liveFreshness :: int where
  "liveFreshness = 30 * 10 ^ 9"

definition unix_to_internal :: int64 where
  "unix_to_internal = 62135596800"

definition fresh_at :: "int \<Rightarrow> metrics_sample \<Rightarrow> bool" where
  "fresh_at nowNs sample \<longleftrightarrow>
     nowNs - (sint (mt_AtUnix sample + unix_to_internal) - sint unix_to_internal) * 10 ^ 9
       \<le> liveFreshness"

definition handleLiveAll ::
  "'s store_ops \<Rightarrow> int \<Rightarrow> string \<Rightarrow> ('s, 'b) world \<Rightarrow> metrics_sample gomap response \<times> ('s, 'b) world" where
  "handleLiveAll S nowNs tenant w =
     (case on_store (ListMachines S tenant) w of
        (Inl _, w1) \<Rightarrow> (HttpError StatusInternalServerError ''store error'', w1)
      | (Inr machines, w1) \<Rightarrow>
          (Json (fold (\<lambda>m out. case live_Get (m_ID m) w1 of
                     None \<Rightarrow> out
                   | Some sample \<Rightarrow> if fresh_at nowNs sample then fmupd (m_ID m) sample out else out)
                   machines fmempty), w1))"

end
