(* ===== verification/Control_Correct.thy ===== *)
theory Control_Correct
  imports Group_Api_Correct Admin_Api Command_Api Agent_Api
begin

text \<open>
  The remaining operator endpoints, the commands and the agent API against the
  specification: each leaves the contents alone or makes one \<^const>\<open>fleet_step\<close>, and
  publishes the topics of the machines it changed.
\<close>

lemma wrote_steady:
  "wrote view healthy f w w1 \<Longrightarrow> steady view healthy w1 w2 \<Longrightarrow> wrote view healthy f w w2"
  by (simp add: steady_def wrote_def)

lemma wrote_wrote:
  "wrote view healthy f w w1 \<Longrightarrow> wrote view healthy g w1 w2 \<Longrightarrow>
   wrote view healthy (\<lambda>fl. g (f fl)) w w2"
  by (simp add: wrote_def)

definition edit_override :: "module_spec list \<Rightarrow> machine \<Rightarrow> machine" where
  "edit_override specs m = m\<lparr>m_Override := specs\<rparr>"

lemma keeps_place_edit_override: "keeps_place (edit_override specs)"
  by (simp add: keeps_place_def edit_override_def)

lemma put_machine_edit_more:
  assumes "keyed fl" and m: "fmlookup (fl_machines fl) (m_ID m) = Some m" "m_ID m \<notin> ids"
    and f: "keeps_place f" "keeps_place g"
  shows "\<exists>h. keeps_place h \<and>
    put_machine (g m) (edit_machines f ids fl) = edit_machines h (insert (m_ID m) ids) fl"
proof -
  let ?h = "\<lambda>x. if m_ID x = m_ID m then g x else f x"
  have "keeps_place ?h" using f by (auto simp: keeps_place_def)
  moreover have "put_machine (g m) (edit_machines f ids fl) = edit_machines ?h (insert (m_ID m) ids) fl"
  proof (intro fleet.equality fmap_ext)
    fix k
    have id: "m_ID (g m) = m_ID m" using f(2) by (simp add: keeps_place_def)
    show "fmlookup (fl_machines (put_machine (g m) (edit_machines f ids fl))) k =
        fmlookup (fl_machines (edit_machines ?h (insert (m_ID m) ids) fl)) k"
    proof (cases "fmlookup (fl_machines fl) k")
      case None
      then have "k \<noteq> m_ID m" using m(1) by auto
      with None id show ?thesis by (simp add: fleet_fields)
    next
      case (Some x)
      have x: "m_ID x = k" using keyed_machine [OF assms(1) Some] .
      show ?thesis
      proof (cases "k = m_ID m")
        case True
        with Some m(1) have "x = m" by simp
        with Some True id show ?thesis by (simp add: fleet_fields)
      next
        case False
        with Some x id show ?thesis by (simp add: fleet_fields)
      qed
    qed
  qed (simp_all add: put_machine_def)
  ultimately show ?thesis by blast
qed

context store_contract
begin

lemma steady_refl: "healthy (w_store w) \<Longrightarrow> steady view healthy w w"
  by (simp add: steady_def)

lemma deleteMachine_implements:
  assumes "healthy (w_store w)" "tidy (view (w_store w))"
    and c: "deleteMachine S B pid w = (r, w')"
  shows "implements view healthy B w w' \<and> fmlookup (fl_machines (view (w_store w'))) pid = None"
proof -
  obtain r1 w1 where g: "on_store (GetMachine S pid) w = (r1, w1)" by fastforce
  note gg = get_machine_step [OF assms(1) g]
  then have st1: "steady view healthy w w1" by simp
  show ?thesis
  proof (cases "fmlookup (fl_machines (view (w_store w))) pid")
    case None
    with gg c g have "w' = w1" by (auto simp: deleteMachine_def)
    then show ?thesis using steady_implements [OF st1] steady_view [OF st1] None by simp
  next
    case (Some m)
    have key: "m_ID m = pid" using keyed_machine [OF tidy_keyed [OF assms(2)] Some] .
    obtain r2 w2 where d: "on_store (DeleteMachine S pid) w1 = (r2, w2)" by fastforce
    have w2: "r2 = Inr ()" "wrote view healthy (drop_machine pid) w w2"
      using delete_machine_step [OF steady_healthy [OF st1] d] steady_wrote [OF st1] by simp_all
    have w': "w' = publish B pid w2"
      using c g gg Some key d w2(1) by (simp add: deleteMachine_def)
    have "stale_streams (view (w_store w)) (drop_machine pid (view (w_store w))) \<subseteq> set [pid]"
      by (auto simp: stale_streams_def fleet_fields split: if_splits)
    with w2(2) show ?thesis
      unfolding implements_def w'
      by (auto simp: wrote_def fleet_fields intro!: machine_deleted exI [of _ "[pid]"])
  qed
qed

lemma putDesired_implements:
  assumes "healthy (w_store w)" "tidy (view (w_store w))"
    and c: "putDesired S B env pid body w = (r, w')"
    and names: "unique_group_names (view (w_store w'))"
  shows "implements view healthy B w w'"
proof -
  obtain r1 w1 where g: "on_store (GetMachine S pid) w = (r1, w1)" by fastforce
  note gg = get_machine_step [OF assms(1) g]
  then have st1: "steady view healthy w w1" by simp
  show ?thesis
  proof (cases "\<exists>m specs. fmlookup (fl_machines (view (w_store w))) pid = Some m \<and> body = Some specs")
    case False
    with gg c g have "w' = w1" by (auto simp: putDesired_def split: option.splits)
    then show ?thesis using steady_implements [OF st1] by simp
  next
    case True
    then obtain m specs where lk: "fmlookup (fl_machines (view (w_store w))) pid = Some m"
      and b: "body = Some specs" by blast
    have key: "m_ID m = pid" using keyed_machine [OF tidy_keyed [OF assms(2)] lk] .
    obtain v :: "desired_state response option" and w2 where v: "validateModules S specs w1 = (v, w2)" by fastforce
    have st2: "steady view healthy w w2"
      using steady_trans [OF st1 validateModules_steady [OF steady_healthy [OF st1] v]] .
    obtain r3 w3 where s: "on_store (SaveMachine S (edit_override specs m)) w2 = (r3, w3)" by fastforce
    from save_machine_implements [OF st2 assms(2) lk keeps_place_edit_override s]
    have r3: "r3 = Inr ()" and w3: "wrote view healthy (edit_machines (edit_override specs) {pid}) w w3"
      by simp_all
    define w4 where "w4 = snd (Recompute S B env (m_TenantID m) [pid] w3)"
    have h4: "healthy (w_store w4)"
      using Recompute_only_desired [OF wrote_healthy [OF w3]] by (simp add: w4_def)
    obtain r5 w5 where g5: "on_store (GetMachine S pid) w4 = (r5, w5)" by fastforce
    have st5: "steady view healthy w4 w5" using get_machine_step [OF h4 g5] by simp
    have "w' = w2 \<or> w' = w4 \<or> w' = w5"
      using c g gg lk b v s r3 key g5 w4_def
      by (auto simp: putDesired_def edit_override_def Let_def split: option.splits sum.splits prod.splits)
    moreover have "implements view healthy B w w4" if "unique_group_names (view (w_store w4))"
      using edited_machine_implements [OF w3 keeps_place_edit_override assms(2) lk] that
      by (simp add: w4_def)
    moreover have "view (w_store w5) = view (w_store w4)" "w_bus w5 = w_bus w4" "healthy (w_store w5)"
      using st5 by (simp_all add: steady_def)
    ultimately show ?thesis using names steady_implements [OF st2] by (auto simp: implements_def)
  qed
qed

text \<open>A new tenant and its default group, which has no machine yet.\<close>

lemma createTenant_implements:
  assumes "healthy (w_store w)" "tidy (view (w_store w))"
    and c: "createTenant S now newID newID2 body w = (r, w')"
    and fresh: "newID \<noteq> []" "fmlookup (fl_tenants (view (w_store w))) newID = None"
      "fmlookup (fl_groups (view (w_store w))) newID2 = None"
      "\<And>k m. fmlookup (fl_machines (view (w_store w))) k = Some m \<Longrightarrow> m_TenantID m \<noteq> newID"
  shows "implements view healthy B w w'"
proof (cases "\<exists>name. body = Some name \<and> name \<noteq> []")
  case False
  then have "w' = w" using c by (auto simp: createTenant_def split: option.splits if_splits)
  then show ?thesis using steady_implements [OF steady_refl [OF assms(1)]] by simp
next
  case True
  then obtain name where b: "body = Some name" "name \<noteq> []" by blast
  let ?t = "\<lparr>t_ID = newID, t_Name = name, t_Created = now\<rparr>"
  let ?g = "\<lparr>g_ID = newID2, g_TenantID = newID, g_Name = ''all'', g_MatchAll = True,
      g_Selector = fmempty, g_Modules = [], g_Created = now\<rparr>"
  obtain r1 w1 where s1: "on_store (SaveTenant S ?t) w = (r1, w1)" by fastforce
  have w1: "r1 = Inr ()" "wrote view healthy (put_tenant ?t) w w1"
    using save_tenant_step [OF assms(1) _ s1] fresh by simp_all
  obtain r2 w2 where s2: "on_store (SaveGroup S ?g) w1 = (r2, w2)" by fastforce
  have "same_group_place (view (w_store w1)) ?g"
    using w1(2) fresh by (simp add: wrote_def same_group_place_def fleet_fields)
  then have w2: "r2 = Inr ()" "wrote view healthy (put_group ?g) w1 w2"
    using save_group_step [OF wrote_healthy [OF w1(2)] _ s2] by simp_all
  have "w' = w2" using c b s1 s2 w1 w2 by (simp add: createTenant_def Let_def)
  moreover have "fleet_step (view (w_store w)) (put_group ?g (put_tenant ?t (view (w_store w))))"
    by (rule tenant_created) (use fresh in auto)
  ultimately show ?thesis
    using w1(2) w2(2)
    by (auto simp: implements_def wrote_def stale_streams_def fleet_fields intro!: exI [of _ "[]"])
qed

text \<open>Token and module endpoints and listings leave tenants, groups and machines alone.\<close>

lemma createToken_steady:
  assumes "healthy (w_store w)" "createToken S now newID newID2 body w = (r, w')"
  shows "steady view healthy w w'"
proof (cases "\<exists>req. body = Some req \<and> ct_TenantID req \<noteq> []")
  case False
  then show ?thesis
    using assms steady_refl by (auto simp: createToken_def split: option.splits if_splits)
next
  case True
  then obtain req where b: "body = Some req" "ct_TenantID req \<noteq> []" by blast
  obtain r1 w1 where g: "on_store (GetTenant S (ct_TenantID req)) w = (r1, w1)" by fastforce
  then have st1: "steady view healthy w w1" using get_tenant_step [OF assms(1)] by blast
  have "w' = w1 \<or> (\<exists>tk r2. on_store (SaveToken S tk) w1 = (r2, w'))"
    using assms(2) b g
    by (auto simp: createToken_def Let_def split: sum.splits prod.splits)
  then show ?thesis
    using st1 token_steps(2) [OF steady_healthy [OF st1]] steady_trans [OF st1] by auto
qed

lemma uploadModule_steady:
  assumes "healthy (w_store w)" "uploadModule S signModule body w = (r, w')"
  shows "steady view healthy w w'"
proof -
  have "w' = w \<or> (\<exists>a r2. on_store (SaveModule S a) w = (r2, w'))"
    using assms(2) by (auto simp: uploadModule_def Let_def split: option.splits if_splits sum.splits prod.splits)
  then show ?thesis using assms(1) steady_refl module_write_steps(1) [OF assms(1)] by blast
qed

lemma forgetCommands_steady: "healthy (w_store w) \<Longrightarrow> steady view healthy w (forgetCommands S names w)"
proof (induction names arbitrary: w)
  case Nil
  then show ?case by (simp add: steady_refl)
next
  case (Cons n names)
  obtain r w1 where d: "on_store (DeleteModule S n ''1'') w = (r, w1)" by fastforce
  with module_write_steps(2) [OF Cons.prems d] Cons.IH [of w1] show ?case
    by (auto intro: steady_trans steady_healthy simp del: on_store_simps)
qed

section \<open>Commands\<close>

lemma queue_group_implements:
  assumes st: "steady view healthy w w0" and fl: "tidy (view (w_store w))"
    and c: "queue_group S B env p hist tid spec w0 = (r, w')"
    and names: "unique_group_names (view (w_store w'))"
  shows "implements view healthy B w w'"
proof -
  obtain r1 w1 where g: "on_store (GetGroup S tid) w0 = (r1, w1)" by fastforce
  note gg = get_group_step [OF steady_healthy [OF st] g]
  then have st1: "steady view healthy w w1" using steady_trans [OF st] by blast
  show ?thesis
  proof (cases "fmlookup (fl_groups (view (w_store w))) tid")
    case None
    with gg c g have "w' = w1" by (auto simp: queue_group_def steady_view [OF st])
    then show ?thesis using steady_implements [OF st1] by simp
  next
    case (Some g0)
    obtain kept dropped where p: "pruneCommands p (g_Modules g0 @ [spec]) (maxCommands hist) = (kept, dropped)"
      by fastforce
    let ?g = "g0\<lparr>g_Modules := kept\<rparr>"
    obtain r2 w2 where s: "on_store (SaveGroup S ?g) w1 = (r2, w2)" by fastforce
    have gid: "g_ID g0 = tid" using keyed_group [OF tidy_keyed [OF fl] Some] .
    with Some have same: "same_group_place (view (w_store w)) ?g" by (simp add: same_group_place_def)
    have tn: "g_TenantID ?g \<noteq> []" using Some fl by (auto simp: tidy_def tenants_named_def)
    from save_group_implements [OF st1 same s]
    have r2: "r2 = Inr ()" and w2: "wrote view healthy (put_group ?g) w w2" by simp_all
    note w3 = wrote_steady [OF w2 forgetCommands_steady [OF wrote_healthy [OF w2], of dropped]]
    have "w' = snd (Recompute S B env (g_TenantID ?g) [] (forgetCommands S dropped w2))"
      using c g gg Some p s r2 by (simp add: queue_group_def steady_view [OF st] Let_def)
    then show ?thesis using saved_group_implements [OF w3 same tn, of B env] names by simp
  qed
qed

lemma queue_machine_implements:
  assumes st: "steady view healthy w w0" and fl: "tidy (view (w_store w))"
    and c: "queue_machine S B env p hist tid spec w0 = (r, w')"
    and names: "unique_group_names (view (w_store w'))"
  shows "implements view healthy B w w'"
proof -
  obtain r1 w1 where g: "on_store (GetMachine S tid) w0 = (r1, w1)" by fastforce
  note gg = get_machine_step [OF steady_healthy [OF st] g]
  then have st1: "steady view healthy w w1" using steady_trans [OF st] by blast
  show ?thesis
  proof (cases "fmlookup (fl_machines (view (w_store w))) tid")
    case None
    with gg c g have "w' = w1" by (auto simp: queue_machine_def steady_view [OF st])
    then show ?thesis using steady_implements [OF st1] by simp
  next
    case (Some m)
    obtain kept dropped where p: "pruneCommands p (m_Override m @ [spec]) (maxCommands hist) = (kept, dropped)"
      by fastforce
    have key: "m_ID m = tid" using keyed_machine [OF tidy_keyed [OF fl] Some] .
    obtain r2 w2 where s: "on_store (SaveMachine S (edit_override kept m)) w1 = (r2, w2)" by fastforce
    from save_machine_implements [OF st1 fl Some keeps_place_edit_override s]
    have r2: "r2 = Inr ()" and w2: "wrote view healthy (edit_machines (edit_override kept) {tid}) w w2"
      by simp_all
    note w3 = wrote_steady [OF w2 forgetCommands_steady [OF wrote_healthy [OF w2], of dropped]]
    have "w' = snd (Recompute S B env (m_TenantID m) [tid] (forgetCommands S dropped w2))"
      using c g gg Some p s r2 key by (simp add: queue_machine_def steady_view [OF st] Let_def edit_override_def)
    then show ?thesis
      using edited_machine_implements [OF w3 keeps_place_edit_override fl Some] names by simp
  qed
qed

text \<open>The loop over the machines a selector matches edits the overrides of the hits.\<close>

lemma queue_each_edits:
  assumes k: "keyed (view (w_store w))"
    and w0: "wrote view healthy (edit_machines f (set hit)) w w0" "keeps_place f" "distinct hit"
    and ms: "distinct (map m_ID ms)" "set hit \<inter> m_ID ` set ms = {}"
      "\<And>m. m \<in> set ms \<Longrightarrow> fmlookup (fl_machines (view (w_store w))) (m_ID m) = Some m"
    and c: "queue_each S hist ps i selector spec ms hit w0 = (hit', w')"
  shows "\<exists>f'. wrote view healthy (edit_machines f' (set hit')) w w' \<and> keeps_place f' \<and> distinct hit' \<and>
    set hit' = set hit \<union> m_ID ` {m \<in> set ms. selectorMatches selector (m_Labels m)}"
  using w0 ms c
proof (induction ms arbitrary: f hit w0 i)
  case Nil
  then show ?case by auto
next
  case (Cons m ms)
  show ?case
  proof (cases "selectorMatches selector (m_Labels m)")
    case False
    with Cons.prems(7) have c': "queue_each S hist ps (Suc i) selector spec ms hit w0 = (hit', w')" by simp
    have "\<exists>f'. wrote view healthy (edit_machines f' (set hit')) w w' \<and> keeps_place f' \<and> distinct hit' \<and>
        set hit' = set hit \<union> m_ID ` {m \<in> set ms. selectorMatches selector (m_Labels m)}"
      by (rule Cons.IH [OF Cons.prems(1-3) _ _ _ c']) (use Cons.prems in auto)
    moreover have "{x \<in> set (m # ms). selectorMatches selector (m_Labels x)} =
        {x \<in> set ms. selectorMatches selector (m_Labels x)}" using False by auto
    ultimately show ?thesis by simp
  next
    case True
    obtain kept dropped where p: "pruneCommands (ps i) (m_Override m @ [spec]) (maxCommands hist) = (kept, dropped)"
      by fastforce
    obtain r1 w1 where s: "on_store (SaveMachine S (edit_override kept m)) w0 = (r1, w1)" by fastforce
    have lk: "fmlookup (fl_machines (view (w_store w))) (m_ID m) = Some m" and new: "m_ID m \<notin> set hit"
      using Cons.prems(5,6) by auto
    have "same_place (view (w_store w0)) (edit_override kept m)"
      using Cons.prems(1,2) lk new by (auto simp: wrote_def same_place_def edit_override_def)
    from save_machine_step [OF wrote_healthy [OF Cons.prems(1)] this s]
    have r1: "r1 = Inr ()" and w1: "wrote view healthy (put_machine (edit_override kept m)) w0 w1" by simp_all
    from put_machine_edit_more [OF k lk new Cons.prems(2) keeps_place_edit_override, of kept]
    obtain h where h: "keeps_place h"
      "put_machine (edit_override kept m) (edit_machines f (set hit) (view (w_store w))) =
       edit_machines h (insert (m_ID m) (set hit)) (view (w_store w))" by blast
    have "wrote view healthy (edit_machines h (set (hit @ [m_ID m]))) w w1"
      using wrote_wrote [OF Cons.prems(1) w1] h(2) by (simp add: wrote_def)
    then have w2: "wrote view healthy (edit_machines h (set (hit @ [m_ID m]))) w (forgetCommands S dropped w1)"
      using wrote_steady forgetCommands_steady wrote_healthy by blast
    have c': "queue_each S hist ps (Suc i) selector spec ms (hit @ [m_ID m]) (forgetCommands S dropped w1) = (hit', w')"
      using Cons.prems(7) True p s r1 by (simp add: edit_override_def)
    have "\<exists>f'. wrote view healthy (edit_machines f' (set hit')) w w' \<and> keeps_place f' \<and> distinct hit' \<and>
        set hit' = set (hit @ [m_ID m]) \<union> m_ID ` {m \<in> set ms. selectorMatches selector (m_Labels m)}"
      by (rule Cons.IH [OF w2 h(1) _ _ _ _ c']) (use Cons.prems new in auto)
    moreover have "{x \<in> set (m # ms). selectorMatches selector (m_Labels x)} =
        insert m {x \<in> set ms. selectorMatches selector (m_Labels x)}" using True by auto
    ultimately show ?thesis by simp
  qed
qed

lemma queue_selector_implements:
  assumes st: "steady view healthy w w0" and fl: "tidy (view (w_store w))" and tid: "tid \<noteq> []"
    and c: "queue_selector S B env ps hist tid selector spec w0 = (r, w')"
    and names: "unique_group_names (view (w_store w'))"
  shows "implements view healthy B w w'"
proof -
  obtain r1 w1 where l: "on_store (ListMachines S tid) w0 = (r1, w1)" by fastforce
  from list_machines_step [OF steady_healthy [OF st] l] obtain ms where
    ms: "r1 = Inr ms" "distinct (map m_ID ms)" "set ms = machines_of (view (w_store w)) tid"
    and st1: "steady view healthy w w1"
    using steady_trans [OF st] by (auto simp: steady_view [OF st])
  obtain hit w2 where q: "queue_each S hist ps 0 selector spec ms [] w1 = (hit, w2)" by fastforce
  have found: "fmlookup (fl_machines (view (w_store w))) (m_ID m) = Some m" if "m \<in> set ms" for m
    using that unfolding ms(3) machines_of_def by blast
  have "keeps_place (\<lambda>m. m)" by (simp add: keeps_place_def)
  moreover have none: "edit_machines f {} fl = fl" for f fl
    by (intro fleet.equality fmap_ext) (auto simp: map_option_case split: option.split)
  then have "wrote view healthy (edit_machines (\<lambda>m. m) (set [])) w w1"
    using st1 by (simp add: wrote_def steady_def)
  ultimately have "\<exists>f. wrote view healthy (edit_machines f (set hit)) w w2 \<and> keeps_place f \<and> distinct hit \<and>
      set hit = set [] \<union> m_ID ` {m \<in> set ms. selectorMatches selector (m_Labels m)}"
    by (intro queue_each_edits [OF tidy_keyed [OF fl] _ _ _ ms(2) _ found q]) simp_all
  then obtain f where f: "wrote view healthy (edit_machines f (set hit)) w w2" "keeps_place f" "distinct hit"
      "set hit = m_ID ` {m \<in> set ms. selectorMatches selector (m_Labels m)}" by auto
  show ?thesis
  proof (cases "hit = []")
    case True
    then have st2: "steady view healthy w w2" using f(1) none by (simp add: wrote_def steady_def)
    obtain r3 w3 where d: "on_store (DeleteModule S (ms_Name spec) ''1'') w2 = (r3, w3)" by fastforce
    then have "w' = w3" using c l ms(1) q True by (simp add: queue_selector_def)
    moreover have "steady view healthy w w3"
      using module_write_steps(2) [OF steady_healthy [OF st2] d] steady_trans [OF st2] by blast
    ultimately show ?thesis using steady_implements by blast
  next
    case False
    then have w': "w' = snd (Recompute S B env tid hit w2)"
      using c l ms(1) q by (simp add: queue_selector_def)
    have "\<exists>m. fmlookup (fl_machines (view (w_store w))) i = Some m \<and> m_TenantID m = tid"
      if "i \<in> set hit" for i
    proof -
      from that f(4) obtain m where "m \<in> set ms" "i = m_ID m" by blast
      with found ms(3) tid show ?thesis by (auto simp: machines_of_def in_tenant_def)
    qed
    then show ?thesis
      using edited_machines_implement [OF f(1,2,3) False tid _ names [unfolded w']] w' by simp
  qed
qed

lemma createCommand_implements:
  assumes "healthy (w_store w)" "tidy (view (w_store w))"
    and c: "createCommand S B signModule env ps hist now newID body w = (r, w')"
    and names: "unique_group_names (view (w_store w'))"
  shows "implements view healthy B w w'"
proof (cases body)
  case None
  then show ?thesis
    using c steady_implements steady_refl [OF assms(1)] by (auto simp: createCommand_def)
next
  case (Some req)
  let ?script = "command_script (TrimSpace (cc_Script req))"
  let ?name = "commandName now newID"
  let ?art = "\<lparr>art_Name = ?name, art_Version = ''1'', art_Exec = ''payload'',
      art_Payload = ?script, art_Signature = signModule ?script\<rparr>"
  let ?spec = "command_spec ?name (cc_Config req) (cc_Label req)"
  obtain r1 w1 where s: "on_store (SaveModule S ?art) w = (r1, w1)" by fastforce
  have st: "steady view healthy w w1" and r1: "r1 = Inr ()"
    using module_write_steps(1) [OF assms(1) s] by simp_all
  obtain out w2 where q: "(if cc_TargetKind req = ''group''
      then queue_group S B env (ps 0) hist (cc_TargetID req) ?spec w1
      else if cc_TargetKind req = ''machine''
      then queue_machine S B env (ps 0) hist (cc_TargetID req) ?spec w1
      else queue_selector S B env ps hist (cc_TargetID req) (cc_Selector req) ?spec w1) = (out, w2)"
    by fastforce
  have "w' = w \<or> cc_TargetID req \<noteq> [] \<and> w' = w2"
    using c Some s r1 q unfolding createCommand_def Let_def
    by (auto split: if_splits sum.splits)
  moreover have "implements view healthy B w w2"
    if "unique_group_names (view (w_store w2))" "cc_TargetID req \<noteq> []"
    using q queue_group_implements [OF st assms(2) _ that(1)]
      queue_machine_implements [OF st assms(2) _ that(1)]
      queue_selector_implements [OF st assms(2) that(2) _ that(1)]
    by (auto split: if_splits)
  ultimately show ?thesis using names steady_implements steady_refl [OF assms(1)] by blast
qed

lemma cancelCommand_implements:
  assumes "healthy (w_store w)" "tidy (view (w_store w))"
    and c: "cancelCommand S B env name kind tid w = (r, w')"
    and names: "unique_group_names (view (w_store w'))"
  shows "implements view healthy B w w'"
proof -
  obtain r1 w1 where g: "on_store (GetGroup S tid) w = (r1, w1)" by fastforce
  note gg = get_group_step [OF assms(1) g]
  obtain r2 w2 where m: "on_store (GetMachine S tid) w = (r2, w2)" by fastforce
  note mm = get_machine_step [OF assms(1) m]
  consider (no) "w' = w \<or> w' = w1 \<or> w' = w2"
    | (group) g0 where "isCommand name" "kind = ''group''"
        "fmlookup (fl_groups (view (w_store w))) tid = Some g0"
    | (mach) m0 where "isCommand name" "kind = ''machine''"
        "fmlookup (fl_machines (view (w_store w))) tid = Some m0"
    using c g gg m mm
    by (cases "fmlookup (fl_groups (view (w_store w))) tid";
        cases "fmlookup (fl_machines (view (w_store w))) tid")
       (auto simp: cancelCommand_def split: if_splits)
  then show ?thesis
  proof cases
    case no
    then show ?thesis using gg mm steady_implements steady_refl [OF assms(1)] by blast
  next
    case group
    let ?g = "g0\<lparr>g_Modules := drop_named name (g_Modules g0)\<rparr>"
    have st1: "steady view healthy w w1" using gg by simp
    obtain r3 w3 where s: "on_store (SaveGroup S ?g) w1 = (r3, w3)" by fastforce
    have "g_ID g0 = tid" using keyed_group [OF tidy_keyed [OF assms(2)] group(3)] .
    with group have same: "same_group_place (view (w_store w)) ?g" by (simp add: same_group_place_def)
    have tn: "g_TenantID ?g \<noteq> []" using group assms(2) by (auto simp: tidy_def tenants_named_def)
    from save_group_implements [OF st1 same s]
    have r3: "r3 = Inr ()" and w3: "wrote view healthy (put_group ?g) w w3" by simp_all
    have "w' = snd (Recompute S B env (g_TenantID ?g) [] w3)"
      using c g gg group s r3 by (simp add: cancelCommand_def Let_def)
    then show ?thesis using saved_group_implements [OF w3 same tn, of B env] names by simp
  next
    case mach
    let ?specs = "drop_named name (m_Override m0)"
    have st2: "steady view healthy w w2" using mm by simp
    obtain r3 w3 where s: "on_store (SaveMachine S (edit_override ?specs m0)) w2 = (r3, w3)" by fastforce
    have key: "m_ID m0 = tid" using keyed_machine [OF tidy_keyed [OF assms(2)] mach(3)] .
    from save_machine_implements [OF st2 assms(2) mach(3) keeps_place_edit_override s]
    have r3: "r3 = Inr ()" and w3: "wrote view healthy (edit_machines (edit_override ?specs) {tid}) w w3"
      by simp_all
    have "w' = snd (Recompute S B env (m_TenantID m0) [tid] w3)"
      using c m mm mach s r3 key by (simp add: cancelCommand_def Let_def edit_override_def)
    then show ?thesis
      using edited_machine_implements [OF w3 keeps_place_edit_override assms(2) mach(3)] names by simp
  qed
qed

section \<open>Agents\<close>

lemma reported_implements:
  assumes "healthy s1" and f: "keeps_inputs f"
    and v: "view s1 = view (w_store w) \<or> view s1 = edit_machines f ids (view (w_store w))"
  shows "implements view healthy B w (w\<lparr>w_store := s1\<rparr>)"
proof -
  have none: "stale_streams fl fl = {}" for fl by (simp add: stale_streams_def)
  have "stale_streams fl (edit_machines f ids fl) = {}" for fl
    using f by (auto simp: stale_streams_def keeps_inputs_def keeps_place_def map_option_case
        split: option.splits)
  with none v have "stale_streams (view (w_store w)) (view s1) \<subseteq> set []" by auto
  then show ?thesis
    using assms(1) v machine_reported [OF f]
    by (auto simp: implements_def simp del: edit_machines_simps intro!: exI [of _ "[]"])
qed

lemma handleHeartbeat_implements:
  assumes "healthy (w_store w)" "tidy (view (w_store w))"
    and c: "handleHeartbeat S now body idn w = (r, w')"
  shows "implements view healthy B w w'"
proof (cases body)
  case None
  then show ?thesis
    using c steady_implements steady_refl [OF assms(1)] by (auto simp: handleHeartbeat_def)
next
  case (Some hb)
  let ?k = "idn_MachineID idn"
  obtain r1 s1 where t: "TouchHeartbeat S ?k now (hb_Inventory hb) (w_store w) = (r1, s1)" by fastforce
  have w': "w' = w\<lparr>w_store := s1\<rparr>"
    using c Some t by (auto simp: handleHeartbeat_def on_store_def split: sum.splits if_splits)
  let ?f = "touch now (hb_Inventory hb)"
  have kp: "keeps_inputs ?f" "keeps_place ?f" by (simp_all add: keeps_inputs_def keeps_place_def touch_def)
  have "healthy s1 \<and> (view s1 = view (w_store w) \<or> view s1 = edit_machines ?f {?k} (view (w_store w)))"
    using touch_heartbeat [OF assms(1), of ?k now "hb_Inventory hb"] t
      put_machine_edit [OF tidy_keyed [OF assms(2)] _ kp(2)]
    by (auto split: option.splits)
  then show ?thesis unfolding w' using reported_implements [OF _ kp(1)] by blast
qed

lemma handleStatus_implements:
  assumes "healthy (w_store w)" "tidy (view (w_store w))"
    and c: "handleStatus S now body idn w = (r, w')"
  shows "implements view healthy B w w'"
proof (cases body)
  case None
  then show ?thesis
    using c steady_implements steady_refl [OF assms(1)] by (auto simp: handleStatus_def)
next
  case (Some rep)
  let ?k = "idn_MachineID idn"
  obtain r1 s1 where t: "SetStatus S ?k now (rep_Modules rep) (w_store w) = (r1, s1)" by fastforce
  have w': "w' = w\<lparr>w_store := s1\<rparr>"
    using c Some t by (auto simp: handleStatus_def on_store_def split: sum.splits if_splits)
  let ?f = "report now (rep_Modules rep)"
  have kp: "keeps_inputs ?f" "keeps_place ?f" by (simp_all add: keeps_inputs_def keeps_place_def report_def)
  have "healthy s1 \<and> (view s1 = view (w_store w) \<or> view s1 = edit_machines ?f {?k} (view (w_store w)))"
    using set_status [OF assms(1), of ?k now "rep_Modules rep"] t
      put_machine_edit [OF tidy_keyed [OF assms(2)] _ kp(2)]
    by (auto split: option.splits)
  then show ?thesis unfolding w' using reported_implements [OF _ kp(1)] by blast
qed

text \<open>
  Enrollment: a token names the tenant (which is not empty, as \<open>createToken\<close> checks it),
  and the new machine starts with the modules its groups give.
\<close>

lemma handleEnroll_implements:
  assumes "healthy (w_store w)" "tidy (view (w_store w))"
    and c: "handleEnroll S B signAgent modulePub caPEM env now newID body w = (r, w')"
    and fresh: "fmlookup (fl_machines (view (w_store w))) newID = None"
    and tn: "\<And>req tok s. body = Some req \<Longrightarrow>
      ConsumeToken S now (er_Token req) (w_store w) = (Inr tok, s) \<Longrightarrow> tok_TenantID tok \<noteq> []"
    and pub: "modulePub \<noteq> None"
    and names: "unique_group_names (view (w_store w'))"
  shows "implements view healthy B w w'"
proof (cases body)
  case None
  then show ?thesis
    using c steady_implements steady_refl [OF assms(1)] by (auto simp: handleEnroll_def)
next
  case (Some req)
  obtain r1 w1 where t: "on_store (ConsumeToken S now (er_Token req)) w = (r1, w1)" by fastforce
  have st1: "steady view healthy w w1" using token_steps(1) [OF assms(1) t] .
  show ?thesis
  proof (cases "\<exists>tok cert. r1 = Inr tok \<and> signAgent (er_CSRPEM req) newID (tok_TenantID tok) = Some cert")
    case False
    then have "w' = w1" using c Some t by (auto simp: handleEnroll_def split: sum.splits option.splits)
    then show ?thesis using steady_implements [OF st1] by simp
  next
    case True
    then obtain tok cert where tok: "r1 = Inr tok"
      and cert: "signAgent (er_CSRPEM req) newID (tok_TenantID tok) = Some cert" by blast
    let ?m = "\<lparr>m_ID = newID, m_TenantID = tok_TenantID tok, m_Name = er_Name req,
       m_Labels = tok_Labels tok, m_Enrolled = now, m_LastSeen = now,
       m_Inventory = zero_inventory, m_Override = [], m_Desired = zero_desired, m_Status = []\<rparr>"
    have tn': "m_TenantID ?m \<noteq> []"
      using tn [OF Some] t tok by (auto simp: on_store_def split: prod.splits)
    obtain r2 w2 where s: "on_store (SaveMachine S ?m) w1 = (r2, w2)" by fastforce
    have "same_place (view (w_store w1)) ?m" using fresh by (simp add: same_place_def steady_view [OF st1])
    from save_machine_step [OF steady_healthy [OF st1] this s] steady_wrote [OF st1]
    have r2: "r2 = Inr ()" and w2: "wrote view healthy (put_machine ?m) w w2" by simp_all
    have w': "w' = snd (Recompute S B env (m_TenantID ?m) [newID] w2)"
      using c Some t tok cert s r2 pub by (auto simp: handleEnroll_def Let_def)
    have "fleet_step (view (w_store w))
        (settle (m_TenantID ?m) (\<lambda>m'. m_ID m' = m_ID ?m) (put_machine ?m (view (w_store w))))"
      using fresh tn' by (intro machine_enrolled) simp_all
    moreover have "map_option m_Desired (fmlookup (fl_machines (put_machine ?m (view (w_store w)))) k) =
        map_option m_Desired (fmlookup (fl_machines (view (w_store w))) k)"
      if "fmlookup (fl_machines (view (w_store w))) k \<noteq> None" for k
      using that fresh by (auto simp: fleet_fields)
    ultimately show ?thesis
      using recompute_implements [OF w2 names [unfolded w'] tn', where P = "\<lambda>m. m_ID m = newID"] w'
      by (simp add: fleet_fields)
  qed
qed

end

end
