(* ===== verification/Store_Steps.thy ===== *)
theory Store_Steps
  imports File_Store
begin

text \<open>
  Runs of the file store. A run is a list of calls, in the order in which they got the
  mutex, whoever made them, with restarts of the process in between; so a fact about
  every run is a fact about every interleaving of the handlers that use the store. The
  theory shows how often an enrolment token can be spent, what a crash can lose, and
  what the file on disk holds.
\<close>

section \<open>Calls and runs\<close>

datatype store_call =
    CallSaveTenant tenant
  | CallSaveToken enroll_token
  | CallConsumeToken int64 string
  | CallSaveMachine machine
  | CallDeleteMachine string
  | CallTouchHeartbeat string int64 inventory
  | CallSetStatus string int64 "module_status list"
  | CallSaveModule module_artifact
  | CallDeleteModule string string
  | CallSaveGroup group
  | CallDeleteGroup string
  | CallAddGroupMember string string
  | CallRemoveGroupMember string string
  | CallList
  | Restart

text \<open>
  The state after a call. \<open>CallList\<close> stands for the reads that range over a map (the
  other reads leave the state as it is); a restart loads what the path holds.
\<close>

fun fs_exec :: "store_call \<Rightarrow> file_store \<Rightarrow> file_store" where
  "fs_exec (CallSaveTenant t) fs = snd (fs_SaveTenant t fs)"
| "fs_exec (CallSaveToken t) fs = snd (fs_SaveToken t fs)"
| "fs_exec (CallConsumeToken now k) fs = snd (fs_ConsumeToken now k fs)"
| "fs_exec (CallSaveMachine m) fs = snd (fs_SaveMachine m fs)"
| "fs_exec (CallDeleteMachine k) fs = snd (fs_DeleteMachine k fs)"
| "fs_exec (CallTouchHeartbeat k now iv) fs = snd (fs_TouchHeartbeat k now iv fs)"
| "fs_exec (CallSetStatus k now sts) fs = snd (fs_SetStatus k now sts fs)"
| "fs_exec (CallSaveModule a) fs = snd (fs_SaveModule a fs)"
| "fs_exec (CallDeleteModule n v) fs = snd (fs_DeleteModule n v fs)"
| "fs_exec (CallSaveGroup g) fs = snd (fs_SaveGroup g fs)"
| "fs_exec (CallDeleteGroup k) fs = snd (fs_DeleteGroup k fs)"
| "fs_exec (CallAddGroupMember g m) fs = snd (fs_AddGroupMember g m fs)"
| "fs_exec (CallRemoveGroupMember g m) fs = snd (fs_RemoveGroupMember g m fs)"
| "fs_exec CallList fs = snd (fs_ListTenants fs)"
| "fs_exec Restart fs =
     (case OpenFile (\<lambda>n. fs_outcome fs (fs_flushes fs + n)) (\<lambda>n. fs_order fs (fs_ranges fs + n))
             True (fs_tmp fs) (fs_path fs) of
        Inl _ \<Rightarrow> fs | Inr fs' \<Rightarrow> fs')"

fun fs_run :: "store_call list \<Rightarrow> file_store \<Rightarrow> file_store" where
  "fs_run [] fs = fs"
| "fs_run (c # cs) fs = fs_run cs (fs_exec c fs)"

text \<open>How many calls of a run spend a use of the token \<open>k\<close>.\<close>

definition spends :: "string \<Rightarrow> store_call \<Rightarrow> file_store \<Rightarrow> bool" where
  "spends k c fs =
     (case c of
        CallConsumeToken now k' \<Rightarrow> k' = k \<and> \<not> isl (fst (fs_ConsumeToken now k' fs))
      | _ \<Rightarrow> False)"

fun enrolments :: "string \<Rightarrow> store_call list \<Rightarrow> file_store \<Rightarrow> nat" where
  "enrolments k [] fs = 0"
| "enrolments k (c # cs) fs = (if spends k c fs then 1 else 0) + enrolments k cs (fs_exec c fs)"

definition saves_token :: "string \<Rightarrow> store_call \<Rightarrow> bool" where
  "saves_token k c = (case c of CallSaveToken t \<Rightarrow> tok_Token t = k | _ \<Rightarrow> False)"

section \<open>The uses a token has left\<close>

definition token_limit :: "enroll_token \<Rightarrow> gint" where
  "token_limit t = (if tok_MaxUses t = 0 then 1 else tok_MaxUses t)"

definition token_used :: "enroll_token \<Rightarrow> gint" where
  "token_used t = (if tok_Used t \<and> tok_Uses t = 0 then 1 else tok_Uses t)"

definition uses_left :: "enroll_token \<Rightarrow> nat" where
  "uses_left t = nat (sint (token_limit t) - sint (token_used t))"

definition left_in :: "string \<Rightarrow> file_data \<Rightarrow> nat" where
  "left_in k d = (case fmlookup (fd_Tokens d) k of None \<Rightarrow> 0 | Some t \<Rightarrow> uses_left t)"

definition limited_in :: "string \<Rightarrow> file_data \<Rightarrow> bool" where
  "limited_in k d = (case fmlookup (fd_Tokens d) k of None \<Rightarrow> True | Some t \<Rightarrow> 0 <s token_limit t)"

text \<open>The file can lag behind the memory, so a restart can give uses back; both count.\<close>

definition left_on_disk :: "string \<Rightarrow> file_store \<Rightarrow> nat" where
  "left_on_disk k fs = (case fs_path fs of Whole d \<Rightarrow> left_in k d | _ \<Rightarrow> 0)"

definition left_at_most :: "string \<Rightarrow> file_store \<Rightarrow> nat" where
  "left_at_most k fs = max (left_in k (fs_data fs)) (left_on_disk k fs)"

definition limited :: "string \<Rightarrow> file_store \<Rightarrow> bool" where
  "limited k fs \<longleftrightarrow>
     limited_in k (fs_data fs) \<and> (case fs_path fs of Whole d \<Rightarrow> limited_in k d | _ \<Rightarrow> True)"

definition spend :: "enroll_token \<Rightarrow> enroll_token" where
  "spend t = t\<lparr>tok_Uses := token_used t + 1,
               tok_Used := (0 <s token_limit t \<and> token_limit t \<le>s token_used t + 1)\<rparr>"

definition token_open :: "int64 \<Rightarrow> enroll_token \<Rightarrow> bool" where
  "token_open now t \<longleftrightarrow>
     \<not> (0 <s tok_ExpiresAt t \<and> tok_ExpiresAt t <s now) \<and>
     \<not> (0 <s token_limit t \<and> token_limit t \<le>s token_used t)"

text \<open>\<open>ConsumeToken\<close> in terms of these: refuse, or store the spent token.\<close>

lemma fs_ConsumeToken_alt:
  "fs_ConsumeToken now k fs =
     (case fmlookup (fd_Tokens (fs_data fs)) k of
        None \<Rightarrow> (Inl ErrTokenUsed, fs)
      | Some t \<Rightarrow>
          if \<not> token_open now t then (Inl ErrTokenUsed, fs)
          else (case commit (\<lambda>d. d\<lparr>fd_Tokens := fmupd k (spend t) (fd_Tokens d)\<rparr>) fs of
                  (Inl e, fs') \<Rightarrow> (Inl e, fs') | (Inr _, fs') \<Rightarrow> (Inr (spend t), fs')))"
proof (cases "fmlookup (fd_Tokens (fs_data fs)) k")
  case None
  then show ?thesis by (simp add: fs_ConsumeToken_def)
next
  case (Some t)
  define t1 where "t1 = (if tok_Used t \<and> tok_Uses t = 0 then t\<lparr>tok_Uses := 1\<rparr> else t)"
  have limit: "(if tok_MaxUses t1 = 0 then 1 else tok_MaxUses t1) = token_limit t"
    by (simp add: t1_def token_limit_def)
  have used: "tok_Uses t1 = token_used t"
    by (simp add: t1_def token_used_def)
  have spent: "t1\<lparr>tok_Uses := token_used t + 1, tok_Used := b\<rparr> =
      t\<lparr>tok_Uses := token_used t + 1, tok_Used := b\<rparr>" for b
    by (simp add: t1_def)
  show ?thesis
    unfolding fs_ConsumeToken_def Some option.case t1_def [symmetric] Let_def limit
    by (simp add: used spent spend_def token_open_def split: prod.split sum.split)
qed

lemma spend_limit: "token_limit (spend t) = token_limit t"
  by (simp add: spend_def token_limit_def)

lemma uses_left_spend:
  assumes "0 <s token_limit t" and "token_open now t"
  shows "Suc (uses_left (spend t)) = uses_left t"
proof -
  have lt: "token_used t <s token_limit t"
    using assms by (auto simp: token_open_def word_sless_alt word_sle_eq)
  have u: "token_used (spend t) = token_used t + 1"
  proof (cases "token_used t + 1 = 0")
    case True
    then have "\<not> token_limit t \<le>s token_used t + 1"
      using assms(1) by (simp add: word_sless_alt word_sle_eq)
    with True show ?thesis by (simp add: spend_def token_used_def)
  next
    case False
    then show ?thesis by (simp add: spend_def token_used_def)
  qed
  have "sint (token_used t + 1) = sint (token_used t) + 1"
    by (rule sint_int64_inc [OF lt])
  with lt u show ?thesis
    by (simp add: uses_left_def spend_limit word_sless_alt)
qed

section \<open>What a commit does to memory and file\<close>

lemma commit_data [simp]: "fs_data (snd (commit upd fs)) = upd (fs_data fs)"
  by (simp add: commit_def flush_def Let_def split: flush_outcome.splits)

lemma commit_path_cases:
  "fs_path (snd (commit upd fs)) = fs_path fs \<or> fs_path (snd (commit upd fs)) = Whole (upd (fs_data fs))"
  by (simp add: commit_def flush_def Let_def split: flush_outcome.splits)

lemma commit_success:
  "\<not> isl (fst (commit upd fs)) \<Longrightarrow> fs_path (snd (commit upd fs)) = Whole (upd (fs_data fs))"
  by (simp add: commit_def flush_def Let_def split: flush_outcome.splits)

lemma commit_keeps_left:
  assumes "\<And>d. fmlookup (fd_Tokens (upd d)) k = fmlookup (fd_Tokens d) k"
  shows "left_at_most k (snd (commit upd fs)) \<le> left_at_most k fs"
    and "limited k fs \<Longrightarrow> limited k (snd (commit upd fs))"
  using commit_path_cases [of upd fs] assms
  by (auto simp: left_at_most_def left_on_disk_def left_in_def limited_def limited_in_def
      split: file_content.splits)

section \<open>Every call\<close>

lemma OpenFile_restart:
  "fs_data (fs_exec Restart fs) =
     (case fs_path fs of Missing \<Rightarrow> empty_data | Partial \<Rightarrow> fs_data fs | Whole d \<Rightarrow> d)"
  "fs_path (fs_exec Restart fs) = fs_path fs"
  by (simp_all add: OpenFile_def Let_def split: file_content.splits)

lemma consume_keeps_left:
  assumes "limited k fs"
  shows "left_at_most k (snd (fs_ConsumeToken now j fs)) +
      (if j = k \<and> \<not> isl (fst (fs_ConsumeToken now j fs)) then 1 else 0) \<le> left_at_most k fs"
    and "limited k (snd (fs_ConsumeToken now j fs))"
proof -
  let ?upd = "\<lambda>t (d :: file_data). d\<lparr>fd_Tokens := fmupd j (spend t) (fd_Tokens d)\<rparr>"
  have both: "left_at_most k (snd (fs_ConsumeToken now j fs)) +
      (if j = k \<and> \<not> isl (fst (fs_ConsumeToken now j fs)) then 1 else 0) \<le> left_at_most k fs \<and>
      limited k (snd (fs_ConsumeToken now j fs))"
  proof (cases "\<exists>t. fmlookup (fd_Tokens (fs_data fs)) j = Some t \<and> token_open now t")
    case False
    with assms show ?thesis by (auto simp: fs_ConsumeToken_alt split: option.splits)
  next
    case True
    then obtain t where t: "fmlookup (fd_Tokens (fs_data fs)) j = Some t" "token_open now t"
      by blast
    define upd where "upd = ?upd t"
    have snd: "snd (fs_ConsumeToken now j fs) = snd (commit upd fs)"
      and res: "isl (fst (fs_ConsumeToken now j fs)) = isl (fst (commit upd fs))"
      using t by (auto simp: upd_def fs_ConsumeToken_alt split: prod.splits sum.splits)
    show ?thesis
    proof (cases "j = k")
      case False
      then have "fmlookup (fd_Tokens (upd d)) k = fmlookup (fd_Tokens d) k" for d
        by (simp add: upd_def)
      from commit_keeps_left [of upd k fs, OF this] assms False snd show ?thesis by simp
    next
      case True
      have lim: "0 <s token_limit t"
        using assms t True by (simp add: limited_def limited_in_def)
      have left: "Suc (left_in k (upd (fs_data fs))) = left_in k (fs_data fs)"
        using t True uses_left_spend [OF lim t(2)] by (simp add: upd_def left_in_def)
      have lim': "limited_in k (upd (fs_data fs))"
        using lim True by (simp add: upd_def limited_in_def spend_limit)
      show ?thesis
        unfolding snd res left_at_most_def left_on_disk_def limited_def
        using commit_path_cases [of upd fs] commit_success [of upd fs] left lim' assms
        by (auto simp: limited_def)
    qed
  qed
  from both show "left_at_most k (snd (fs_ConsumeToken now j fs)) +
      (if j = k \<and> \<not> isl (fst (fs_ConsumeToken now j fs)) then 1 else 0) \<le> left_at_most k fs"
    and "limited k (snd (fs_ConsumeToken now j fs))"
    by blast+
qed

text \<open>Every call but the ones on the token \<open>k\<close> itself leaves its uses alone.\<close>

lemma commit_op_keeps_left:
  assumes "case c of CallConsumeToken _ _ \<Rightarrow> False | CallList \<Rightarrow> False | Restart \<Rightarrow> False | _ \<Rightarrow> True"
    and "\<not> saves_token k c"
  shows "left_at_most k (fs_exec c fs) \<le> left_at_most k fs"
    and "limited k fs \<Longrightarrow> limited k (fs_exec c fs)"
  using assms
  by (cases c;
      auto simp: fs_op_defs saves_token_def intro!: commit_keeps_left split: option.splits)+

lemma exec_keeps_left:
  assumes "limited k fs" and "\<not> saves_token k c"
  shows "left_at_most k (fs_exec c fs) + (if spends k c fs then 1 else 0) \<le> left_at_most k fs"
    and "limited k (fs_exec c fs)"
proof -
  have "left_at_most k (fs_exec c fs) + (if spends k c fs then 1 else 0) \<le> left_at_most k fs \<and>
      limited k (fs_exec c fs)"
  proof (cases c)
    case (CallConsumeToken now j)
    with consume_keeps_left [OF assms(1)] show ?thesis by (simp add: spends_def)
  next
    case CallList
    with assms show ?thesis
      by (simp add: spends_def read_state left_at_most_def left_on_disk_def limited_def)
  next
    case Restart
    with assms show ?thesis
      by (auto simp: spends_def OpenFile_restart left_at_most_def left_on_disk_def limited_def
          limited_in_def left_in_def empty_data_def simp del: fs_exec.simps split: file_content.splits)
  qed (use assms commit_op_keeps_left [of c k fs] in \<open>auto simp: spends_def simp del: fs_exec.simps\<close>)
  then show "left_at_most k (fs_exec c fs) + (if spends k c fs then 1 else 0) \<le> left_at_most k fs"
    and "limited k (fs_exec c fs)" by blast+
qed

lemma enrolments_le_left:
  assumes "limited k fs" and "\<forall>c\<in>set cs. \<not> saves_token k c"
  shows "enrolments k cs fs \<le> left_at_most k fs"
  using assms
proof (induction cs arbitrary: fs)
  case Nil
  then show ?case by simp
next
  case (Cons c cs)
  then have ih: "enrolments k cs (fs_exec c fs) \<le> left_at_most k (fs_exec c fs)"
    by (intro Cons.IH exec_keeps_left(2)) auto
  from Cons.prems exec_keeps_left(1) [of k fs c] ih show ?case by simp
qed

section \<open>What the file holds\<close>

text \<open>A call that was acknowledged: it wrote, and it returned no error.\<close>

definition acked :: "store_call \<Rightarrow> file_store \<Rightarrow> bool" where
  "acked c fs =
     (case c of
        CallSaveTenant t \<Rightarrow> \<not> isl (fst (fs_SaveTenant t fs))
      | CallSaveToken t \<Rightarrow> \<not> isl (fst (fs_SaveToken t fs))
      | CallConsumeToken now k \<Rightarrow> \<not> isl (fst (fs_ConsumeToken now k fs))
      | CallSaveMachine m \<Rightarrow> \<not> isl (fst (fs_SaveMachine m fs))
      | CallDeleteMachine k \<Rightarrow> \<not> isl (fst (fs_DeleteMachine k fs))
      | CallTouchHeartbeat k now iv \<Rightarrow> \<not> isl (fst (fs_TouchHeartbeat k now iv fs))
      | CallSetStatus k now sts \<Rightarrow> \<not> isl (fst (fs_SetStatus k now sts fs))
      | CallSaveModule a \<Rightarrow> \<not> isl (fst (fs_SaveModule a fs))
      | CallDeleteModule n v \<Rightarrow> \<not> isl (fst (fs_DeleteModule n v fs))
      | CallSaveGroup g \<Rightarrow> \<not> isl (fst (fs_SaveGroup g fs))
      | CallDeleteGroup k \<Rightarrow> \<not> isl (fst (fs_DeleteGroup k fs))
      | CallAddGroupMember g m \<Rightarrow> \<not> isl (fst (fs_AddGroupMember g m fs))
      | CallRemoveGroupMember g m \<Rightarrow> \<not> isl (fst (fs_RemoveGroupMember g m fs))
      | CallList \<Rightarrow> False
      | Restart \<Rightarrow> False)"

lemma fs_run_append [simp]: "fs_run (cs @ ds) fs = fs_run ds (fs_run cs fs)"
  by (induction cs arbitrary: fs) auto

lemma fs_ConsumeToken_commit:
  "snd (fs_ConsumeToken now k fs) = fs \<and> isl (fst (fs_ConsumeToken now k fs)) \<or>
   (\<exists>upd. snd (fs_ConsumeToken now k fs) = snd (commit upd fs) \<and>
          isl (fst (fs_ConsumeToken now k fs)) = isl (fst (commit upd fs)))"
proof (cases "\<exists>t. fmlookup (fd_Tokens (fs_data fs)) k = Some t \<and> token_open now t")
  case False
  then show ?thesis by (auto simp: fs_ConsumeToken_alt split: option.splits)
next
  case True
  then obtain t where "fmlookup (fd_Tokens (fs_data fs)) k = Some t" "token_open now t"
    by blast
  then show ?thesis
    by (intro disjI2 exI [of _ "\<lambda>d. d\<lparr>fd_Tokens := fmupd k (spend t) (fd_Tokens d)\<rparr>"])
      (auto simp: fs_ConsumeToken_alt split: prod.splits sum.splits)
qed

text \<open>A call either leaves the file alone, unacknowledged, or the file takes the new state.\<close>

lemma exec_path:
  "fs_path (fs_exec c fs) = Whole (fs_data (fs_exec c fs)) \<or>
   fs_path (fs_exec c fs) = fs_path fs \<and> \<not> acked c fs"
proof -
  have commit: "fs_path (snd (commit upd fs)) = Whole (fs_data (snd (commit upd fs))) \<or>
      fs_path (snd (commit upd fs)) = fs_path fs \<and> isl (fst (commit upd fs))" for upd
    using commit_path_cases [of upd fs] commit_success [of upd fs] by auto
  show ?thesis
  proof (cases c)
    case (CallConsumeToken now k)
    from fs_ConsumeToken_commit [of now k fs] show ?thesis
    proof (elim disjE exE conjE)
      fix upd
      assume "snd (fs_ConsumeToken now k fs) = snd (commit upd fs)"
        and "isl (fst (fs_ConsumeToken now k fs)) = isl (fst (commit upd fs))"
      with CallConsumeToken commit [of upd] show ?thesis by (simp add: acked_def)
    qed (simp add: CallConsumeToken acked_def)
  next
    case (CallTouchHeartbeat k now iv)
    with commit show ?thesis by (auto simp: acked_def fs_TouchHeartbeat_def split: option.splits)
  next
    case (CallSetStatus k now sts)
    with commit show ?thesis by (auto simp: acked_def fs_SetStatus_def split: option.splits)
  next
    case Restart
    then show ?thesis by (simp only: OpenFile_restart) (simp add: acked_def)
  next
    case CallList
    then show ?thesis by (simp add: acked_def read_state)
  qed (use commit in \<open>auto simp: acked_def fs_op_defs simp del: commit_data\<close>)
qed

lemma file_holds_past_state:
  assumes "fs_path fs = Whole (fs_data fs)"
  shows "\<exists>n \<le> length cs. fs_path (fs_run cs fs) = Whole (fs_data (fs_run (take n cs) fs)) \<and>
    (\<forall>i. n \<le> i \<longrightarrow> i < length cs \<longrightarrow> \<not> acked (cs ! i) (fs_run (take i cs) fs))"
proof (induction cs rule: rev_induct)
  case Nil
  with assms show ?case by simp
next
  case (snoc c cs)
  then obtain n where n: "n \<le> length cs"
      "fs_path (fs_run cs fs) = Whole (fs_data (fs_run (take n cs) fs))"
      "\<forall>i. n \<le> i \<longrightarrow> i < length cs \<longrightarrow> \<not> acked (cs ! i) (fs_run (take i cs) fs)"
    by blast
  show ?case
  proof (cases "fs_path (fs_run (cs @ [c]) fs) = Whole (fs_data (fs_run (cs @ [c]) fs))")
    case True
    then show ?thesis by (intro exI [of _ "length (cs @ [c])"]) simp
  next
    case False
    with exec_path [of c "fs_run cs fs"] n show ?thesis
      by (intro exI [of _ n]) (auto simp: nth_append less_Suc_eq)
  qed
qed

section \<open>Properties\<close>

text \<open>A store as \<open>OpenFile\<close> gives it when there is no file, on a disk that always works.\<close>

definition fresh_store :: file_store where
  "fresh_store =
     \<lparr>fs_data = empty_data, fs_path = Missing, fs_tmp = Missing, fs_outcome = (\<lambda>_. FlushOk),
      fs_flushes = 0, fs_order = (\<lambda>_. in_order), fs_ranges = 0\<rparr>"

definition token_for :: "string \<Rightarrow> string \<Rightarrow> gint \<Rightarrow> enroll_token" where
  "token_for k t uses =
     \<lparr>tok_Token = k, tok_TenantID = t, tok_Labels = fmempty, tok_Created = 0,
      tok_ExpiresAt = 0, tok_MaxUses = uses, tok_Uses = 0, tok_Used = False\<rparr>"

text \<open>
  C9: A token saved with a positive limit (\<open>MaxUses\<close>, or 1 when that is 0) is spent at
  most that many times in every later run of the store that does not save the token
  again: whatever other calls come between, whichever flushes fail, and however often
  the process restarts from the file.
\<close>

theorem token_uses_bounded:
  assumes "0 <s token_limit t" and "tok_Uses t = 0" and "\<not> tok_Used t"
    and "fst (fs_SaveToken t fs) = Inr ()"
    and "\<forall>c\<in>set cs. \<not> saves_token (tok_Token t) c"
  shows "enrolments (tok_Token t) cs (snd (fs_SaveToken t fs)) \<le> nat (sint (token_limit t))"
proof -
  let ?fs = "snd (fs_SaveToken t fs)"
  let ?upd = "\<lambda>d. d\<lparr>fd_Tokens := fmupd (tok_Token t) t (fd_Tokens d)\<rparr>"
  have data: "fs_data ?fs = ?upd (fs_data fs)"
    by (simp add: fs_SaveToken_def)
  have path: "fs_path ?fs = Whole (?upd (fs_data fs))"
    using commit_success [of ?upd fs] assms(4) by (simp add: fs_SaveToken_def)
  have "limited (tok_Token t) ?fs"
    using assms(1) by (simp add: limited_def limited_in_def data path)
  moreover have "left_at_most (tok_Token t) ?fs = nat (sint (token_limit t))"
    using assms(2,3) by (simp add: left_at_most_def left_on_disk_def left_in_def data path
        uses_left_def token_used_def)
  ultimately show ?thesis
    using enrolments_le_left [of "tok_Token t" ?fs cs] assms(5) by simp
qed

theorem token_uses_bounded_witness:
  "enrolments ''k'' [CallConsumeToken 5 ''k'', Restart, CallConsumeToken 6 ''k'', CallConsumeToken 7 ''k'']
     (snd (fs_SaveToken (token_for ''k'' ''acme'' 2) fresh_store)) \<le> 2"
proof -
  let ?t = "token_for ''k'' ''acme'' 2"
  have "0 <s token_limit ?t" "tok_Uses ?t = 0" "\<not> tok_Used ?t" "tok_Token ?t = ''k''"
    "nat (sint (token_limit ?t)) = 2"
    by (simp_all add: token_for_def token_limit_def word_sless_alt)
  moreover have "fst (fs_SaveToken ?t fresh_store) = Inr ()"
    by (simp add: fs_SaveToken_def commit_ok io_ok_def fresh_store_def)
  ultimately show ?thesis
    using token_uses_bounded [of ?t fresh_store "[CallConsumeToken 5 ''k'', Restart,
        CallConsumeToken 6 ''k'', CallConsumeToken 7 ''k'']"]
    by (simp add: saves_token_def)
qed

text \<open>
  On a working disk the limit is also reached: of any sequence of attempts on a
  limited token, none of them past its expiry, exactly as many succeed as the token has
  uses left, if there are that many attempts.
\<close>

theorem token_uses_exact:
  assumes "io_ok fs" and "fmlookup (fd_Tokens (fs_data fs)) k = Some t" and "0 <s token_limit t"
    and "\<forall>now\<in>set nows. \<not> (0 <s tok_ExpiresAt t \<and> tok_ExpiresAt t <s now)"
  shows "enrolments k (map (\<lambda>now. CallConsumeToken now k) nows) fs =
    min (length nows) (uses_left t)"
  using assms
proof (induction nows arbitrary: fs t)
  case Nil
  then show ?case by simp
next
  case (Cons now nows)
  show ?case
  proof (cases "token_open now t")
    case False
    with Cons.prems have "token_limit t \<le>s token_used t" by (auto simp: token_open_def)
    then have left: "uses_left t = 0" by (simp add: uses_left_def word_sle_eq)
    from False Cons.prems have "fs_ConsumeToken now k fs = (Inl ErrTokenUsed, fs)"
      by (simp add: fs_ConsumeToken_alt)
    with Cons left show ?thesis by (simp add: spends_def)
  next
    case True
    let ?fs = "snd (fs_ConsumeToken now k fs)"
    have step: "\<not> isl (fst (fs_ConsumeToken now k fs))" "io_ok ?fs"
      "fmlookup (fd_Tokens (fs_data ?fs)) k = Some (spend t)"
      using Cons.prems True by (simp_all add: fs_ConsumeToken_alt commit_ok) (simp add: io_ok_def)
    have "tok_ExpiresAt (spend t) = tok_ExpiresAt t" by (simp add: spend_def)
    with Cons.prems have "enrolments k (map (\<lambda>now. CallConsumeToken now k) nows) ?fs =
        min (length nows) (uses_left (spend t))"
      by (intro Cons.IH [OF step(2,3)]) (simp_all add: spend_limit)
    with step(1) uses_left_spend [OF Cons.prems(3) True] show ?thesis
      by (simp add: spends_def)
  qed
qed

theorem token_uses_exact_witness:
  "enrolments ''k'' (map (\<lambda>now. CallConsumeToken now ''k'') [5, 6, 7])
     (snd (fs_SaveToken (token_for ''k'' ''acme'' 2) fresh_store)) = 2"
proof -
  let ?t = "token_for ''k'' ''acme'' 2"
  let ?fs = "snd (fs_SaveToken ?t fresh_store)"
  have "io_ok ?fs" "fmlookup (fd_Tokens (fs_data ?fs)) ''k'' = Some ?t"
    by (simp_all add: fs_SaveToken_def commit_ok io_ok_def fresh_store_def) (simp add: token_for_def)
  moreover have "0 <s token_limit ?t" "uses_left ?t = 2" "tok_ExpiresAt ?t = 0"
    by (simp_all add: token_for_def token_limit_def uses_left_def token_used_def word_sless_alt)
  ultimately show ?thesis
    using token_uses_exact [of ?fs "''k''" ?t "[5, 6, 7]"] by simp
qed



text \<open>
  The file never holds a torn state and never forgets an acknowledged write.
  Starting from a store whose file is up to date, after any run, with any flushes failing
  at any of their three steps, opening the path succeeds and gives the state the memory
  had after some prefix of the run, and no call after that prefix returned success.
\<close>

theorem reopen_gives_acked_state:
  assumes "fs_path fs = Whole (fs_data fs)"
  shows "\<exists>n fs'. n \<le> length cs \<and>
    OpenFile outcome order True (fs_tmp (fs_run cs fs)) (fs_path (fs_run cs fs)) = Inr fs' \<and>
    fs_data fs' = fs_data (fs_run (take n cs) fs) \<and>
    (\<forall>i. n \<le> i \<longrightarrow> i < length cs \<longrightarrow> \<not> acked (cs ! i) (fs_run (take i cs) fs))"
proof -
  from file_holds_past_state [OF assms, of cs] obtain n where n: "n \<le> length cs"
      "fs_path (fs_run cs fs) = Whole (fs_data (fs_run (take n cs) fs))"
      "\<forall>i. n \<le> i \<longrightarrow> i < length cs \<longrightarrow> \<not> acked (cs ! i) (fs_run (take i cs) fs)"
    by blast
  then show ?thesis
    by (intro exI [of _ n]) (simp add: OpenFile_def Let_def)
qed

theorem reopen_gives_acked_state_witness:
  "let fs = fresh_store\<lparr>fs_path := Whole empty_data, fs_outcome := (\<lambda>_. WriteFails)\<rparr>;
       cs = [CallSaveToken (token_for ''k'' ''acme'' 2)]
   in \<exists>n fs'. n \<le> length cs \<and>
     OpenFile (\<lambda>_. FlushOk) (\<lambda>_. in_order) True (fs_tmp (fs_run cs fs)) (fs_path (fs_run cs fs)) = Inr fs' \<and>
     fs_data fs' = fs_data (fs_run (take n cs) fs) \<and>
     (\<forall>i. n \<le> i \<longrightarrow> i < length cs \<longrightarrow> \<not> acked (cs ! i) (fs_run (take i cs) fs))"
  unfolding Let_def by (rule reopen_gives_acked_state) (simp add: fresh_store_def)

end
