(* ===== verification/Control_Plane.thy ===== *)
theory Control_Plane
  imports Control_Correct Store_Steps
begin

text \<open>
  The control plane as a whole: every endpoint of both APIs as a step on the world of
  the file store and the in-process bus, the states it can reach, and the invariant
  they keep: each machine's desired modules are what its groups and its override say.
\<close>

section \<open>Endpoints that only read\<close>

context store_contract
begin

lemma simple_reads_steady:
  assumes h: "healthy (w_store w)"
  shows "steady view healthy w (snd (listGroups S t w))"
    "steady view healthy w (snd (listMachines S t w))"
    "steady view healthy w (snd (listTenants S w))"
    "steady view healthy w (snd (listModules S w))"
    "steady view healthy w (snd (getMachine S k w))"
    "steady view healthy w (snd (healthz S w))"
    "steady view healthy w (snd (handleModule S n v idn w))"
    "steady view healthy w (snd (handleLiveAll S nowNs t w))"
  using list_groups_step [OF h, of t] list_machines_step [OF h, of t] list_tenants_step [OF h]
    list_modules_step [OF h] get_machine_step [OF h, of k] get_module_step [OF h, of n v]
  by (auto simp: listGroups_def listMachines_def listTenants_def listModules_def getMachine_def
      healthz_def handleModule_def handleLiveAll_def split: prod.split sum.split)

lemma handleRenew_steady:
  "healthy (w_store w) \<Longrightarrow> steady view healthy w (snd (handleRenew S signAgent body idn w))"
  using get_machine_step [of w "idn_MachineID idn"]
  by (auto simp: handleRenew_def split: prod.split sum.split option.split)

lemma listGroupMembers_steady:
  assumes h: "healthy (w_store w)"
  shows "steady view healthy w (snd (listGroupMembers S k w))"
proof -
  obtain r1 w1 where g: "on_store (GetGroup S k) w = (r1, w1)" by fastforce
  have st1: "steady view healthy w w1" using get_group_step [OF h g] by simp
  obtain m where m: "r1 = Inr m \<or> \<not> (\<exists>m. r1 = Inr m)" by blast
  obtain r2 w2 where l: "on_store (ListGroupMembers S (g_ID m)) w1 = (r2, w2)" by fastforce
  have st2: "steady view healthy w w2"
    using read_group_members [OF steady_healthy [OF st1] l] steady_trans [OF st1] by blast
  obtain r3 w3 where ms: "on_store (ListMachines S (g_TenantID m)) w2 = (r3, w3)" by fastforce
  have st3: "steady view healthy w w3"
    using list_machines_step [OF steady_healthy [OF st2] ms] steady_trans [OF st2] by blast
  show ?thesis
    using g m l ms st1 st2 st3 by (auto simp: listGroupMembers_def Let_def split: sum.split)
qed

lemma group_rows_steady:
  "healthy (w_store w) \<Longrightarrow> steady view healthy w (snd (group_rows S m gs out w))"
proof (induction gs arbitrary: out w)
  case Nil
  then show ?case by (simp add: steady_refl)
next
  case (Cons g gs)
  obtain r1 w1 where l: "on_store (ListGroupMembers S (g_ID g)) w = (r1, w1)" by fastforce
  have st1: "steady view healthy w w1" using read_group_members [OF Cons.prems l] by blast
  have rest: "steady view healthy w (snd (group_rows S m gs out' w1))" for out'
    using steady_trans [OF st1 Cons.IH [OF steady_healthy [OF st1]]] .
  show ?case
    using Cons.IH [OF Cons.prems] rest l by (simp split: sum.split)
qed

lemma machineGroups_steady:
  assumes h: "healthy (w_store w)"
  shows "steady view healthy w (snd (machineGroups S p k w))"
proof -
  obtain r1 w1 where g: "on_store (GetMachine S k) w = (r1, w1)" by fastforce
  have st1: "steady view healthy w w1" using get_machine_step [OF h g] by simp
  obtain m where m: "r1 = Inr m \<or> \<not> (\<exists>m. r1 = Inr m)" by blast
  obtain r2 w2 where l: "on_store (ListGroups S (m_TenantID m)) w1 = (r2, w2)" by fastforce
  have st2: "steady view healthy w w2"
    using list_groups_step [OF steady_healthy [OF st1] l] steady_trans [OF st1] by blast
  have st3: "steady view healthy w (snd (group_rows S m gs [] w2))" for gs
    using steady_trans [OF st2 group_rows_steady [OF steady_healthy [OF st2]]] .
  show ?thesis
    using g m l st1 st2 st3 by (auto simp: machineGroups_def split: sum.split prod.split) (metis snd_conv)
qed

lemma fetch_scripts_steady:
  "healthy (w_store w) \<Longrightarrow> steady view healthy w (snd (fetch_scripts S rows w))"
proof (induction rows arbitrary: w)
  case Nil
  then show ?case by (simp add: steady_refl)
next
  case (Cons c rows)
  obtain r1 w1 where l: "on_store (GetModule S (cmd_Name c) (cmd_Version c)) w = (r1, w1)" by fastforce
  have st1: "steady view healthy w w1" using get_module_step [OF Cons.prems l] by blast
  have "steady view healthy w (snd (fetch_scripts S rows w1))"
    using steady_trans [OF st1 Cons.IH [OF steady_healthy [OF st1]]] .
  then show ?case using l by (simp add: Let_def split_beta)
qed

lemma listCommands_steady:
  assumes h: "healthy (w_store w)"
  shows "steady view healthy w (snd (listCommands S p arg w))"
proof -
  obtain r1 w1 where g: "on_store (ListModules S) w = (r1, w1)" by fastforce
  have st1: "steady view healthy w w1" using list_modules_step [OF h g] by blast
  have "steady view healthy w (snd (fetch_scripts S rows w1))" for rows
    using steady_trans [OF st1 fetch_scripts_steady [OF steady_healthy [OF st1]]] .
  then show ?thesis
    using g st1 by (auto simp: listCommands_def Let_def split_beta split: sum.split)
qed

lemma handleMetricsPush_implements:
  assumes "healthy (w_store w)"
  shows "implements view healthy B w (snd (handleMetricsPush B body idn w))"
proof (cases body)
  case None
  then show ?thesis
    using steady_implements steady_refl [OF assms] by (simp add: handleMetricsPush_def)
next
  case (Some sample)
  then have "\<exists>sample'. snd (handleMetricsPush B body idn w) =
      publish B (live_topic (idn_MachineID idn)) (live_Set (idn_MachineID idn) sample' w)"
    by (cases "live_Get (idn_MachineID idn) w") (auto simp: handleMetricsPush_def Let_def)
  then obtain sample' where "snd (handleMetricsPush B body idn w) =
      publish B (live_topic (idn_MachineID idn)) (live_Set (idn_MachineID idn) sample' w)" ..
  then show ?thesis
    using assms by (auto simp: implements_def live_Set_def stale_streams_def
        intro!: exI [of _ "[live_topic (idn_MachineID idn)]"])
qed

end

section \<open>Steps of the control plane\<close>

text \<open>
  The steps are defined for a store \<open>S\<close> and the view \<open>V\<close> of its contents, since the server
  can be started with the file store or with the database.

  One request, answered. What the environment supplies is free, but for this: a random ID
  is one that is not in use, the module key can be encoded, and the tenant an enrollment
  token names is not empty (which \<^const>\<open>createToken\<close> checks when it makes the token).
  \<open>removeGroupMember\<close> is asked for a machine of the group's tenant, or for none that
  exists: the handler itself does not check it.
\<close>

inductive control_step ::
  "'s store_ops \<Rightarrow> ('s \<Rightarrow> fleet) \<Rightarrow> ('s, inproc) world \<Rightarrow> ('s, inproc) world \<Rightarrow> bool"
  for S :: "'s store_ops" and V :: "'s \<Rightarrow> fleet" where
  create_tenant:
    "createTenant S now i j body w = (r1, w') \<Longrightarrow> i \<noteq> [] \<Longrightarrow>
     fmlookup (fl_tenants (V (w_store w))) i = None \<Longrightarrow> fmlookup (fl_groups (V (w_store w))) j = None \<Longrightarrow>
     (\<And>k m. fmlookup (fl_machines (V (w_store w))) k = Some m \<Longrightarrow> m_TenantID m \<noteq> i) \<Longrightarrow> control_step S V w w'"
| create_token: "createToken S now i j body2 w = (r2, w') \<Longrightarrow> control_step S V w w'"
| create_group:
    "createGroup S inproc_ops env now i body3 w = (r3, w') \<Longrightarrow>
     fmlookup (fl_groups (V (w_store w))) i = None \<Longrightarrow> control_step S V w w'"
| update_group: "updateGroup S inproc_ops env k body4 w = (r3, w') \<Longrightarrow> control_step S V w w'"
| delete_group: "deleteGroup S inproc_ops env k w = (r4, w') \<Longrightarrow> control_step S V w w'"
| add_group_member: "addGroupMember S inproc_ops env k body5 w = (r4, w') \<Longrightarrow> control_step S V w w'"
| remove_group_member:
    "removeGroupMember S inproc_ops env k i w = (r4, w') \<Longrightarrow>
     (\<And>g m. fmlookup (fl_groups (V (w_store w))) k = Some g \<Longrightarrow>
        fmlookup (fl_machines (V (w_store w))) i = Some m \<Longrightarrow> m_TenantID m = g_TenantID g) \<Longrightarrow> control_step S V w w'"
| put_labels: "putLabels S inproc_ops env k body6 w = (r5, w') \<Longrightarrow> control_step S V w w'"
| put_desired: "putDesired S inproc_ops env k body7 w = (r6, w') \<Longrightarrow> control_step S V w w'"
| delete_machine: "deleteMachine S inproc_ops k w = (r4, w') \<Longrightarrow> control_step S V w w'"
| upload_module: "uploadModule S signModule body8 w = (r7, w') \<Longrightarrow> control_step S V w w'"
| create_command:
    "createCommand S inproc_ops signModule env ps hist now i body9 w = (r8, w') \<Longrightarrow> control_step S V w w'"
| cancel_command: "cancelCommand S inproc_ops env name kind k w = (r4, w') \<Longrightarrow> control_step S V w w'"
| enroll:
    "handleEnroll S inproc_ops signAgent (Some pub) caPEM env now i body10 w = (r9, w') \<Longrightarrow>
     fmlookup (fl_machines (V (w_store w))) i = None \<Longrightarrow>
     (\<And>req tok s. body10 = Some req \<Longrightarrow>
        ConsumeToken S now (er_Token req) (w_store w) = (Inr tok, s) \<Longrightarrow> tok_TenantID tok \<noteq> []) \<Longrightarrow>
     control_step S V w w'"
| heartbeat: "handleHeartbeat S now body11 idn w = (r4, w') \<Longrightarrow> control_step S V w w'"
| status: "handleStatus S now body12 idn w = (r4, w') \<Longrightarrow> control_step S V w w'"
| metrics: "handleMetricsPush inproc_ops body13 idn w = (r4, w') \<Longrightarrow> control_step S V w w'"
| renew: "handleRenew S signAgent body14 idn w = (r10, w') \<Longrightarrow> control_step S V w w'"
| get_module: "handleModule S n v idn w = (r7, w') \<Longrightarrow> control_step S V w w'"
| list_groups: "listGroups S t w = (r11, w') \<Longrightarrow> control_step S V w w'"
| list_members: "listGroupMembers S k w = (r12, w') \<Longrightarrow> control_step S V w w'"
| list_machines: "listMachines S t w = (r13, w') \<Longrightarrow> control_step S V w w'"
| list_tenants: "listTenants S w = (r14, w') \<Longrightarrow> control_step S V w w'"
| list_modules: "listModules S w = (r15, w') \<Longrightarrow> control_step S V w w'"
| list_commands: "listCommands S p limitArg w = (r16, w') \<Longrightarrow> control_step S V w w'"
| get_machine: "getMachine S k w = (r17, w') \<Longrightarrow> control_step S V w w'"
| get_groups: "machineGroups S p k w = (r18, w') \<Longrightarrow> control_step S V w w'"
| get_health: "healthz S w = (r4, w') \<Longrightarrow> control_step S V w w'"
| get_live: "handleLiveAll S nowNs t w = (r19, w') \<Longrightarrow> control_step S V w w'"

text \<open>
  Where the control plane can get from a start. Group names are kept distinct within a
  tenant: that is the operator's part.
\<close>

inductive control_reachable ::
  "'s store_ops \<Rightarrow> ('s \<Rightarrow> fleet) \<Rightarrow> (('s, inproc) world \<Rightarrow> bool) \<Rightarrow> ('s, inproc) world \<Rightarrow> bool"
  for S :: "'s store_ops" and V :: "'s \<Rightarrow> fleet" and starts :: "('s, inproc) world \<Rightarrow> bool" where
  start: "starts w \<Longrightarrow> control_reachable S V starts w"
| step:
    "control_reachable S V starts w \<Longrightarrow> control_step S V w w' \<Longrightarrow>
     unique_group_names (V (w_store w')) \<Longrightarrow> control_reachable S V starts w'"

lemma implements_read:
  "f = (r, w') \<Longrightarrow> steady view healthy w (snd f) \<Longrightarrow> implements view healthy B w w'"
  by (simp add: steady_implements)

lemma bus_alive_publish: "bus_alive b \<Longrightarrow> bus_alive (fold (Publish inproc_ops) ts b)"
  using bus.publish_all by blast

context store_contract
begin

lemma control_step_implements:
  assumes "control_step S view w w'" and h: "healthy (w_store w)" and t: "tidy (view (w_store w))"
    and n: "unique_group_names (view (w_store w'))"
  shows "implements view healthy inproc_ops w w'"
proof -
  note reads = simple_reads_steady [OF h]
  show ?thesis
    using assms(1)
  proof cases
    case create_tenant
    then show ?thesis using createTenant_implements [OF h t] by simp
  next
    case create_token
    then show ?thesis using createToken_steady [OF h] steady_implements by blast
  next
    case create_group
    then show ?thesis using createGroup_implements [OF h t _ _ n] by simp
  next
    case update_group
    then show ?thesis using updateGroup_implements [OF h t _ n] by blast
  next
    case delete_group
    then show ?thesis using deleteGroup_implements [OF h t _ n] by blast
  next
    case add_group_member
    then show ?thesis using addGroupMember_implements [OF h t _ n] by blast
  next
    case remove_group_member
    then show ?thesis using removeGroupMember_implements [OF h t _ n] by simp
  next
    case put_labels
    then show ?thesis using putLabels_implements [OF h t _ n] by blast
  next
    case put_desired
    then show ?thesis using putDesired_implements [OF h t _ n] by blast
  next
    case delete_machine
    then show ?thesis using deleteMachine_implements [OF h t] by blast
  next
    case upload_module
    then show ?thesis using uploadModule_steady [OF h] steady_implements by blast
  next
    case create_command
    then show ?thesis using createCommand_implements [OF h t _ n] by blast
  next
    case cancel_command
    then show ?thesis using cancelCommand_implements [OF h t _ n] by blast
  next
    case (enroll signAgent pub caPEM env now i body10 r9)
    from handleEnroll_implements [OF h t enroll(1) _ _ _ n] enroll(2,3)
    show ?thesis by simp
  next
    case heartbeat
    then show ?thesis using handleHeartbeat_implements [OF h t] by blast
  next
    case status
    then show ?thesis using handleStatus_implements [OF h t] by blast
  next
    case metrics
    then show ?thesis using handleMetricsPush_implements [OF h] by (metis snd_conv)
  next
    case renew
    then show ?thesis by (rule implements_read) (rule handleRenew_steady [OF h])
  next
    case list_members
    then show ?thesis by (rule implements_read) (rule listGroupMembers_steady [OF h])
  next
    case list_commands
    then show ?thesis by (rule implements_read) (rule listCommands_steady [OF h])
  next
    case get_groups
    then show ?thesis by (rule implements_read) (rule machineGroups_steady [OF h])
  qed ((erule implements_read, rule reads)+)
qed


lemma control_reachable_tidy:
  assumes "control_reachable S view starts w"
    and "\<And>w. starts w \<Longrightarrow> healthy (w_store w) \<and> tidy (view (w_store w)) \<and> bus_alive (w_bus w)"
  shows "healthy (w_store w) \<and> tidy (view (w_store w)) \<and> bus_alive (w_bus w)"
  using assms(1)
proof (induction rule: control_reachable.induct)
  case (start w)
  then show ?case by (rule assms(2))
next
  case (step w w')
  then have "implements view healthy inproc_ops w w'" using control_step_implements by blast
  with step show ?case
    by (auto simp: implements_def intro: fleet_step_tidy bus_alive_publish)
qed

end

section \<open>On the file store\<close>

type_synonym plane = "(file_store, inproc) world"

definition plane_fleet :: "plane \<Rightarrow> fleet" where
  "plane_fleet w = fs_view (w_store w)"

abbreviation cp_step :: "plane \<Rightarrow> plane \<Rightarrow> bool" where
  "cp_step \<equiv> control_step file_ops fs_view"

text \<open>The server starts on a fresh file, with I/O that succeeds, and a new bus.\<close>

inductive file_start :: "plane \<Rightarrow> bool" where
  "OpenFile outcome order readable tmp Missing = Inr fs \<Longrightarrow> (\<And>n. outcome n = FlushOk) \<Longrightarrow>
   file_start \<lparr>w_store = fs, w_bus = NewInProc, w_live = NewLiveRegistry\<rparr>"

abbreviation cp_reachable :: "plane \<Rightarrow> bool" where
  "cp_reachable \<equiv> control_reachable file_ops fs_view file_start"

lemma bus_alive_new: "bus_alive NewInProc"
  by (auto simp: NewInProc_def bus_alive_def bus_listening_def subscribers_def)

lemma file_start_tidy:
  "file_start w \<Longrightarrow> fs_healthy (w_store w) \<and> tidy (fs_view (w_store w)) \<and> bus_alive (w_bus w)"
  by (auto elim!: file_start.cases simp: OpenFile_def Let_def fs_healthy_def io_ok_def tidy_def keyed_def
      tenants_named_def settled_def empty_data_def bus_alive_new)

lemma cp_step_implements:
  assumes "cp_step w w'" and "fs_healthy (w_store w)" and "tidy (plane_fleet w)"
    and "unique_group_names (plane_fleet w')"
  shows "implements fs_view fs_healthy inproc_ops w w'"
  using fs.control_step_implements assms by (simp add: plane_fleet_def)

lemma cp_reachable_tidy:
  "cp_reachable w \<Longrightarrow> fs_healthy (w_store w) \<and> tidy (plane_fleet w) \<and> bus_alive (w_bus w)"
  unfolding plane_fleet_def by (rule fs.control_reachable_tidy [OF _ file_start_tidy])

end
