(* ===== verification/Sample_Run.thy ===== *)
theory Sample_Run
  imports Control_Plane
begin

text \<open>
  A short run of the control plane, used to show that the properties' hypotheses can
  hold: a tenant is created, a module uploaded, a group made that carries it, an
  enrollment token issued, and a machine enrolls.
\<close>

definition plain_choices :: "nat \<Rightarrow> choices" where
  "plain_choices = (\<lambda>_. \<lparr>ch_groups = in_order, ch_range = in_order, ch_sort = in_order\<rparr>)"

definition plane0 :: plane where
  "plane0 =
     \<lparr>w_store = \<lparr>fs_data = empty_data, fs_path = Missing, fs_tmp = Missing,
                 fs_outcome = (\<lambda>_. FlushOk), fs_flushes = 0, fs_order = (\<lambda>_. in_order),
                 fs_ranges = 0\<rparr>,
      w_bus = NewInProc, w_live = NewLiveRegistry\<rparr>"

definition node_spec :: module_spec where
  "node_spec = \<lparr>ms_Name = ''node'', ms_Version = ''1'', ms_Config = fmempty\<rparr>"

definition plane1 :: plane where
  "plane1 = snd (createTenant file_ops 100 ''t'' ''g'' (Some ''acme'') plane0)"

definition plane2 :: plane where
  "plane2 = snd (uploadModule file_ops (\<lambda>p. p)
     (Some \<lparr>ul_Name = ''node'', ul_Version = ''1'', ul_Exec = [], ul_Payload = ''x''\<rparr>) plane1)"

definition plane3 :: plane where
  "plane3 = snd (createGroup file_ops inproc_ops plain_choices 100 ''h''
     (Some \<lparr>cg_TenantID = ''t'', cg_Name = ''web'', cg_MatchAll = True, cg_Selector = fmempty,
            cg_Modules = [node_spec]\<rparr>) plane2)"

definition plane4 :: plane where
  "plane4 = snd (createToken file_ops 100 ''a'' ''b''
     (Some \<lparr>ct_TenantID = ''t'', ct_Labels = fmempty, ct_TTLSec = 0, ct_MaxUses = 1\<rparr>) plane3)"

definition plane5 :: plane where
  "plane5 = snd (handleEnroll file_ops inproc_ops (\<lambda>_ _ _. Some ''cert'') (Some ''pub'') ''ca''
     plain_choices 101 ''m''
     (Some \<lparr>er_Token = ''ab'', er_CSRPEM = ''csr'', er_Name = ''box''\<rparr>) plane4)"

text \<open>An executable check that is enough for distinct names.\<close>

definition names_check :: "plane \<Rightarrow> bool" where
  "names_check w =
     distinct (map (\<lambda>kg. (g_TenantID (snd kg), g_Name (snd kg)))
       (sorted_list_of_fmap (fd_Groups (fs_data (w_store w)))))"

lemma names_check_unique:
  assumes "names_check w"
  shows "unique_group_names (fs_view (w_store w))"
proof -
  let ?l = "sorted_list_of_fmap (fd_Groups (fs_data (w_store w)))"
  have inj: "inj_on (\<lambda>kg. (g_TenantID (snd kg), g_Name (snd kg))) (set ?l)"
    using assms by (simp add: names_check_def distinct_map)
  have "g = h" if "g \<in> groups_of (fs_view (w_store w)) t" "h \<in> groups_of (fs_view (w_store w)) t" "t \<noteq> []"
    "g_Name g = g_Name h" for g h t
  proof -
    have "(g_ID g, g) \<in> set ?l" "(g_ID h, h) \<in> set ?l" "g_TenantID g = t" "g_TenantID h = t"
      using that by (auto simp: groups_of_def in_tenant_def)
    with that(4) have "(g_ID g, g) = (g_ID h, h)"
      by (intro inj_onD [OF inj, of "(g_ID g, g)" "(g_ID h, h)"]) simp_all
    then show ?thesis by simp
  qed
  then show ?thesis by (auto simp: unique_group_names_def unique_names_def inj_on_def)
qed

lemma plane_names:
  "names_check plane1" "names_check plane2" "names_check plane3" "names_check plane4" "names_check plane5"
  by code_simp+

lemma plane_lookups:
  "fmlookup (fl_groups (fs_view (w_store plane2))) ''h'' = None"
  "fmlookup (fl_machines (fs_view (w_store plane4))) ''m'' = None"
  unfolding fs_view_simps by code_simp+

lemma plane4_token:
  "map_sum (\<lambda>e. e) tok_TenantID (fst (ConsumeToken file_ops 101 ''ab'' (w_store plane4))) = Inr ''t''"
  by code_simp

lemma reachable_plane0: "cp_reachable plane0"
  unfolding plane0_def
  by (intro control_reachable.start file_start.intros [where outcome = "\<lambda>_. FlushOk" and order = "\<lambda>_. in_order" and tmp = Missing])
    (simp_all add: OpenFile_def Let_def)

lemma reachable_plane1: "cp_reachable plane1"
proof (rule control_reachable.step [OF reachable_plane0])
  show "cp_step plane0 plane1"
    by (rule control_step.create_tenant [where body = "Some ''acme''" and i = "''t''" and j = "''g''" and now = 100])
      (simp_all add: plane1_def prod_eq_iff plane0_def empty_data_def)
qed (rule names_check_unique [OF plane_names(1)])

lemma reachable_plane3: "cp_reachable plane3"
proof (rule control_reachable.step [OF control_reachable.step [OF reachable_plane1]])
  show "cp_step plane1 plane2"
    unfolding plane2_def by (rule control_step.upload_module, rule prod.collapse [symmetric])
  show "unique_group_names (fs_view (w_store plane2))" by (rule names_check_unique [OF plane_names(2)])
  show "cp_step plane2 plane3"
    unfolding plane3_def by (rule control_step.create_group, rule prod.collapse [symmetric]) (rule plane_lookups(1))
qed (rule names_check_unique [OF plane_names(3)])

lemma reachable_plane5: "cp_reachable plane5"
proof (rule control_reachable.step [OF control_reachable.step [OF reachable_plane3]])
  show "cp_step plane3 plane4"
    unfolding plane4_def by (rule control_step.create_token, rule prod.collapse [symmetric])
  show "unique_group_names (fs_view (w_store plane4))" by (rule names_check_unique [OF plane_names(4)])
  show "cp_step plane4 plane5"
    unfolding plane5_def
  proof (rule control_step.enroll, rule prod.collapse [symmetric])
    show "fmlookup (fl_machines (fs_view (w_store plane4))) ''m'' = None" by (rule plane_lookups(2))
    fix req tok s
    assume "Some \<lparr>er_Token = ''ab'', er_CSRPEM = ''csr'', er_Name = ''box''\<rparr> = Some req"
      and "ConsumeToken file_ops 101 (er_Token req) (w_store plane4) = (Inr tok, s)"
    then show "tok_TenantID tok \<noteq> []" using plane4_token by auto
  qed
qed (rule names_check_unique [OF plane_names(5)])

lemma plane5_machine:
  "map_option (\<lambda>m. (m_TenantID m, m_Desired m)) (fmlookup (fl_machines (plane_fleet plane5)) ''m'') =
     Some (''t'', \<lparr>ds_Revision = 1, ds_Modules = Some [node_spec]\<rparr>)"
  unfolding plane_fleet_def fs_view_simps by code_simp

end
