(* ===== verification/Plane_Properties.thy ===== *)
theory Plane_Properties
  imports Sample_Run
begin

text \<open>
  The properties of the control plane on the store and the bus the server ships with:
  the reachable states are settled, \<open>Recompute\<close> implements its specification and wakes
  the right streams, each endpoint is a step of the specification, a deleted machine is
  locked out, and the places where the code departs from what it says.
\<close>

section \<open>Desired state\<close>





text \<open>
  C3: \<open>Recompute\<close>, on the file store and the in-process bus, succeeds when all the machines
  it is given exist; it replaces the contents by \<open>settle\<close> of them (revision up by one
  exactly where the module list changes), and signals exactly the subscribers of the
  machines it changed.
\<close>

theorem Recompute_settles:
  assumes "fs_healthy (w_store w)" and "bus_alive (w_bus w)"
    and "unique_names (fs_view (w_store w)) t" and "distinct ids"
    and "\<And>i. i \<in> set ids \<Longrightarrow> fmlookup (fl_machines (fs_view (w_store w))) i \<noteq> None"
  shows "\<exists>w'. Recompute file_ops inproc_ops env t ids w = (Inr (), w') \<and>
    fs_view (w_store w') =
      settle t (\<lambda>m. if ids = [] then in_tenant t (m_TenantID m) else m_ID m \<in> set ids)
        (fs_view (w_store w)) \<and>
    (\<forall>ch. bus_signal (w_bus w') ch \<longleftrightarrow> bus_signal (w_bus w) ch \<or>
       (\<exists>k\<in>changed (fs_view (w_store w)) (fs_view (w_store w')). bus_listening (w_bus w) k ch))"
proof -
  from fs.Recompute_ok [OF assms(1,3,4,5), of inproc_ops env] obtain w' ts where
    r: "Recompute file_ops inproc_ops env t ids w = (Inr (), w')"
      "fs_view (w_store w') =
        settle t (\<lambda>m. if ids = [] then in_tenant t (m_TenantID m) else m_ID m \<in> set ids) (fs_view (w_store w))"
      "w_bus w' = fold (Publish inproc_ops) ts (w_bus w)"
      "set ts = changed (fs_view (w_store w)) (fs_view (w_store w'))" by blast
  from bus.publish_all [OF assms(2), of ts] r show ?thesis by (intro exI [of _ w']) simp
qed

lemma Recompute_settles_witness:
  "\<exists>w'. Recompute file_ops inproc_ops plain_choices ''t'' [''m''] plane5 = (Inr (), w') \<and>
    fs_view (w_store w') = settle ''t'' (\<lambda>m. m_ID m = ''m'') (fs_view (w_store plane5))"
proof -
  have "fs_healthy (w_store plane5)" "bus_alive (w_bus plane5)"
    using cp_reachable_tidy [OF reachable_plane5] by simp_all
  moreover have "unique_names (fs_view (w_store plane5)) ''t''"
    using names_check_unique [OF plane_names(5)] by (simp add: unique_group_names_def plane_fleet_def)
  moreover have "fmlookup (fl_machines (fs_view (w_store plane5))) ''m'' \<noteq> None"
    using plane5_machine by (auto simp: plane_fleet_def simp del: fs_view_simps)
  ultimately show ?thesis
    using Recompute_settles [of plane5 "''t''" "[''m'']" plain_choices] by auto
qed

text \<open>
  A second \<open>Recompute\<close> right after the first changes nothing: no machine's revision
  moves and no stream is woken without cause.
\<close>

theorem Recompute_idempotent:
  assumes "fs_healthy (w_store w)" and "unique_names (fs_view (w_store w)) t" and "distinct ids"
    and "\<And>i. i \<in> set ids \<Longrightarrow> fmlookup (fl_machines (fs_view (w_store w))) i \<noteq> None"
    and "Recompute file_ops inproc_ops env t ids w = (r, w1)"
    and "Recompute file_ops inproc_ops env' t ids w1 = (r', w2)"
  shows "r' = Inr () \<and> fs_view (w_store w2) = fs_view (w_store w1) \<and> w_bus w2 = w_bus w1"
proof -
  let ?P = "\<lambda>m. if ids = [] then in_tenant t (m_TenantID m) else m_ID m \<in> set ids"
  from fs.Recompute_ok [OF assms(1-4), of inproc_ops env] assms(5) have
    w1: "fs_healthy (w_store w1)" "fs_view (w_store w1) = settle t ?P (fs_view (w_store w))" by auto
  have k: "keyed (fs_view (w_store w))" using assms(1) by (rule fs_healthy_keyed)
  have u1: "unique_names (fs_view (w_store w1)) t"
    using assms(2) by (simp add: unique_names_def w1(2))
  have e1: "\<And>i. i \<in> set ids \<Longrightarrow> fmlookup (fl_machines (fs_view (w_store w1))) i \<noteq> None"
    using assms(4) by (simp add: w1(2))
  from fs.Recompute_ok [OF w1(1) u1 assms(3) e1, of inproc_ops env'] assms(6) obtain ts where
    w2: "r' = Inr ()" "fs_view (w_store w2) = settle t ?P (fs_view (w_store w1))"
      "w_bus w2 = fold (Publish inproc_ops) ts (w_bus w1)"
      "set ts = changed (fs_view (w_store w1)) (fs_view (w_store w2))" by auto
  have same: "fs_view (w_store w2) = fs_view (w_store w1)"
    unfolding w2(2) w1(2) by (rule settle_settle [OF k]) simp
  then have "ts = []" using w2(4) by (simp add: changed_def)
  with w2 same show ?thesis by simp
qed

lemma Recompute_idempotent_witness:
  "fs_view (w_store (snd (Recompute file_ops inproc_ops plain_choices ''t'' []
      (snd (Recompute file_ops inproc_ops plain_choices ''t'' [] plane5))))) =
   fs_view (w_store (snd (Recompute file_ops inproc_ops plain_choices ''t'' [] plane5)))"
proof -
  have "fs_healthy (w_store plane5)" using cp_reachable_tidy [OF reachable_plane5] by simp
  moreover have "unique_names (fs_view (w_store plane5)) ''t''"
    using names_check_unique [OF plane_names(5)] by (simp add: unique_group_names_def plane_fleet_def)
  ultimately show ?thesis
    using Recompute_idempotent [OF _ _ _ _ prod.collapse [symmetric] prod.collapse [symmetric], of plane5 "''t''" "[]"]
    by simp
qed

text \<open>
  C23: What \<open>computeModules\<close> returns, spec by spec: a module named in the override comes in
  the override's version (the last one given); any other comes in the version of the
  group with the greatest name, among the groups that apply to the machine and name that
  module. Each name comes once and the list is in the order of the names, whatever order
  the groups are listed in (their names being distinct).
\<close>

theorem computeModules_spec:
  assumes "distinct (map g_Name groups)"
    and "explicit = (\<lambda>g. go_index False (go_index fmempty members (g_ID g)) (m_ID m))"
  shows "(sp \<in> set (fst (computeModules c m groups members)) \<longleftrightarrow>
     (case spec_named (ms_Name sp) (m_Override m) of
        Some o' \<Rightarrow> sp = o'
      | None \<Rightarrow>
          (\<exists>g\<in>set groups. applies g m (explicit g) \<and> spec_named (ms_Name sp) (g_Modules g) = Some sp \<and>
             (\<forall>h\<in>set groups. applies h m (explicit h) \<longrightarrow>
                spec_named (ms_Name sp) (g_Modules h) \<noteq> None \<longrightarrow> g_Name h \<le> g_Name g)))) \<and>
    sorted_wrt (\<lambda>a b. ms_Name a < ms_Name b) (fst (computeModules c m groups members))"
proof -
  have "fst (computeModules c m groups members) = modules_of groups explicit m"
    using computeModules_modules_of [OF refl assms(1), of members m explicit c] assms(2) by simp
  then show ?thesis using modules_of_spec [OF assms(1)] sorted_modules_of by simp
qed

lemma computeModules_spec_witness:
  "node_spec \<in> set (fst (computeModules (plain_choices 0)
     \<lparr>m_ID = ''m'', m_TenantID = ''t'', m_Name = [], m_Labels = fmempty, m_Enrolled = 0, m_LastSeen = 0,
      m_Inventory = zero_inventory, m_Override = [node_spec], m_Desired = zero_desired, m_Status = []\<rparr>
     [\<lparr>g_ID = ''1'', g_TenantID = ''t'', g_Name = ''web'', g_MatchAll = True, g_Selector = fmempty,
       g_Modules = [node_spec\<lparr>ms_Version := ''0''\<rparr>], g_Created = 0\<rparr>] fmempty))"
  by (subst computeModules_spec [THEN conjunct1, OF _ refl]) (simp_all add: spec_named_def node_spec_def)

text \<open>
  Whatever the group names, \<open>Recompute\<close> leaves tenants, groups and memberships alone,
  and of the machines it changes nothing but the desired state.
\<close>

theorem Recompute_frame:
  assumes "fs_healthy (w_store w)"
  shows "only_desired (fs_view (w_store w))
    (fs_view (w_store (snd (Recompute file_ops B env t ids w))))"
  using fs.Recompute_only_desired [OF assms] by blast

lemma Recompute_frame_witness:
  "only_desired (fs_view (w_store plane5))
    (fs_view (w_store (snd (Recompute file_ops inproc_ops plain_choices ''t'' [] plane5))))"
  using Recompute_frame [of plane5] cp_reachable_tidy [OF reachable_plane5] by simp

text \<open>
  C5: What is stored is well-formed in every reachable state: each machine, group and tenant
  lies under its own ID, machines and groups have a tenant, and the desired modules of a
  machine are a list (never the null of a fresh record) with one entry for each name, in the
  order of the names - which is what makes the comparison in \<open>Recompute\<close> one of contents.
\<close>

theorem fleet_well_formed:
  assumes "cp_reachable w"
  shows "(\<forall>k m. fmlookup (fl_machines (plane_fleet w)) k = Some m \<longrightarrow> m_ID m = k \<and> m_TenantID m \<noteq> [] \<and>
      (\<exists>ms. ds_Modules (m_Desired m) = Some ms \<and> sorted_wrt (\<lambda>a b. ms_Name a < ms_Name b) ms)) \<and>
    (\<forall>k g. fmlookup (fl_groups (plane_fleet w)) k = Some g \<longrightarrow> g_ID g = k \<and> g_TenantID g \<noteq> []) \<and>
    (\<forall>k t. fmlookup (fl_tenants (plane_fleet w)) k = Some t \<longrightarrow> t_ID t = k)"
proof -
  have "tidy (plane_fleet w)" using cp_reachable_tidy [OF assms] by simp
  then show ?thesis
    by (auto simp: tidy_def keyed_def tenants_named_def settled_def settled_machine_def effective_def sorted_modules_of)
qed

lemma fleet_well_formed_witness:
  "\<exists>m. fmlookup (fl_machines (plane_fleet plane5)) ''m'' = Some m \<and> m_ID m = ''m'' \<and> m_TenantID m \<noteq> []"
  using fleet_well_formed [OF reachable_plane5] plane5_machine by auto

end
