(* ===== verification/Plane_Findings.thy ===== *)
theory Plane_Findings
  imports Plane_Properties
begin

text \<open>
  Access control and the places where the control plane does not do what its comments or
  its documentation say, each as a theorem about the handlers: a deleted machine's
  certificate, a member removed across tenants, groups of equal names, and the stored
  payload of a command that other machines still want.
\<close>

section \<open>Who gets in\<close>

lemma CutPrefix_eq: "CutPrefix s p = (t, True) \<longleftrightarrow> s = p @ t"
  by (auto simp: CutPrefix_def HasPrefix_def split: if_splits) (metis append_take_drop_id)

text \<open>
  A request to the operator API that does not carry exactly the bearer token reaches
  no handler: it is answered 401 and changes nothing. Only the health check and the
  dashboard page are open.
\<close>

theorem auth_guards:
  assumes "path \<noteq> ''/healthz''" and "path \<noteq> ''/dashboard''"
  shows "auth token path hdr nxt w =
    (if hdr = ''Bearer '' @ token then nxt w else (HttpError 401 ''unauthorized'', w))"
proof (cases "CutPrefix hdr ''Bearer ''")
  case (Pair got ok)
  then have "ok \<and> got = token \<longleftrightarrow> hdr = ''Bearer '' @ token"
    using CutPrefix_eq [of hdr "''Bearer ''" token] by auto
  with Pair assms show ?thesis by (auto simp: auth_def)
qed

lemma auth_guards_witness:
  "auth ''s3cret'' ''/admin/tenants'' ''Bearer guess'' (\<lambda>w. (NoContent, w)) (0 :: nat) =
     (HttpError 401 ''unauthorized'', 0)"
  using auth_guards [of "''/admin/tenants''" "''s3cret''" "''Bearer guess''" "\<lambda>w. (NoContent, w)" 0] by simp

text \<open>
  After a machine was deleted, its certificate gives it no heartbeat, no status report
  and no new certificate: each is answered 403, and the machine stays out of the store.
\<close>

theorem deleted_machine_locked_out:
  assumes "fs_healthy (w_store w)" and "tidy (fs_view (w_store w))"
    and "deleteMachine file_ops B k w = (r, w1)" and "idn_MachineID idn = k"
  shows "fst (handleHeartbeat file_ops now (Some hb) idn w1) = HttpError 403 ''unknown machine'' \<and>
    fst (handleStatus file_ops now (Some rep) idn w1) = HttpError 403 ''unknown machine'' \<and>
    fst (handleRenew file_ops signAgent body idn w1) = HttpError 403 ''unknown machine'' \<and>
    fmlookup (fl_machines (fs_view (w_store (snd (handleHeartbeat file_ops now (Some hb) idn w1))))) k = None"
proof -
  have h: "fs_healthy (w_store w1)" and gone: "fmlookup (fl_machines (fs_view (w_store w1))) k = None"
    using fs.deleteMachine_implements [OF assms(1-3)] by (simp_all add: implements_def)
  from fs.touch_heartbeat [OF h, of k now "hb_Inventory hb"] gone
  have hb: "fst (TouchHeartbeat file_ops k now (hb_Inventory hb) (w_store w1)) = Inl ErrNotFound"
    "fs_view (snd (TouchHeartbeat file_ops k now (hb_Inventory hb) (w_store w1))) = fs_view (w_store w1)"
    by (simp_all del: fs_view_simps)
  from fs.set_status [OF h, of k now "rep_Modules rep"] gone
  have st: "fst (SetStatus file_ops k now (rep_Modules rep) (w_store w1)) = Inl ErrNotFound"
    by (simp del: fs_view_simps)
  from fs.get_machine [OF h, of k] gone
  have gm: "fst (GetMachine file_ops k (w_store w1)) = Inl ErrNotFound" by (simp del: fs_view_simps)
  show ?thesis
    using hb st gm gone assms(4)
    by (simp add: handleHeartbeat_def handleStatus_def handleRenew_def split_beta del: fs_view_simps)
qed

lemma deleted_machine_locked_out_witness:
  "fst (handleRenew file_ops (\<lambda>_ _ _. Some ''cert'') (Some ''csr'')
     \<lparr>idn_MachineID = ''m'', idn_TenantID = ''t''\<rparr> (snd (deleteMachine file_ops inproc_ops ''m'' plane5))) =
   HttpError 403 ''unknown machine''"
  using deleted_machine_locked_out [where w = plane5 and B = inproc_ops and k = "''m''"
      and idn = "\<lparr>idn_MachineID = ''m'', idn_TenantID = ''t''\<rparr>"
      and signAgent = "\<lambda>_ _ _. Some ''cert''" and body = "Some ''csr''",
      OF _ _ prod.collapse [symmetric]]
    cp_reachable_tidy [OF reachable_plane5]
  by (simp add: plane_fleet_def)

text \<open>
  The revocation has gaps: a module is served to any certificate of the CA, whatever
  machine it names, and a pushed metrics sample is accepted and kept for a machine that
  is not (or no longer) in the store.
\<close>

theorem module_and_metrics_ignore_store:
  "fst (handleModule S n v idn w) = fst (handleModule S n v idn' w) \<and>
   fst (handleMetricsPush B (Some sample) idn w) = NoContent \<and>
   live_Get (idn_MachineID idn) (snd (handleMetricsPush B (Some sample) idn w)) \<noteq> None \<and>
   w_store (snd (handleMetricsPush B (Some sample) idn w)) = w_store w"
  by (auto simp: handleModule_def handleMetricsPush_def live_Get_def live_Set_def Let_def split: option.split)

section \<open>A member removed across tenants\<close>

text \<open>
  Removing a member does not check whose machine it is: the operator of one tenant's
  group can name a machine of another tenant, and that machine's desired modules become
  what the first tenant's groups would give it.
\<close>

theorem removeGroupMember_foreign_machine:
  assumes "fs_healthy (w_store w)" and "unique_names (fs_view (w_store w)) (g_TenantID g)"
    and "fmlookup (fl_groups (fs_view (w_store w))) k = Some g"
    and "fmlookup (fl_machines (fs_view (w_store w))) i = Some m" and "m_TenantID m \<noteq> g_TenantID g"
    and "removeGroupMember file_ops B env k i w = (r, w')"
  shows "r = NoContent \<and>
    (\<exists>m'. fmlookup (fl_machines (fs_view (w_store w'))) i = Some m' \<and> m_TenantID m' = m_TenantID m \<and>
      ds_Modules (m_Desired m') = Some (effective (fs_view (w_store w')) (g_TenantID g) m'))"
proof -
  have k: "keyed (fs_view (w_store w))" using assms(1) by (rule fs_healthy_keyed)
  have keys: "g_ID g = k" "m_ID m = i" using keyed_group [OF k assms(3)] keyed_machine [OF k assms(4)] by simp_all
  obtain r1 w1 where g: "on_store (GetGroup file_ops k) w = (r1, w1)" by fastforce
  note gg = fs.get_group_step [OF assms(1) g]
  then have st1: "steady fs_view fs_healthy w w1" by simp
  obtain r2 w2 where d: "on_store (RemoveGroupMember file_ops k i) w1 = (r2, w2)" by fastforce
  have w2: "r2 = Inr ()" "wrote fs_view fs_healthy (remove_member k i) w w2"
    using fs.member_steps(2) [OF steady_healthy [OF st1] d] steady_wrote [OF st1] by simp_all
  let ?fl = "fs_view (w_store w2)"
  have fl: "?fl = remove_member k i (fs_view (w_store w))" using w2(2) by (simp add: wrote_def)
  have u: "unique_names ?fl (g_TenantID g)" using assms(2) by (simp add: fl unique_names_def)
  have ex: "fmlookup (fl_machines ?fl) i = Some m" using assms(4) by (simp add: fl fleet_fields del: fs_view_simps)
  obtain w3 where w3: "Recompute file_ops B env (g_TenantID g) [i] w2 = (Inr (), w3)"
    "fs_view (w_store w3) = settle (g_TenantID g) (\<lambda>m. m_ID m = i) ?fl"
    using fs.Recompute_ok [OF wrote_healthy [OF w2(2)] u, of "[i]" B env] ex by (auto simp del: fs_view_simps)
  have kf: "keyed ?fl" using k by (simp add: fl keyed_updates)
  have "fmlookup (fl_machines (fs_view (w_store w3))) i = Some (settle_machine ?fl (g_TenantID g) m)"
    unfolding w3(2) settle_simps ex using keys by simp
  moreover have "effective (fs_view (w_store w3)) (g_TenantID g) (settle_machine ?fl (g_TenantID g) m) =
      effective ?fl (g_TenantID g) m"
    unfolding w3(2) by (rule effective_settle [OF kf]) simp_all
  moreover have "r = NoContent" "w' = w3"
    using assms(6) g gg d w2(1) w3(1) assms(3) keys by (simp_all add: removeGroupMember_def del: fs_view_simps)
  ultimately show ?thesis by simp
qed

definition plane6 :: plane where
  "plane6 = snd (createTenant file_ops 102 ''u'' ''k'' (Some ''rival'') plane5)"

lemma plane6_facts:
  "fs_healthy (w_store plane6)" "unique_group_names (plane_fleet plane6)"
  "map_option g_TenantID (fmlookup (fl_groups (plane_fleet plane6)) ''k'') = Some ''u''"
  "map_option m_TenantID (fmlookup (fl_machines (plane_fleet plane6)) ''m'') = Some ''t''"
proof -
  have "fs_healthy (w_store plane5)" using cp_reachable_tidy [OF reachable_plane5] by simp
  moreover have "fmlookup (fl_tenants (fs_view (w_store plane5))) ''u'' = None"
    "fmlookup (fl_groups (fs_view (w_store plane5))) ''k'' = None"
    unfolding fs_view_simps by code_simp+
  moreover have "m_TenantID m \<noteq> ''u''" if "fmlookup (fl_machines (fs_view (w_store plane5))) i = Some m" for i m
  proof -
    have "list_all (\<lambda>km. m_TenantID (snd km) \<noteq> ''u'') (sorted_list_of_fmap (fd_Machines (fs_data (w_store plane5))))"
      by code_simp
    then show ?thesis using that by (auto simp: list_all_iff)
  qed
  moreover have "createTenant file_ops 102 ''u'' ''k'' (Some ''rival'') plane5 =
      (fst (createTenant file_ops 102 ''u'' ''k'' (Some ''rival'') plane5), plane6)"
    by (simp add: plane6_def)
  moreover have "tidy (fs_view (w_store plane5))"
    using cp_reachable_tidy [OF reachable_plane5] by (simp add: plane_fleet_def)
  ultimately have "implements fs_view fs_healthy inproc_ops plane5 plane6"
    by (intro fs.createTenant_implements) auto
  then show "fs_healthy (w_store plane6)" by (simp add: implements_def)
  show "unique_group_names (plane_fleet plane6)" unfolding plane_fleet_def by (rule names_check_unique) code_simp
  show "map_option g_TenantID (fmlookup (fl_groups (plane_fleet plane6)) ''k'') = Some ''u''"
    "map_option m_TenantID (fmlookup (fl_machines (plane_fleet plane6)) ''m'') = Some ''t''"
    unfolding plane_fleet_def fs_view_simps by code_simp+
qed

lemma removeGroupMember_foreign_machine_witness:
  "\<exists>m'. fmlookup (fl_machines (fs_view (w_store
       (snd (removeGroupMember file_ops inproc_ops plain_choices ''k'' ''m'' plane6))))) ''m'' = Some m' \<and>
     m_TenantID m' = ''t''"
proof -
  from plane6_facts(3,4) obtain g m where
    "fmlookup (fl_groups (fs_view (w_store plane6))) ''k'' = Some g" "g_TenantID g = ''u''"
    "fmlookup (fl_machines (fs_view (w_store plane6))) ''m'' = Some m" "m_TenantID m = ''t''"
    by (auto simp: plane_fleet_def simp del: fs_view_simps)
  moreover have "unique_names (fs_view (w_store plane6)) ''u''"
    using plane6_facts(2) by (simp add: unique_group_names_def plane_fleet_def)
  ultimately show ?thesis
    using removeGroupMember_foreign_machine [OF plane6_facts(1) _ _ _ _ prod.collapse [symmetric], of g "''k''" "''m''" m]
    by fastforce
qed

section \<open>Groups of equal names\<close>

text \<open>
  With two groups of the same name that carry different versions of a module, both
  outcomes are possible: the sort by name is not stable and starts from the order of a
  map, so the module list is not determined by the contents of the store.
\<close>

theorem computeModules_name_clash:
  assumes "g_Name g = g_Name h" and "g_MatchAll g" and "g_MatchAll h"
    and "g_Modules g = [a]" and "g_Modules h = [b]" and "ms_Name a = ms_Name b" and "m_Override m = []"
  shows "(\<exists>c. fst (computeModules c m [g, h] members) = [a]) \<and>
    (\<exists>c. fst (computeModules c m [g, h] members) = [b])"
proof -
  have pick: "\<exists>c. fst (computeModules c m [g, h] members) = [y]"
    if xy: "mset [x', y'] = mset [g, h]" "g_Modules y' = [y]" "g_Modules x' = [x]"
      "ms_Name x = ms_Name y" "g_Name x' = g_Name y'" "g_MatchAll x'" "g_MatchAll y'" for x y x' y'
  proof -
    obtain p where p: "arrange p [g, h] = [x', y']" using arrange_complete [OF xy(1)] by blast
    let ?c = "\<lparr>ch_groups = p, ch_range = in_order, ch_sort = in_order\<rparr>"
    have "sort_slice p (\<lambda>a b. g_Name a < g_Name b) [g, h] = [x', y']"
      using xy(5) by (simp add: sort_slice_def p)
    then have "fst (computeModules ?c m [g, h] members) =
        map snd (sorted_list_of_fmap (fmupd (ms_Name y) y (fmupd (ms_Name y) x fmempty)))"
      using xy assms(7)
      by (simp add: computeModules_eq Let_def effective_map_def layers_def applies_def put_spec_def)
    also have "\<dots> = [y]" by (simp add: sorted_list_of_fmap_def sorted_list_of_fset.rep_eq)
    finally show ?thesis by blast
  qed
  show ?thesis
    using pick [of h g a b] pick [of g h b a] assms by (simp add: add_mset_commute)
qed

lemma computeModules_name_clash_witness:
  "\<exists>c. fst (computeModules c \<lparr>m_ID = ''m'', m_TenantID = ''t'', m_Name = [], m_Labels = fmempty,
      m_Enrolled = 0, m_LastSeen = 0, m_Inventory = zero_inventory, m_Override = [],
      m_Desired = zero_desired, m_Status = []\<rparr>
     [\<lparr>g_ID = ''1'', g_TenantID = ''t'', g_Name = ''web'', g_MatchAll = True, g_Selector = fmempty,
       g_Modules = [node_spec], g_Created = 0\<rparr>,
      \<lparr>g_ID = ''2'', g_TenantID = ''t'', g_Name = ''web'', g_MatchAll = True, g_Selector = fmempty,
       g_Modules = [node_spec\<lparr>ms_Version := ''2''\<rparr>], g_Created = 0\<rparr>] fmempty) = [node_spec]"
  using computeModules_name_clash [where members = fmempty and
      g = "\<lparr>g_ID = ''1'', g_TenantID = ''t'', g_Name = ''web'', g_MatchAll = True, g_Selector = fmempty,
       g_Modules = [node_spec], g_Created = 0\<rparr>" and
      h = "\<lparr>g_ID = ''2'', g_TenantID = ''t'', g_Name = ''web'', g_MatchAll = True, g_Selector = fmempty,
       g_Modules = [node_spec\<lparr>ms_Version := ''2''\<rparr>], g_Created = 0\<rparr>" and
      m = "\<lparr>m_ID = ''m'', m_TenantID = ''t'', m_Name = [], m_Labels = fmempty,
      m_Enrolled = 0, m_LastSeen = 0, m_Inventory = zero_inventory, m_Override = [],
      m_Desired = zero_desired, m_Status = []\<rparr>"]
  by simp

end
