(* ===== verification/Command_Properties.thy ===== *)
theory Command_Properties
  imports Plane_Findings
begin

text \<open>
  The properties of ad-hoc commands: names date themselves, the history is bounded and
  keeps the newest, and what the deletion of a pruned command's payload does to other
  machines that still want it.
\<close>

section \<open>Names\<close>

text \<open>
  The creation time put into a command's name is read back from it exactly, for every
  time from the epoch on, and the name is recognised as a command's.
\<close>

theorem commandCreatedAt_commandName:
  assumes "0 \<le>s now"
  shows "commandCreatedAt (commandName now newID) = now \<and> isCommand (commandName now newID)"
proof -
  have "0 \<le> sint now" using assms by (simp add: word_sle_eq)
  then have "CHR ''-'' \<notin> set (FormatInt now)"
    using show_nat_digits [of "CHR ''-''" "nat (sint now)"] by (auto simp: FormatInt_def show_int_def)
  then have "Cut (FormatInt now @ CHR ''-'' # take 6 newID) [CHR ''-''] =
      (FormatInt now, take 6 newID, True)"
    by (rule Cut_char)
  then show ?thesis
    by (simp add: commandCreatedAt_def commandName_def isCommand_def ParseInt_FormatInt)
qed

lemma commandCreatedAt_commandName_witness:
  "commandName 1700000000 ''a1b2c3d4'' = ''cmd-1700000000-a1b2c3'' \<and>
   commandCreatedAt (commandName 1700000000 ''a1b2c3d4'') = 1700000000"
proof
  show "commandName 1700000000 ''a1b2c3d4'' = ''cmd-1700000000-a1b2c3''"
    by (simp add: commandName_def cmdPrefix_def FormatInt_def show_int_def show_nat.simps digit_char_def
        char_of_def bit_Suc_0_iff)
  have "0 \<le>s (1700000000 :: int64)" by (simp add: word_sle_eq)
  from commandCreatedAt_commandName [OF this]
  show "commandCreatedAt (commandName 1700000000 ''a1b2c3d4'') = 1700000000" by simp
qed

section \<open>Retention\<close>

definition retention :: "gint \<Rightarrow> gint" where
  "retention limit0 = (if limit0 \<le>s 0 then defaultCommandHistory else limit0)"

lemma retention_unat: "int (unat (retention limit0)) = sint (retention limit0)"
proof -
  have "0 \<le> sint (retention limit0)"
    by (auto simp: retention_def defaultCommandHistory_def word_sle_eq)
  moreover from this have "uint (retention limit0) = sint (retention limit0)"
    using sint_int64_bounds(2) [of "retention limit0"] by (simp add: uint_sint take_bit_int_eq_self)
  ultimately show ?thesis by simp
qed

lemma drop_ge_take:
  assumes "sorted_wrt R xs" "x \<in> set (take n xs)" "y \<in> set (drop n xs)"
  shows "R x y"
  using assms by (metis append_take_drop_id sorted_wrt_append)

lemma pruneCommands_facts:
  "length (filter (\<lambda>sp. isCommand (ms_Name sp)) (fst (pruneCommands p specs limit0))) \<le>
     unat (retention limit0)"
  "filter (\<lambda>sp. \<not> isCommand (ms_Name sp)) (fst (pruneCommands p specs limit0)) =
     filter (\<lambda>sp. \<not> isCommand (ms_Name sp)) specs"
  "\<forall>sp\<in>set (fst (pruneCommands p specs limit0)). isCommand (ms_Name sp) \<longrightarrow>
     (\<forall>n\<in>set (snd (pruneCommands p specs limit0)). commandCreatedAt n \<le>s commandCreatedAt (ms_Name sp))"
proof -
  define cmds where "cmds = filter (\<lambda>sp. isCommand (ms_Name sp)) specs"
  define lim where "lim = unat (retention limit0)"
  define lt where "lt = (\<lambda>(a :: module_spec) (b :: module_spec). commandCreatedAt (ms_Name b) <s commandCreatedAt (ms_Name a))"
  define sorted where "sorted = sort_slice p lt cmds"
  define dropped where "dropped = map ms_Name (drop lim sorted)"
  have small: "int (length cmds) \<le> sint (retention limit0) \<longleftrightarrow> length cmds \<le> lim"
    unfolding lim_def retention_unat [symmetric] by (rule of_nat_le_iff)
  have prune: "pruneCommands p specs limit0 =
      (if length cmds \<le> lim then (specs, [])
       else (filter (\<lambda>sp. ms_Name sp \<notin> set dropped) specs, dropped))"
    using small unfolding pruneCommands_def Let_def cmds_def [symmetric] retention_def [symmetric]
    by (simp add: dropped_def sorted_def lt_def lim_def)
  have wo: "weak_order lt" by (auto simp: weak_order_def lt_def word_sless_alt)
  from sorted_wrt_sort_slice [OF this] have srt: "sorted_wrt (\<lambda>a b. \<not> lt b a) sorted"
    by (simp add: sorted_def)
  have split: "mset cmds = mset (take lim sorted) + mset (drop lim sorted)"
    by (metis append_take_drop_id mset_append mset_sort_slice sorted_def)
  have none: "filter (\<lambda>sp. ms_Name sp \<notin> set dropped) (drop lim sorted) = []"
    by (auto simp: dropped_def filter_empty_conv)
  have cmds_of: "x \<in> set specs \<and> isCommand (ms_Name x) \<longleftrightarrow> x \<in> set cmds" for x
    by (auto simp: cmds_def)
  have named: "isCommand n" if "n \<in> set dropped" for n
    using that set_drop_subset [of lim sorted] by (auto simp: dropped_def sorted_def cmds_def)
  let ?keep = "\<lambda>sp. ms_Name sp \<notin> set dropped"
  have "length (filter ?keep cmds) = size (filter_mset ?keep (mset cmds))"
    by (simp only: mset_filter [symmetric] size_mset)
  also have "\<dots> = length (filter ?keep (take lim sorted)) + length (filter ?keep (drop lim sorted))"
    by (simp only: split filter_union_mset size_union mset_filter [symmetric] size_mset)
  also have "\<dots> \<le> lim"
    using none by simp (metis length_filter_le length_take min.bounded_iff order_trans)
  finally have "length (filter ?keep cmds) \<le> lim" .
  then have "length (filter (\<lambda>sp. isCommand (ms_Name sp)) (filter (\<lambda>sp. ms_Name sp \<notin> set dropped) specs)) \<le> lim"
    unfolding cmds_def by (simp add: conj_commute cong: conj_cong)
  then show "length (filter (\<lambda>sp. isCommand (ms_Name sp)) (fst (pruneCommands p specs limit0))) \<le>
     unat (retention limit0)"
    by (simp add: prune lim_def [symmetric] cmds_def [symmetric])
  show "filter (\<lambda>sp. \<not> isCommand (ms_Name sp)) (fst (pruneCommands p specs limit0)) =
     filter (\<lambda>sp. \<not> isCommand (ms_Name sp)) specs"
    using named by (auto simp: prune intro!: filter_cong)
  have "commandCreatedAt n \<le>s commandCreatedAt (ms_Name sp)"
    if sp: "sp \<in> set cmds" "ms_Name sp \<notin> set dropped" and n: "n \<in> set dropped" for sp n
  proof -
    from sp split have "sp \<in> set (take lim sorted)"
      by (metis UnE dropped_def image_eqI set_map set_mset_mset set_mset_union)
    moreover from n obtain d where "d \<in> set (drop lim sorted)" "n = ms_Name d"
      by (auto simp: dropped_def)
    ultimately have "\<not> lt d sp" using drop_ge_take [OF srt] by blast
    with \<open>n = ms_Name d\<close> show ?thesis by (simp add: lt_def word_sless_alt word_sle_eq)
  qed
  then show "\<forall>sp\<in>set (fst (pruneCommands p specs limit0)). isCommand (ms_Name sp) \<longrightarrow>
     (\<forall>n\<in>set (snd (pruneCommands p specs limit0)). commandCreatedAt n \<le>s commandCreatedAt (ms_Name sp))"
    using cmds_of by (auto simp: prune)
qed



section \<open>The payload of a pruned command\<close>

text \<open>Whatever a store's reads and \<open>SaveMachine\<close> keep, \<open>Recompute\<close> keeps.\<close>

lemma load_members_keeps:
  assumes "\<And>k s. Q s \<Longrightarrow> Q (snd (ListGroupMembers S k s))" and "Q (w_store w)"
  shows "Q (w_store (snd (load_members S gs members w)))"
  using assms(2)
proof (induction gs arbitrary: members w)
  case Nil
  then show ?case by simp
next
  case (Cons g gs)
  have "Q (w_store (snd (on_store (ListGroupMembers S (g_ID g)) w)))" using assms(1) Cons.prems by simp
  with Cons.IH show ?case by (cases "on_store (ListGroupMembers S (g_ID g)) w") (auto split: sum.split)
qed

lemma load_machines_keeps:
  assumes "\<And>k s. Q s \<Longrightarrow> Q (snd (GetMachine S k s))" and "Q (w_store w)"
  shows "Q (w_store (snd (load_machines S ids ms w)))"
  using assms(2)
proof (induction ids arbitrary: ms w)
  case Nil
  then show ?case by simp
next
  case (Cons i ids)
  have "Q (w_store (snd (on_store (GetMachine S i) w)))" using assms(1) Cons.prems by simp
  with Cons.IH show ?case by (cases "on_store (GetMachine S i) w") (auto split: sum.split)
qed

lemma recompute_each_keeps:
  assumes "\<And>m s. Q s \<Longrightarrow> Q (snd (SaveMachine S m s))" and "Q (w_store w)"
  shows "Q (w_store (snd (recompute_each S B env i members groups ms w)))"
  using assms(2)
proof (induction ms arbitrary: i groups w)
  case Nil
  then show ?case by simp
next
  case (Cons m ms)
  obtain nxt groups' where c: "computeModules (env i) m groups members = (nxt, groups')" by fastforce
  let ?m' = "m\<lparr>m_Desired := \<lparr>ds_Revision = ds_Revision (m_Desired m) + 1, ds_Modules = Some nxt\<rparr>\<rparr>"
  obtain r1 w1 where s: "on_store (SaveMachine S ?m') w = (r1, w1)" by fastforce
  have q1: "Q (w_store w1)" using assms(1) [OF Cons.prems, of ?m'] s by (metis on_store_simps(2) snd_conv)
  then have "Q (w_store (publish B (m_ID ?m') w1))" by simp
  from Cons.IH [OF this] Cons.IH [OF Cons.prems] q1 s c show ?case
    by (simp add: Let_def split: sum.split)
qed

lemma Recompute_keeps:
  assumes "\<And>t s. Q s \<Longrightarrow> Q (snd (ListGroups S t s))" "\<And>t s. Q s \<Longrightarrow> Q (snd (ListMachines S t s))"
    and "\<And>k s. Q s \<Longrightarrow> Q (snd (ListGroupMembers S k s))" "\<And>k s. Q s \<Longrightarrow> Q (snd (GetMachine S k s))"
    and "\<And>m s. Q s \<Longrightarrow> Q (snd (SaveMachine S m s))" and "Q (w_store w)"
  shows "Q (w_store (snd (Recompute S B env t ids w)))"
proof -
  obtain r1 w1 where g: "on_store (ListGroups S t) w = (r1, w1)" by fastforce
  have q1: "Q (w_store w1)" using assms(1) [OF assms(6), of t] g by (metis on_store_simps(2) snd_conv)
  obtain gs where gs: "r1 = Inr gs \<or> \<not> (\<exists>gs. r1 = Inr gs)" by blast
  obtain r2 w2 where l: "load_members S gs fmempty w1 = (r2, w2)" by fastforce
  have q2: "Q (w_store w2)" using load_members_keeps [OF assms(3) q1, of gs fmempty] l by simp
  obtain r3 w3 where m: "(if ids = [] then on_store (ListMachines S t) w2 else load_machines S ids [] w2) = (r3, w3)"
    by fastforce
  have q3: "Q (w_store w3)"
    using m assms(2) [OF q2, of t] load_machines_keeps [OF assms(4) q2, of ids "[]"]
    by (metis on_store_simps(2) snd_conv)
  show ?thesis
    using g gs l m q1 q2 q3 recompute_each_keeps [OF assms(5) q3, of B env 0]
    by (auto simp: Recompute_def split: sum.split)
qed

lemma artifact_gone_keeps:
  "fmlookup (fd_Modules (fs_data s)) k = None \<Longrightarrow>
   fmlookup (fd_Modules (fs_data (snd (ListGroups file_ops t s)))) k = None \<and>
   fmlookup (fd_Modules (fs_data (snd (ListMachines file_ops t s)))) k = None \<and>
   fmlookup (fd_Modules (fs_data (snd (ListGroupMembers file_ops i s)))) k = None \<and>
   fmlookup (fd_Modules (fs_data (snd (GetMachine file_ops i s)))) k = None \<and>
   fmlookup (fd_Modules (fs_data (snd (SaveMachine file_ops m s)))) k = None \<and>
   fmlookup (fd_Modules (fs_data (snd (DeleteModule file_ops n v s)))) k = None"
  by (simp add: file_ops_def fs_op_defs range_values_def commit_def flush_def Let_def split: flush_outcome.split)

lemma forgetCommands_gone:
  assumes "n \<in> set names \<or> fmlookup (fd_Modules (fs_data (w_store w))) (moduleKey n ''1'') = None"
  shows "fmlookup (fd_Modules (fs_data (w_store (forgetCommands file_ops names w)))) (moduleKey n ''1'') = None"
  using assms
proof (induction names arbitrary: w)
  case Nil
  then show ?case by simp
next
  case (Cons x names)
  let ?w1 = "snd (on_store (DeleteModule file_ops x ''1'') w)"
  have "n \<in> set names \<or> fmlookup (fd_Modules (fs_data (w_store ?w1))) (moduleKey n ''1'') = None"
    using Cons.prems artifact_gone_keeps [of "w_store w" "moduleKey n ''1''"]
    by (auto simp: file_ops_def fs_DeleteModule_def commit_def flush_def Let_def split: flush_outcome.split)
  from Cons.IH [OF this] show ?case by simp
qed

text \<open>
  When the command queued for one machine pushes an old command out of that machine's
  history, the old command's stored payload is deleted, also while another machine (or a
  group) still lists that command and has not fetched it: from then on it gets 404.
\<close>

theorem queue_machine_deletes_shared_payload:
  assumes "fs_healthy (w_store w)"
    and a: "fmlookup (fl_machines (fs_view (w_store w))) a = Some ma"
    and b: "fmlookup (fl_machines (fs_view (w_store w))) b = Some mb" "a \<noteq> b"
    and n: "n \<in> set (snd (pruneCommands p (m_Override ma @ [spec]) (maxCommands hist)))"
    and q: "queue_machine file_ops B env p hist a spec w = (r, w')"
  shows "fst (GetModule file_ops n ''1'' (w_store w')) = Inl ErrNotFound \<and>
    (\<exists>mb'. fmlookup (fl_machines (fs_view (w_store w'))) b = Some mb' \<and> m_Override mb' = m_Override mb)"
proof -
  have k: "keyed (fs_view (w_store w))" using assms(1) by (rule fs_healthy_keyed)
  have key: "m_ID ma = a" using keyed_machine [OF k a] .
  obtain kept dropped where pr: "pruneCommands p (m_Override ma @ [spec]) (maxCommands hist) = (kept, dropped)"
    by fastforce
  obtain r1 w1 where g: "on_store (GetMachine file_ops a) w = (r1, w1)" by fastforce
  note gg = fs.get_machine_step [OF assms(1) g]
  then have st1: "steady fs_view fs_healthy w w1" by simp
  let ?m = "ma\<lparr>m_Override := kept\<rparr>"
  obtain r2 w2 where s: "on_store (SaveMachine file_ops ?m) w1 = (r2, w2)" by fastforce
  have "same_place (fs_view (w_store w1)) ?m"
    using a key by (simp add: same_place_def steady_view [OF st1] del: fs_view_simps)
  from fs.save_machine_step [OF steady_healthy [OF st1] this s] steady_wrote [OF st1]
  have r2: "r2 = Inr ()" and w2: "wrote fs_view fs_healthy (put_machine ?m) w w2" by simp_all
  let ?w3 = "forgetCommands file_ops dropped w2"
  have w3: "wrote fs_view fs_healthy (put_machine ?m) w ?w3"
    using wrote_steady [OF w2 fs.forgetCommands_steady [OF wrote_healthy [OF w2]]] .
  have w': "w' = snd (Recompute file_ops B env (m_TenantID ma) [a] ?w3)"
    using q g gg a pr s r2 key by (simp add: queue_machine_def Let_def del: fs_view_simps)
  have "fmlookup (fd_Modules (fs_data (w_store ?w3))) (moduleKey n ''1'') = None"
    using n pr by (intro forgetCommands_gone) simp
  then have "fmlookup (fd_Modules (fs_data (w_store w'))) (moduleKey n ''1'') = None"
    unfolding w'
    by (intro Recompute_keeps [where Q = "\<lambda>s. fmlookup (fd_Modules (fs_data s)) (moduleKey n ''1'') = None"])
       (use artifact_gone_keeps in blast)+
  then have gone: "fst (GetModule file_ops n ''1'' (w_store w')) = Inl ErrNotFound"
    by (simp add: file_ops_def fs_GetModule_def)
  have "fmlookup (fl_machines (fs_view (w_store ?w3))) b = Some mb"
    using w3 b key by (simp add: wrote_def fleet_fields del: fs_view_simps)
  moreover have "only_desired (fs_view (w_store ?w3)) (fs_view (w_store w'))"
    unfolding w' using fs.Recompute_only_desired [OF wrote_healthy [OF w3]] by blast
  ultimately have "map_option (m_Desired_update (\<lambda>_. zero_desired)) (fmlookup (fl_machines (fs_view (w_store w'))) b) =
      Some (mb\<lparr>m_Desired := zero_desired\<rparr>)"
    by (simp add: only_desired_def del: fs_view_simps)
  then obtain mb' where "fmlookup (fl_machines (fs_view (w_store w'))) b = Some mb'"
      "mb'\<lparr>m_Desired := zero_desired\<rparr> = mb\<lparr>m_Desired := zero_desired\<rparr>"
    by (auto simp del: fs_view_simps)
  moreover from this(2) have "m_Override mb' = m_Override mb"
    by (metis machine.select_convs(8) machine.surjective machine.update_convs(9))
  ultimately show ?thesis using gone by blast
qed

definition old_cmd :: module_spec where
  "old_cmd = \<lparr>ms_Name = ''cmd-5-a'', ms_Version = ''1'', ms_Config = fmempty\<rparr>"

definition new_cmd :: module_spec where
  "new_cmd = \<lparr>ms_Name = ''cmd-7-b'', ms_Version = ''1'', ms_Config = fmempty\<rparr>"

definition box :: "string \<Rightarrow> machine" where
  "box k = \<lparr>m_ID = k, m_TenantID = ''t'', m_Name = k, m_Labels = fmempty, m_Enrolled = 0,
     m_LastSeen = 0, m_Inventory = zero_inventory, m_Override = [old_cmd],
     m_Desired = zero_desired, m_Status = []\<rparr>"

definition two_boxes :: plane where
  "two_boxes = plane0\<lparr>w_store := (w_store plane0)\<lparr>fs_data := empty_data\<lparr>fd_Machines :=
     fmupd ''a'' (box ''a'') (fmupd ''b'' (box ''b'') fmempty)\<rparr>\<rparr>\<rparr>"

lemma queue_machine_deletes_shared_payload_witness:
  "fst (GetModule file_ops ''cmd-5-a'' ''1''
     (w_store (snd (queue_machine file_ops inproc_ops plain_choices in_order 1 ''a'' new_cmd two_boxes)))) =
   Inl ErrNotFound"
proof -
  have h: "fs_healthy (w_store two_boxes)"
    by (simp add: fs_healthy_def io_ok_def keyed_def two_boxes_def plane0_def empty_data_def box_def
        fmpred_iff)
  have a: "fmlookup (fl_machines (fs_view (w_store two_boxes))) ''a'' = Some (box ''a'')"
    and b: "fmlookup (fl_machines (fs_view (w_store two_boxes))) ''b'' = Some (box ''b'')"
    by (simp_all add: two_boxes_def)
  have "commandCreatedAt ''cmd-5-a'' = 5" "commandCreatedAt ''cmd-7-b'' = 7"
    by (simp_all add: commandCreatedAt_def cmdPrefix_def CutPrefix_def HasPrefix_def ParseInt_def
        is_digit_def)
  then have "''cmd-5-a'' \<in> set (snd (pruneCommands in_order (m_Override (box ''a'') @ [new_cmd]) (maxCommands 1)))"
    by (simp add: pruneCommands_def isCommand_def HasPrefix_def cmdPrefix_def box_def old_cmd_def new_cmd_def
        maxCommands_def sort_slice_def in_order_def word_sless_alt word_sle_eq)
  from queue_machine_deletes_shared_payload [OF h a b _ this prod.collapse [symmetric]] show ?thesis by blast
qed

end
