(* ===== verification/Reconcile_Stream.thy ===== *)
theory Reconcile_Stream
  imports Plane_Properties
begin

text \<open>
  The reconcile channel (\<open>handleStream\<close> of \<open>internal/server/server.go\<close>) as a state machine
  next to everything else that happens: the stream subscribes first, sends the current
  desired state, then waits for a signal and sends again. Writers change the store and
  publish afterwards; between the two the stream may run. What must hold is that no
  change is lost: a stream that waits with no signal pending has sent the current state,
  unless a writer still owes the publish.
\<close>

section \<open>States\<close>

datatype phase = Connecting | Sending | Waiting | Closed

record stream =
  str_MachineID :: string
  str_Phase :: phase
  str_Chan :: nat
  str_Sent :: "desired_state list"

text \<open>
  \<open>sy_owed\<close> holds the machines whose record was changed by a writer that has not yet
  published their topic.
\<close>

record system =
  sy_world :: plane
  sy_stream :: stream
  sy_owed :: "string set"

section \<open>The stream's own steps\<close>

definition stream_subscribe :: "system \<Rightarrow> system" where
  "stream_subscribe y =
     (case Subscribe inproc_ops (str_MachineID (sy_stream y)) (w_bus (sy_world y)) of (ch, b) \<Rightarrow>
        y\<lparr>sy_world := (sy_world y)\<lparr>w_bus := b\<rparr>,
          sy_stream := (sy_stream y)\<lparr>str_Phase := Sending, str_Chan := ch\<rparr>\<rparr>)"

definition stream_close :: "system \<Rightarrow> system" where
  "stream_close y =
     y\<lparr>sy_world := (sy_world y)\<lparr>w_bus :=
          Cancel inproc_ops (str_MachineID (sy_stream y)) (str_Chan (sy_stream y)) (w_bus (sy_world y))\<rparr>,
       sy_stream := (sy_stream y)\<lparr>str_Phase := Closed\<rparr>\<rparr>"

text \<open>\<open>send\<close>: a machine that is gone, or a client that is, ends the stream.\<close>

definition stream_send :: "bool \<Rightarrow> system \<Rightarrow> system" where
  "stream_send write_ok y =
     (case on_store (GetMachine file_ops (str_MachineID (sy_stream y))) (sy_world y) of
        (Inl _, w) \<Rightarrow> stream_close (y\<lparr>sy_world := w\<rparr>)
      | (Inr m, w) \<Rightarrow>
          if write_ok
          then y\<lparr>sy_world := w,
                 sy_stream := (sy_stream y)\<lparr>str_Phase := Waiting,
                   str_Sent := str_Sent (sy_stream y) @ [m_Desired m]\<rparr>\<rparr>
          else stream_close (y\<lparr>sy_world := w\<rparr>))"

definition stream_wake :: "inproc \<Rightarrow> system \<Rightarrow> system" where
  "stream_wake b y =
     y\<lparr>sy_world := (sy_world y)\<lparr>w_bus := b\<rparr>, sy_stream := (sy_stream y)\<lparr>str_Phase := Sending\<rparr>\<rparr>"

section \<open>The system\<close>

text \<open>
  Others act between any two steps of the stream: a writer changes the store in any
  consistent way and owes the publishes of what it changed; a topic is published; another
  stream subscribes, cancels or receives on a channel of its own.
\<close>

inductive system_step :: "system \<Rightarrow> system \<Rightarrow> bool" where
  connect:
    "str_Phase (sy_stream y) = Connecting \<Longrightarrow> system_step y (stream_subscribe y)"
| send:
    "str_Phase (sy_stream y) = Sending \<Longrightarrow> system_step y (stream_send write_ok y)"
| wake:
    "str_Phase (sy_stream y) = Waiting \<Longrightarrow>
     Receive inproc_ops (str_Chan (sy_stream y)) (w_bus (sy_world y)) = Some b \<Longrightarrow>
     system_step y (stream_wake b y)"
| hang_up:
    "str_Phase (sy_stream y) = Waiting \<Longrightarrow> system_step y (stream_close y)"
| others_write:
    "fs_healthy s \<Longrightarrow>
     system_step y (y\<lparr>sy_world := (sy_world y)\<lparr>w_store := s\<rparr>,
        sy_owed := sy_owed y \<union> stale_streams (fs_view (w_store (sy_world y))) (fs_view s)\<rparr>)"
| others_publish:
    "system_step y (y\<lparr>sy_world := publish inproc_ops k (sy_world y), sy_owed := sy_owed y - {k}\<rparr>)"
| others_subscribe:
    "Subscribe inproc_ops k (w_bus (sy_world y)) = (ch, b) \<Longrightarrow>
     system_step y (y\<lparr>sy_world := (sy_world y)\<lparr>w_bus := b\<rparr>\<rparr>)"
| others_cancel:
    "ch \<noteq> str_Chan (sy_stream y) \<Longrightarrow>
     system_step y (y\<lparr>sy_world := (sy_world y)\<lparr>w_bus := Cancel inproc_ops k ch (w_bus (sy_world y))\<rparr>\<rparr>)"
| others_receive:
    "ch \<noteq> str_Chan (sy_stream y) \<Longrightarrow> Receive inproc_ops ch (w_bus (sy_world y)) = Some b \<Longrightarrow>
     system_step y (y\<lparr>sy_world := (sy_world y)\<lparr>w_bus := b\<rparr>\<rparr>)"

definition current :: "system \<Rightarrow> desired_state option" where
  "current y = map_option m_Desired
     (fmlookup (fl_machines (fs_view (w_store (sy_world y)))) (str_MachineID (sy_stream y)))"

definition last_sent :: "system \<Rightarrow> desired_state option" where
  "last_sent y = (case rev (str_Sent (sy_stream y)) of [] \<Rightarrow> None | d # _ \<Rightarrow> Some d)"

text \<open>The invariant of a stream that is connected.\<close>

definition stream_inv :: "system \<Rightarrow> bool" where
  "stream_inv y \<longleftrightarrow>
     fs_healthy (w_store (sy_world y)) \<and> bus_alive (w_bus (sy_world y)) \<and>
     (str_Phase (sy_stream y) = Sending \<or> str_Phase (sy_stream y) = Waiting \<longrightarrow>
        bus_listening (w_bus (sy_world y)) (str_MachineID (sy_stream y)) (str_Chan (sy_stream y))) \<and>
     (str_Phase (sy_stream y) = Waiting \<longrightarrow> last_sent y \<noteq> None) \<and>
     (str_Phase (sy_stream y) = Waiting \<longrightarrow>
        last_sent y = current y \<or> bus_signal (w_bus (sy_world y)) (str_Chan (sy_stream y)) \<or>
        str_MachineID (sy_stream y) \<in> sy_owed y)"

lemma stream_close_inv: "stream_inv y \<Longrightarrow> stream_inv (stream_close y)"
  using bus.cancel [of "w_bus (sy_world y)"] by (auto simp: stream_inv_def stream_close_def)

lemma stream_send_inv:
  assumes "stream_inv y" "str_Phase (sy_stream y) = Sending"
  shows "stream_inv (stream_send ok y)"
proof -
  have h: "fs_healthy (w_store (sy_world y))" using assms(1) by (simp add: stream_inv_def)
  obtain r w where g: "on_store (GetMachine file_ops (str_MachineID (sy_stream y))) (sy_world y) = (r, w)"
    by fastforce
  note gg = fs.get_machine_step [OF h g]
  have "stream_inv (y\<lparr>sy_world := w\<rparr>)"
    using gg assms by (simp add: stream_inv_def steady_def)
  then have "stream_inv (stream_close (y\<lparr>sy_world := w\<rparr>))" by (rule stream_close_inv)
  then show ?thesis
    using g gg assms
    by (auto simp: stream_send_def stream_inv_def steady_def last_sent_def current_def
        simp del: fs_view_simps split: option.splits)
qed

lemma stream_write_inv:
  assumes y: "stream_inv y" and s: "fs_healthy s"
  shows "stream_inv (y\<lparr>sy_world := (sy_world y)\<lparr>w_store := s\<rparr>,
    sy_owed := sy_owed y \<union> stale_streams (fs_view (w_store (sy_world y))) (fs_view s)\<rparr>)" (is "stream_inv ?y'")
proof -
  let ?k = "str_MachineID (sy_stream y)"
  let ?stale = "stale_streams (fs_view (w_store (sy_world y))) (fs_view s)"
  have cur: "current ?y' = current y \<or> current y = None \<or> ?k \<in> ?stale"
    by (auto simp: current_def stale_streams_def simp del: fs_view_simps)
  have "last_sent ?y' = last_sent y" by (simp add: last_sent_def)
  with cur y have "str_Phase (sy_stream y) = Waiting \<Longrightarrow> last_sent ?y' \<noteq> None \<and>
      (last_sent ?y' = current ?y' \<or> bus_signal (w_bus (sy_world y)) (str_Chan (sy_stream y)) \<or>
       ?k \<in> sy_owed y \<union> ?stale)"
    unfolding stream_inv_def by fastforce
  with y s show ?thesis unfolding stream_inv_def by simp
qed

lemma same_current:
  "current (y\<lparr>sy_world := (sy_world y)\<lparr>w_bus := b\<rparr>\<rparr>) = current y"
  "last_sent (y\<lparr>sy_world := (sy_world y)\<lparr>w_bus := b\<rparr>\<rparr>) = last_sent y"
  by (simp_all add: current_def last_sent_def)

text \<open>Other streams on the bus: our subscription and our signal stay.\<close>

lemma stream_bus_inv:
  assumes "stream_inv y" and "bus_alive b"
    and "\<And>t ch. bus_listening (w_bus (sy_world y)) t ch \<Longrightarrow> ch = str_Chan (sy_stream y) \<Longrightarrow> bus_listening b t ch"
    and "bus_signal (w_bus (sy_world y)) (str_Chan (sy_stream y)) \<Longrightarrow>
      (\<exists>t. bus_listening (w_bus (sy_world y)) t (str_Chan (sy_stream y))) \<Longrightarrow>
      bus_signal b (str_Chan (sy_stream y))"
  shows "stream_inv (y\<lparr>sy_world := (sy_world y)\<lparr>w_bus := b\<rparr>\<rparr>)"
  using assms unfolding stream_inv_def same_current by auto

lemma stream_publish_inv:
  assumes "stream_inv y"
  shows "stream_inv (y\<lparr>sy_world := publish inproc_ops k (sy_world y), sy_owed := sy_owed y - {k}\<rparr>)"
proof -
  have b: "bus_alive (w_bus (sy_world y))" using assms by (simp add: stream_inv_def)
  have "current (y\<lparr>sy_world := publish inproc_ops k (sy_world y), sy_owed := sy_owed y - {k}\<rparr>) = current y"
    "last_sent (y\<lparr>sy_world := publish inproc_ops k (sy_world y), sy_owed := sy_owed y - {k}\<rparr>) = last_sent y"
    by (simp_all add: current_def last_sent_def)
  with bus.publish [OF b, of k] assms show ?thesis unfolding stream_inv_def by auto
qed

lemma system_step_inv:
  assumes "system_step y y'" and y: "stream_inv y"
  shows "stream_inv y'"
  using assms(1)
proof cases
  case connect
  obtain ch b where sub: "Subscribe inproc_ops (str_MachineID (sy_stream y)) (w_bus (sy_world y)) = (ch, b)"
    by fastforce
  have "bus_alive (w_bus (sy_world y))" using y by (simp add: stream_inv_def)
  from bus.subscribe [OF this sub] y connect show ?thesis
    by (simp add: stream_inv_def stream_subscribe_def sub)
next
  case (send ok)
  then show ?thesis using stream_send_inv y by simp
next
  case (wake b)
  have "bus_alive (w_bus (sy_world y))" using y by (simp add: stream_inv_def)
  from bus.receive [OF this, of "str_Chan (sy_stream y)"] wake y show ?thesis
    by (simp add: stream_inv_def stream_wake_def)
next
  case hang_up
  then show ?thesis using stream_close_inv y by simp
next
  case (others_write s)
  then show ?thesis using stream_write_inv y by simp
next
  case (others_publish k)
  then show ?thesis using stream_publish_inv y by simp
next
  case (others_subscribe k ch b)
  have a: "bus_alive (w_bus (sy_world y))" using y by (simp add: stream_inv_def)
  show ?thesis unfolding others_subscribe(1)
    using bus.subscribe [OF a others_subscribe(2)] by (intro stream_bus_inv [OF y]) auto
next
  case (others_cancel ch k)
  have a: "bus_alive (w_bus (sy_world y))" using y by (simp add: stream_inv_def)
  show ?thesis unfolding others_cancel(1)
    using bus.cancel [OF a, of k ch] others_cancel(2) by (intro stream_bus_inv [OF y]) auto
next
  case (others_receive ch b)
  have a: "bus_alive (w_bus (sy_world y))" using y by (simp add: stream_inv_def)
  show ?thesis unfolding others_receive(1)
    using bus.receive [OF a, of ch] others_receive(2,3) by (intro stream_bus_inv [OF y]) auto
qed

inductive system_run :: "system \<Rightarrow> system \<Rightarrow> bool" where
  stay: "system_run y y"
| go: "system_run y y1 \<Longrightarrow> system_step y1 y2 \<Longrightarrow> system_run y y2"

lemma system_run_inv: "system_run y y' \<Longrightarrow> stream_inv y \<Longrightarrow> stream_inv y'"
  by (induction rule: system_run.induct) (auto intro: system_step_inv)

definition fresh_stream :: "plane \<Rightarrow> string \<Rightarrow> system" where
  "fresh_stream w k =
     \<lparr>sy_world = w, sy_stream = \<lparr>str_MachineID = k, str_Phase = Connecting, str_Chan = 0, str_Sent = []\<rparr>,
      sy_owed = {}\<rparr>"

lemma fresh_stream_inv:
  "fs_healthy (w_store w) \<Longrightarrow> bus_alive (w_bus w) \<Longrightarrow> stream_inv (fresh_stream w k)"
  by (simp add: fresh_stream_def stream_inv_def)

text \<open>
  C6: No change of desired state is lost: however a stream, the writers, the publishers and
  the other streams interleave, a stream that waits has either sent the machine's
  current desired state, or has a signal pending that will make it send, or the writer
  of the change has yet to publish it.
\<close>

theorem stream_never_stale:
  assumes "fs_healthy (w_store w)" and "bus_alive (w_bus w)"
    and "system_run (fresh_stream w k) y" and "str_Phase (sy_stream y) = Waiting"
  shows "last_sent y = current y \<or> bus_signal (w_bus (sy_world y)) (str_Chan (sy_stream y)) \<or>
    str_MachineID (sy_stream y) \<in> sy_owed y"
  using system_run_inv [OF assms(3) fresh_stream_inv [OF assms(1,2)]] assms(4)
  by (simp add: stream_inv_def)

definition connected :: system where
  "connected = stream_send True (stream_subscribe (fresh_stream plane5 ''m''))"

lemma connected_run:
  "system_run (fresh_stream plane5 ''m'') connected" "str_Phase (sy_stream connected) = Waiting"
proof -
  have "str_Phase (sy_stream (stream_subscribe (fresh_stream plane5 ''m''))) = Sending"
    by (simp add: stream_subscribe_def fresh_stream_def split: prod.split)
  from system_step.send [OF this, of True]
  have "system_step (stream_subscribe (fresh_stream plane5 ''m'')) connected"
    unfolding connected_def .
  moreover have "system_step (fresh_stream plane5 ''m'') (stream_subscribe (fresh_stream plane5 ''m''))"
    by (rule system_step.connect) (simp add: fresh_stream_def)
  ultimately show "system_run (fresh_stream plane5 ''m'') connected"
    by (intro system_run.go [OF system_run.go [OF system_run.stay]])
  show "str_Phase (sy_stream connected) = Waiting"
    unfolding connected_def fresh_stream_def by code_simp
qed

lemma stream_never_stale_witness:
  "last_sent connected = current connected \<or>
   bus_signal (w_bus (sy_world connected)) (str_Chan (sy_stream connected)) \<or>
   str_MachineID (sy_stream connected) \<in> sy_owed connected"
  using stream_never_stale [OF _ _ connected_run] cp_reachable_tidy [OF reachable_plane5] by blast

text \<open>
  C30: A stream that waits behind, once the writers have published, can always take its two
  steps, receive and send: then the client has the current desired state, or the
  machine is gone and the stream has ended.
\<close>

theorem stream_catches_up:
  assumes "fs_healthy (w_store w)" and "bus_alive (w_bus w)"
    and "system_run (fresh_stream w k) y" and "str_Phase (sy_stream y) = Waiting"
    and "str_MachineID (sy_stream y) \<notin> sy_owed y" and "last_sent y \<noteq> current y"
  shows "\<exists>b. Receive inproc_ops (str_Chan (sy_stream y)) (w_bus (sy_world y)) = Some b \<and>
    system_run (fresh_stream w k) (stream_send True (stream_wake b y)) \<and>
    (let y' = stream_send True (stream_wake b y) in
       current y' = current y \<and>
       (if current y = None then str_Phase (sy_stream y') = Closed
        else str_Phase (sy_stream y') = Waiting \<and> last_sent y' = current y))"
proof -
  note inv = system_run_inv [OF assms(3) fresh_stream_inv [OF assms(1,2)]]
  then have h: "fs_healthy (w_store (sy_world y))" "bus_alive (w_bus (sy_world y))" by (simp_all add: stream_inv_def)
  have "bus_signal (w_bus (sy_world y)) (str_Chan (sy_stream y))"
    using inv assms(4-6) by (simp add: stream_inv_def)
  with bus.receive [OF h(2), of "str_Chan (sy_stream y)"] obtain b where
    b: "Receive inproc_ops (str_Chan (sy_stream y)) (w_bus (sy_world y)) = Some b"
    by (auto split: option.splits)
  let ?y1 = "stream_wake b y"
  have step1: "system_step y ?y1" by (rule system_step.wake [OF assms(4) b])
  have step2: "system_step ?y1 (stream_send True ?y1)"
    by (rule system_step.send) (simp add: stream_wake_def)
  have run: "system_run (fresh_stream w k) (stream_send True ?y1)"
    by (rule system_run.go [OF system_run.go [OF assms(3) step1] step2])
  have h1: "fs_healthy (w_store (sy_world ?y1))" using h by (simp add: stream_wake_def)
  obtain r w1 where g: "on_store (GetMachine file_ops (str_MachineID (sy_stream ?y1))) (sy_world ?y1) = (r, w1)"
    by fastforce
  from fs.get_machine_step [OF h1 g] g
  have "let y' = stream_send True ?y1 in current y' = current y \<and>
       (if current y = None then str_Phase (sy_stream y') = Closed
        else str_Phase (sy_stream y') = Waiting \<and> last_sent y' = current y)"
    by (auto simp: stream_send_def stream_wake_def stream_close_def current_def last_sent_def steady_def
        Let_def simp del: fs_view_simps split: option.splits)
  with b run show ?thesis by blast
qed

definition after_delete :: file_store where
  "after_delete = w_store (snd (deleteMachine file_ops inproc_ops ''m'' plane5))"

definition behind :: system where
  "behind =
     (let y = connected\<lparr>sy_world := (sy_world connected)\<lparr>w_store := after_delete\<rparr>,
                sy_owed := sy_owed connected \<union>
                  stale_streams (fs_view (w_store (sy_world connected))) (fs_view after_delete)\<rparr>
      in y\<lparr>sy_world := publish inproc_ops ''m'' (sy_world y), sy_owed := sy_owed y - {''m''}\<rparr>)"

lemma stream_catches_up_witness:
  "\<exists>b. Receive inproc_ops (str_Chan (sy_stream behind)) (w_bus (sy_world behind)) = Some b \<and>
     str_Phase (sy_stream (stream_send True (stream_wake b behind))) = Closed"
proof -
  have t: "fs_healthy (w_store plane5)" "tidy (fs_view (w_store plane5))" "bus_alive (w_bus plane5)"
    using cp_reachable_tidy [OF reachable_plane5] by (simp_all add: plane_fleet_def)
  from fs.deleteMachine_implements [OF t(1,2) prod.collapse [symmetric], of inproc_ops "''m''"]
  have d: "fs_healthy after_delete" "fmlookup (fl_machines (fs_view after_delete)) ''m'' = None"
    by (simp_all add: implements_def after_delete_def del: fs_view_simps)
  have run: "system_run (fresh_stream plane5 ''m'') behind"
    unfolding behind_def Let_def
    by (rule system_run.go [OF system_run.go [OF connected_run(1) others_write [OF d(1)]] others_publish])
  have same: "sy_stream behind = sy_stream connected" "w_store (sy_world behind) = after_delete"
    "''m'' \<notin> sy_owed behind"
    by (simp_all add: behind_def Let_def)
  have id: "str_MachineID (sy_stream connected) = ''m''" "str_Sent (sy_stream connected) \<noteq> []"
    unfolding connected_def fresh_stream_def by code_simp+
  have cur: "current behind = None" using d(2) id by (simp add: current_def same del: fs_view_simps)
  have "last_sent behind \<noteq> None"
    using id(2) by (auto simp: last_sent_def same split: list.split)
  with cur stream_catches_up [OF t(1,3) run] connected_run(2) same id show ?thesis
    by (auto simp: Let_def)
qed

text \<open>The writers' side: a handler's effect is a write followed by the publishes it owes.\<close>

lemma others_publish_all:
  "system_run y (y\<lparr>sy_world := (sy_world y)\<lparr>w_bus := fold (Publish inproc_ops) ts (w_bus (sy_world y))\<rparr>,
     sy_owed := sy_owed y - set ts\<rparr>)"
proof (induction ts rule: rev_induct)
  case Nil
  then show ?case by (simp add: system_run.stay)
next
  case (snoc t ts)
  from system_run.go [OF snoc others_publish [where k = t]] show ?case
    by (simp add: publish_def insert_commute Diff_insert [symmetric] del: Diff_insert)
qed

end
