(* ===== verification/Live_Stream.thy ===== *)
theory Live_Stream
  imports Reconcile_Stream
begin

text \<open>
  The stream of live samples (\<open>handleLiveStream\<close> of \<open>internal/server/live.go\<close>) next to the
  pushes of all machines, other publishers and other streams. A push sets the sample and
  then publishes; between the two the stream may run.
\<close>

section \<open>States and steps\<close>

record live_system =
  lv_Live :: "metrics_sample gomap"
  lv_Bus :: inproc
  lv_MachineID :: string
  lv_Phase :: phase
  lv_Chan :: nat
  lv_Sent :: "metrics_sample list"
  lv_Owed :: "string set"

definition live_subscribe :: "live_system \<Rightarrow> live_system" where
  "live_subscribe y =
     (case Subscribe inproc_ops (live_topic (lv_MachineID y)) (lv_Bus y) of (ch, b) \<Rightarrow>
        y\<lparr>lv_Bus := b, lv_Phase := Sending, lv_Chan := ch\<rparr>)"

definition live_close :: "live_system \<Rightarrow> live_system" where
  "live_close y =
     y\<lparr>lv_Bus := Cancel inproc_ops (live_topic (lv_MachineID y)) (lv_Chan y) (lv_Bus y), lv_Phase := Closed\<rparr>"

text \<open>\<open>send\<close>: nothing yet is no reason to stop; a client that is gone is.\<close>

definition live_send :: "bool \<Rightarrow> live_system \<Rightarrow> live_system" where
  "live_send write_ok y =
     (case fmlookup (lv_Live y) (lv_MachineID y) of
        None \<Rightarrow> y\<lparr>lv_Phase := Waiting\<rparr>
      | Some sample \<Rightarrow>
          if write_ok then y\<lparr>lv_Phase := Waiting, lv_Sent := lv_Sent y @ [sample]\<rparr> else live_close y)"

inductive live_step :: "live_system \<Rightarrow> live_system \<Rightarrow> bool" where
  connect: "lv_Phase y = Connecting \<Longrightarrow> live_step y (live_subscribe y)"
| send: "lv_Phase y = Sending \<Longrightarrow> live_step y (live_send write_ok y)"
| wake:
    "lv_Phase y = Waiting \<Longrightarrow> Receive inproc_ops (lv_Chan y) (lv_Bus y) = Some b \<Longrightarrow>
     live_step y (y\<lparr>lv_Bus := b, lv_Phase := Sending\<rparr>)"
| keepalive: "lv_Phase y = Waiting \<Longrightarrow> live_step y (if write_ok then y else live_close y)"
| hang_up: "lv_Phase y = Waiting \<Longrightarrow> live_step y (live_close y)"
| push_set:
    "live_step y (y\<lparr>lv_Live := fmupd k sample (lv_Live y), lv_Owed := insert k (lv_Owed y)\<rparr>)"
| push_publish:
    "live_step y (y\<lparr>lv_Bus := Publish inproc_ops (live_topic k) (lv_Bus y), lv_Owed := lv_Owed y - {k}\<rparr>)"
| other_publish: "live_step y (y\<lparr>lv_Bus := Publish inproc_ops t (lv_Bus y)\<rparr>)"
| other_subscribe: "Subscribe inproc_ops t (lv_Bus y) = (ch, b) \<Longrightarrow> live_step y (y\<lparr>lv_Bus := b\<rparr>)"
| other_cancel: "ch \<noteq> lv_Chan y \<Longrightarrow> live_step y (y\<lparr>lv_Bus := Cancel inproc_ops t ch (lv_Bus y)\<rparr>)"
| other_receive:
    "ch \<noteq> lv_Chan y \<Longrightarrow> Receive inproc_ops ch (lv_Bus y) = Some b \<Longrightarrow> live_step y (y\<lparr>lv_Bus := b\<rparr>)"

inductive live_run :: "live_system \<Rightarrow> live_system \<Rightarrow> bool" where
  stay: "live_run y y"
| go: "live_run y y1 \<Longrightarrow> live_step y1 y2 \<Longrightarrow> live_run y y2"

section \<open>The invariant\<close>

definition live_current :: "live_system \<Rightarrow> metrics_sample option" where
  "live_current y = fmlookup (lv_Live y) (lv_MachineID y)"

definition live_shown :: "live_system \<Rightarrow> metrics_sample option" where
  "live_shown y = (case rev (lv_Sent y) of [] \<Rightarrow> None | s # _ \<Rightarrow> Some s)"

definition live_settled :: "live_system \<Rightarrow> bool" where
  "live_settled y \<longleftrightarrow>
     live_current y = None \<or> live_shown y = live_current y \<or> bus_signal (lv_Bus y) (lv_Chan y) \<or>
     lv_MachineID y \<in> lv_Owed y"

definition live_inv :: "live_system \<Rightarrow> bool" where
  "live_inv y \<longleftrightarrow>
     bus_alive (lv_Bus y) \<and>
     (lv_Phase y = Sending \<or> lv_Phase y = Waiting \<longrightarrow>
        bus_listening (lv_Bus y) (live_topic (lv_MachineID y)) (lv_Chan y)) \<and>
     (lv_Phase y = Waiting \<longrightarrow> live_settled y)"

lemma live_views [simp]:
  "live_current (y\<lparr>lv_Bus := b\<rparr>) = live_current y" "live_shown (y\<lparr>lv_Bus := b\<rparr>) = live_shown y"
  "live_current (y\<lparr>lv_Owed := o'\<rparr>) = live_current y" "live_shown (y\<lparr>lv_Owed := o'\<rparr>) = live_shown y"
  "live_current (y\<lparr>lv_Phase := ph\<rparr>) = live_current y" "live_shown (y\<lparr>lv_Phase := ph\<rparr>) = live_shown y"
  "live_current (y\<lparr>lv_Sent := ss\<rparr>) = live_current y" "live_shown (y\<lparr>lv_Sent := ss @ [x]\<rparr>) = Some x"
  "live_shown (y\<lparr>lv_Live := m\<rparr>) = live_shown y"
  by (simp_all add: live_current_def live_shown_def)

lemma live_inv_alive: "live_inv y \<Longrightarrow> bus_alive (lv_Bus y)"
  by (simp add: live_inv_def)

lemma live_bus_inv:
  assumes "live_inv y" and "bus_alive b"
    and "\<And>t. bus_listening (lv_Bus y) t (lv_Chan y) \<Longrightarrow> bus_listening b t (lv_Chan y)"
    and "bus_signal (lv_Bus y) (lv_Chan y) \<Longrightarrow> (\<exists>t. bus_listening (lv_Bus y) t (lv_Chan y)) \<Longrightarrow>
      bus_signal b (lv_Chan y)"
  shows "live_inv (y\<lparr>lv_Bus := b\<rparr>)"
  using assms by (auto simp: live_inv_def live_settled_def)

lemma live_close_inv: "live_inv y \<Longrightarrow> live_inv (live_close y)"
  using bus.cancel [of "lv_Bus y"] by (simp add: live_inv_def live_close_def)

lemma live_send_inv:
  assumes y: "live_inv y" and "lv_Phase y = Sending"
  shows "live_inv (live_send ok y)"
proof (cases "live_current y")
  case None
  then have "live_send ok y = y\<lparr>lv_Phase := Waiting\<rparr>" by (simp add: live_send_def live_current_def)
  with None assms show ?thesis by (simp add: live_inv_def live_settled_def)
next
  case (Some sample)
  then have "live_send ok y =
      (if ok then y\<lparr>lv_Phase := Waiting, lv_Sent := lv_Sent y @ [sample]\<rparr> else live_close y)"
    by (simp add: live_send_def live_current_def)
  with Some assms live_close_inv [OF y] show ?thesis by (simp add: live_inv_def live_settled_def)
qed

lemma live_push_set_inv:
  assumes "live_inv y"
  shows "live_inv (y\<lparr>lv_Live := fmupd k sample (lv_Live y), lv_Owed := insert k (lv_Owed y)\<rparr>)" (is "live_inv ?y")
proof -
  have "live_current ?y = live_current y \<or> lv_MachineID y = k" by (simp add: live_current_def)
  with assms show ?thesis by (auto simp: live_inv_def live_settled_def)
qed

lemma live_push_publish_inv:
  assumes "live_inv y"
  shows "live_inv (y\<lparr>lv_Bus := Publish inproc_ops (live_topic k) (lv_Bus y), lv_Owed := lv_Owed y - {k}\<rparr>)"
    (is "live_inv ?y")
proof -
  have "bus_alive (lv_Bus y)" using assms by (simp add: live_inv_def)
  note p = bus.publish [OF this, of "live_topic k"]
  have "lv_Phase y = Waiting \<Longrightarrow> live_settled ?y"
  proof -
    assume "lv_Phase y = Waiting"
    then have "bus_listening (lv_Bus y) (live_topic (lv_MachineID y)) (lv_Chan y)" "live_settled y"
      using assms by (simp_all add: live_inv_def)
    with p show "live_settled ?y" by (cases "k = lv_MachineID y") (auto simp: live_settled_def)
  qed
  with p assms show ?thesis by (simp add: live_inv_def)
qed

lemma live_step_inv:
  assumes "live_step y y'" and y: "live_inv y"
  shows "live_inv y'"
  using assms(1)
proof cases
  case connect
  obtain ch b where sub: "Subscribe inproc_ops (live_topic (lv_MachineID y)) (lv_Bus y) = (ch, b)" by fastforce
  from bus.subscribe [OF live_inv_alive [OF y] sub] connect show ?thesis
    by (simp add: live_inv_def live_subscribe_def sub)
next
  case (send ok)
  then show ?thesis using live_send_inv [OF y] by simp
next
  case (wake b)
  from bus.receive [OF live_inv_alive [OF y], of "lv_Chan y"] wake y show ?thesis by (simp add: live_inv_def)
next
  case keepalive
  then show ?thesis using y live_close_inv [OF y] by simp
next
  case hang_up
  then show ?thesis using live_close_inv [OF y] by simp
next
  case (push_set k sample)
  then show ?thesis using live_push_set_inv [OF y] by simp
next
  case (push_publish k)
  then show ?thesis using live_push_publish_inv [OF y] by simp
next
  case (other_publish t)
  from bus.publish [OF live_inv_alive [OF y], of t] show ?thesis
    unfolding other_publish by (intro live_bus_inv [OF y]) auto
next
  case (other_subscribe t ch b)
  from bus.subscribe [OF live_inv_alive [OF y] other_subscribe(2)] show ?thesis
    unfolding other_subscribe(1) by (intro live_bus_inv [OF y]) auto
next
  case (other_cancel ch t)
  from bus.cancel [OF live_inv_alive [OF y], of t ch] other_cancel(2) show ?thesis
    unfolding other_cancel(1) by (intro live_bus_inv [OF y]) auto
next
  case (other_receive ch b)
  from bus.receive [OF live_inv_alive [OF y], of ch] other_receive(2,3) show ?thesis
    unfolding other_receive(1) by (intro live_bus_inv [OF y]) auto
qed

lemma live_run_inv: "live_run y y' \<Longrightarrow> live_inv y \<Longrightarrow> live_inv y'"
  by (induction rule: live_run.induct) (auto intro: live_step_inv)

definition fresh_live :: "metrics_sample gomap \<Rightarrow> inproc \<Rightarrow> string \<Rightarrow> live_system" where
  "fresh_live live b k =
     \<lparr>lv_Live = live, lv_Bus = b, lv_MachineID = k, lv_Phase = Connecting, lv_Chan = 0, lv_Sent = [], lv_Owed = {}\<rparr>"

text \<open>The head of the handler: an unknown machine and a connection that cannot stream are refused.\<close>

definition open_live_stream ::
  "string \<Rightarrow> bool \<Rightarrow> plane \<Rightarrow> (unit response + live_system) \<times> plane" where
  "open_live_stream k flusher w =
     (case on_store (GetMachine file_ops k) w of
        (Inl _, w1) \<Rightarrow> (Inl (HttpError StatusNotFound ''not found''), w1)
      | (Inr _, w1) \<Rightarrow>
          (if flusher then Inr (fresh_live (w_live w1) (w_bus w1) k)
           else Inl (HttpError StatusInternalServerError ''streaming unsupported''), w1))"

lemma open_live_stream_fresh:
  assumes "open_live_stream k flusher w = (Inr y, w')"
  shows "y = fresh_live (w_live w) (w_bus w) k"
  using assms
  by (auto simp: open_live_stream_def on_store_def split: prod.splits sum.splits if_splits)

text \<open>
  C22: A live stream shows what is current: however it interleaves with the pushes, the
  other publishers and the other streams, a stream that waits has sent the machine's
  last sample, or there is none, or a signal is pending, or the push has yet to publish.
\<close>

theorem live_stream_never_stale:
  assumes "bus_alive (w_bus w)" and "open_live_stream k flusher w = (Inr y, w')"
    and "live_run y y'" and "lv_Phase y' = Waiting"
  shows "live_current y' = None \<or> live_shown y' = live_current y' \<or> bus_signal (lv_Bus y') (lv_Chan y') \<or>
    lv_MachineID y' \<in> lv_Owed y'"
proof -
  have "live_inv y"
    using assms(1) unfolding open_live_stream_fresh [OF assms(2)] by (simp add: live_inv_def fresh_live_def)
  from live_run_inv [OF assms(3) this] assms(4) show ?thesis by (simp add: live_inv_def live_settled_def)
qed

definition sample_metrics :: metrics_sample where
  "sample_metrics =
     \<lparr>mt_AtUnix = 5, mt_CPUPercent = 1, mt_Load1 = 0, mt_MemTotal = 8, mt_MemUsed = 4, mt_DiskTotal = 0,
      mt_DiskUsed = 0, mt_NetRxBps = 0, mt_NetTxBps = 0, mt_TopProcesses = [], mt_GPUs = [], mt_ProcCount = 0,
      mt_ProcTotalRSS = 0, mt_Interfaces = [], mt_Pods = []\<rparr>"

definition live_plane :: plane where
  "live_plane = live_Set ''m'' sample_metrics plane5"

definition live_opened :: live_system where
  "live_opened = fresh_live (w_live live_plane) (w_bus live_plane) ''m''"

definition live_connected :: live_system where
  "live_connected = live_send True (live_subscribe live_opened)"

lemma live_connected_run:
  "live_run live_opened live_connected" "lv_Phase live_connected = Waiting"
proof -
  have sub: "lv_Phase (live_subscribe live_opened) = Sending"
    "lv_Live (live_subscribe live_opened) = w_live live_plane" "lv_MachineID (live_subscribe live_opened) = ''m''"
    by (simp_all add: live_subscribe_def live_opened_def fresh_live_def split: prod.split)
  have "live_step live_opened (live_subscribe live_opened)"
    by (rule live_step.connect) (simp add: live_opened_def fresh_live_def)
  moreover have "live_step (live_subscribe live_opened) live_connected"
    unfolding live_connected_def by (rule live_step.send [OF sub(1)])
  ultimately show "live_run live_opened live_connected" by (intro live_run.go [OF live_run.go [OF live_run.stay]])
  show "lv_Phase live_connected = Waiting"
    using sub by (simp add: live_connected_def live_send_def live_plane_def live_Set_def)
qed

lemma live_opens: "\<exists>w. open_live_stream ''m'' True live_plane = (Inr live_opened, w)"
proof -
  obtain r w where g: "on_store (GetMachine file_ops ''m'') live_plane = (r, w)" by fastforce
  have "isl (fst (on_store (GetMachine file_ops ''m'') (live_Set ''m'' sample_metrics plane5))) = False"
    by code_simp
  then have "isl r = False" using g unfolding live_plane_def by (metis fst_conv)
  moreover have "w_live w = w_live live_plane" "w_bus w = w_bus live_plane"
    using g by (auto simp: on_store_def split: prod.splits)
  ultimately show ?thesis using g by (auto simp: open_live_stream_def live_opened_def split: sum.splits)
qed

lemma live_stream_never_stale_witness:
  "live_current live_connected = None \<or> live_shown live_connected = live_current live_connected \<or>
    bus_signal (lv_Bus live_connected) (lv_Chan live_connected) \<or> lv_MachineID live_connected \<in> lv_Owed live_connected"
proof -
  have "bus_alive (w_bus live_plane)"
    using cp_reachable_tidy [OF reachable_plane5] by (simp add: live_plane_def live_Set_def)
  with live_stream_never_stale live_opens live_connected_run show ?thesis by blast
qed

end
