(* ===== verification/Go_Paths.thy ===== *)
theory Go_Paths
  imports Api_Types
begin

text \<open>
  Go's \<open>filepath\<close> on Unix and \<open>os.WriteFile\<close>, for the code that keeps files: the agent's
  data directory and the certificate authority's.
\<close>

section \<open>Paths\<close>

text \<open>
  \<open>filepath.Clean\<close>, \<open>Join\<close> and \<open>Base\<close> on Unix. \<open>clean_parts\<close> keeps the elements so far in
  reverse; \<open>..\<close> removes the last one, is dropped at the root and kept at the start of a
  relative path.
\<close>

fun clean_parts :: "bool \<Rightarrow> string list \<Rightarrow> string list \<Rightarrow> string list" where
  "clean_parts rooted acc [] = rev acc"
| "clean_parts rooted acc (p # ps) =
     (if p = [] \<or> p = ''.'' then clean_parts rooted acc ps
      else if p = ''..'' then
        (case acc of
           [] \<Rightarrow> clean_parts rooted (if rooted then [] else [''..'']) ps
         | q # qs \<Rightarrow> if q = ''..'' then clean_parts rooted (''..'' # acc) ps else clean_parts rooted qs ps)
      else clean_parts rooted (p # acc) ps)"

definition Clean :: "string \<Rightarrow> string" where
  "Clean path =
     (let rooted = HasPrefix path ''/'';
          body = Join (clean_parts rooted [] (Split path (CHR ''/''))) ''/''
      in if rooted then ''/'' @ body else if body = [] then ''.'' else body)"

definition JoinPath :: "string list \<Rightarrow> string" where
  "JoinPath elems =
     (let es = filter (\<lambda>e. e \<noteq> []) elems in if es = [] then [] else Clean (Join es ''/''))"

text \<open>\<open>filepath.Base\<close>: the last element; trailing slashes go first.\<close>

definition Base :: "string \<Rightarrow> string" where
  "Base path =
     (if path = [] then ''.''
      else
        let trimmed = rev (dropWhile (\<lambda>c. c = CHR ''/'') (rev path));
            final = rev (takeWhile (\<lambda>c. c \<noteq> CHR ''/'') (rev trimmed))
        in if final = [] then ''/'' else final)"

section \<open>Writing\<close>

text \<open>
  \<open>os.WriteFile\<close> truncates the file before it writes: when it fails the file is as before
  (it could not be opened) or holds what had been written.
\<close>

datatype write_result = Written | NotOpened | Torn bytes

definition write_file :: "write_result \<Rightarrow> string \<Rightarrow> bytes \<Rightarrow> bytes gomap \<Rightarrow> bool \<times> bytes gomap" where
  "write_file res path content files =
     (case res of
        Written \<Rightarrow> (True, fmupd path content files)
      | NotOpened \<Rightarrow> (False, files)
      | Torn left \<Rightarrow> (False, fmupd path left files))"

section \<open>Files of one directory\<close>

text \<open>Plain file names below one directory give different paths.\<close>

definition simple_name :: "string \<Rightarrow> bool" where
  "simple_name n \<longleftrightarrow> n \<noteq> [] \<and> n \<noteq> ''.'' \<and> n \<noteq> ''..'' \<and> CHR ''/'' \<notin> set n"

lemma Split_append: "c \<notin> set xs \<Longrightarrow> Split (xs @ c # ys) c = xs # Split ys c"
  by (induction xs) auto

lemma Split_single: "c \<notin> set xs \<Longrightarrow> Split xs c = [xs]"
  by (induction xs) auto

lemma Split_snoc: "c \<notin> set n \<Longrightarrow> Split (d @ c # n) c = Split d c @ [n]"
proof (induction d)
  case Nil
  then show ?case by (simp add: Split_single)
next
  case (Cons x d)
  then show ?case by (cases "Split d c") simp_all
qed

lemma clean_parts_snoc:
  "simple_name n \<Longrightarrow> clean_parts rooted acc (ps @ [n]) = clean_parts rooted acc ps @ [n]"
  by (induction rooted acc ps rule: clean_parts.induct) (auto simp: simple_name_def split: list.split)

lemma Join_snoc: "Join (xs @ [n]) sep = (if xs = [] then n else Join xs sep @ sep @ n)"
proof (induction xs)
  case (Cons x xs)
  then show ?case by (cases xs) simp_all
qed simp

lemma JoinPath_simple:
  assumes "simple_name n"
  shows "\<exists>p. \<forall>m. simple_name m \<longrightarrow> JoinPath [d, m] = p @ m"
proof (cases "d = []")
  case True
  have "JoinPath [d, m] = m" if "simple_name m" for m
    using that clean_parts_snoc [OF that, of False "[]" "[]"]
    by (auto simp: True JoinPath_def Clean_def Let_def Split_single simple_name_def HasPrefix_iff)
  then show ?thesis by (intro exI [of _ "[]"]) simp
next
  case False
  define root where "root = HasPrefix d ''/''"
  define ps where "ps = clean_parts root [] (Split d (CHR ''/''))"
  define p where "p = (if root then ''/'' else []) @ (if ps = [] then [] else Join ps ''/'' @ ''/'')"
  have "JoinPath [d, m] = p @ m" if m: "simple_name m" for m
  proof -
    have "Split (d @ ''/'' @ m) (CHR ''/'') = Split d (CHR ''/'') @ [m]"
      using m by (simp add: Split_snoc simple_name_def)
    moreover have "HasPrefix (d @ ''/'' @ m) ''/'' = root"
      using False by (cases d) (simp_all add: root_def HasPrefix_def)
    moreover have "Join (ps @ [m]) ''/'' \<noteq> []" using m by (simp add: Join_snoc simple_name_def)
    ultimately show ?thesis
      using False m clean_parts_snoc [OF m, of root "[]" "Split d (CHR ''/'')"]
      by (cases root) (simp_all add: JoinPath_def Clean_def Let_def p_def ps_def Join_snoc simple_name_def)
  qed
  then show ?thesis by blast
qed

lemma JoinPath_eq:
  assumes "simple_name n" and "simple_name m"
  shows "JoinPath [d, n] = JoinPath [d, m] \<longleftrightarrow> n = m"
  using JoinPath_simple [OF assms(1), of d] assms by auto

end
