(* ===== verification/Agent_Reconcile.thy ===== *)
theory Agent_Reconcile
  imports Go_Paths
begin

text \<open>
  The agent's reconciler (\<open>internal/agent/modules.go\<close>): it downloads, verifies and runs
  each desired module once per name, version and configuration, remembers the outcome in
  \<open>applied.json\<close>, and forgets what is no longer desired. The state is the agent's disk
  and a log of the programs it ran and the reports it posted; what the network, the file
  system and the programs answer is supplied by the environment. Texts are taken to be
  valid UTF-8, which the JSON encoding then keeps as they are.
\<close>

section \<open>State\<close>

text \<open>\<open>applied.json\<close> is absent or unreadable, cut short, or a whole map.\<close>

datatype applied_file = NoFile | Garbage | Applied "module_status gomap"

text \<open>A program that was run: its path, what the file held, its environment.\<close>

record run =
  run_Path :: string
  run_Payload :: bytes
  run_Env :: "string list"

record agent =
  ag_DataDir :: string
  ag_MachineID :: string
  ag_ModKey :: bytes
  ag_PushHelper :: string
  ag_Applied :: applied_file
  ag_Files :: "bytes gomap"
  ag_Runs :: "run list"
  ag_Reports :: "status_report list"

text \<open>
  What the environment answers in one \<open>apply\<close>: the clock, the download, the outcome of
  creating the directory, of writing the file (on failure with what is then in the
  file), and the program's output with its error, if any.
\<close>

record apply_env =
  ae_Now :: int64
  ae_Fetch :: "string + module_artifact"
  ae_MkdirErr :: "string option"
  ae_WriteErr :: "(string \<times> bytes) option"
  ae_Output :: string
  ae_RunErr :: "string option"
  ae_Order :: shuffle

text \<open>The pinned key as \<open>pem.Decode\<close> and \<open>x509.ParsePKIXPublicKey\<close> see it.\<close>

datatype parsed_key = NoPEM | ParseError string | OtherKey | Ed25519Key bytes

section \<open>Applying one module\<close>

text \<open>\<open>verify\<close>: \<^term>\<open>None\<close> is success, otherwise the error's text.\<close>

definition verify ::
  "(bytes \<Rightarrow> parsed_key) \<Rightarrow> (bytes \<Rightarrow> bytes \<Rightarrow> bytes \<Rightarrow> bool) \<Rightarrow> bytes \<Rightarrow> module_artifact \<Rightarrow> string option" where
  "verify parse edVerify modKey art =
     (case parse modKey of
        NoPEM \<Rightarrow> Some ''no pinned module key''
      | ParseError e \<Rightarrow> Some e
      | OtherKey \<Rightarrow> Some ''pinned module key is not ed25519''
      | Ed25519Key pub \<Rightarrow>
          if \<not> edVerify pub (art_Payload art) (art_Signature art)
          then Some ''payload signature invalid'' else None)"

definition minimalEnv :: "string list" where
  "minimalEnv =
     [''PATH=/usr/local/sbin:/usr/local/bin:/usr/sbin:/usr/bin:/sbin:/bin'', ''HOME=/root'']"

definition truncate :: "string \<Rightarrow> nat \<Rightarrow> string" where
  "truncate s n = (if length s \<le> n then s else take n s @ ''...(truncated)'')"

text \<open>\<open>strings.ToUpper\<close> on ASCII.\<close>

definition upper_char :: "char \<Rightarrow> char" where
  "upper_char c =
     (if 97 \<le> (of_char c :: nat) \<and> (of_char c :: nat) \<le> 122 then char_of ((of_char c :: nat) - 32) else c)"

definition ToUpper :: "string \<Rightarrow> string" where
  "ToUpper s = map upper_char s"

definition module_dir :: "agent \<Rightarrow> string \<Rightarrow> string \<Rightarrow> string" where
  "module_dir a name version = JoinPath [ag_DataDir a, ''modules'', name @ ''-'' @ version]"

definition module_env :: "agent \<Rightarrow> shuffle \<Rightarrow> module_spec \<Rightarrow> string list" where
  "module_env a p spec =
     minimalEnv @
     [''FLEET_MODULE_NAME='' @ ms_Name spec, ''FLEET_MODULE_VERSION='' @ ms_Version spec,
      ''FLEET_MACHINE_ID='' @ ag_MachineID a, ''FLEET_LOCAL_PUSH='' @ ag_PushHelper a] @
     map (\<lambda>(k, v). ''FLEET_CFG_'' @ ToUpper k @ ''='' @ v) (range_map p (ms_Config spec))"

definition apply_module ::
  "(bytes \<Rightarrow> parsed_key) \<Rightarrow> (bytes \<Rightarrow> bytes \<Rightarrow> bytes \<Rightarrow> bool) \<Rightarrow> apply_env \<Rightarrow> module_spec \<Rightarrow> agent \<Rightarrow>
   module_status \<times> agent" where
  "apply_module parse edVerify env spec a =
     (let st = \<lparr>st_Name = ms_Name spec, st_Version = ms_Version spec, st_State = [], st_Detail = [],
               st_AtUnix = ae_Now env\<rparr>;
          fail = (\<lambda>e. st\<lparr>st_State := ''failed'', st_Detail := e\<rparr>)
      in case ae_Fetch env of
           Inl e \<Rightarrow> (fail (''download: '' @ e), a)
         | Inr art \<Rightarrow>
             (case verify parse edVerify (ag_ModKey a) art of
                Some e \<Rightarrow> (fail (''signature: '' @ e), a)
              | None \<Rightarrow>
                  let dir = module_dir a (ms_Name spec) (ms_Version spec)
                  in (case ae_MkdirErr env of
                        Some e \<Rightarrow> (fail e, a)
                      | None \<Rightarrow>
                          let binPath = JoinPath [dir, Base (Clean (art_Exec art))]
                          in (case ae_WriteErr env of
                                Some (e, left) \<Rightarrow>
                                  (fail e, a\<lparr>ag_Files := fmupd binPath left (ag_Files a)\<rparr>)
                              | None \<Rightarrow>
                                  let a1 = a\<lparr>ag_Files := fmupd binPath (art_Payload art) (ag_Files a),
                                             ag_Runs := ag_Runs a @
                                               [\<lparr>run_Path = binPath, run_Payload = art_Payload art,
                                                 run_Env = module_env a (ae_Order env) spec\<rparr>]\<rparr>;
                                      detail = truncate (ae_Output env) 4096
                                  in (case ae_RunErr env of
                                        Some e \<Rightarrow> (st\<lparr>st_State := ''failed'', st_Detail := e @ '': '' @ detail\<rparr>, a1)
                                      | None \<Rightarrow> (st\<lparr>st_State := ''applied'', st_Detail := detail\<rparr>, a1))))))"

section \<open>Bookkeeping\<close>

definition appliedKey :: "module_spec \<Rightarrow> string" where
  "appliedKey spec =
     ms_Name spec @ ''@'' @ ms_Version spec @
     concat (map (\<lambda>(k, v). ''|'' @ k @ ''='' @ v) (sorted_list_of_fmap (ms_Config spec)))"

definition loadApplied :: "agent \<Rightarrow> module_status gomap" where
  "loadApplied a = (case ag_Applied a of Applied m \<Rightarrow> m | _ \<Rightarrow> fmempty)"

text \<open>The write may fail, before or after the old file is gone; the error is ignored.\<close>

datatype save_outcome = Saved | Unchanged | CutShort

definition saveApplied :: "save_outcome \<Rightarrow> module_status gomap \<Rightarrow> agent \<Rightarrow> agent" where
  "saveApplied so m a =
     (case so of
        Saved \<Rightarrow> a\<lparr>ag_Applied := Applied m\<rparr>
      | Unchanged \<Rightarrow> a
      | CutShort \<Rightarrow> a\<lparr>ag_Applied := Garbage\<rparr>)"

definition under :: "string \<Rightarrow> string \<Rightarrow> bool" where
  "under dir path \<longleftrightarrow> path = dir \<or> HasPrefix path (dir @ ''/'')"

text \<open>Best effort: the files for which \<open>stuck\<close> holds cannot be removed and stay.\<close>

definition removeModuleDir :: "(string \<Rightarrow> bool) \<Rightarrow> string \<Rightarrow> string \<Rightarrow> agent \<Rightarrow> agent" where
  "removeModuleDir stuck name version a =
     (if name = [] then a
      else a\<lparr>ag_Files :=
        fmfilter (\<lambda>p. \<not> under (module_dir a name version) p \<or> stuck p) (ag_Files a)\<rparr>)"

section \<open>Reconcile\<close>

record reconcile_state =
  rc_Applied :: "module_status gomap"
  rc_Statuses :: "module_status list"
  rc_Want :: "bool gomap"
  rc_Agent :: agent

definition reconcile_spec ::
  "(bytes \<Rightarrow> parsed_key) \<Rightarrow> (bytes \<Rightarrow> bytes \<Rightarrow> bytes \<Rightarrow> bool) \<Rightarrow> apply_env \<Rightarrow>
   module_spec \<Rightarrow> reconcile_state \<Rightarrow> reconcile_state" where
  "reconcile_spec parse edVerify env spec r =
     (let key = appliedKey spec;
          r1 = r\<lparr>rc_Want := fmupd key True (rc_Want r)\<rparr>;
          run = (case apply_module parse edVerify env spec (rc_Agent r1) of (st, a) \<Rightarrow>
                   r1\<lparr>rc_Applied := fmupd key st (rc_Applied r1), rc_Statuses := rc_Statuses r1 @ [st],
                      rc_Agent := a\<rparr>)
      in case fmlookup (rc_Applied r1) key of
           None \<Rightarrow> run
         | Some st \<Rightarrow>
             if st_State st = ''applied'' then r1\<lparr>rc_Statuses := rc_Statuses r1 @ [st]\<rparr> else run)"

fun reconcile_specs ::
  "(bytes \<Rightarrow> parsed_key) \<Rightarrow> (bytes \<Rightarrow> bytes \<Rightarrow> bytes \<Rightarrow> bool) \<Rightarrow> (nat \<Rightarrow> apply_env) \<Rightarrow> nat \<Rightarrow>
   module_spec list \<Rightarrow> reconcile_state \<Rightarrow> reconcile_state" where
  "reconcile_specs parse edVerify envs i [] r = r"
| "reconcile_specs parse edVerify envs i (spec # specs) r =
     reconcile_specs parse edVerify envs (Suc i) specs (reconcile_spec parse edVerify (envs i) spec r)"

definition forget_entry :: "(string \<Rightarrow> bool) \<Rightarrow> bool gomap \<Rightarrow> string \<times> module_status \<Rightarrow> reconcile_state \<Rightarrow> reconcile_state" where
  "forget_entry stuck want e r =
     (case e of (key, st) \<Rightarrow>
        if go_index False want key then r
        else r\<lparr>rc_Applied := fmdrop key (rc_Applied r),
               rc_Agent := removeModuleDir stuck (st_Name st) (st_Version st) (rc_Agent r)\<rparr>)"

definition specs_of :: "desired_state \<Rightarrow> module_spec list" where
  "specs_of ds = (case ds_Modules ds of None \<Rightarrow> [] | Some specs \<Rightarrow> specs)"

text \<open>
  \<open>reconcile\<close> after it has loaded \<open>applied.json\<close>: everything it decides from here on it
  decides on the map \<open>loaded\<close>, whatever the file says by then.
\<close>

definition reconcile_loaded ::
  "(bytes \<Rightarrow> parsed_key) \<Rightarrow> (bytes \<Rightarrow> bytes \<Rightarrow> bytes \<Rightarrow> bool) \<Rightarrow> (nat \<Rightarrow> apply_env) \<Rightarrow> shuffle \<Rightarrow>
   (string \<Rightarrow> bool) \<Rightarrow> save_outcome \<Rightarrow> module_status gomap \<Rightarrow> desired_state \<Rightarrow> agent \<Rightarrow> agent" where
  "reconcile_loaded parse edVerify envs p stuck so loaded ds a =
     (let r0 = \<lparr>rc_Applied = loaded, rc_Statuses = [], rc_Want = fmempty, rc_Agent = a\<rparr>;
          r1 = reconcile_specs parse edVerify envs 0 (specs_of ds) r0;
          r2 = fold (forget_entry stuck (rc_Want r1)) (range_map p (rc_Applied r1)) r1;
          a1 = saveApplied so (rc_Applied r2) (rc_Agent r2)
      in a1\<lparr>ag_Reports := ag_Reports a1 @
              [\<lparr>rep_Revision = ds_Revision ds, rep_Modules = rc_Statuses r1\<rparr>]\<rparr>)"

definition reconcile ::
  "(bytes \<Rightarrow> parsed_key) \<Rightarrow> (bytes \<Rightarrow> bytes \<Rightarrow> bytes \<Rightarrow> bool) \<Rightarrow> (nat \<Rightarrow> apply_env) \<Rightarrow> shuffle \<Rightarrow>
   (string \<Rightarrow> bool) \<Rightarrow> save_outcome \<Rightarrow> desired_state \<Rightarrow> agent \<Rightarrow> agent" where
  "reconcile parse edVerify envs p stuck so ds a =
     reconcile_loaded parse edVerify envs p stuck so (loadApplied a) ds a"

end
