(* ===== verification/Host_Files.thy ===== *)
theory Host_Files
  imports Agent_Reconcile
begin

text \<open>
  What the agent reads of the machine it runs on. The collectors of \<open>internal/agent\<close>
  (inventory, processes, network, pods, updates) take everything from \<open>/proc\<close>, \<open>/sys\<close>
  and a few other files; a host is what those reads answer. The rest of the theory is
  the part of Go's library the collectors share.
\<close>

section \<open>The host\<close>

text \<open>
  \<open>h_ReadFile\<close> is \<open>os.ReadFile\<close>, \<open>None\<close> its error; \<open>h_ReadDir\<close> is \<open>os.ReadDir\<close>, each
  entry with its name and whether it is a directory; \<open>h_Stat\<close> says whether \<open>os.Stat\<close>
  succeeds. One host is what is read during one collection.
\<close>

record host =
  h_ReadFile :: "string \<Rightarrow> bytes option"
  h_ReadDir :: "string \<Rightarrow> (string \<times> bool) list option"
  h_Stat :: "string \<Rightarrow> bool"

section \<open>Strings\<close>

fun IndexByte :: "string \<Rightarrow> char \<Rightarrow> nat option" where
  "IndexByte [] c = None"
| "IndexByte (x # xs) c = (if x = c then Some 0 else map_option Suc (IndexByte xs c))"

fun LastIndexByte :: "string \<Rightarrow> char \<Rightarrow> nat option" where
  "LastIndexByte [] c = None"
| "LastIndexByte (x # xs) c =
     (case LastIndexByte xs c of
        Some i \<Rightarrow> Some (Suc i)
      | None \<Rightarrow> if x = c then Some 0 else None)"

text \<open>\<open>strings.Trim\<close> with a cutset of one byte.\<close>

definition TrimByte :: "string \<Rightarrow> char \<Rightarrow> string" where
  "TrimByte s c = rev (dropWhile (\<lambda>x. x = c) (rev (dropWhile (\<lambda>x. x = c) s)))"

text \<open>\<open>strings.ToLower\<close> on ASCII; other bytes are kept.\<close>

definition lower_char :: "char \<Rightarrow> char" where
  "lower_char c =
     (if 65 \<le> (of_char c :: nat) \<and> (of_char c :: nat) \<le> 90 then char_of ((of_char c :: nat) + 32) else c)"

definition ToLower :: "string \<Rightarrow> string" where
  "ToLower s = map lower_char s"

text \<open>\<open>strconv.Atoi\<close> is \<open>ParseInt\<close> where an \<open>int\<close> has 64 bits.\<close>

definition Atoi :: "string \<Rightarrow> gint \<times> num_error" where
  "Atoi s = ParseInt s"

section \<open>Lines\<close>

abbreviation newline_char :: char where
  "newline_char \<equiv> CHR 0x0A"

text \<open>
  \<open>bufio.Scanner\<close> over lines: a carriage return before the newline goes, the last line
  needs no newline, and scanning stops at the first line that does not fit the buffer
  of \<open>limit\<close> bytes.
\<close>

definition drop_cr :: "string \<Rightarrow> string" where
  "drop_cr s = (if s \<noteq> [] \<and> last s = CHR 0x0D then butlast s else s)"

definition raw_lines :: "string \<Rightarrow> string list" where
  "raw_lines s =
     (let ls = Split s newline_char in if last ls = [] then butlast ls else ls)"

definition scan_lines :: "nat \<Rightarrow> string \<Rightarrow> string list" where
  "scan_lines limit s = map drop_cr (takeWhile (\<lambda>l. length l < limit) (raw_lines s))"

definition default_line :: nat where
  "default_line = 65536"

section \<open>Facts\<close>

lemma IndexByte_append:
  "c \<notin> set xs \<Longrightarrow> IndexByte (xs @ c # ys) c = Some (length xs)"
  by (induction xs) auto

lemma LastIndexByte_None: "LastIndexByte xs c = None \<longleftrightarrow> c \<notin> set xs"
  by (induction xs) (auto split: option.splits)

lemma LastIndexByte_append:
  "c \<notin> set ys \<Longrightarrow> LastIndexByte (xs @ c # ys) c = Some (length xs)"
proof (induction xs)
  case Nil
  then have "LastIndexByte ys c = None" by (simp add: LastIndexByte_None)
  then show ?case by simp
qed simp

text \<open>A printable ASCII character other than the space begins no white space.\<close>

definition graphic :: "char \<Rightarrow> bool" where
  "graphic c \<longleftrightarrow> 33 \<le> (of_char c :: nat) \<and> (of_char c :: nat) \<le> 126"

lemma graphic_no_space:
  assumes "graphic c"
  shows "leading_space space_runes (c # cs) = 0"
proof -
  have "hd r \<noteq> c \<and> r \<noteq> []" if "r \<in> set space_runes" for r
    using that assms by (auto simp: space_runes_def graphic_def)
  then have "\<not> HasPrefix (c # cs) r" if "r \<in> set space_runes" for r
    using that by (metis HasPrefix_iff append_Cons hd_append2 list.sel(1))
  then have "find (HasPrefix (c # cs)) space_runes = None"
    by (auto simp: find_None_iff)
  then show ?thesis by (simp add: leading_space_def)
qed

lemma leading_space_blank: "leading_space space_runes (CHR '' '' # cs) = 1"
  by (simp add: leading_space_def space_runes_def HasPrefix_def)

lemma fields_from_graphic:
  "\<forall>c \<in> set w. graphic c \<Longrightarrow> fields_from cur (w @ s) = fields_from (cur @ w) s"
proof (induction w arbitrary: cur)
  case (Cons c w)
  then have "leading_space space_runes (c # w @ s) = 0" by (simp add: graphic_no_space)
  then have "fields_from cur ((c # w) @ s) = fields_from (cur @ [c]) (w @ s)"
    by (subst fields_from.simps) simp
  with Cons show ?case by simp
qed simp

lemma fields_from_blank:
  "fields_from cur (CHR '' '' # s) = (if cur = [] then [] else [cur]) @ fields_from [] s"
  by (subst fields_from.simps) (simp add: leading_space_blank)

lemma fields_from_Nil: "fields_from cur [] = (if cur = [] then [] else [cur])"
  by (subst fields_from.simps) simp

definition word_like :: "string \<Rightarrow> bool" where
  "word_like w \<longleftrightarrow> w \<noteq> [] \<and> (\<forall>c \<in> set w. graphic c)"

lemma Fields_Join:
  "\<forall>w \<in> set ws. word_like w \<Longrightarrow> Fields (Join ws '' '') = ws"
proof (induction ws)
  case Nil
  then show ?case by (simp add: Fields_def fields_from_Nil)
next
  case (Cons w ws)
  then have w: "\<forall>c \<in> set w. graphic c" "w \<noteq> []" by (simp_all add: word_like_def)
  show ?case
  proof (cases ws)
    case Nil
    then show ?thesis
      using w fields_from_graphic [of w "[]" "[]"] by (simp add: Fields_def fields_from_Nil)
  next
    case (Cons v vs)
    then show ?thesis
      using w Cons.IH Cons.prems fields_from_graphic [of w "[]" "CHR '' '' # Join (v # vs) '' ''"]
      by (simp add: Fields_def fields_from_blank)
  qed
qed

lemma Fields_blank_Cons: "Fields (CHR '' '' # s) = Fields s"
  by (simp add: Fields_def fields_from_blank)

lemma ParseUint_show_nat:
  assumes "n < 2 ^ 64"
  shows "ParseUint (show_nat n) = (of_nat n, NumOk)"
  using parse_uint_from_show_nat [OF assms, of "[]"] by (simp add: ParseUint_def)

lemma digit_graphic: "is_digit c \<Longrightarrow> graphic c"
  by (simp add: is_digit_def graphic_def)

lemma show_nat_word_like: "word_like (show_nat n)"
  using show_nat_digits digit_graphic by (auto simp: word_like_def)

end
