(* ===== verification/Host_Inventory.thy ===== *)
theory Host_Inventory
  imports Host_Files
begin

text \<open>
  The inventory scan of \<open>internal/agent/inventory.go\<close>: which server software runs, the
  Kubernetes role it gives the machine, the graphics cards, the operating system and the
  package count, all read from files of the host.
\<close>

section \<open>Kubernetes roles\<close>

text \<open>\<open>k3sRoleFromCmdline\<close>: the arguments are split at NUL and at blanks.\<close>

definition cmdline_separator :: "char \<Rightarrow> bool" where
  "cmdline_separator r \<longleftrightarrow> r = CHR 0x00 \<or> r = CHR '' '' \<or> r = CHR 0x09 \<or> r = CHR 0x0A"

fun subcommand_role :: "string list \<Rightarrow> string" where
  "subcommand_role [] = ''k3s''"
| "subcommand_role (f # fs) =
     (if f = ''server'' then ''k3s-server''
      else if f = ''agent'' then ''k3s-agent''
      else subcommand_role fs)"

definition k3sRoleFromCmdline :: "bytes \<Rightarrow> string" where
  "k3sRoleFromCmdline raw =
     (let fields = FieldsFunc raw cmdline_separator
      in if fields = [] \<or> \<not> Contains (Base (hd fields)) ''k3s'' then []
         else subcommand_role (tl fields))"

definition k3sRole :: "host \<Rightarrow> string \<Rightarrow> string" where
  "k3sRole h cmdlinePath =
     (case h_ReadFile h cmdlinePath of None \<Rightarrow> [] | Some raw \<Rightarrow> k3sRoleFromCmdline raw)"

definition detectKubernetes :: "service list \<Rightarrow> string" where
  "detectKubernetes services =
     (let has = (\<lambda>name. list_ex (\<lambda>s. svc_Name s = name) services)
      in if has ''k3s-server'' then ''k3s-server''
         else if has ''k3s-agent'' then ''k3s-agent''
         else if has ''k3s'' then ''k3s''
         else if has ''kube-apiserver'' then ''control-plane''
         else if has ''kubelet'' then ''worker''
         else [])"

section \<open>Recognised services\<close>

definition knownServices_table :: "(string \<times> service) list" where
  "knownServices_table =
     [(''postgres'', Service ''postgresql'' ''database''),
      (''mysqld'', Service ''mysql'' ''database''),
      (''mariadbd'', Service ''mariadb'' ''database''),
      (''mongod'', Service ''mongodb'' ''database''),
      (''redis-server'', Service ''redis'' ''database''),
      (''valkey-server'', Service ''valkey'' ''database''),
      (''clickhouse-serv'', Service ''clickhouse'' ''database''),
      (''memcached'', Service ''memcached'' ''database''),
      (''sqld'', Service ''sqld'' ''database''),
      (''etcd'', Service ''etcd'' ''database''),
      (''kubelet'', Service ''kubelet'' ''kubernetes''),
      (''kube-apiserver'', Service ''kube-apiserver'' ''kubernetes''),
      (''kube-scheduler'', Service ''kube-scheduler'' ''kubernetes''),
      (''kube-controller'', Service ''kube-controller-manager'' ''kubernetes''),
      (''kube-proxy'', Service ''kube-proxy'' ''kubernetes''),
      (''k3s'', Service ''k3s'' ''kubernetes''),
      (''k3s-server'', Service ''k3s-server'' ''kubernetes''),
      (''k3s-agent'', Service ''k3s-agent'' ''kubernetes''),
      (''k0s'', Service ''k0s'' ''kubernetes''),
      (''dockerd'', Service ''docker'' ''container''),
      (''containerd'', Service ''containerd'' ''container''),
      (''crio'', Service ''crio'' ''container''),
      (''nginx'', Service ''nginx'' ''web''),
      (''haproxy'', Service ''haproxy'' ''web''),
      (''caddy'', Service ''caddy'' ''web''),
      (''nats-server'', Service ''nats'' ''messaging''),
      (''ollama'', Service ''ollama'' ''ai''),
      (''prometheus'', Service ''prometheus'' ''monitoring''),
      (''node_exporter'', Service ''node_exporter'' ''monitoring''),
      (''sshd'', Service ''sshd'' ''system'')]"

definition knownServices :: "string \<Rightarrow> service option" where
  "knownServices comm = map_of knownServices_table comm"

text \<open>
  \<open>scanProcs\<close>: one pass over \<open>/proc\<close>. \<open>process_dirs\<close> are the entries the loop does not
  skip, \<open>service_of\<close> is what one of them adds to \<open>found\<close>.
\<close>

definition process_dirs :: "(string \<times> bool) list \<Rightarrow> string list" where
  "process_dirs entries =
     map fst (filter (\<lambda>(name, isDir). isDir \<and> snd (Atoi name) = NumOk) entries)"

definition service_of :: "host \<Rightarrow> string \<Rightarrow> service option" where
  "service_of h name =
     (case h_ReadFile h (''/proc/'' @ name @ ''/comm'') of
        None \<Rightarrow> None
      | Some raw \<Rightarrow>
          let comm = TrimSpace raw;
              role = (if comm = ''k3s'' \<or> comm = ''exe'' then k3sRole h (''/proc/'' @ name @ ''/cmdline'') else [])
          in if role \<noteq> [] then Some (Service role ''kubernetes'') else knownServices comm)"

definition found_step :: "host \<Rightarrow> string \<Rightarrow> service gomap \<Rightarrow> service gomap" where
  "found_step h name found =
     (case service_of h name of None \<Rightarrow> found | Some svc \<Rightarrow> fmupd (svc_Name svc) svc found)"

definition service_before :: "service \<Rightarrow> service \<Rightarrow> bool" where
  "service_before a b \<longleftrightarrow>
     (if svc_Category a \<noteq> svc_Category b then svc_Category a < svc_Category b
      else svc_Name a < svc_Name b)"

definition scanProcs :: "shuffle \<Rightarrow> shuffle \<Rightarrow> host \<Rightarrow> nat \<times> service list" where
  "scanProcs p q h =
     (case h_ReadDir h ''/proc'' of
        None \<Rightarrow> (0, [])
      | Some entries \<Rightarrow>
          let names = process_dirs entries;
              found = fold (found_step h) names fmempty;
              services = map snd (range_map p found)
          in (length names, sort_slice q service_before services))"

section \<open>Graphics cards\<close>

definition pciGPUVendors :: "string \<Rightarrow> string" where
  "pciGPUVendors vendor =
     (if vendor = ''0x10de'' then ''nvidia''
      else if vendor = ''0x1002'' then ''amd''
      else if vendor = ''0x8086'' then ''intel''
      else [])"

definition read_or_empty :: "host \<Rightarrow> string \<Rightarrow> bytes" where
  "read_or_empty h path = (case h_ReadFile h path of None \<Rightarrow> [] | Some raw \<Rightarrow> raw)"

definition nvidiaModelNames :: "host \<Rightarrow> string list" where
  "nvidiaModelNames h =
     (case h_ReadDir h ''/proc/driver/nvidia/gpus'' of
        None \<Rightarrow> []
      | Some dirs \<Rightarrow>
          concat (map (\<lambda>(name, _).
            case h_ReadFile h (''/proc/driver/nvidia/gpus/'' @ name @ ''/information'') of
              None \<Rightarrow> []
            | Some raw \<Rightarrow>
                List.map_filter (\<lambda>line. case CutPrefix line ''Model:'' of (v, ok) \<Rightarrow>
                    if ok then Some (TrimSpace v) else None)
                  (Split raw newline_char)) dirs))"

text \<open>One turn of the loop of \<open>detectGPUs\<close>, on the list so far and \<open>nvIdx\<close>.\<close>

definition gpu_step :: "host \<Rightarrow> string list \<Rightarrow> string \<times> bool \<Rightarrow> string list \<times> nat \<Rightarrow> string list \<times> nat" where
  "gpu_step h nvidiaModels entry = (\<lambda>(gpus, nvIdx).
     let base = ''/sys/bus/pci/devices/'' @ fst entry
     in case h_ReadFile h (base @ ''/class'') of
          None \<Rightarrow> (gpus, nvIdx)
        | Some class_raw \<Rightarrow>
            if \<not> HasPrefix (TrimSpace class_raw) ''0x03'' then (gpus, nvIdx)
            else
              let vendorRaw = TrimSpace (read_or_empty h (base @ ''/vendor''));
                  named = pciGPUVendors vendorRaw;
                  vendor = (if named = [] then vendorRaw else named)
              in if vendor = ''nvidia'' \<and> nvIdx < length nvidiaModels
                 then (gpus @ [''nvidia: '' @ nvidiaModels ! nvIdx], Suc nvIdx)
                 else (gpus @ [vendor @ '': device '' @ TrimSpace (read_or_empty h (base @ ''/device''))], nvIdx))"

definition detectGPUs :: "host \<Rightarrow> string list" where
  "detectGPUs h =
     (case h_ReadDir h ''/sys/bus/pci/devices'' of
        None \<Rightarrow> []
      | Some entries \<Rightarrow> fst (fold (gpu_step h (nvidiaModelNames h)) entries ([], 0)))"

section \<open>Operating system and packages\<close>

definition release_step :: "string \<Rightarrow> string \<times> string \<times> string \<Rightarrow> string \<times> string \<times> string" where
  "release_step line = (\<lambda>(ident, version, pretty).
     let q = CHR 0x22;
         id1 = (case CutPrefix line ''ID='' of (v, ok) \<Rightarrow> if ok then TrimByte v q else ident);
         version1 = (case CutPrefix line ''VERSION_ID='' of (v, ok) \<Rightarrow> if ok then TrimByte v q else version);
         pretty1 = (case CutPrefix line ''PRETTY_NAME='' of (v, ok) \<Rightarrow> if ok then TrimByte v q else pretty)
     in (id1, version1, pretty1))"

definition osRelease :: "host \<Rightarrow> string \<times> string" where
  "osRelease h =
     (case h_ReadFile h ''/etc/os-release'' of
        None \<Rightarrow> ([], [])
      | Some raw \<Rightarrow>
          (case fold release_step (scan_lines default_line raw) ([], [], []) of
             (ident, version, pretty) \<Rightarrow>
               if ident = [] \<and> pretty \<noteq> [] then
                 (case Cut pretty '' '' of (name, ver, ok) \<Rightarrow>
                    if ok then (ToLower name, ver) else (ToLower pretty, version))
               else (ident, version)))"

definition packageCount :: "host \<Rightarrow> int" where
  "packageCount h =
     (case h_ReadFile h ''/var/lib/dpkg/status'' of
        Some raw \<Rightarrow>
          int (length (filter (\<lambda>l. HasPrefix l ''Package:'') (scan_lines (1024 * 1024) raw)))
      | None \<Rightarrow> if h_Stat h ''/var/lib/rpm'' then - 1 else 0)"

end
