(* ===== verification/Host_Updates.thy ===== *)
theory Host_Updates
  imports Host_Files
begin

text \<open>
  Pending package updates (\<open>internal/agent/updates.go\<close>): reading the output of the
  package manager and caching the summary. What the commands print is a parameter; a
  line longer than the scanner's buffer ends the scan.
\<close>

definition contains_security :: "string \<Rightarrow> bool" where
  "contains_security line \<longleftrightarrow> Contains (ToLower line) ''security''"

definition zero_updates :: "string \<Rightarrow> int64 \<Rightarrow> updates" where
  "zero_updates manager now =
     \<lparr>up_Manager = manager, up_Total = 0, up_Security = 0, up_Packages = [], up_RebootReq = False,
      up_AtUnix = now\<rparr>"

text \<open>A counted package: the total grows, and the first 50 names are kept.\<close>

definition count_package :: "string \<Rightarrow> updates \<Rightarrow> updates" where
  "count_package name u =
     u\<lparr>up_Total := up_Total u + 1,
       up_Packages := (if length (up_Packages u) < 50 then up_Packages u @ [name] else up_Packages u)\<rparr>"

definition with_reboot :: "host \<Rightarrow> updates \<Rightarrow> updates" where
  "with_reboot h u = (if h_Stat h ''/var/run/reboot-required'' then u\<lparr>up_RebootReq := True\<rparr> else u)"

definition apt_step :: "string \<Rightarrow> updates \<Rightarrow> updates" where
  "apt_step line u =
     (let fields = Fields line
      in if \<not> HasPrefix line ''Inst '' \<or> length fields < 2 then u
         else
           let u1 = count_package (fields ! 1) u
           in if contains_security line then u1\<lparr>up_Security := up_Security u1 + 1\<rparr> else u1)"

text \<open>\<open>out\<close> is the output of \<open>apt-get -s upgrade\<close>, \<open>None\<close> when the command failed.\<close>

definition scanApt :: "host \<Rightarrow> int64 \<Rightarrow> bytes option \<Rightarrow> updates" where
  "scanApt h now out =
     (case out of
        None \<Rightarrow> zero_updates ''apt'' now
      | Some text \<Rightarrow>
          with_reboot h (fold apt_step (scan_lines default_line text) (zero_updates ''apt'' now)))"

definition dnf_step :: "string \<Rightarrow> updates \<times> bool \<Rightarrow> updates \<times> bool" where
  "dnf_step raw = (\<lambda>(u, inObsolete).
     let line = TrimSpace raw
     in if line = [] then (u, inObsolete)
        else if HasPrefix line ''Obsoleting'' then (u, True)
        else if inObsolete then (u, inObsolete)
        else
          let fields = Fields line
          in if length fields < 3 then (u, inObsolete)
             else (count_package (fields ! 0) u, inObsolete))"

definition security_step :: "string \<Rightarrow> updates \<Rightarrow> updates" where
  "security_step line u = (if contains_security line then u\<lparr>up_Security := up_Security u + 1\<rparr> else u)"

text \<open>
  \<open>out\<close> is what \<open>dnf check-update\<close> printed (its error is ignored), \<open>sec\<close> the output of
  \<open>dnf updateinfo list security\<close>.
\<close>

definition scanDnf :: "host \<Rightarrow> int64 \<Rightarrow> bytes \<Rightarrow> bytes option \<Rightarrow> updates" where
  "scanDnf h now out sec =
     (let u1 = fst (fold dnf_step (scan_lines default_line out) (zero_updates ''dnf'' now, False));
          u2 = (case sec of None \<Rightarrow> u1 | Some text \<Rightarrow> fold security_step (scan_lines default_line text) u1)
      in with_reboot h u2)"

text \<open>What the package managers answer: which are installed and what they print.\<close>

record package_managers =
  pm_hasBin :: "string \<Rightarrow> bool"
  pm_apt :: "bytes option"
  pm_dnf :: bytes
  pm_dnf_security :: "bytes option"

definition scanUpdates :: "host \<Rightarrow> package_managers \<Rightarrow> int64 \<Rightarrow> updates" where
  "scanUpdates h pm now =
     (if pm_hasBin pm ''apt-get'' then scanApt h now (pm_apt pm)
      else if pm_hasBin pm ''dnf'' then scanDnf h now (pm_dnf pm) (pm_dnf_security pm)
      else zero_updates ''unknown'' now)"

text \<open>
  \<open>updatesSnapshot\<close> with the cache as state; \<open>at\<close>, \<open>now\<close> and \<open>maxAge\<close> are times in
  nanoseconds on one clock, \<open>finished\<close> the time at which the scan has finished.
\<close>

record update_cache =
  uc_snap :: "updates option"
  uc_at :: int

definition updatesSnapshot ::
  "host \<Rightarrow> package_managers \<Rightarrow> int64 \<Rightarrow> int \<Rightarrow> int \<Rightarrow> int \<Rightarrow> update_cache \<Rightarrow> updates \<times> update_cache" where
  "updatesSnapshot h pm unix now finished maxAge cache =
     (case uc_snap cache of
        Some cached \<Rightarrow>
          if now - uc_at cache < maxAge then (cached, cache)
          else (let snap = scanUpdates h pm unix in (snap, \<lparr>uc_snap = Some snap, uc_at = finished\<rparr>))
      | None \<Rightarrow> (let snap = scanUpdates h pm unix in (snap, \<lparr>uc_snap = Some snap, uc_at = finished\<rparr>)))"

end
