(* ===== verification/Host_Network.thy ===== *)
theory Host_Network
  imports Host_Files
begin

text \<open>
  Network interfaces (\<open>internal/agent/netinfo.go\<close>): which interface carries the default
  route, the inventory of interfaces with their addresses, and their throughput between
  two readings of the kernel's counters.
\<close>

section \<open>Interfaces\<close>

definition virtualPrefixes :: "string list" where
  "virtualPrefixes =
     [''lo'', ''veth'', ''docker'', ''br-'', ''cni'', ''flannel'', ''cali'', ''cilium'',
      ''kube-ipvs'', ''nodelocaldns'', ''virbr'', ''vxlan'', ''tunl'', ''dummy'', ''ifb'']"

definition isVirtualIface :: "string \<Rightarrow> bool" where
  "isVirtualIface name \<longleftrightarrow> list_ex (\<lambda>p. HasPrefix name p) virtualPrefixes"

text \<open>One line of \<open>/proc/net/route\<close>: the best interface so far and its metric.\<close>

definition route_step :: "string \<Rightarrow> string \<times> gint \<Rightarrow> string \<times> gint" where
  "route_step line = (\<lambda>(best, bestMetric).
     let f = Fields line
     in if length f < 8 \<or> f ! 1 \<noteq> ''00000000'' then (best, bestMetric)
        else
          let metric = fst (Atoi (f ! 6))
          in if best = [] \<or> metric <s bestMetric then (f ! 0, metric) else (best, bestMetric))"

definition defaultRouteIface :: "host \<Rightarrow> string" where
  "defaultRouteIface h =
     (case h_ReadFile h ''/proc/net/route'' of
        None \<Rightarrow> []
      | Some raw \<Rightarrow> fst (fold route_step (drop 1 (Split raw newline_char)) ([], - 1)))"

definition ifaceSpeed :: "host \<Rightarrow> string \<Rightarrow> gint" where
  "ifaceSpeed h name =
     (case h_ReadFile h (''/sys/class/net/'' @ name @ ''/speed'') of
        None \<Rightarrow> 0
      | Some raw \<Rightarrow>
          (case Atoi (TrimSpace raw) of (v, e) \<Rightarrow> if e \<noteq> NumOk \<or> v <s 0 then 0 else v))"

text \<open>
  What \<open>net.Interfaces\<close> and \<open>Addrs\<close> give: an address is an IPv4 network (four octets and
  a prefix length), an IPv6 network (its text and whether it is link-local) or none of
  the \<open>*net.IPNet\<close> kind.
\<close>

datatype address =
  IPv4Net "8 word" "8 word" "8 word" "8 word" nat
| IPv6Net string bool
| OtherAddr

record net_device =
  nd_Name :: string
  nd_MTU :: gint
  nd_Up :: bool
  nd_HardwareAddr :: "string option"
  nd_Addrs :: "address list option"

definition show_octet :: "8 word \<Rightarrow> string" where
  "show_octet b = show_nat (unat b)"

definition show_ipv4 :: "8 word \<Rightarrow> 8 word \<Rightarrow> 8 word \<Rightarrow> 8 word \<Rightarrow> string" where
  "show_ipv4 a b c d = show_octet a @ ''.'' @ show_octet b @ ''.'' @ show_octet c @ ''.'' @ show_octet d"

definition show_ipv4_net :: "8 word \<Rightarrow> 8 word \<Rightarrow> 8 word \<Rightarrow> 8 word \<Rightarrow> nat \<Rightarrow> string" where
  "show_ipv4_net a b c d len = show_ipv4 a b c d @ ''/'' @ show_nat len"

text \<open>
  \<open>net.ParseCIDR\<close> on IPv4 texts: four numbers up to 255 without leading zeros and a
  prefix length up to 32. The address comes back as its four octets.
\<close>

definition parse_octet :: "string \<Rightarrow> (8 word) option" where
  "parse_octet s =
     (if s = [] \<or> 3 < length s \<or> \<not> list_all is_digit s \<or> (1 < length s \<and> hd s = CHR ''0'') then None
      else (case parse_uint_from 0 s of (n, _) \<Rightarrow> if 255 < n then None else Some (of_nat n)))"

definition parse_ipv4 :: "string \<Rightarrow> (8 word \<times> 8 word \<times> 8 word \<times> 8 word) option" where
  "parse_ipv4 s =
     (case map parse_octet (Split s (CHR ''.'')) of
        [Some a, Some b, Some c, Some d] \<Rightarrow> Some (a, b, c, d)
      | _ \<Rightarrow> None)"

definition ParseCIDR4 :: "string \<Rightarrow> (8 word \<times> 8 word \<times> 8 word \<times> 8 word) option" where
  "ParseCIDR4 s =
     (case Cut s ''/'' of (addr, bits, found) \<Rightarrow>
        if \<not> found \<or> bits = [] \<or> \<not> list_all is_digit bits \<or> 32 < fst (parse_uint_from 0 bits) then None
        else parse_ipv4 addr)"

text \<open>
  The loop over the addresses of one interface, on its two lists and the primary IP so
  far.
\<close>

definition addr_step ::
  "bool \<Rightarrow> address \<Rightarrow> string list \<times> string list \<times> string \<Rightarrow> string list \<times> string list \<times> string" where
  "addr_step primary ad = (\<lambda>(v4, v6, primaryIP).
     case ad of
       IPv4Net a b c d len \<Rightarrow>
         (v4 @ [show_ipv4_net a b c d len], v6,
          if primary \<and> primaryIP = [] then show_ipv4 a b c d else primaryIP)
     | IPv6Net txt linkLocal \<Rightarrow> (v4, if linkLocal then v6 else v6 @ [txt], primaryIP)
     | OtherAddr \<Rightarrow> (v4, v6, primaryIP))"

definition iface_step ::
  "host \<Rightarrow> string \<Rightarrow> net_device \<Rightarrow> net_interface list \<times> string \<Rightarrow> net_interface list \<times> string" where
  "iface_step h def ifc = (\<lambda>(out, primaryIP).
     let primary = (nd_Name ifc = def);
         addrs = (case nd_Addrs ifc of None \<Rightarrow> [] | Some as \<Rightarrow> as)
     in case fold (addr_step primary) addrs ([], [], primaryIP) of
          (v4, v6, primaryIP') \<Rightarrow>
            (out @ [\<lparr>if_Name = nd_Name ifc,
                     if_MAC = (case nd_HardwareAddr ifc of None \<Rightarrow> [] | Some m \<Rightarrow> m),
                     if_MTU = nd_MTU ifc, if_SpeedMbps = ifaceSpeed h (nd_Name ifc),
                     if_Up = nd_Up ifc, if_Primary = primary, if_Virtual = isVirtualIface (nd_Name ifc),
                     if_IPv4 = v4, if_IPv6 = v6\<rparr>], primaryIP'))"

text \<open>
  The fallback without a default route: the first routable IPv4 of a real interface that
  is up. \<open>127/8\<close> is the loopback network.
\<close>

fun fallback_primary :: "net_interface list \<Rightarrow> net_interface list \<times> string" where
  "fallback_primary [] = ([], [])"
| "fallback_primary (ni # nis) =
     (if if_Up ni \<and> \<not> if_Virtual ni \<and> if_IPv4 ni \<noteq> [] then
        (case ParseCIDR4 (hd (if_IPv4 ni)) of
           Some (a, b, c, d) \<Rightarrow>
             if a \<noteq> 127 then (ni\<lparr>if_Primary := True\<rparr> # nis, show_ipv4 a b c d)
             else (case fallback_primary nis of (out, ip) \<Rightarrow> (ni # out, ip))
         | None \<Rightarrow> (case fallback_primary nis of (out, ip) \<Rightarrow> (ni # out, ip)))
      else (case fallback_primary nis of (out, ip) \<Rightarrow> (ni # out, ip)))"

definition iface_before :: "net_interface \<Rightarrow> net_interface \<Rightarrow> bool" where
  "iface_before a b \<longleftrightarrow>
     (if if_Primary a \<noteq> if_Primary b then if_Primary a
      else if if_Virtual a \<noteq> if_Virtual b then if_Virtual b
      else if_Name a < if_Name b)"

definition collectInterfaces :: "host \<Rightarrow> net_device list option \<Rightarrow> net_interface list \<times> string" where
  "collectInterfaces h devices =
     (case devices of
        None \<Rightarrow> ([], [])
      | Some ifaces \<Rightarrow>
          (case fold (iface_step h (defaultRouteIface h)) ifaces ([], []) of
             (out, primaryIP) \<Rightarrow>
               (case (if primaryIP = [] then fallback_primary out else (out, primaryIP)) of
                  (out', ip) \<Rightarrow> (sort_by iface_before out', ip))))"

section \<open>Throughput\<close>

record ifaceCounters =
  ic_rx :: uint64
  ic_tx :: uint64

definition counters_step :: "string \<Rightarrow> ifaceCounters gomap \<Rightarrow> ifaceCounters gomap" where
  "counters_step line out =
     (case Cut line '':'' of (name0, rest, ok) \<Rightarrow>
        let name = TrimSpace name0
        in if \<not> ok \<or> name = ''lo'' \<or> name = [] then out
           else
             let f = Fields rest
             in if length f < 9 then out
                else fmupd name \<lparr>ic_rx = fst (ParseUint (f ! 0)), ic_tx = fst (ParseUint (f ! 8))\<rparr> out)"

definition readNetPerIface :: "host \<Rightarrow> ifaceCounters gomap" where
  "readNetPerIface h =
     (case h_ReadFile h ''/proc/net/dev'' of
        None \<Rightarrow> fmempty
      | Some raw \<Rightarrow> fold counters_step (Split raw newline_char) fmempty)"

definition rate :: "uint64 \<Rightarrow> uint64 \<Rightarrow> float64 \<Rightarrow> float64" where
  "rate before now elapsed = (if before \<le> now then real (unat (now - before)) / elapsed else 0)"

definition net_sample_of ::
  "ifaceCounters gomap \<Rightarrow> float64 \<Rightarrow> string \<times> ifaceCounters \<Rightarrow> net_sample option" where
  "net_sample_of prev elapsed = (\<lambda>(name, c).
     case fmlookup prev name of
       None \<Rightarrow> None
     | Some p \<Rightarrow>
         Some \<lparr>ns_Name = name, ns_RxBps = rate (ic_rx p) (ic_rx c) elapsed,
               ns_TxBps = rate (ic_tx p) (ic_tx c) elapsed, ns_RxBytes = ic_rx c, ns_TxBytes = ic_tx c\<rparr>)"

definition net_before :: "net_sample \<Rightarrow> net_sample \<Rightarrow> bool" where
  "net_before a b \<longleftrightarrow>
     (if ns_RxBps a + ns_TxBps a \<noteq> ns_RxBps b + ns_TxBps b
      then ns_RxBps a + ns_TxBps a > ns_RxBps b + ns_TxBps b
      else ns_Name a < ns_Name b)"

definition netSamples ::
  "shuffle \<Rightarrow> shuffle \<Rightarrow> ifaceCounters gomap \<Rightarrow> ifaceCounters gomap \<Rightarrow> float64 \<Rightarrow> net_sample list" where
  "netSamples p q prev cur elapsed =
     (if elapsed \<le> 0 then []
      else sort_slice q net_before (List.map_filter (net_sample_of prev elapsed) (range_map p cur)))"

end
