(* ===== verification/Host_Processes.thy ===== *)
theory Host_Processes
  imports Host_Inventory
begin

text \<open>
  The process picture of a live sample (\<open>internal/agent/procsample.go\<close>) and the
  machine-wide readers of \<open>internal/agent/metrics.go\<close>. A \<open>float64\<close> is a real number: the
  rounding of the rates is not modelled, the 64-bit wrap of the counters is.
\<close>

section \<open>One process\<close>

record procCPU =
  pc_comm :: string
  pc_jiff :: uint64
  pc_rss :: uint64

text \<open>
  \<open>parseStat\<close>: the command name runs from the first \<open>(\<close> to the last \<open>)\<close>; of the fields
  after it, 11 and 12 are the CPU times and 21 is the resident size in pages.
\<close>

definition parseStat :: "string \<Rightarrow> uint64 \<Rightarrow> procCPU option" where
  "parseStat stat pageSize =
     (case (IndexByte stat (CHR ''(''), LastIndexByte stat (CHR '')'')) of
        (Some opn, Some cls) \<Rightarrow>
          if cls < opn then None
          else
            let comm = take (cls - (opn + 1)) (drop (opn + 1) stat);
                rest = Fields (drop (cls + 1) stat)
            in if length rest < 22 then None
               else
                 let utime = fst (ParseUint (rest ! 11));
                     stime = fst (ParseUint (rest ! 12));
                     rssPages = fst (ParseUint (rest ! 21))
                 in Some \<lparr>pc_comm = comm, pc_jiff = utime + stime, pc_rss = rssPages * pageSize\<rparr>
      | _ \<Rightarrow> None)"

section \<open>Choosing what to report\<close>

definition cpu_before :: "proc_sample \<Rightarrow> proc_sample \<Rightarrow> bool" where
  "cpu_before a b \<longleftrightarrow>
     (if ps_CPUPercent a \<noteq> ps_CPUPercent b then ps_CPUPercent a > ps_CPUPercent b
      else ps_MemBytes a > ps_MemBytes b)"

definition mem_before :: "proc_sample \<Rightarrow> proc_sample \<Rightarrow> bool" where
  "mem_before a b \<longleftrightarrow> ps_MemBytes a > ps_MemBytes b"

definition top_count :: "gint \<Rightarrow> nat" where
  "top_count n = (if n \<le>s 0 then 5 else unat n)"

definition selectProcesses :: "shuffle \<Rightarrow> shuffle \<Rightarrow> proc_sample list \<Rightarrow> gint \<Rightarrow> proc_sample list" where
  "selectProcesses p q procs n =
     (let byCPU = sort_slice p cpu_before procs;
          byMem = sort_slice q mem_before procs;
          keep = map ps_PID (take (top_count n) byCPU)
               @ map ps_PID (take (top_count n) byMem)
               @ map ps_PID (filter (\<lambda>s. ps_Service s \<noteq> []) procs)
      in filter (\<lambda>s. ps_PID s \<in> set keep) byCPU)"

section \<open>One interval\<close>

record procReport =
  pr_Samples :: "proc_sample list"
  pr_TotalRSS :: uint64
  pr_Count :: nat

type_synonym proc_table = "(gint, procCPU) fmap"

text \<open>The first loop of \<open>processReport\<close>: the current table.\<close>

definition snapshot_step :: "host \<Rightarrow> uint64 \<Rightarrow> string \<times> bool \<Rightarrow> proc_table \<Rightarrow> proc_table" where
  "snapshot_step h pageSize entry cur =
     (if \<not> snd entry then cur
      else case Atoi (fst entry) of (pid, e) \<Rightarrow>
        if e \<noteq> NumOk then cur
        else case h_ReadFile h (''/proc/'' @ fst entry @ ''/stat'') of
               None \<Rightarrow> cur
             | Some raw \<Rightarrow>
                 (case parseStat raw pageSize of
                    None \<Rightarrow> cur
                  | Some pc \<Rightarrow> fmupd pid pc cur))"

text \<open>The body of its second loop: what one process of the table contributes.\<close>

definition sample_of ::
  "host \<Rightarrow> proc_table \<Rightarrow> uint64 \<Rightarrow> gint \<Rightarrow> gint \<times> procCPU \<Rightarrow> proc_sample option" where
  "sample_of h prev totalDelta ncpu = (\<lambda>(pid, c).
     case fmlookup prev pid of
       None \<Rightarrow> None
     | Some p \<Rightarrow>
         if pc_jiff c < pc_jiff p then None
         else
           let cpu = (if 0 < totalDelta
                      then real (unat (pc_jiff c - pc_jiff p)) / real (unat totalDelta)
                           * real_of_int (sint ncpu) * 100
                      else 0)
           in if cpu \<le> 0 \<and> pc_rss c = 0 then None
              else
                let svc = (case knownServices (pc_comm c) of None \<Rightarrow> [] | Some s \<Rightarrow> svc_Name s);
                    role = (if pc_comm c = ''exe'' \<or> pc_comm c = ''k3s''
                            then k3sRole h (''/proc/'' @ FormatInt pid @ ''/cmdline'') else [])
                in Some \<lparr>ps_PID = pid, ps_Comm = pc_comm c, ps_CPUPercent = cpu, ps_MemBytes = pc_rss c,
                         ps_Service = (if role \<noteq> [] then role else svc)\<rparr>)"

text \<open>
  \<open>processReport\<close> gives the report and the new contents of \<open>prev\<close>. \<open>ps\<close>, \<open>qs\<close> and \<open>rs\<close> are
  the unspecified orders: of the table, and of the two sorts.
\<close>

definition processReport ::
  "shuffle \<Rightarrow> shuffle \<Rightarrow> shuffle \<Rightarrow> host \<Rightarrow> uint64 \<Rightarrow> proc_table \<Rightarrow> uint64 \<Rightarrow> gint \<Rightarrow> gint
     \<Rightarrow> procReport \<times> proc_table" where
  "processReport p q r h pageSize prev totalDelta ncpu n =
     (case h_ReadDir h ''/proc'' of
        None \<Rightarrow> (\<lparr>pr_Samples = [], pr_TotalRSS = 0, pr_Count = 0\<rparr>, prev)
      | Some entries \<Rightarrow>
          let cur = fold (snapshot_step h pageSize) entries fmempty;
              procs = range_map p cur;
              samples = List.map_filter (sample_of h prev totalDelta ncpu) procs
          in (\<lparr>pr_Samples = selectProcesses q r samples n,
               pr_TotalRSS = sum_list (map (pc_rss \<circ> snd) procs),
               pr_Count = gomap_len cur\<rparr>, cur))"

section \<open>The whole machine\<close>

definition topN :: "gint \<Rightarrow> gint" where
  "topN TopProcesses = (if 0 <s TopProcesses then TopProcesses else 15)"

definition readCPU :: "host \<Rightarrow> uint64 \<times> uint64" where
  "readCPU h =
     (case h_ReadFile h ''/proc/stat'' of
        None \<Rightarrow> (0, 0)
      | Some raw \<Rightarrow>
          let fields = Fields (fst (Cut raw [newline_char]))
          in if length fields < 5 \<or> hd fields \<noteq> ''cpu'' then (0, 0)
             else
               let vals = map (\<lambda>f. fst (ParseUint f)) (tl fields);
                   total = sum_list vals;
                   idle = vals ! 3 + (if 4 < length vals then vals ! 4 else 0)
               in (total - idle, total))"

definition mem_step :: "string \<Rightarrow> uint64 \<times> uint64 \<Rightarrow> uint64 \<times> uint64" where
  "mem_step line = (\<lambda>(total, avail).
     let fields = Fields line
     in if length fields < 2 then (total, avail)
        else
          let v = fst (ParseUint (fields ! 1))
          in if fields ! 0 = ''MemTotal:'' then (v * 1024, avail)
             else if fields ! 0 = ''MemAvailable:'' then (total, v * 1024)
             else (total, avail))"

definition readMem :: "host \<Rightarrow> uint64 \<times> uint64" where
  "readMem h =
     (case h_ReadFile h ''/proc/meminfo'' of
        None \<Rightarrow> (0, 0)
      | Some raw \<Rightarrow>
          (case fold mem_step (Split raw newline_char) (0, 0) of
             (tot, avail) \<Rightarrow> (tot, if avail \<le> tot then tot - avail else 0)))"

definition net_step :: "string \<Rightarrow> uint64 \<times> uint64 \<Rightarrow> uint64 \<times> uint64" where
  "net_step line = (\<lambda>(rx, tx).
     case Cut line '':'' of (name, rest, ok) \<Rightarrow>
       if \<not> ok \<or> TrimSpace name = ''lo'' then (rx, tx)
       else
         let fields = Fields rest
         in if length fields < 9 then (rx, tx)
            else (rx + fst (ParseUint (fields ! 0)), tx + fst (ParseUint (fields ! 8))))"

definition readNet :: "host \<Rightarrow> uint64 \<times> uint64" where
  "readNet h =
     (case h_ReadFile h ''/proc/net/dev'' of
        None \<Rightarrow> (0, 0)
      | Some raw \<Rightarrow> fold net_step (Split raw newline_char) (0, 0))"

end
