(* ===== verification/Host_Pods.thy ===== *)
theory Host_Pods
  imports Host_Files
begin

text \<open>
  Per-pod usage on a Kubernetes node (\<open>internal/agent/kubernetes.go\<close>): from the kubelet's
  summary where it answers, otherwise from the cgroup tree, whose directories carry the
  pod's UID. A \<open>float64\<close> is a real number; times are in nanoseconds. What the kubelet
  answers is a parameter.
\<close>

section \<open>State between ticks\<close>

record pod_name =
  pn_namespace :: string
  pn_name :: string

record kube_state =
  ks_prevPods :: "uint64 gomap"
  ks_names :: "pod_name gomap option"
  ks_namesAt :: int
  ks_noKubele :: bool
  ks_client :: bool
  ks_token :: string
  ks_baseURL :: string

definition new_kube_state :: kube_state where
  "new_kube_state =
     \<lparr>ks_prevPods = fmempty, ks_names = None, ks_namesAt = 0, ks_noKubele = False,
      ks_client = False, ks_token = [], ks_baseURL = []\<rparr>"

text \<open>\<open>sortPods\<close>: by CPU, then memory, then name.\<close>

definition pod_before :: "pod_sample \<Rightarrow> pod_sample \<Rightarrow> bool" where
  "pod_before a b \<longleftrightarrow>
     (if pod_CPUPercent a \<noteq> pod_CPUPercent b then pod_CPUPercent a > pod_CPUPercent b
      else if pod_MemBytes a \<noteq> pod_MemBytes b then pod_MemBytes a > pod_MemBytes b
      else pod_Name a < pod_Name b)"

definition sortPods :: "shuffle \<Rightarrow> pod_sample list \<Rightarrow> pod_sample list" where
  "sortPods p pods = sort_slice p pod_before pods"

section \<open>The kubelet's summary\<close>

record summary_container =
  sc_Name :: string
  sc_UsageNanoCores :: uint64
  sc_WorkingSetBytes :: uint64

record summary_pod =
  sp_Name :: string
  sp_Namespace :: string
  sp_UID :: string
  sp_UsageNanoCores :: uint64
  sp_WorkingSetBytes :: uint64
  sp_Containers :: "summary_container list"

text \<open>The environment variables of the process, the empty string where one is not set.\<close>

type_synonym environment = "string \<Rightarrow> string"

definition kubeletToken :: "host \<Rightarrow> environment \<Rightarrow> string" where
  "kubeletToken h env =
     (let t = TrimSpace (env ''FLEET_KUBELET_TOKEN'');
          p = env ''FLEET_KUBELET_TOKEN_FILE''
      in if t \<noteq> [] then t
         else case (if p \<noteq> [] then h_ReadFile h p else None) of
                Some raw \<Rightarrow> TrimSpace raw
              | None \<Rightarrow>
                  (case h_ReadFile h ''/var/run/secrets/kubernetes.io/serviceaccount/token'' of
                     Some raw \<Rightarrow> TrimSpace raw
                   | None \<Rightarrow> []))"

definition percent_of_core :: "uint64 \<Rightarrow> float64" where
  "percent_of_core nanocores = real (unat nanocores) / 1000000000 * 100"

definition container_of_summary :: "summary_container \<Rightarrow> container_sample" where
  "container_of_summary c =
     \<lparr>cs_Name = sc_Name c, cs_CPUPercent = percent_of_core (sc_UsageNanoCores c),
      cs_MemBytes = sc_WorkingSetBytes c\<rparr>"

definition pod_of_summary :: "summary_pod \<Rightarrow> pod_sample" where
  "pod_of_summary p =
     \<lparr>pod_Namespace = sp_Namespace p, pod_Name = sp_Name p, pod_UID = sp_UID p,
      pod_CPUPercent = percent_of_core (sp_UsageNanoCores p), pod_MemBytes = sp_WorkingSetBytes p,
      pod_Source = ''kubelet'', pod_Containers = map container_of_summary (sp_Containers p)\<rparr>"

text \<open>The loop over the kubelet's addresses: the first one that answers with a summary.\<close>

fun first_summary :: "(string \<Rightarrow> string \<Rightarrow> summary_pod list option) \<Rightarrow> string \<Rightarrow> string list \<Rightarrow> summary_pod list option" where
  "first_summary fetch token [] = None"
| "first_summary fetch token (base # bases) =
     (case fetch (base @ ''/stats/summary?only_cpu_and_memory=true'') token of
        Some pods \<Rightarrow> Some pods
      | None \<Rightarrow> first_summary fetch token bases)"

definition podsFromKubelet ::
  "shuffle \<Rightarrow> (string \<Rightarrow> string \<Rightarrow> summary_pod list option) \<Rightarrow> host \<Rightarrow> environment \<Rightarrow> kube_state
     \<Rightarrow> pod_sample list \<times> kube_state" where
  "podsFromKubelet p fetch h env ks =
     (if ks_noKubele ks then ([], ks)
      else
        let ks1 = (if ks_client ks then ks
                   else ks\<lparr>ks_token := kubeletToken h env, ks_client := True,
                          ks_baseURL := TrimSpace (env ''FLEET_KUBELET_URL'')\<rparr>);
            urls = (if ks_baseURL ks1 \<noteq> [] then [ks_baseURL ks1]
                    else [''https://127.0.0.1:10250'', ''http://127.0.0.1:10255''])
        in case first_summary fetch (ks_token ks1) urls of
             Some pods \<Rightarrow> (sortPods p (map pod_of_summary pods), ks1)
           | None \<Rightarrow> ([], ks1\<lparr>ks_noKubele := True\<rparr>))"

section \<open>Files of the cgroup tree\<close>

definition podLogNamesIn :: "host \<Rightarrow> string \<Rightarrow> pod_name gomap" where
  "podLogNamesIn h rootdir =
     (case h_ReadDir h rootdir of
        None \<Rightarrow> fmempty
      | Some entries \<Rightarrow>
          fold (\<lambda>(name, isDir) out.
              let parts = Split name (CHR ''_'')
              in if \<not> isDir \<or> length parts < 3 then out
                 else fmupd (last parts)
                        \<lparr>pn_namespace = hd parts, pn_name = Join (butlast (tl parts)) ''_''\<rparr> out)
            entries fmempty)"

definition podLogNames :: "host \<Rightarrow> pod_name gomap" where
  "podLogNames h = podLogNamesIn h ''/var/log/pods''"

definition cgroupV2 :: "host \<Rightarrow> bool" where
  "cgroupV2 h = h_Stat h ''/sys/fs/cgroup/cgroup.controllers''"

definition readUint :: "host \<Rightarrow> string \<Rightarrow> uint64 option" where
  "readUint h path =
     (case h_ReadFile h path of
        None \<Rightarrow> None
      | Some raw \<Rightarrow> (case ParseUint (TrimSpace raw) of (v, e) \<Rightarrow> if e = NumOk then Some v else None))"

fun keyed_line :: "string \<Rightarrow> string list \<Rightarrow> uint64 option" where
  "keyed_line key [] = None"
| "keyed_line key (line # rest) =
     (let f = Fields line
      in if length f = 2 \<and> f ! 0 = key
         then (case ParseUint (f ! 1) of (v, e) \<Rightarrow> if e = NumOk then Some v else None)
         else keyed_line key rest)"

definition readKeyed :: "host \<Rightarrow> string \<Rightarrow> string \<Rightarrow> uint64 option" where
  "readKeyed h path key =
     (case h_ReadFile h path of
        None \<Rightarrow> None
      | Some raw \<Rightarrow> keyed_line key (Split raw newline_char))"

section \<open>Finding the pods\<close>

text \<open>
  \<open>podDirRe\<close>: the text \<open>pod\<close> followed by a UID whose five groups of hexadecimal digits
  are joined by dashes or underscores; the leftmost match counts.
\<close>

definition is_hex :: "char \<Rightarrow> bool" where
  "is_hex c \<longleftrightarrow>
     is_digit c \<or> (97 \<le> (of_char c :: nat) \<and> (of_char c :: nat) \<le> 102)
       \<or> (65 \<le> (of_char c :: nat) \<and> (of_char c :: nat) \<le> 70)"

fun match_groups :: "nat list \<Rightarrow> string \<Rightarrow> bool" where
  "match_groups [] s = False"
| "match_groups [k] s = (length s = k \<and> list_all is_hex s)"
| "match_groups (k # l # ks) s =
     (k < length s \<and> list_all is_hex (take k s) \<and> s ! k \<in> {CHR ''-'', CHR ''_''}
        \<and> match_groups (l # ks) (drop (Suc k) s))"

definition is_uid :: "string \<Rightarrow> bool" where
  "is_uid s = match_groups [8, 4, 4, 4, 12] s"

fun podDirRe :: "string \<Rightarrow> string option" where
  "podDirRe [] = None"
| "podDirRe (c # cs) =
     (if HasPrefix (c # cs) ''pod'' \<and> is_uid (take 36 (drop 3 (c # cs)))
      then Some (take 36 (drop 3 (c # cs)))
      else podDirRe cs)"

definition go_append :: "string \<Rightarrow> 'a \<Rightarrow> 'a list gomap \<Rightarrow> 'a list gomap" where
  "go_append k x m = fmupd k (go_index [] m k @ [x]) m"

text \<open>
  \<open>walk\<close>: the first argument is the number of levels left, 4 at the base, so a directory
  deeper than three levels below the base is not read.
\<close>

primrec walk :: "nat \<Rightarrow> host \<Rightarrow> string \<Rightarrow> string list gomap \<Rightarrow> string list gomap" where
  "walk 0 h dir out = out"
| "walk (Suc levels) h dir out =
     (case h_ReadDir h dir of
        None \<Rightarrow> out
      | Some entries \<Rightarrow>
          fold (\<lambda>(name, isDir) out.
              if \<not> isDir then out
              else
                let full = JoinPath [dir, name]
                in case podDirRe name of
                     Some uid \<Rightarrow> go_append (ReplaceAll uid (CHR ''_'') ''-'') full out
                   | None \<Rightarrow>
                       if Contains name ''kubepods'' \<or> Contains name ''besteffort'' \<or>
                          Contains name ''burstable'' \<or> name = ''guaranteed''
                       then walk levels h full out else out)
            entries out)"

definition cgroup_bases :: "host \<Rightarrow> string \<Rightarrow> string list" where
  "cgroup_bases h rootdir =
     [rootdir, JoinPath [rootdir, ''kubepods.slice''], JoinPath [rootdir, ''kubepods'']] @
     (case h_ReadDir h rootdir of
        None \<Rightarrow> []
      | Some entries \<Rightarrow>
          concat (map (\<lambda>(name, isDir).
              if \<not> isDir \<or> Contains name ''kubepods'' then []
              else
                let sub = JoinPath [rootdir, name]
                in [JoinPath [sub, ''kubepods.slice''], JoinPath [sub, ''kubepods'']]) entries))"

definition findPodCgroups :: "host \<Rightarrow> string \<Rightarrow> string list gomap" where
  "findPodCgroups h rootdir =
     fold (\<lambda>base out. if h_Stat h base then walk 4 h base out else out) (cgroup_bases h rootdir) fmempty"

section \<open>Usage from the cgroup tree\<close>

fun first_some :: "('a \<Rightarrow> 'b option) \<Rightarrow> 'a list \<Rightarrow> 'b option" where
  "first_some f [] = None"
| "first_some f (x # xs) = (case f x of Some y \<Rightarrow> Some y | None \<Rightarrow> first_some f xs)"

definition firstUint :: "host \<Rightarrow> string list \<Rightarrow> string \<Rightarrow> uint64 option" where
  "firstUint h candidates file = first_some (\<lambda>d. readUint h (JoinPath [d, file])) candidates"

definition firstKeyed :: "host \<Rightarrow> string list \<Rightarrow> string \<Rightarrow> string \<Rightarrow> uint64 option" where
  "firstKeyed h candidates file key = first_some (\<lambda>d. readKeyed h (JoinPath [d, file]) key) candidates"

definition or_zero :: "uint64 option \<Rightarrow> uint64" where
  "or_zero v = (case v of None \<Rightarrow> 0 | Some x \<Rightarrow> x)"

text \<open>The working set: usage without the page cache that can be reclaimed.\<close>

definition working_set :: "uint64 option \<Rightarrow> uint64 option \<Rightarrow> uint64" where
  "working_set usage inactive =
     (case usage of
        None \<Rightarrow> 0
      | Some mem \<Rightarrow>
          (case inactive of
             Some i \<Rightarrow> if i < mem then mem - i else mem
           | None \<Rightarrow> mem))"

definition pod_usage :: "host \<Rightarrow> bool \<Rightarrow> string list \<Rightarrow> uint64 \<times> uint64" where
  "pod_usage h v2 candidates =
     (if v2 then
        (or_zero (firstKeyed h candidates ''cpu.stat'' ''usage_usec''),
         working_set (firstUint h candidates ''memory.current'')
           (firstKeyed h candidates ''memory.stat'' ''inactive_file''))
      else
        (or_zero (firstUint h candidates ''cpuacct.usage'') div 1000,
         working_set (firstUint h candidates ''memory.usage_in_bytes'')
           (firstKeyed h candidates ''memory.stat'' ''total_inactive_file'')))"

definition cgroup_pod ::
  "host \<Rightarrow> bool \<Rightarrow> pod_name gomap \<Rightarrow> uint64 gomap \<Rightarrow> float64 \<Rightarrow> string \<times> string list \<Rightarrow> pod_sample \<times> uint64" where
  "cgroup_pod h v2 names prev elapsed = (\<lambda>(uid, candidates).
     case pod_usage h v2 candidates of (usec, mem) \<Rightarrow>
       (\<lparr>pod_Namespace = (case fmlookup names uid of None \<Rightarrow> [] | Some n \<Rightarrow> pn_namespace n),
         pod_Name = (case fmlookup names uid of None \<Rightarrow> [] | Some n \<Rightarrow> pn_name n),
         pod_UID = uid,
         pod_CPUPercent =
           (case fmlookup prev uid of
              None \<Rightarrow> 0
            | Some before \<Rightarrow>
                if before \<le> usec then real (unat (usec - before)) / 1000000 / elapsed * 100 else 0),
         pod_MemBytes = mem, pod_Source = ''cgroup'', pod_Containers = []\<rparr>, usec))"

definition podsFromCgroups ::
  "shuffle \<Rightarrow> shuffle \<Rightarrow> host \<Rightarrow> int \<Rightarrow> float64 \<Rightarrow> kube_state \<Rightarrow> pod_sample list \<times> kube_state" where
  "podsFromCgroups p q h now elapsed ks =
     (let dirs = findPodCgroups h ''/sys/fs/cgroup''
      in if gomap_len dirs = 0 then ([], ks)
         else
           let ks1 = (if ks_names ks = None \<or> now - ks_namesAt ks > 30 * 1000000000
                      then ks\<lparr>ks_names := Some (podLogNames h), ks_namesAt := now\<rparr> else ks);
               names = (case ks_names ks1 of None \<Rightarrow> fmempty | Some m \<Rightarrow> m);
               rows = map (cgroup_pod h (cgroupV2 h) names (ks_prevPods ks1) elapsed) (range_map p dirs);
               cur = fold (\<lambda>(ps, usec) m. fmupd (pod_UID ps) usec m) rows fmempty
           in (sortPods q (map fst rows), ks1\<lparr>ks_prevPods := cur\<rparr>))"

definition collectPods ::
  "shuffle \<Rightarrow> shuffle \<Rightarrow> shuffle \<Rightarrow> (string \<Rightarrow> string \<Rightarrow> summary_pod list option) \<Rightarrow> host \<Rightarrow> environment
     \<Rightarrow> int \<Rightarrow> float64 \<Rightarrow> kube_state \<Rightarrow> pod_sample list \<times> kube_state" where
  "collectPods p q r fetch h env now elapsed ks =
     (if elapsed \<le> 0 then ([], ks)
      else case podsFromKubelet p fetch h env ks of (pods, ks1) \<Rightarrow>
        if pods \<noteq> [] then (pods, ks1) else podsFromCgroups q r h now elapsed ks1)"

end
