(* ===== verification/Host_Metrics.thy ===== *)
theory Host_Metrics
  imports Host_Network Host_Processes Host_Pods
begin

text \<open>
  One tick of \<open>metricsLoop\<close> (\<open>internal/agent/metrics.go\<close>): the readers of the other
  \<open>Host\<close> theories put together into the sample that is pushed, with what the loop keeps
  between ticks. Counters are 64-bit and their differences wrap; quotients are real
  numbers where Go rounds.
\<close>

record metrics_state =
  ml_Busy :: uint64
  ml_Total :: uint64
  ml_Rx :: uint64
  ml_Tx :: uint64
  ml_At :: int
  ml_Procs :: proc_table
  ml_Ifaces :: "ifaceCounters gomap"
  ml_Kube :: kube_state

text \<open>
  The machine at the tick: its files, the clock in nanoseconds, \<open>statfs\<close> of the root, the
  page size, the number of processors, the kubelet's answers, \<open>strconv.ParseFloat\<close>, and
  the orders of maps and sorts.
\<close>

record tick_env =
  tk_Host :: host
  tk_Now :: int
  tk_Disk :: "uint64 \<times> uint64"
  tk_PageSize :: uint64
  tk_NumCPU :: gint
  tk_Kubelet :: "string \<Rightarrow> string \<Rightarrow> summary_pod list option"
  tk_Getenv :: environment
  tk_ParseFloat :: "string \<Rightarrow> float64"
  tk_Orders :: "nat \<Rightarrow> shuffle"

definition readLoad1 :: "(string \<Rightarrow> float64) \<Rightarrow> host \<Rightarrow> float64" where
  "readLoad1 parseFloat h =
     (case h_ReadFile h ''/proc/loadavg'' of
        None \<Rightarrow> 0
      | Some raw \<Rightarrow> (case Fields raw of [] \<Rightarrow> 0 | f # _ \<Rightarrow> parseFloat f))"

definition metrics_tick :: "gint \<Rightarrow> tick_env \<Rightarrow> metrics_state \<Rightarrow> metrics_sample \<times> metrics_state" where
  "metrics_tick topProcesses env st =
     (let h = tk_Host env;
          o1 = tk_Orders env;
          (busy, tot) = readCPU h;
          (rx, tx) = readNet h;
          elapsed = real_of_int (tk_Now env - ml_At st) / 1000000000;
          totalDelta = tot - ml_Total st;
          (memTotal, memUsed) = readMem h;
          (rep, procs) = processReport (o1 0) (o1 1) (o1 2) h (tk_PageSize env) (ml_Procs st) totalDelta
             (tk_NumCPU env) (topN topProcesses);
          curIfaces = readNetPerIface h;
          ifaces = netSamples (o1 3) (o1 4) (ml_Ifaces st) curIfaces elapsed;
          (pods, ks) = collectPods (o1 5) (o1 6) (o1 7) (tk_Kubelet env) h (tk_Getenv env) (tk_Now env) elapsed (ml_Kube st)
      in (\<lparr>mt_AtUnix = of_int (tk_Now env div 1000000000),
            mt_CPUPercent =
              (if 0 < totalDelta then 100 * real (unat (busy - ml_Busy st)) / real (unat totalDelta) else 0),
            mt_Load1 = readLoad1 (tk_ParseFloat env) h, mt_MemTotal = memTotal, mt_MemUsed = memUsed,
            mt_DiskTotal = fst (tk_Disk env), mt_DiskUsed = snd (tk_Disk env),
            mt_NetRxBps = (if 0 < elapsed then real (unat (rx - ml_Rx st)) / elapsed else 0),
            mt_NetTxBps = (if 0 < elapsed then real (unat (tx - ml_Tx st)) / elapsed else 0),
            mt_TopProcesses = pr_Samples rep, mt_GPUs = [], mt_ProcCount = of_nat (pr_Count rep),
            mt_ProcTotalRSS = pr_TotalRSS rep, mt_Interfaces = ifaces, mt_Pods = pods\<rparr>,
          \<lparr>ml_Busy = busy, ml_Total = tot, ml_Rx = rx, ml_Tx = tx, ml_At = tk_Now env, ml_Procs = procs,
            ml_Ifaces = curIfaces, ml_Kube = ks\<rparr>))"

section \<open>The processor and the network\<close>

lemma metrics_tick_rates:
  assumes "metrics_tick topProcesses env st = (s, st')"
  shows "mt_CPUPercent s =
      (if 0 < snd (readCPU (tk_Host env)) - ml_Total st
       then 100 * real (unat (fst (readCPU (tk_Host env)) - ml_Busy st)) /
         real (unat (snd (readCPU (tk_Host env)) - ml_Total st)) else 0)"
    and "mt_NetRxBps s =
      (if ml_At st < tk_Now env
       then real (unat (fst (readNet (tk_Host env)) - ml_Rx st)) / (real_of_int (tk_Now env - ml_At st) / 1000000000) else 0)"
    and "mt_MemTotal s = fst (readMem (tk_Host env))" and "mt_MemUsed s = snd (readMem (tk_Host env))"
  using assms by (auto simp: metrics_tick_def Let_def split: prod.splits)

text \<open>
  While the counters of \<open>/proc/stat\<close> only grow (the idle ones too), the share of the
  processor is a percentage.
\<close>

theorem cpu_percent_bounds:
  assumes "metrics_tick topProcesses env st = (s, st')" and "readCPU (tk_Host env) = (busy, tot)"
    and "ml_Busy st \<le> busy" and "ml_Total st \<le> tot" and "unat busy - unat (ml_Busy st) \<le> unat tot - unat (ml_Total st)"
  shows "0 \<le> mt_CPUPercent s \<and> mt_CPUPercent s \<le> 100"
proof -
  define b where "b = real (unat (busy - ml_Busy st))"
  define t where "t = real (unat (tot - ml_Total st))"
  have "unat (busy - ml_Busy st) \<le> unat (tot - ml_Total st)"
    using assms(3-5) by (simp add: unat_sub)
  then have bt: "0 \<le> b" "b \<le> t" unfolding b_def t_def by (simp_all only: of_nat_0_le_iff of_nat_le_iff)
  have "mt_CPUPercent s = (if 0 < tot - ml_Total st then 100 * b / t else 0)"
    using metrics_tick_rates(1) [OF assms(1)] assms(2) by (simp only: b_def t_def fst_conv snd_conv)
  moreover have "0 \<le> 100 * b / t \<and> 100 * b / t \<le> 100"
    using bt by (cases "t = 0") (simp_all add: divide_le_eq)
  ultimately show ?thesis by simp
qed

text \<open>
  The total rate of the network does not survive a counter that falls, as the sum over the
  interfaces does whenever one of them goes away (every stopped container): the difference
  wraps. \<open>netSamples\<close>, for the single interfaces, guards against it.
\<close>

theorem network_rate_wraps:
  assumes "metrics_tick topProcesses env st = (s, st')" and "fst (readNet (tk_Host env)) < ml_Rx st"
    and "ml_At st < tk_Now env"
  shows "mt_NetRxBps s =
    (2 ^ 64 - real (unat (ml_Rx st) - unat (fst (readNet (tk_Host env))))) / (real_of_int (tk_Now env - ml_At st) / 1000000000)"
proof -
  let ?rx = "fst (readNet (tk_Host env))"
  have lt: "unat ?rx < unat (ml_Rx st)" using assms(2) by (simp add: word_less_nat_alt)
  have bound: "unat (ml_Rx st) < 2 ^ 64" using unsigned_less [of "ml_Rx st", where 'a = nat] by simp
  have "unat (?rx - ml_Rx st) = 2 ^ 64 - (unat (ml_Rx st) - unat ?rx)"
    using lt bound by (simp add: unat_sub_if_size word_size not_le)
  moreover have "unat (ml_Rx st) - unat ?rx \<le> 2 ^ 64" using bound by simp
  ultimately have "real (unat (?rx - ml_Rx st)) = 2 ^ 64 - real (unat (ml_Rx st) - unat ?rx)"
    by (simp only: of_nat_diff) simp
  with metrics_tick_rates(2) [OF assms(1)] assms(3) show ?thesis by simp
qed

end
