(* ===== verification/Agent_Runtime.thy ===== *)
theory Agent_Runtime
  imports Agent_Reconcile Host_Files Http
begin

text \<open>
  The agent's runtime (\<open>internal/agent/agent.go\<close>): enrollment, the identity files, renewal
  of the certificate, the event stream and the retries. The identity files lie in the data
  directory next to the modules. Keys, certificates and hashes are made by Go's library:
  what it answers is an argument.
\<close>

section \<open>Answers of the server\<close>

text \<open>
  A request fails, or is answered with a code, a status line, a body, and what the body
  decodes to. A request that cannot be built fails like one that is not answered.
\<close>

datatype 'a reply = Unreachable string | Answer nat string string "string + 'a"

definition getJSON :: "string \<Rightarrow> 'a reply \<Rightarrow> string + 'a" where
  "getJSON path rep =
     (case rep of
        Unreachable e \<Rightarrow> Inl e
      | Answer code status body decoded \<Rightarrow>
          if 300 \<le> code then Inl (path @ '': '' @ status) else decoded)"

definition postJSON :: "string \<Rightarrow> 'a reply \<Rightarrow> string + 'a" where
  "postJSON path rep =
     (case rep of
        Unreachable e \<Rightarrow> Inl e
      | Answer code status body decoded \<Rightarrow>
          if 300 \<le> code then Inl (path @ '': '' @ status @ '': '' @ TrimSpace (take 4096 body)) else decoded)"

text \<open>What a handler's response becomes on the way: the status, and the JSON that was written.\<close>

definition carried :: "'a response \<Rightarrow> 'a reply" where
  "carried r =
     (case r of
        HttpError code msg \<Rightarrow> Answer code msg msg (Inl ''not JSON'')
      | NoContent \<Rightarrow> Answer 204 ''204 No Content'' [] (Inl ''EOF'')
      | Json x \<Rightarrow> Answer 200 ''200 OK'' [] (Inr x)
      | Plain msg \<Rightarrow> Answer 200 ''200 OK'' msg (Inl ''not JSON''))"

section \<open>Files\<close>

definition data_file :: "agent \<Rightarrow> string \<Rightarrow> string" where
  "data_file a name = JoinPath [ag_DataDir a, name]"

definition ReadFile :: "agent \<Rightarrow> string \<Rightarrow> bytes option" where
  "ReadFile a name = fmlookup (ag_Files a) (data_file a name)"

definition WriteFile :: "write_result \<Rightarrow> string \<Rightarrow> bytes \<Rightarrow> agent \<Rightarrow> bool \<times> agent" where
  "WriteFile res name content a =
     (case write_file res (data_file a name) content (ag_Files a) of
        (ok, files) \<Rightarrow> (ok, a\<lparr>ag_Files := files\<rparr>))"

section \<open>Enrollment\<close>

text \<open>\<open>strings.EqualFold\<close> where one side is hexadecimal, and \<open>hex.EncodeToString\<close>.\<close>

definition EqualFold :: "string \<Rightarrow> string \<Rightarrow> bool" where
  "EqualFold s t \<longleftrightarrow> ToLower s = ToLower t"

definition hex_digit :: "nat \<Rightarrow> char" where
  "hex_digit n = ''0123456789abcdef'' ! n"

definition hex_encode :: "bytes \<Rightarrow> string" where
  "hex_encode bs = concat (map (\<lambda>c. [hex_digit (of_char c div 16), hex_digit (of_char c mod 16)]) bs)"

definition verify_peer :: "(bytes \<Rightarrow> bytes) \<Rightarrow> string \<Rightarrow> bytes list \<Rightarrow> bool" where
  "verify_peer digest caFingerprint rawCerts \<longleftrightarrow>
     caFingerprint = [] \<or>
     list_ex (\<lambda>raw. EqualFold (hex_encode (digest raw)) caFingerprint) rawCerts"

datatype enroll_error =
  MkdirFailed | KeyFailed | CSRFailed | RequestFailed | Rejected string string | BadResponse | KeyEncoding | WriteFailed

text \<open>
  What the environment answers: the generated key (its PEM, or no encoding of it), the CSR,
  the certificates the server presents, its answer, the order in which the map of files is
  gone through, and how each write ends.
\<close>

record enroll_env =
  ee_MkdirOk :: bool
  ee_Key :: "bytes option option"
  ee_CSR :: "string option"
  ee_Chain :: "bytes list option"
  ee_Post :: "enroll_request \<Rightarrow> enroll_response reply"
  ee_Order :: shuffle
  ee_Write :: "nat \<Rightarrow> write_result"

definition identity_files :: "bytes \<Rightarrow> enroll_response \<Rightarrow> bytes gomap" where
  "identity_files keyPEM er =
     fmap_of_list
       [(''key.pem'', keyPEM), (''cert.pem'', rs_CertPEM er), (''ca.pem'', rs_CAPEM er),
        (''module-pub.pem'', rs_ModulePubPEM er), (''machine-id'', rs_MachineID er)]"

fun write_identity :: "(nat \<Rightarrow> write_result) \<Rightarrow> nat \<Rightarrow> (string \<times> bytes) list \<Rightarrow> agent \<Rightarrow> bool \<times> agent" where
  "write_identity res i [] a = (True, a)"
| "write_identity res i ((name, content) # files) a =
     (case WriteFile (res i) name content a of
        (False, a') \<Rightarrow> (False, a')
      | (True, a') \<Rightarrow> write_identity res (Suc i) files a')"

definition Enroll ::
  "(bytes \<Rightarrow> bytes) \<Rightarrow> enroll_env \<Rightarrow> string \<Rightarrow> string \<Rightarrow> string \<Rightarrow> agent \<Rightarrow> enroll_error option \<times> agent" where
  "Enroll digest env token name caFingerprint a =
     (if \<not> ee_MkdirOk env then (Some MkdirFailed, a)
      else case ee_Key env of
        None \<Rightarrow> (Some KeyFailed, a)
      | Some keyDER \<Rightarrow>
          (case ee_CSR env of
             None \<Rightarrow> (Some CSRFailed, a)
           | Some csrPEM \<Rightarrow>
               (case ee_Chain env of
                  None \<Rightarrow> (Some RequestFailed, a)
                | Some rawCerts \<Rightarrow>
                    if \<not> verify_peer digest caFingerprint rawCerts then (Some RequestFailed, a)
                    else
                      (case ee_Post env \<lparr>er_Token = token, er_CSRPEM = csrPEM, er_Name = name\<rparr> of
                         Unreachable _ \<Rightarrow> (Some RequestFailed, a)
                       | Answer code status body decoded \<Rightarrow>
                           if code \<noteq> 200 then (Some (Rejected status (TrimSpace (take 4096 body))), a)
                           else (case decoded of
                                   Inl _ \<Rightarrow> (Some BadResponse, a)
                                 | Inr er \<Rightarrow>
                                     (case keyDER of
                                        None \<Rightarrow> (Some KeyEncoding, a)
                                      | Some keyPEM \<Rightarrow>
                                          (case write_identity (ee_Write env) 0
                                                  (range_map (ee_Order env) (identity_files keyPEM er)) a of
                                             (False, a') \<Rightarrow> (Some WriteFailed, a')
                                           | (True, a') \<Rightarrow> (None, a'))))))))"

definition Enrolled :: "agent \<Rightarrow> bool" where
  "Enrolled a \<longleftrightarrow> ReadFile a ''cert.pem'' \<noteq> None"

text \<open>
  The \<open>run\<close> command (\<open>cmd/fleet-agent/main.go\<close>) enrolls by itself when it has a token and
  no identity; \<^term>\<open>Inl\<close> ends the process.
\<close>

datatype start_error = NotEnrolled | EnrollFailed enroll_error

definition self_enroll ::
  "(bytes \<Rightarrow> bytes) \<Rightarrow> enroll_env \<Rightarrow> string \<Rightarrow> string \<Rightarrow> string \<Rightarrow> agent \<Rightarrow> (start_error + unit) \<times> agent" where
  "self_enroll digest env token name caFingerprint a =
     (if Enrolled a then (Inr (), a)
      else if token = [] then (Inl NotEnrolled, a)
      else (case Enroll digest env token name caFingerprint a of
              (Some e, a') \<Rightarrow> (Inl (EnrollFailed e), a')
            | (None, a') \<Rightarrow> (Inr (), a')))"

section \<open>Starting\<close>

text \<open>The HTTP client carries the key pair and the pinned CA.\<close>

record client =
  cl_Cert :: bytes
  cl_Key :: bytes
  cl_RootCAs :: bytes

record runtime =
  rt_Agent :: agent
  rt_Client :: "client option"
  rt_LastDesired :: "desired_state option"

datatype init_error = LoadIdentity | NoCA | InvalidCA | NoMachineID | NoModuleKey

text \<open>
  \<open>init\<close>. Steps before a failing one have their effect: a module key that cannot be read
  leaves the ID set and the key empty.
\<close>

definition agent_init ::
  "(bytes \<Rightarrow> bytes \<Rightarrow> bool) \<Rightarrow> (bytes \<Rightarrow> bool) \<Rightarrow> runtime \<Rightarrow> init_error option \<times> runtime" where
  "agent_init keyPair appendCerts rt =
     (let a = rt_Agent rt
      in case (ReadFile a ''cert.pem'', ReadFile a ''key.pem'') of
           (Some cert, Some key) \<Rightarrow>
             if \<not> keyPair cert key then (Some LoadIdentity, rt)
             else (case ReadFile a ''ca.pem'' of
                     None \<Rightarrow> (Some NoCA, rt)
                   | Some caPEM \<Rightarrow>
                       if \<not> appendCerts caPEM then (Some InvalidCA, rt)
                       else (case ReadFile a ''machine-id'' of
                               None \<Rightarrow> (Some NoMachineID, rt)
                             | Some mid \<Rightarrow>
                                 let a1 = a\<lparr>ag_MachineID := TrimSpace mid\<rparr>
                                 in (case ReadFile a ''module-pub.pem'' of
                                       None \<Rightarrow> (Some NoModuleKey, rt\<lparr>rt_Agent := a1\<lparr>ag_ModKey := []\<rparr>\<rparr>)
                                     | Some modKey \<Rightarrow>
                                         (None, rt\<lparr>rt_Agent := a1\<lparr>ag_ModKey := modKey\<rparr>,
                                           rt_Client := Some \<lparr>cl_Cert = cert, cl_Key = key, cl_RootCAs = caPEM\<rparr>\<rparr>))))
         | _ \<Rightarrow> (Some LoadIdentity, rt))"

section \<open>Renewal\<close>

datatype key_parse = NoBlock | BadKey | ECKey bytes

datatype renew_result = NotDue | Skipped | Panicked | RenewFailed | Renewed | ReloadFailed

record renew_env =
  re_NotAfter :: "bytes \<Rightarrow> int option"
  re_ParseKey :: "bytes \<Rightarrow> key_parse"
  re_CSR :: "bytes \<Rightarrow> string option"
  re_Post :: "string \<Rightarrow> string reply"
  re_Write :: write_result

definition thirty_days :: int where
  "thirty_days = 30 * 24 * 3600 * 1000000000"

text \<open>
  Times are nanoseconds. A \<open>key.pem\<close> without a PEM block makes \<open>kb\<close> nil, and \<open>kb.Bytes\<close>
  a panic.
\<close>

definition maybeRenewCert ::
  "(bytes \<Rightarrow> bytes \<Rightarrow> bool) \<Rightarrow> (bytes \<Rightarrow> bool) \<Rightarrow> renew_env \<Rightarrow> int \<Rightarrow> runtime \<Rightarrow> renew_result \<times> runtime" where
  "maybeRenewCert keyPair appendCerts env now rt =
     (case ReadFile (rt_Agent rt) ''cert.pem'' of
        None \<Rightarrow> (Skipped, rt)
      | Some certPEM \<Rightarrow>
          (case re_NotAfter env certPEM of
             None \<Rightarrow> (Skipped, rt)
           | Some notAfter \<Rightarrow>
               if thirty_days < notAfter - now then (NotDue, rt)
               else
                 (case ReadFile (rt_Agent rt) ''key.pem'' of
                    None \<Rightarrow> (Skipped, rt)
                  | Some keyPEM \<Rightarrow>
                      (case re_ParseKey env keyPEM of
                         NoBlock \<Rightarrow> (Panicked, rt)
                       | BadKey \<Rightarrow> (RenewFailed, rt)
                       | ECKey key \<Rightarrow>
                           (case re_CSR env key of
                              None \<Rightarrow> (RenewFailed, rt)
                            | Some csrPEM \<Rightarrow>
                                (case postJSON ''/v1/renew'' (re_Post env csrPEM) of
                                   Inl _ \<Rightarrow> (RenewFailed, rt)
                                 | Inr cert \<Rightarrow>
                                     (case WriteFile (re_Write env) ''cert.pem'' cert (rt_Agent rt) of
                                        (False, a) \<Rightarrow> (RenewFailed, rt\<lparr>rt_Agent := a\<rparr>)
                                      | (True, a) \<Rightarrow>
                                          (case agent_init keyPair appendCerts (rt\<lparr>rt_Agent := a\<rparr>) of
                                             (Some _, rt') \<Rightarrow> (ReloadFailed, rt')
                                           | (None, rt') \<Rightarrow> (Renewed, rt')))))))))"

section \<open>The event stream\<close>

text \<open>What the environment answers in one reconciliation.\<close>

record reconcile_env =
  rn_Apply :: "nat \<Rightarrow> apply_env"
  rn_Order :: shuffle
  rn_Stuck :: "string \<Rightarrow> bool"
  rn_Save :: save_outcome

type_synonym key_parser = "bytes \<Rightarrow> parsed_key"
type_synonym sig_checker = "bytes \<Rightarrow> bytes \<Rightarrow> bytes \<Rightarrow> bool"

definition reconcile_now ::
  "key_parser \<Rightarrow> sig_checker \<Rightarrow> reconcile_env \<Rightarrow> desired_state \<Rightarrow> runtime \<Rightarrow> runtime" where
  "reconcile_now parse edVerify env ds rt =
     rt\<lparr>rt_Agent := reconcile parse edVerify (rn_Apply env) (rn_Order env) (rn_Stuck env) (rn_Save env) ds (rt_Agent rt)\<rparr>"

text \<open>The body of the scan loop; the \<open>i\<close>-th event uses the \<open>i\<close>-th environment.\<close>

fun stream_lines ::
  "(string \<Rightarrow> desired_state option) \<Rightarrow> key_parser \<Rightarrow> sig_checker \<Rightarrow> (nat \<Rightarrow> reconcile_env) \<Rightarrow> nat \<Rightarrow>
   string list \<Rightarrow> runtime \<Rightarrow> runtime" where
  "stream_lines decode parse edVerify envs i [] rt = rt"
| "stream_lines decode parse edVerify envs i (line # ls) rt =
     (if \<not> HasPrefix line ''data: '' then stream_lines decode parse edVerify envs i ls rt
      else case decode (TrimPrefix line ''data: '') of
             None \<Rightarrow> stream_lines decode parse edVerify envs i ls rt
           | Some ds \<Rightarrow>
               stream_lines decode parse edVerify envs (Suc i) ls
                 (reconcile_now parse edVerify (envs i) ds (rt\<lparr>rt_LastDesired := Some ds\<rparr>)))"

definition stream_limit :: nat where
  "stream_limit = 4194304"

text \<open>
  \<open>streamOnce\<close>: the connection fails, is refused, or delivers \<open>body\<close> and then ends with
  \<open>broken\<close>. An overlong line ends the scan with an error of its own.
\<close>

definition streamOnce ::
  "(string \<Rightarrow> desired_state option) \<Rightarrow> key_parser \<Rightarrow> sig_checker \<Rightarrow> (nat \<Rightarrow> reconcile_env) \<Rightarrow>
   string option reply \<Rightarrow> runtime \<Rightarrow> string option \<times> runtime" where
  "streamOnce decode parse edVerify envs rep rt =
     (case rep of
        Unreachable e \<Rightarrow> (Some e, rt)
      | Answer code status body end \<Rightarrow>
          if code \<noteq> 200 then (Some (''stream: '' @ status), rt)
          else
            (if list_ex (\<lambda>l. stream_limit \<le> length l) (raw_lines body) then Some ''bufio.Scanner: token too long''
             else case end of Inl e \<Rightarrow> Some e | Inr broken \<Rightarrow> broken,
             stream_lines decode parse edVerify envs 0 (scan_lines stream_limit body) rt))"

text \<open>What the server's \<open>handleStream\<close> writes: an event, or a keepalive.\<close>

definition stream_frame :: "(desired_state \<Rightarrow> string) \<Rightarrow> desired_state option \<Rightarrow> string" where
  "stream_frame encode f =
     (case f of
        Some ds \<Rightarrow> ''data: '' @ encode ds @ [newline_char, newline_char]
      | None \<Rightarrow> '': ping'' @ [newline_char, newline_char])"

section \<open>Loops\<close>

text \<open>
  The time a \<open>streamLoop\<close> waits before each reconnection: from one second on it doubles
  while it is below thirty. A connection that worked does not reset it.
\<close>

definition next_backoff :: "int64 \<Rightarrow> int64" where
  "next_backoff b = (if b <s 30000000000 then b * 2 else b)"

fun streamLoop ::
  "(string \<Rightarrow> desired_state option) \<Rightarrow> key_parser \<Rightarrow> sig_checker \<Rightarrow> (nat \<Rightarrow> nat \<Rightarrow> reconcile_env) \<Rightarrow> nat \<Rightarrow>
   string option reply list \<Rightarrow> int64 \<Rightarrow> runtime \<Rightarrow> int64 list \<times> runtime" where
  "streamLoop decode parse edVerify envs i [] backoff rt = ([], rt)"
| "streamLoop decode parse edVerify envs i (rep # reps) backoff rt =
     (case streamOnce decode parse edVerify (envs i) rep rt of
        (_, rt1) \<Rightarrow>
          (case streamLoop decode parse edVerify envs (Suc i) reps (next_backoff backoff) rt1 of
             (waits, rt2) \<Rightarrow> (backoff # waits, rt2)))"

text \<open>A tick of \<open>retryLoop\<close>, and the interval \<open>Run\<close> sets.\<close>

definition retry_tick :: "key_parser \<Rightarrow> sig_checker \<Rightarrow> reconcile_env \<Rightarrow> runtime \<Rightarrow> runtime" where
  "retry_tick parse edVerify env rt =
     (case rt_LastDesired rt of None \<Rightarrow> rt | Some ds \<Rightarrow> reconcile_now parse edVerify env ds rt)"

definition heartbeat_interval :: "int64 \<Rightarrow> int64" where
  "heartbeat_interval h = (if h \<le>s 0 then 30000000000 else h)"

end
