(* ===== verification/Agent_Reports.thy ===== *)
theory Agent_Reports
  imports Host_Inventory Host_Updates Host_Metrics Agent_Runtime Plane_Properties
begin

text \<open>
  What the agent tells the server: the inventory (\<open>CollectInventory\<close> of
  \<open>internal/agent/inventory.go\<close>), the heartbeat with the cached package updates
  (\<open>heartbeatLoop\<close> of \<open>agent.go\<close>), and the metrics that modules push through the agent
  (\<open>localpush.go\<close>). The properties follow a report into the server.
\<close>

section \<open>Inventory\<close>

text \<open>
  The machine as Go's library shows it; the host's name is empty on error. A
  \<open>float64\<close> becomes an \<open>int64\<close> by dropping its fraction.
\<close>

record machine_facts =
  mf_Host :: host
  mf_GOARCH :: string
  mf_Hostname :: string
  mf_NumCPU :: gint
  mf_Devices :: "net_device list option"
  mf_ParseFloat :: "string \<Rightarrow> float64 option"
  mf_Orders :: "nat \<Rightarrow> shuffle"

definition Version :: string where
  "Version = ''0.1.0''"

definition int64_of_float :: "float64 \<Rightarrow> int64" where
  "int64_of_float x = of_int (if x < 0 then - floor (- x) else floor x)"

definition read_uptime :: "(string \<Rightarrow> float64 option) \<Rightarrow> host \<Rightarrow> int64" where
  "read_uptime parseFloat h =
     (case h_ReadFile h ''/proc/uptime'' of
        None \<Rightarrow> 0
      | Some raw \<Rightarrow>
          (case Fields raw of
             [] \<Rightarrow> 0
           | f # _ \<Rightarrow> (case parseFloat f of None \<Rightarrow> 0 | Some up \<Rightarrow> int64_of_float up)))"

definition CollectInventory :: "machine_facts \<Rightarrow> inventory" where
  "CollectInventory mf =
     (let h = mf_Host mf;
          (ident, ver) = osRelease h;
          (processes, services) = scanProcs (mf_Orders mf 0) (mf_Orders mf 1) h;
          (interfaces, primaryIP) = collectInterfaces h (mf_Devices mf)
      in \<lparr>inv_Hostname = mf_Hostname mf, inv_OS = ident, inv_OSVersion = (if ident = [] then [] else ver),
           inv_Kernel = TrimSpace (read_or_empty h ''/proc/sys/kernel/osrelease''), inv_Arch = mf_GOARCH mf,
           inv_CPUCores = mf_NumCPU mf, inv_UptimeSec = read_uptime (mf_ParseFloat mf) h,
           inv_Packages = of_int (packageCount h), inv_Processes = of_nat processes, inv_GPUs = detectGPUs h,
           inv_Services = services, inv_Kubernetes = detectKubernetes services, inv_Updates = None,
           inv_AgentVersion = Version, inv_Interfaces = interfaces, inv_PrimaryIP = primaryIP\<rparr>)"

section \<open>Heartbeats\<close>

text \<open>\<open>postJSON\<close> where no answer is expected: whatever a good answer holds is not read.\<close>

definition post_report :: "string \<Rightarrow> unit reply \<Rightarrow> string option" where
  "post_report path rep =
     (case rep of
        Unreachable e \<Rightarrow> Some e
      | Answer code status body decoded \<Rightarrow>
          if 300 \<le> code then Some (path @ '': '' @ status @ '': '' @ TrimSpace (take 4096 body)) else None)"

text \<open>One beat: the machine, its package managers, the clock in seconds, and in nanoseconds before and after.\<close>

record beat_env =
  be_Facts :: machine_facts
  be_Managers :: package_managers
  be_Unix :: int64
  be_Now :: int
  be_Finished :: int

definition six_hours :: int where
  "six_hours = 6 * 3600 * 1000000000"

definition heartbeat_of :: "beat_env \<Rightarrow> update_cache \<Rightarrow> heartbeat \<times> update_cache" where
  "heartbeat_of env cache =
     (case updatesSnapshot (mf_Host (be_Facts env)) (be_Managers env) (be_Unix env) (be_Now env) (be_Finished env)
             six_hours cache of
        (snap, cache') \<Rightarrow>
          (\<lparr>hb_Inventory = (CollectInventory (be_Facts env))\<lparr>inv_Updates := Some snap\<rparr>\<rparr>, cache'))"

definition heartbeat_send ::
  "beat_env \<Rightarrow> (heartbeat \<Rightarrow> unit reply) \<Rightarrow> update_cache \<Rightarrow> string option \<times> update_cache" where
  "heartbeat_send env post cache =
     (case heartbeat_of env cache of (hb, cache') \<Rightarrow> (post_report ''/v1/heartbeat'' (post hb), cache'))"

text \<open>The heartbeats of the first beat and the ticks after it; a failed one is only logged.\<close>

fun heartbeatLoop :: "beat_env list \<Rightarrow> update_cache \<Rightarrow> heartbeat list" where
  "heartbeatLoop [] cache = []"
| "heartbeatLoop (env # envs) cache =
     (case heartbeat_of env cache of (hb, cache') \<Rightarrow> hb # heartbeatLoop envs cache')"

definition no_updates :: update_cache where
  "no_updates = \<lparr>uc_snap = None, uc_at = 0\<rparr>"

definition scan_at :: "beat_env \<Rightarrow> updates" where
  "scan_at env = scanUpdates (mf_Host (be_Facts env)) (be_Managers env) (be_Unix env)"

definition beat_updates :: "heartbeat \<Rightarrow> updates option" where
  "beat_updates hb = inv_Updates (hb_Inventory hb)"

lemma length_heartbeatLoop [simp]: "length (heartbeatLoop envs cache) = length envs"
  by (induction envs arbitrary: cache) (auto split: prod.split)

text \<open>A beat sends the cached snapshot while it is young, or scans and remembers that.\<close>

lemma heartbeat_of_updates:
  assumes "heartbeat_of env cache = (hb, cache')"
  shows "(cache' = cache \<and> beat_updates hb = uc_snap cache \<and> uc_snap cache \<noteq> None \<and> be_Now env - uc_at cache < six_hours) \<or>
    (beat_updates hb = Some (scan_at env) \<and> cache' = \<lparr>uc_snap = Some (scan_at env), uc_at = be_Finished env\<rparr>)"
  using assms
  by (auto simp: heartbeat_of_def updatesSnapshot_def beat_updates_def scan_at_def Let_def
      split: option.splits if_splits)

lemma heartbeatLoop_updates:
  "i < length envs \<Longrightarrow>
   (beat_updates (heartbeatLoop envs cache ! i) = uc_snap cache \<and> uc_snap cache \<noteq> None \<and>
      be_Now (envs ! i) - uc_at cache < six_hours) \<or>
   (\<exists>j\<le>i. beat_updates (heartbeatLoop envs cache ! i) = Some (scan_at (envs ! j)) \<and>
      (j = i \<or> be_Now (envs ! i) - be_Finished (envs ! j) < six_hours))"
proof (induction envs arbitrary: cache i)
  case (Cons env envs)
  obtain hb cache' where b: "heartbeat_of env cache = (hb, cache')" by fastforce
  note now = heartbeat_of_updates [OF b]
  show ?case
  proof (cases i)
    case 0
    then show ?thesis using now b by auto
  next
    case (Suc i')
    then have later: "heartbeatLoop (env # envs) cache ! i = heartbeatLoop envs cache' ! i'"
      "(env # envs) ! i = envs ! i'" using b by simp_all
    from Cons.IH [of i' cache'] Cons.prems Suc consider
      (old) "beat_updates (heartbeatLoop envs cache' ! i') = uc_snap cache'" "uc_snap cache' \<noteq> None"
        "be_Now (envs ! i') - uc_at cache' < six_hours"
    | (scan) j where "j \<le> i'" "beat_updates (heartbeatLoop envs cache' ! i') = Some (scan_at (envs ! j))"
        "j = i' \<or> be_Now (envs ! i') - be_Finished (envs ! j) < six_hours"
      by fastforce
    then show ?thesis
    proof cases
      case old
      from now show ?thesis
      proof
        assume "cache' = cache \<and> beat_updates hb = uc_snap cache \<and> uc_snap cache \<noteq> None \<and>
          be_Now env - uc_at cache < six_hours"
        then show ?thesis using old by (simp add: later del: heartbeatLoop.simps)
      next
        assume "beat_updates hb = Some (scan_at env) \<and> cache' = \<lparr>uc_snap = Some (scan_at env), uc_at = be_Finished env\<rparr>"
        then show ?thesis using old by (intro disjI2 exI [of _ 0]) (simp add: later del: heartbeatLoop.simps)
      qed
    next
      case scan
      then show ?thesis using Suc by (intro disjI2 exI [of _ "Suc j"]) (auto simp: later [unfolded Suc] simp del: heartbeatLoop.simps)
    qed
  qed
qed simp

text \<open>
  The package updates in a heartbeat are those of a real scan of the machine, made for
  that heartbeat or for an earlier one that finished less than six hours before.
\<close>

theorem heartbeat_updates_recent:
  assumes "i < length envs"
  shows "\<exists>j\<le>i. beat_updates (heartbeatLoop envs no_updates ! i) =
      Some (scanUpdates (mf_Host (be_Facts (envs ! j))) (be_Managers (envs ! j)) (be_Unix (envs ! j))) \<and>
    (j = i \<or> be_Now (envs ! i) - be_Finished (envs ! j) < six_hours)"
  using heartbeatLoop_updates [OF assms, of no_updates] by (simp add: no_updates_def scan_at_def)

definition bare_host :: host where
  "bare_host = \<lparr>h_ReadFile = (\<lambda>_. None), h_ReadDir = (\<lambda>_. None), h_Stat = (\<lambda>_. False)\<rparr>"

definition bare_beat :: "int \<Rightarrow> beat_env" where
  "bare_beat now =
     \<lparr>be_Facts = \<lparr>mf_Host = bare_host, mf_GOARCH = ''amd64'', mf_Hostname = ''h'', mf_NumCPU = 1, mf_Devices = None,
        mf_ParseFloat = (\<lambda>_. None), mf_Orders = (\<lambda>_. in_order)\<rparr>,
      be_Managers = \<lparr>pm_hasBin = (\<lambda>_. False), pm_apt = None, pm_dnf = [], pm_dnf_security = None\<rparr>,
      be_Unix = 7, be_Now = now, be_Finished = now + 1\<rparr>"

lemma heartbeat_updates_recent_witness:
  "\<exists>j\<le>1. beat_updates (heartbeatLoop [bare_beat 0, bare_beat 5] no_updates ! 1) =
      Some (scanUpdates (mf_Host (be_Facts ([bare_beat 0, bare_beat 5] ! j))) (be_Managers ([bare_beat 0, bare_beat 5] ! j))
        (be_Unix ([bare_beat 0, bare_beat 5] ! j))) \<and>
    (j = 1 \<or> be_Now ([bare_beat 0, bare_beat 5] ! 1) - be_Finished ([bare_beat 0, bare_beat 5] ! j) < six_hours)"
  by (rule heartbeat_updates_recent) simp

lemma heartbeat_of_inventory:
  "hb_Inventory (fst (heartbeat_of env cache)) =
     (CollectInventory (be_Facts env))\<lparr>inv_Updates := beat_updates (fst (heartbeat_of env cache))\<rparr>"
  by (simp add: heartbeat_of_def beat_updates_def split: prod.split)

lemma heartbeat_send_eq:
  "heartbeat_send env post cache =
     (post_report ''/v1/heartbeat'' (post (fst (heartbeat_of env cache))), snd (heartbeat_of env cache))"
  by (simp add: heartbeat_send_def split: prod.split)

lemma post_report_carried [simp]:
  "post_report path (carried NoContent) = None" "post_report path (carried (Json x)) = None"
  "300 \<le> code \<Longrightarrow> post_report path (carried (HttpError code msg)) \<noteq> None"
  by (simp_all add: post_report_def carried_def)

text \<open>
  C21: What a heartbeat says arrives: when the machine is in the store its record then has
  the inventory the agent collected, and the time, and nothing else of it changed; when it
  is not, the agent learns that and the store is as before.
\<close>

theorem heartbeat_is_recorded:
  assumes "fs_healthy (w_store w)" and "handleHeartbeat file_ops now (Some (fst (heartbeat_of env cache))) idn w = (r, w')"
  shows "case fmlookup (fl_machines (fs_view (w_store w))) (idn_MachineID idn) of
      None \<Rightarrow> fst (heartbeat_send env (\<lambda>_. carried r) cache) \<noteq> None \<and> fs_view (w_store w') = fs_view (w_store w)
    | Some m \<Rightarrow> fst (heartbeat_send env (\<lambda>_. carried r) cache) = None \<and>
        fmlookup (fl_machines (fs_view (w_store w'))) (idn_MachineID idn) =
          Some (m\<lparr>m_LastSeen := now, m_Inventory :=
            (CollectInventory (be_Facts env))\<lparr>inv_Updates := beat_updates (fst (heartbeat_of env cache))\<rparr>\<rparr>)"
proof -
  let ?k = "idn_MachineID idn"
  let ?iv = "hb_Inventory (fst (heartbeat_of env cache))"
  obtain r1 s1 where t: "TouchHeartbeat file_ops ?k now ?iv (w_store w) = (r1, s1)" by fastforce
  note touched = fs.touch_heartbeat [OF assms(1), of ?k now ?iv, unfolded t fst_conv snd_conv]
  have w': "w' = w\<lparr>w_store := s1\<rparr>" and
    r: "r = (case r1 of Inl e \<Rightarrow> if e = ErrNotFound then HttpError 403 ''unknown machine''
        else HttpError 500 ''store error'' | Inr _ \<Rightarrow> NoContent)"
    using assms(2) t by (auto simp: handleHeartbeat_def on_store_def split: sum.splits if_splits)
  show ?thesis
  proof (cases "fmlookup (fl_machines (fs_view (w_store w))) ?k")
    case None
    with touched have "r1 = Inl ErrNotFound" "fs_view s1 = fs_view (w_store w)" by (simp_all del: fs_view_simps)
    with None show ?thesis by (simp add: r w' heartbeat_send_eq del: fs_view_simps)
  next
    case (Some m)
    with touched have "r1 = Inr ()" "fs_view s1 = put_machine (touch now ?iv m) (fs_view (w_store w))"
      by (simp_all del: fs_view_simps)
    moreover have "m_ID m = ?k" using keyed_machine [OF fs_healthy_keyed [OF assms(1)] Some] .
    ultimately show ?thesis
      using Some by (simp add: r w' heartbeat_send_eq touch_def heartbeat_of_inventory put_machine_def del: fs_view_simps)
  qed
qed

lemma heartbeat_is_recorded_witness:
  "case fmlookup (fl_machines (fs_view (w_store plane5))) ''m'' of
      None \<Rightarrow> fst (heartbeat_send (bare_beat 0) (\<lambda>_. carried (fst (handleHeartbeat file_ops 9
          (Some (fst (heartbeat_of (bare_beat 0) no_updates))) \<lparr>idn_MachineID = ''m'', idn_TenantID = ''t''\<rparr> plane5))) no_updates) \<noteq> None \<and>
        fs_view (w_store (snd (handleHeartbeat file_ops 9
          (Some (fst (heartbeat_of (bare_beat 0) no_updates))) \<lparr>idn_MachineID = ''m'', idn_TenantID = ''t''\<rparr> plane5))) =
        fs_view (w_store plane5)
    | Some m \<Rightarrow> fst (heartbeat_send (bare_beat 0) (\<lambda>_. carried (fst (handleHeartbeat file_ops 9
          (Some (fst (heartbeat_of (bare_beat 0) no_updates))) \<lparr>idn_MachineID = ''m'', idn_TenantID = ''t''\<rparr> plane5))) no_updates) = None \<and>
        fmlookup (fl_machines (fs_view (w_store (snd (handleHeartbeat file_ops 9
          (Some (fst (heartbeat_of (bare_beat 0) no_updates))) \<lparr>idn_MachineID = ''m'', idn_TenantID = ''t''\<rparr> plane5))))) ''m'' =
          Some (m\<lparr>m_LastSeen := 9, m_Inventory :=
            (CollectInventory (be_Facts (bare_beat 0)))\<lparr>inv_Updates := beat_updates (fst (heartbeat_of (bare_beat 0) no_updates))\<rparr>\<rparr>)"
  using heartbeat_is_recorded [where w = plane5 and idn = "\<lparr>idn_MachineID = ''m'', idn_TenantID = ''t''\<rparr>"
      and now = 9 and env = "bare_beat 0" and cache = no_updates, OF _ prod.collapse [symmetric]]
    cp_reachable_tidy [OF reachable_plane5] by (simp only: identity.simps)

section \<open>Pushes of modules\<close>

text \<open>
  The listener is started once for the process (\<open>sync.Once\<close>): the first answer of
  \<open>net.Listen\<close>, an address or an error, stays.
\<close>

record push_state =
  pu_Once :: bool
  pu_Addr :: string
  pu_Err :: "string option"

definition startLocalPush :: "(string + string) \<Rightarrow> push_state \<Rightarrow> (string \<times> string option) \<times> push_state" where
  "startLocalPush listen p =
     (let p' = (if pu_Once p then p
                else case listen of
                       Inl e \<Rightarrow> p\<lparr>pu_Once := True, pu_Err := Some e\<rparr>
                     | Inr addr \<Rightarrow> p\<lparr>pu_Once := True, pu_Addr := addr\<rparr>)
      in ((pu_Addr p', pu_Err p'), p'))"

definition push_script :: "string \<Rightarrow> bytes" where
  "push_script addr =
     ''#!/bin/sh'' @ [newline_char] @ ''exec curl -s -X POST --data-binary @- http://'' @ addr @ ''/push'' @ [newline_char]"

text \<open>The path for \<open>FLEET_LOCAL_PUSH\<close>; whether the script could be written is not looked at.\<close>

definition localPushHelper :: "(string + string) \<Rightarrow> write_result \<Rightarrow> push_state \<Rightarrow> agent \<Rightarrow> string \<times> push_state \<times> agent" where
  "localPushHelper listen res p a =
     (case startLocalPush listen p of
        ((addr, Some _), p') \<Rightarrow> ([], p', a)
      | ((addr, None), p') \<Rightarrow>
          (data_file a ''push-helper.sh'', p', snd (WriteFile res ''push-helper.sh'' (push_script addr) a)))"

definition postRaw :: "string \<Rightarrow> (bytes \<Rightarrow> unit reply) \<Rightarrow> bytes \<Rightarrow> string option" where
  "postRaw path post body =
     (case post body of
        Unreachable e \<Rightarrow> Some e
      | Answer code status msg _ \<Rightarrow>
          if 300 \<le> code then Some (path @ '': '' @ status @ '': '' @ TrimSpace (take 4096 msg)) else None)"

text \<open>The listener's handler: the body, as far as it is read, goes to the server; the status is the answer.\<close>

definition push_limit :: nat where
  "push_limit = 65536"

definition push_handler :: "(bytes \<Rightarrow> unit reply) \<Rightarrow> bytes option \<Rightarrow> nat" where
  "push_handler post body =
     (case body of
        None \<Rightarrow> 400
      | Some raw \<Rightarrow> (case postRaw ''/v1/metrics'' post (take push_limit raw) of Some _ \<Rightarrow> 502 | None \<Rightarrow> 204))"

lemma listener_started_once:
  assumes "startLocalPush listen p = (r, p')"
  shows "startLocalPush listen' p' = (r, p')"
  using assms by (auto simp: startLocalPush_def Let_def split: if_splits sum.splits)

text \<open>
  The server's side of a push, as in \<open>handleMetricsPush\<close>, where \<open>decode\<close> is what the
  body decodes to.
\<close>

definition serve_push ::
  "(bytes \<Rightarrow> metrics_sample option) \<Rightarrow> identity \<Rightarrow> plane \<Rightarrow> bytes \<Rightarrow> unit reply" where
  "serve_push decode idn w body = carried (fst (handleMetricsPush inproc_ops (decode body) idn w))"

definition after_push :: "metrics_sample \<Rightarrow> identity \<Rightarrow> plane \<Rightarrow> plane" where
  "after_push sample idn w = snd (handleMetricsPush inproc_ops (Some sample) idn w)"

definition gpus_only :: "metrics_sample \<Rightarrow> bool" where
  "gpus_only sample \<longleftrightarrow> mt_GPUs sample \<noteq> [] \<and> mt_CPUPercent sample = 0 \<and> mt_MemTotal sample = 0"

lemma live_after_push:
  "live_Get (idn_MachineID idn) (after_push sample idn w) =
     (case live_Get (idn_MachineID idn) w of
        Some prev \<Rightarrow>
          Some (if gpus_only sample then prev\<lparr>mt_GPUs := mt_GPUs sample, mt_AtUnix := mt_AtUnix sample\<rparr> else sample)
      | None \<Rightarrow> Some sample)"
  by (simp add: after_push_def handleMetricsPush_def gpus_only_def live_Get_def live_Set_def Let_def publish_def
      split: option.split)

lemma tick_has_no_gpus: "mt_GPUs (fst (metrics_tick topProcesses env st)) = []"
  by (simp add: metrics_tick_def Let_def split: prod.split)

text \<open>
  A collector's push of graphics cards is merged into the machine's last sample, but
  only until the agent's next tick: the sample of every tick has no graphics cards and
  replaces what was merged.
\<close>

theorem next_tick_erases_gpus:
  assumes "length raw \<le> push_limit" and "decode raw = Some sample" and "gpus_only sample"
    and "live_Get (idn_MachineID idn) w = Some prev"
  shows "push_handler (serve_push decode idn w) (Some raw) = 204 \<and>
    live_Get (idn_MachineID idn) (after_push sample idn w) =
      Some (prev\<lparr>mt_GPUs := mt_GPUs sample, mt_AtUnix := mt_AtUnix sample\<rparr>) \<and>
    (let tick = fst (metrics_tick topProcesses env st) in
       live_Get (idn_MachineID idn) (after_push tick idn (after_push sample idn w)) = Some tick \<and> mt_GPUs tick = [])"
proof -
  have "fst (handleMetricsPush inproc_ops (Some sample) idn w) = NoContent"
    by (auto simp: handleMetricsPush_def Let_def split: option.split)
  then have "push_handler (serve_push decode idn w) (Some raw) = 204"
    using assms(1,2) by (simp add: push_handler_def postRaw_def serve_push_def carried_def)
  moreover have "\<not> gpus_only (fst (metrics_tick topProcesses env st))" by (simp add: gpus_only_def tick_has_no_gpus)
  ultimately show ?thesis
    using assms(3,4) by (simp add: live_after_push tick_has_no_gpus Let_def)
qed

definition bare_tick :: tick_env where
  "bare_tick =
     \<lparr>tk_Host = bare_host, tk_Now = 9000000000, tk_Disk = (0, 0), tk_PageSize = 4096, tk_NumCPU = 1,
      tk_Kubelet = (\<lambda>_ _. None), tk_Getenv = (\<lambda>_. []), tk_ParseFloat = (\<lambda>_. 0), tk_Orders = (\<lambda>_. in_order)\<rparr>"

definition first_state :: metrics_state where
  "first_state =
     \<lparr>ml_Busy = 0, ml_Total = 0, ml_Rx = 0, ml_Tx = 0, ml_At = 0, ml_Procs = fmempty, ml_Ifaces = fmempty,
      ml_Kube = new_kube_state\<rparr>"

definition empty_sample :: metrics_sample where
  "empty_sample =
     \<lparr>mt_AtUnix = 5, mt_CPUPercent = 0, mt_Load1 = 0, mt_MemTotal = 0, mt_MemUsed = 0, mt_DiskTotal = 0,
      mt_DiskUsed = 0, mt_NetRxBps = 0, mt_NetTxBps = 0, mt_TopProcesses = [], mt_GPUs = [], mt_ProcCount = 0,
      mt_ProcTotalRSS = 0, mt_Interfaces = [], mt_Pods = []\<rparr>"

definition gpu_push :: metrics_sample where
  "gpu_push = empty_sample\<lparr>mt_AtUnix := 6,
     mt_GPUs := [\<lparr>gpu_Index = 0, gpu_Name = ''g'', gpu_UtilPercent = 50, gpu_MemUsed = 1, gpu_MemTotal = 2, gpu_TempC = 60, gpu_PowerW = 100\<rparr>]\<rparr>"

lemma next_tick_erases_gpus_witness:
  "let idn = \<lparr>idn_MachineID = ''m'', idn_TenantID = ''t''\<rparr>;
       tick = fst (metrics_tick 0 bare_tick first_state);
       w = after_push empty_sample idn plane5
   in mt_GPUs gpu_push \<noteq> [] \<and> live_Get ''m'' (after_push tick idn (after_push gpu_push idn w)) = Some tick \<and> mt_GPUs tick = []"
proof -
  let ?idn = "\<lparr>idn_MachineID = ''m'', idn_TenantID = ''t''\<rparr>"
  let ?w = "after_push empty_sample ?idn plane5"
  have "live_Get (idn_MachineID ?idn) ?w = Some empty_sample"
    unfolding live_after_push by (simp add: gpus_only_def empty_sample_def split: option.split)
  then have "let tick = fst (metrics_tick 0 bare_tick first_state) in
      live_Get (idn_MachineID ?idn) (after_push tick ?idn (after_push gpu_push ?idn ?w)) = Some tick \<and> mt_GPUs tick = []"
    using next_tick_erases_gpus [where raw = "''x''" and decode = "\<lambda>_. Some gpu_push" and sample = gpu_push
        and idn = ?idn and w = ?w and prev = empty_sample and topProcesses = 0 and env = bare_tick and st = first_state]
    by (simp add: push_limit_def gpus_only_def gpu_push_def empty_sample_def)
  then show ?thesis by (simp add: Let_def gpu_push_def)
qed

end
