(* ===== verification/Agent_Properties.thy ===== *)
theory Agent_Properties
  imports Agent_Reconcile
begin

text \<open>
  The properties of the reconciler: only signed payloads run, a module that was applied is
  not run again, what is no longer desired is forgotten; and two places where the
  bookkeeping by keys and directory names goes wrong.
\<close>

section \<open>What one application does\<close>

lemma apply_module_frame:
  assumes "apply_module parse edVerify env spec a = (st, a')"
  shows "ag_Applied a' = ag_Applied a" "ag_Reports a' = ag_Reports a" "ag_ModKey a' = ag_ModKey a"
    "ag_DataDir a' = ag_DataDir a" "st_Name st = ms_Name spec" "st_Version st = ms_Version spec"
  using assms
  by (auto simp: apply_module_def Let_def split: sum.splits option.splits prod.splits)

lemma apply_module_runs:
  assumes "apply_module parse edVerify env spec a = (st, a')"
  shows "\<exists>rs. ag_Runs a' = ag_Runs a @ rs \<and>
    (\<forall>r\<in>set rs. \<exists>pub sig. parse (ag_ModKey a) = Ed25519Key pub \<and> edVerify pub (run_Payload r) sig)"
proof (cases "\<exists>art. ae_Fetch env = Inr art \<and> verify parse edVerify (ag_ModKey a) art = None")
  case False
  then have "a' = a" using assms by (auto simp: apply_module_def Let_def split: sum.splits option.splits)
  then show ?thesis by simp
next
  case True
  then obtain art where art: "ae_Fetch env = Inr art" "verify parse edVerify (ag_ModKey a) art = None" by blast
  then obtain pub where "parse (ag_ModKey a) = Ed25519Key pub" "edVerify pub (art_Payload art) (art_Signature art)"
    by (auto simp: verify_def split: parsed_key.splits if_splits)
  moreover have "ag_Runs a' = ag_Runs a \<or> (\<exists>x. ag_Runs a' = ag_Runs a @ [x] \<and> run_Payload x = art_Payload art)"
    using assms art by (auto simp: apply_module_def Let_def split: option.splits prod.splits)
  ultimately show ?thesis by auto
qed

text \<open>One round of the loop.\<close>

lemma reconcile_spec_cases:
  "(\<exists>st. fmlookup (rc_Applied r) (appliedKey spec) = Some st \<and> st_State st = ''applied'' \<and>
      reconcile_spec parse edVerify env spec r =
        r\<lparr>rc_Want := fmupd (appliedKey spec) True (rc_Want r), rc_Statuses := rc_Statuses r @ [st]\<rparr>) \<or>
   (\<exists>st a. (\<forall>st. fmlookup (rc_Applied r) (appliedKey spec) = Some st \<longrightarrow> st_State st \<noteq> ''applied'') \<and>
      apply_module parse edVerify env spec (rc_Agent r) = (st, a) \<and>
      reconcile_spec parse edVerify env spec r =
        r\<lparr>rc_Want := fmupd (appliedKey spec) True (rc_Want r),
          rc_Applied := fmupd (appliedKey spec) st (rc_Applied r),
          rc_Statuses := rc_Statuses r @ [st], rc_Agent := a\<rparr>)"
  by (cases "apply_module parse edVerify env spec (rc_Agent r)")
     (auto simp: reconcile_spec_def Let_def split: option.split)

lemma reconcile_spec_facts:
  shows "rc_Want (reconcile_spec parse edVerify env spec r) = fmupd (appliedKey spec) True (rc_Want r)"
    and "ag_DataDir (rc_Agent (reconcile_spec parse edVerify env spec r)) = ag_DataDir (rc_Agent r)"
    and "\<exists>x. rc_Statuses (reconcile_spec parse edVerify env spec r) = rc_Statuses r @ [x] \<and>
      fmlookup (rc_Applied (reconcile_spec parse edVerify env spec r)) (appliedKey spec) = Some x"
    and "k \<noteq> appliedKey spec \<Longrightarrow>
      fmlookup (rc_Applied (reconcile_spec parse edVerify env spec r)) k = fmlookup (rc_Applied r) k"
    and "fmlookup (rc_Applied r) k = Some st \<Longrightarrow> st_State st = ''applied'' \<Longrightarrow>
      fmlookup (rc_Applied (reconcile_spec parse edVerify env spec r)) k = Some st"
  using reconcile_spec_cases [of r spec parse edVerify env] apply_module_frame(4)
  by (elim disjE exE conjE; auto)+

text \<open>What the rest of \<open>reconcile\<close> does to the disk and to the log.\<close>

lemma removeModuleDir_simps [simp]:
  "ag_Runs (removeModuleDir stuck n v a) = ag_Runs a" "ag_ModKey (removeModuleDir stuck n v a) = ag_ModKey a"
  "ag_DataDir (removeModuleDir stuck n v a) = ag_DataDir a"
  "ag_Reports (removeModuleDir stuck n v a) = ag_Reports a"
  "module_dir (removeModuleDir stuck n v a) = module_dir a"
  by (simp_all add: removeModuleDir_def module_dir_def fun_eq_iff)

lemma saveApplied_simps [simp]:
  "ag_Runs (saveApplied so m a) = ag_Runs a" "ag_ModKey (saveApplied so m a) = ag_ModKey a"
  "ag_Files (saveApplied so m a) = ag_Files a" "ag_Reports (saveApplied so m a) = ag_Reports a"
  "ag_Applied (saveApplied Saved m a) = Applied m"
  by (simp_all add: saveApplied_def split: save_outcome.split)

lemma forget_fold_runs [simp]:
  "ag_Runs (rc_Agent (fold (forget_entry stuck want) es r)) = ag_Runs (rc_Agent r)"
  "ag_Reports (rc_Agent (fold (forget_entry stuck want) es r)) = ag_Reports (rc_Agent r)"
  "ag_DataDir (rc_Agent (fold (forget_entry stuck want) es r)) = ag_DataDir (rc_Agent r)"
  by (induction es arbitrary: r) (auto simp: forget_entry_def split: prod.split)

lemma reconcile_runs:
  "ag_Runs (reconcile parse edVerify envs p stuck so ds a) =
     ag_Runs (rc_Agent (reconcile_specs parse edVerify envs 0 (specs_of ds)
       \<lparr>rc_Applied = loadApplied a, rc_Statuses = [], rc_Want = fmempty, rc_Agent = a\<rparr>))"
  by (simp add: reconcile_def reconcile_loaded_def Let_def)

section \<open>A sample agent\<close>

text \<open>The signature of the sample is the payload reversed; the key is the one pinned.\<close>

definition sample_parse :: "bytes \<Rightarrow> parsed_key" where
  "sample_parse b = (if b = ''key'' then Ed25519Key ''pub'' else NoPEM)"

definition sample_verify :: "bytes \<Rightarrow> bytes \<Rightarrow> bytes \<Rightarrow> bool" where
  "sample_verify pub payload signature = (signature = rev payload)"

definition sample_env :: "nat \<Rightarrow> apply_env" where
  "sample_env i =
     \<lparr>ae_Now = 7,
      ae_Fetch = Inr \<lparr>art_Name = ''ntp'', art_Version = ''1'', art_Exec = ''run'', art_Payload = ''ab'',
                      art_Signature = ''ba''\<rparr>,
      ae_MkdirErr = None, ae_WriteErr = None, ae_Output = ''done'', ae_RunErr = None, ae_Order = in_order\<rparr>"

definition sample_agent :: agent where
  "sample_agent =
     \<lparr>ag_DataDir = ''/d'', ag_MachineID = ''m'', ag_ModKey = ''key'', ag_PushHelper = [],
      ag_Applied = NoFile, ag_Files = fmempty, ag_Runs = [], ag_Reports = []\<rparr>"

definition sample_desired :: "string gomap \<Rightarrow> desired_state" where
  "sample_desired cfg = \<lparr>ds_Revision = 1,
     ds_Modules = Some [\<lparr>ms_Name = ''ntp'', ms_Version = ''1'', ms_Config = cfg\<rparr>]\<rparr>"

definition sample_after :: agent where
  "sample_after = reconcile sample_parse sample_verify sample_env in_order (\<lambda>_. False) Saved
     (sample_desired fmempty) sample_agent"

section \<open>Signed payloads only\<close>

lemma reconcile_specs_runs:
  "\<exists>rs. ag_Runs (rc_Agent (reconcile_specs parse edVerify envs i specs r)) = ag_Runs (rc_Agent r) @ rs \<and>
    ag_ModKey (rc_Agent (reconcile_specs parse edVerify envs i specs r)) = ag_ModKey (rc_Agent r) \<and>
    (\<forall>x\<in>set rs. \<exists>pub sig. parse (ag_ModKey (rc_Agent r)) = Ed25519Key pub \<and> edVerify pub (run_Payload x) sig)"
proof (induction specs arbitrary: i r)
  case Nil
  then show ?case by simp
next
  case (Cons spec specs)
  let ?next = "reconcile_spec parse edVerify (envs i) spec r"
  have "\<exists>rs. ag_Runs (rc_Agent ?next) = ag_Runs (rc_Agent r) @ rs \<and>
      ag_ModKey (rc_Agent ?next) = ag_ModKey (rc_Agent r) \<and>
      (\<forall>x\<in>set rs. \<exists>pub sig. parse (ag_ModKey (rc_Agent r)) = Ed25519Key pub \<and> edVerify pub (run_Payload x) sig)"
    using reconcile_spec_cases [of r spec parse edVerify "envs i"]
  proof (elim disjE exE conjE)
    fix st a
    assume ap: "apply_module parse edVerify (envs i) spec (rc_Agent r) = (st, a)"
      and "reconcile_spec parse edVerify (envs i) spec r =
        r\<lparr>rc_Want := fmupd (appliedKey spec) True (rc_Want r),
          rc_Applied := fmupd (appliedKey spec) st (rc_Applied r),
          rc_Statuses := rc_Statuses r @ [st], rc_Agent := a\<rparr>"
    with apply_module_runs [OF ap] apply_module_frame(3) [OF ap] show ?thesis by simp
  qed simp
  with Cons.IH [of "Suc i" ?next] show ?case by (auto simp: ball_Un)
qed

text \<open>
  C12: Whatever the server sends and whatever fails, the agent only ever runs a payload that
  carries a valid signature under the Ed25519 key pinned at enrollment.
\<close>

theorem reconcile_runs_signed_payloads:
  "\<exists>rs. ag_Runs (reconcile parse edVerify envs p stuck so ds a) = ag_Runs a @ rs \<and>
    list_all (\<lambda>r. \<exists>pub sig. parse (ag_ModKey a) = Ed25519Key pub \<and> edVerify pub (run_Payload r) sig) rs"
  using reconcile_specs_runs [of parse edVerify envs 0 "specs_of ds"
      "\<lparr>rc_Applied = loadApplied a, rc_Statuses = [], rc_Want = fmempty, rc_Agent = a\<rparr>"]
  by (auto simp: reconcile_runs list_all_iff)

section \<open>Once applied, not run again\<close>

lemma applied_stays:
  assumes "fmlookup (rc_Applied r) k = Some st" and "st_State st = ''applied''"
  shows "fmlookup (rc_Applied (reconcile_specs parse edVerify envs i specs r)) k = Some st"
  using assms by (induction specs arbitrary: i r) (simp_all add: reconcile_spec_facts(5))

lemma statuses_grow:
  "\<exists>sts. rc_Statuses (reconcile_specs parse edVerify envs i specs r) = rc_Statuses r @ sts \<and>
     length sts = length specs"
proof (induction specs arbitrary: i r)
  case Nil
  then show ?case by simp
next
  case (Cons spec specs)
  obtain x where "rc_Statuses (reconcile_spec parse edVerify (envs i) spec r) = rc_Statuses r @ [x]"
    using reconcile_spec_facts(3) by blast
  with Cons.IH [of "Suc i" "reconcile_spec parse edVerify (envs i) spec r"] show ?case by auto
qed

text \<open>If everything reported is applied, each desired key holds what was reported for it.\<close>

lemma all_applied:
  assumes "rc_Statuses (reconcile_specs parse edVerify envs i specs r) = rc_Statuses r @ sts"
    and "\<forall>st\<in>set sts. st_State st = ''applied''"
  shows "map (\<lambda>spec. fmlookup (rc_Applied (reconcile_specs parse edVerify envs i specs r)) (appliedKey spec)) specs =
    map Some sts"
  using assms
proof (induction specs arbitrary: i r sts)
  case Nil
  then show ?case by simp
next
  case (Cons spec specs)
  let ?next = "reconcile_spec parse edVerify (envs i) spec r"
  obtain x where x: "rc_Statuses ?next = rc_Statuses r @ [x]" "fmlookup (rc_Applied ?next) (appliedKey spec) = Some x"
    using reconcile_spec_facts(3) by blast
  obtain sts' where sts': "rc_Statuses (reconcile_specs parse edVerify envs (Suc i) specs ?next) =
      rc_Statuses ?next @ sts'"
    using statuses_grow by blast
  with Cons.prems(1) x(1) have sts: "sts = x # sts'" by simp
  with Cons.prems(2) have "st_State x = ''applied''" "\<forall>st\<in>set sts'. st_State st = ''applied''" by simp_all
  with applied_stays [OF x(2)] Cons.IH [OF sts'] sts show ?case by simp
qed

lemma reconcile_specs_converged:
  assumes "list_all2 (\<lambda>spec st. fmlookup (rc_Applied r) (appliedKey spec) = Some st \<and> st_State st = ''applied'') specs sts"
  shows "rc_Agent (reconcile_specs parse edVerify envs i specs r) = rc_Agent r \<and>
    rc_Statuses (reconcile_specs parse edVerify envs i specs r) = rc_Statuses r @ sts"
  using assms
proof (induction specs arbitrary: i r sts)
  case Nil
  then show ?case by simp
next
  case (Cons spec specs)
  then obtain st sts' where st: "sts = st # sts'" "fmlookup (rc_Applied r) (appliedKey spec) = Some st"
      "st_State st = ''applied''" and rest: "list_all2 (\<lambda>spec st. fmlookup (rc_Applied r) (appliedKey spec) = Some st \<and>
        st_State st = ''applied'') specs sts'"
    by (auto simp: list_all2_Cons1)
  have "reconcile_spec parse edVerify (envs i) spec r =
      r\<lparr>rc_Want := fmupd (appliedKey spec) True (rc_Want r), rc_Statuses := rc_Statuses r @ [st]\<rparr>"
    using reconcile_spec_cases [of r spec parse edVerify "envs i"] st by auto
  with Cons.IH [of "reconcile_spec parse edVerify (envs i) spec r" sts' "Suc i"] rest st show ?case by simp
qed

lemma wanted_keys:
  "go_index False (rc_Want (reconcile_specs parse edVerify envs i specs r)) k \<longleftrightarrow>
     k \<in> appliedKey ` set specs \<or> go_index False (rc_Want r) k"
  by (induction specs arbitrary: i r) (auto simp: reconcile_spec_facts(1) go_index_def)

lemma forget_fold_applied:
  assumes "distinct (map fst es)"
  shows "fmlookup (rc_Applied (fold (forget_entry stuck want) es r)) k =
    (if k \<in> fst ` set es \<and> \<not> go_index False want k then None else fmlookup (rc_Applied r) k)"
  using assms
  by (induction es arbitrary: r) (auto simp: forget_entry_def split: prod.split)

lemma reconcile_applied:
  "fmlookup (loadApplied (reconcile parse edVerify envs p stuck Saved ds a)) k =
     (if k \<in> appliedKey ` set (specs_of ds)
      then fmlookup (rc_Applied (reconcile_specs parse edVerify envs 0 (specs_of ds)
        \<lparr>rc_Applied = loadApplied a, rc_Statuses = [], rc_Want = fmempty, rc_Agent = a\<rparr>)) k
      else None)"
proof -
  define r1 where "r1 = reconcile_specs parse edVerify envs 0 (specs_of ds)
        \<lparr>rc_Applied = loadApplied a, rc_Statuses = [], rc_Want = fmempty, rc_Agent = a\<rparr>"
  have "loadApplied (reconcile parse edVerify envs p stuck Saved ds a) =
      rc_Applied (fold (forget_entry stuck (rc_Want r1)) (range_map p (rc_Applied r1)) r1)"
    by (simp add: reconcile_def reconcile_loaded_def Let_def loadApplied_def [of "_\<lparr>ag_Reports := _\<rparr>"] flip: r1_def)
  moreover have "go_index False (rc_Want r1) k \<longleftrightarrow> k \<in> appliedKey ` set (specs_of ds)"
    unfolding r1_def wanted_keys by (simp add: go_index_def)
  ultimately show ?thesis
    unfolding r1_def [symmetric]
    by (cases "fmlookup (rc_Applied r1) k") (auto simp: forget_fold_applied image_iff)
qed



text \<open>
  After a saved reconciliation the record of applied modules holds exactly the desired
  ones: nothing that is no longer desired is remembered, and nothing desired is missing.
\<close>

theorem reconcile_remembers_desired:
  "fset (fmdom (loadApplied (reconcile parse edVerify envs p stuck Saved ds a))) =
     appliedKey ` set (specs_of ds)"
proof -
  define r0 where "r0 = \<lparr>rc_Applied = loadApplied a, rc_Statuses = [], rc_Want = fmempty, rc_Agent = a\<rparr>"
  have "fmlookup (rc_Applied (reconcile_specs parse edVerify envs i specs r)) k \<noteq> None"
    if "k \<in> appliedKey ` set specs \<or> fmlookup (rc_Applied r) k \<noteq> None" for i specs r k
    using that
  proof (induction specs arbitrary: i r)
    case Nil
    then show ?case by simp
  next
    case (Cons spec specs)
    have "fmlookup (rc_Applied (reconcile_spec parse edVerify (envs i) spec r)) k \<noteq> None"
      if "k = appliedKey spec \<or> fmlookup (rc_Applied r) k \<noteq> None"
      using that reconcile_spec_facts(3) [of parse edVerify "envs i" spec r]
        reconcile_spec_facts(4) [of k spec parse edVerify "envs i" r] by (cases "k = appliedKey spec") auto
    with Cons show ?case by (simp del: not_None_eq) blast
  qed
  then show ?thesis
    by (auto simp: fmlookup_dom_iff reconcile_applied simp flip: r0_def split: if_splits)
qed

section \<open>Where keys and directories are not enough\<close>

text \<open>
  The key of the applied record does not tell configurations apart: two different
  configurations of a module can have the same key, and then the second is taken for
  applied and never run.
\<close>

theorem appliedKey_collision:
  "\<exists>s s'. ms_Name s = ms_Name s' \<and> ms_Version s = ms_Version s' \<and> ms_Config s \<noteq> ms_Config s' \<and>
     appliedKey s = appliedKey s'"
proof -
  let ?s = "\<lparr>ms_Name = ''ntp'', ms_Version = ''1'', ms_Config = fmupd ''a'' ''1|b=2'' fmempty\<rparr>"
  let ?s' = "\<lparr>ms_Name = ''ntp'', ms_Version = ''1'', ms_Config = fmupd ''a'' ''1'' (fmupd ''b'' ''2'' fmempty)\<rparr>"
  have "appliedKey ?s = ''ntp@1|a=1|b=2''" "appliedKey ?s' = ''ntp@1|a=1|b=2''"
    by code_simp+
  moreover have "fmlookup (ms_Config ?s) ''b'' \<noteq> fmlookup (ms_Config ?s') ''b''" by simp
  then have "ms_Config ?s \<noteq> ms_Config ?s'" by metis
  ultimately show ?thesis by (intro exI [of _ ?s] exI [of _ ?s']) simp
qed

text \<open>
  When a module's configuration changes (or only its old record is stale), forgetting the
  old record deletes the directory of that name and version, which the new configuration
  has just been unpacked into: after the reconciliation no file of the module is left.
\<close>

theorem reconcile_deletes_desired_module:
  assumes "fmlookup (loadApplied a) k = Some st" and "st_State st = ''applied''"
    and "k \<notin> appliedKey ` set (specs_of ds)" and "st_Name st \<noteq> []"
    and "under (module_dir a (st_Name st) (st_Version st)) path" and "\<not> stuck path"
  shows "fmlookup (ag_Files (reconcile parse edVerify envs p stuck so ds a)) path = None"
proof -
  define r1 where "r1 = reconcile_specs parse edVerify envs 0 (specs_of ds)
        \<lparr>rc_Applied = loadApplied a, rc_Statuses = [], rc_Want = fmempty, rc_Agent = a\<rparr>"
  have "ag_DataDir (rc_Agent (reconcile_specs parse edVerify envs i specs r)) = ag_DataDir (rc_Agent r)" for i specs r
    by (induction specs arbitrary: i r) (simp_all add: reconcile_spec_facts(2))
  then have dir: "module_dir (rc_Agent r1) = module_dir a"
    by (simp add: module_dir_def fun_eq_iff r1_def)
  have gone: "fmlookup (ag_Files (rc_Agent (fold (forget_entry stuck want) es r))) path = None"
    if "(k, st) \<in> set es \<or> fmlookup (ag_Files (rc_Agent r)) path = None" "\<not> go_index False want k"
      "module_dir (rc_Agent r) = module_dir a" for es r want
    using that
  proof (induction es arbitrary: r)
    case Nil
    then show ?case by simp
  next
    case (Cons e es)
    let ?r = "forget_entry stuck want e r"
    have "module_dir (rc_Agent ?r) = module_dir a"
      using Cons.prems(3) by (simp add: forget_entry_def split: prod.split)
    moreover have "(k, st) \<in> set es \<or> fmlookup (ag_Files (rc_Agent ?r)) path = None"
      using Cons.prems assms(4-6)
      by (auto simp: forget_entry_def removeModuleDir_def split: prod.split)
    ultimately show ?case using Cons.IH [of ?r] Cons.prems(2) by simp
  qed
  have "fmlookup (rc_Applied r1) k = Some st"
    unfolding r1_def by (rule applied_stays) (use assms(1,2) in simp_all)
  moreover have "\<not> go_index False (rc_Want r1) k"
    using assms(3) unfolding r1_def wanted_keys by (simp add: go_index_def)
  ultimately show ?thesis
    using gone [where es = "range_map p (rc_Applied r1)" and want = "rc_Want r1" and r = r1] dir
    by (simp add: reconcile_def reconcile_loaded_def Let_def flip: r1_def)
qed

lemma reconcile_deletes_desired_module_witness:
  "fmlookup (ag_Files sample_after) ''/d/modules/ntp-1/run'' = Some ''ab'' \<and>
   fmlookup (ag_Files (reconcile sample_parse sample_verify sample_env in_order (\<lambda>_. False) Saved
     (sample_desired (fmupd ''a'' ''b'' fmempty)) sample_after)) ''/d/modules/ntp-1/run'' = None"
proof -
  have "map_option (\<lambda>st. (st_State st, st_Name st, st_Version st)) (fmlookup (loadApplied sample_after) ''ntp@1'') =
      Some (''applied'', ''ntp'', ''1'')" by code_simp
  then obtain st where st: "fmlookup (loadApplied sample_after) ''ntp@1'' = Some st" "st_State st = ''applied''"
      "st_Name st = ''ntp''" "st_Version st = ''1''" by auto
  have files: "under (module_dir sample_after ''ntp'' ''1'') ''/d/modules/ntp-1/run''"
    "fmlookup (ag_Files sample_after) ''/d/modules/ntp-1/run'' = Some ''ab''"
    by code_simp+
  have "\<not> list_ex (\<lambda>sp. appliedKey sp = ''ntp@1'') (specs_of (sample_desired (fmupd ''a'' ''b'' fmempty)))"
    by code_simp
  then have other: "''ntp@1'' \<notin> appliedKey ` set (specs_of (sample_desired (fmupd ''a'' ''b'' fmempty)))"
    by (auto simp: list_ex_iff)
  have named: "st_Name st \<noteq> []" and dir: "under (module_dir sample_after (st_Name st) (st_Version st)) ''/d/modules/ntp-1/run''"
    using files(1) st(3,4) by simp_all
  show ?thesis
    using files(2)
      reconcile_deletes_desired_module
        [OF st(1,2) other named dir, where stuck = "\<lambda>_. False" and parse = sample_parse and edVerify = sample_verify
          and envs = sample_env and p = in_order and so = Saved]
    by simp
qed

text \<open>
  A module's executable is named by a single path element, whatever the artifact says. The
  one such name that leads out of the module's directory is \<open>..\<close>: that is the directory
  of all modules, which cannot be written as a file.
\<close>

theorem exec_name_is_one_element:
  "Base (Clean exec) = ''/'' \<or> (CHR ''/'' \<notin> set (Base (Clean exec)) \<and> Base (Clean exec) \<noteq> [])"
  by (auto simp: Base_def Let_def dest: set_takeWhileD)

end
