(* ===== verification/Host_Properties.thy ===== *)
theory Host_Properties
  imports Host_Processes Host_Network Host_Pods Host_Updates
begin

text \<open>
  What the agent's collectors promise: the service scan, the Kubernetes role, the choice
  of processes, the default route and the throughput figures, and the identity of pods.
\<close>

section \<open>The service scan\<close>

lemma known_names_distinct: "distinct (map svc_Name (map snd knownServices_table))"
  by code_simp

lemma known_by_name:
  "a \<in> snd ` set knownServices_table \<Longrightarrow> b \<in> snd ` set knownServices_table \<Longrightarrow> svc_Name a = svc_Name b \<Longrightarrow> a = b"
  using known_names_distinct unfolding distinct_map by (metis inj_on_def list.set_map)

lemma subcommand_role_cases: "subcommand_role fs \<in> {''k3s'', ''k3s-server'', ''k3s-agent''}"
  by (induction fs) auto

lemma k3sRole_cases: "k3sRole h path \<in> {[], ''k3s'', ''k3s-server'', ''k3s-agent''}"
  using subcommand_role_cases
  by (auto simp: k3sRole_def k3sRoleFromCmdline_def Let_def split: option.splits)

lemma role_services:
  "Service ''k3s'' ''kubernetes'' \<in> snd ` set knownServices_table"
  "Service ''k3s-server'' ''kubernetes'' \<in> snd ` set knownServices_table"
  "Service ''k3s-agent'' ''kubernetes'' \<in> snd ` set knownServices_table"
  by code_simp+

lemma service_of_known:
  assumes "service_of h name = Some svc"
  shows "svc \<in> snd ` set knownServices_table"
proof -
  have role: "Service r ''kubernetes'' \<in> snd ` set knownServices_table"
    if "r = k3sRole h path" "r \<noteq> []" for r path
    using k3sRole_cases [of h path] role_services that by (metis empty_iff insert_iff)
  show ?thesis
    using assms role
    by (auto simp: service_of_def knownServices_def Let_def image_iff split: option.splits if_splits
        dest!: map_of_SomeD) force+
qed

lemma found_lookup:
  "fmlookup (fold (found_step h) names fmempty) k = Some svc \<longleftrightarrow>
     svc_Name svc = k \<and> (\<exists>name \<in> set names. service_of h name = Some svc)"
proof (induction names rule: rev_induct)
  case Nil
  then show ?case by simp
next
  case (snoc x names)
  show ?case
  proof (cases "service_of h x")
    case None
    with snoc show ?thesis by (simp add: found_step_def)
  next
    case (Some s)
    have same: "s' = s" if "service_of h name = Some s'" "svc_Name s' = svc_Name s" for s' name
      using that Some known_by_name service_of_known by metis
    show ?thesis
    proof (cases "k = svc_Name s")
      case True
      with Some snoc same show ?thesis by (auto simp: found_step_def)
    next
      case False
      with Some snoc show ?thesis by (auto simp: found_step_def)
    qed
  qed
qed

definition running :: "host \<Rightarrow> string list \<Rightarrow> service set" where
  "running h names = {svc. \<exists>name \<in> set names. service_of h name = Some svc}"

lemma service_before_less: "service_before = (<)"
  by (simp add: fun_eq_iff service_before_def less_service_iff)

lemma sort_slice_distinct:
  fixes xs :: "'a :: linorder list"
  assumes "distinct xs"
  shows "sort_slice q (<) xs = sorted_list_of_set (set xs)"
proof -
  have "sort_slice q (<) xs = sort (arrange q xs)"
    using sort_slice_key [of q "\<lambda>x. x" xs] by simp
  also have "\<dots> = sorted_list_of_set (set xs)"
    using assms by (intro sorted_distinct_set_unique) simp_all
  finally show ?thesis .
qed

lemma found_services:
  assumes "found = fold (found_step h) names fmempty"
  shows "set (map snd (range_map p found)) = running h names" and "distinct (map snd (range_map p found))"
proof -
  show "set (map snd (range_map p found)) = running h names"
    by (auto simp: assms found_lookup running_def image_iff)
  have "map (svc_Name \<circ> snd) (range_map p found) = map fst (range_map p found)"
    by (rule map_cong) (auto simp: assms found_lookup)
  then have "distinct (map svc_Name (map snd (range_map p found)))"
    by (simp only: map_map distinct_keys_range_map)
  then show "distinct (map snd (range_map p found))" by (simp only: distinct_map)
qed

text \<open>
  The scan of \<open>/proc\<close> counts the process directories and reports exactly the services
  that run, each once, by category and name: neither the order of the directories nor the
  order in which the map of found services is visited shows in the inventory.
\<close>

theorem scanProcs_reports_running:
  assumes "h_ReadDir h ''/proc'' = Some entries"
  shows "scanProcs p q h =
    (length (process_dirs entries), sorted_list_of_set (running h (process_dirs entries)))"
proof -
  let ?found = "fold (found_step h) (process_dirs entries) fmempty"
  have "sort_slice q service_before (map snd (range_map p ?found)) =
      sorted_list_of_set (running h (process_dirs entries))"
    unfolding service_before_less
    using sort_slice_distinct [OF found_services(2) [OF refl]] found_services(1) [OF refl] by metis
  with assms show ?thesis by (simp add: scanProcs_def Let_def)
qed

text \<open>A k3s server with a web server, its process title rewritten by k3s.\<close>

definition sample_files :: "(string \<times> bytes) list" where
  "sample_files =
     [(''/proc/1/comm'', ''nginx'' @ [newline_char]),
      (''/proc/42/comm'', ''exe'' @ [newline_char]),
      (''/proc/42/cmdline'', ''/usr/bin/k3s server''),
      (''/proc/1/stat'', ''1 (nginx) S 1 1 1 0 -1 4194304 100 0 0 0 20 10 0 0 20 0 4 0 50 1000 3 18446744073709551615''),
      (''/proc/42/stat'', ''42 (exe) S 1 1 1 0 -1 4194304 100 0 0 0 60 10 0 0 20 0 4 0 50 1000 7 18446744073709551615'')]"

definition sample_host :: host where
  "sample_host =
     \<lparr>h_ReadFile = map_of sample_files,
      h_ReadDir = map_of [(''/proc'', [(''1'', True), (''42'', True), (''cmdline'', False), (''sys'', True)])],
      h_Stat = (\<lambda>_. False)\<rparr>"

lemma sample_dirs:
  "h_ReadDir sample_host ''/proc'' = Some [(''1'', True), (''42'', True), (''cmdline'', False), (''sys'', True)]"
  "process_dirs [(''1'', True), (''42'', True), (''cmdline'', False), (''sys'', True)] = [''1'', ''42'']"
  by (simp_all add: sample_host_def process_dirs_def Atoi_def ParseInt_def is_digit_def)

lemma scanProcs_reports_running_witness:
  "scanProcs in_order backwards sample_host =
     (2, sorted_list_of_set (running sample_host [''1'', ''42'']))"
  using scanProcs_reports_running [OF sample_dirs(1), of in_order backwards] by (simp add: sample_dirs(2))

lemma scanProcs_services:
  assumes "h_ReadDir h ''/proc'' = Some entries"
  shows "set (snd (scanProcs p q h)) = running h (process_dirs entries)"
proof -
  have "set (snd (scanProcs p q h)) =
      set (map snd (range_map p (fold (found_step h) (process_dirs entries) fmempty)))"
    using assms by (simp add: scanProcs_def Let_def)
  with found_services(1) [OF refl] show ?thesis by metis
qed

text \<open>
  C31: A node that runs k3s is always reported as a Kubernetes node, also when k3s has
  re-executed itself and its command name is \<open>exe\<close>; a k3s server is reported as a server.
\<close>

theorem k3s_nodes_are_detected:
  assumes "h_ReadDir h ''/proc'' = Some entries" and "name \<in> set (process_dirs entries)"
    and "h_ReadFile h (''/proc/'' @ name @ ''/comm'') = Some raw"
    and "TrimSpace raw = ''k3s'' \<or> TrimSpace raw = ''exe''"
    and "k3sRole h (''/proc/'' @ name @ ''/cmdline'') = role" and "role \<noteq> []"
  shows "detectKubernetes (snd (scanProcs p q h)) \<in> {''k3s-server'', ''k3s-agent'', ''k3s''} \<and>
    (role = ''k3s-server'' \<longrightarrow> detectKubernetes (snd (scanProcs p q h)) = ''k3s-server'')"
proof -
  have "service_of h name = Some (Service role ''kubernetes'')"
    using assms(3-6) by (auto simp: service_of_def Let_def)
  then have "Service role ''kubernetes'' \<in> set (snd (scanProcs p q h))"
    using assms(2) scanProcs_services [OF assms(1)] by (auto simp: running_def)
  then have "list_ex (\<lambda>s. svc_Name s = role) (snd (scanProcs p q h))"
    by (force simp: list_ex_iff)
  moreover have "role \<in> {''k3s-server'', ''k3s-agent'', ''k3s''}"
    using assms(5,6) k3sRole_cases by blast
  ultimately show ?thesis
    by (auto simp: detectKubernetes_def Let_def)
qed

lemma k3s_nodes_are_detected_witness:
  "detectKubernetes (snd (scanProcs in_order backwards sample_host)) = ''k3s-server''"
proof -
  have "''42'' \<in> set (process_dirs [(''1'', True), (''42'', True), (''cmdline'', False), (''sys'', True)])"
    by (simp add: sample_dirs(2))
  moreover have "h_ReadFile sample_host (''/proc/'' @ ''42'' @ ''/comm'') = Some (''exe'' @ [newline_char])"
    by code_simp
  moreover have "TrimSpace (''exe'' @ [newline_char]) = ''exe''" by code_simp
  moreover have "k3sRole sample_host (''/proc/'' @ ''42'' @ ''/cmdline'') = ''k3s-server''" by code_simp
  ultimately show ?thesis
    using k3s_nodes_are_detected [OF sample_dirs(1), of "''42''"] by blast
qed

section \<open>The role in the command line\<close>

lemma fields_func_word:
  "\<forall>c \<in> set w. \<not> sep c \<Longrightarrow> fields_func_from sep cur (w @ s) = fields_func_from sep (cur @ w) s"
  by (induction w arbitrary: cur) auto

lemma fields_func_separators:
  "\<forall>c \<in> set s. sep c \<Longrightarrow> fields_func_from sep [] (s @ t) = fields_func_from sep [] t"
  by (induction s) auto

lemma FieldsFunc_words:
  assumes "length seps = length ws" and "\<forall>w \<in> set ws. w \<noteq> [] \<and> (\<forall>c \<in> set w. \<not> sep c)"
    and "\<forall>s \<in> set seps. s \<noteq> [] \<and> (\<forall>c \<in> set s. sep c)"
  shows "FieldsFunc (concat (map2 (@) ws seps)) sep = ws"
proof -
  have "fields_func_from sep [] (concat (map2 (@) ws seps)) = ws"
    using assms
  proof (induction seps ws rule: list_induct2)
    case Nil
    then show ?case by simp
  next
    case (Cons s ss w ws)
    then have "s = hd s # tl s" "sep (hd s)" "\<forall>c \<in> set (tl s). sep c"
      by (auto dest: list.set_sel(2))
    then have "fields_func_from sep w (s @ t) = (if w = [] then [] else [w]) @ fields_func_from sep [] t" for t
      using fields_func_separators [of "tl s" sep t] by (metis append_Cons fields_func_from.simps(2))
    with Cons show ?case by (simp add: fields_func_word)
  qed
  then show ?thesis by (simp add: FieldsFunc_def)
qed

text \<open>
  The role of a k3s process depends on its arguments only, however they are separated:
  NUL bytes as the kernel writes them, the blanks of a rewritten process title, or a mix.
\<close>

theorem k3s_role_of_arguments:
  assumes "length seps = length argv"
    and "\<forall>w \<in> set argv. w \<noteq> [] \<and> (\<forall>c \<in> set w. \<not> cmdline_separator c)"
    and "\<forall>s \<in> set seps. s \<noteq> [] \<and> (\<forall>c \<in> set s. cmdline_separator c)"
  shows "k3sRoleFromCmdline (concat (map2 (@) argv seps)) =
    (if argv = [] \<or> \<not> Contains (Base (hd argv)) ''k3s'' then []
     else case find (\<lambda>f. f = ''server'' \<or> f = ''agent'') (tl argv) of
            Some f \<Rightarrow> ''k3s-'' @ f
          | None \<Rightarrow> ''k3s'')"
proof -
  have "subcommand_role fs =
      (case find (\<lambda>f. f = ''server'' \<or> f = ''agent'') fs of Some f \<Rightarrow> ''k3s-'' @ f | None \<Rightarrow> ''k3s'')" for fs
    by (induction fs) auto
  then show ?thesis
    using FieldsFunc_words [OF assms] by (simp add: k3sRoleFromCmdline_def Let_def)
qed

lemma k3s_role_of_arguments_witness:
  "k3sRoleFromCmdline (concat (map2 (@) [''/usr/bin/k3s'', ''server'', ''--debug''] ['' '', [CHR 0x00], [CHR 0x00, CHR 0x00]]))
     = ''k3s-server''"
  by (subst k3s_role_of_arguments; code_simp)

end
