(* ===== verification/Metrics_Text.thy ===== *)
theory Metrics_Text
  imports Agent_Api
begin

text \<open>
  The Prometheus text the server exposes: \<open>handleMetrics\<close> (\<open>internal/server/metrics.go\<close>)
  and \<open>writeLiveMetrics\<close> (\<open>internal/server/live.go\<close>). \<open>%g\<close> is the argument \<open>fmtG\<close>; the
  conversion of an integer to a \<open>float64\<close> is exact here (Go rounds above \<open>2^53\<close>). \<open>%q\<close> is
  modelled for text whose bytes from 128 on encode printable characters, which it keeps.
\<close>

section \<open>Labels\<close>

definition esc :: "string \<Rightarrow> string" where
  "esc s = ReplaceAll (ReplaceAll (ReplaceAll s (CHR 0x5C) [CHR 0x5C, CHR 0x5C])
     (CHR 0x0A) [CHR 0x5C, CHR ''n'']) (CHR 0x22) [CHR 0x5C, CHR 0x22]"

definition lower_hex :: "nat \<Rightarrow> char" where
  "lower_hex n = ''0123456789abcdef'' ! n"

definition quote_char :: "char \<Rightarrow> string" where
  "quote_char c =
     (let n = of_char c :: nat
      in if c = CHR 0x5C \<or> c = CHR 0x22 then [CHR 0x5C, c]
         else if 32 \<le> n \<and> n \<noteq> 127 then [c]
         else CHR 0x5C #
           (if n = 7 then ''a'' else if n = 8 then ''b'' else if n = 12 then ''f'' else if n = 10 then ''n''
            else if n = 13 then ''r'' else if n = 9 then ''t'' else if n = 11 then ''v''
            else [CHR ''x'', lower_hex (n div 16), lower_hex (n mod 16)]))"

definition Quote :: "string \<Rightarrow> string" where
  "Quote s = [CHR 0x22] @ concat (map quote_char s) @ [CHR 0x22]"

text \<open>\<open>name=%q\<close> with and without \<open>esc\<close>, and \<open>name="%d"\<close>.\<close>

definition escaped :: "string \<Rightarrow> string \<Rightarrow> string" where
  "escaped name v = name @ ''='' @ Quote (esc v)"

definition quoted :: "string \<Rightarrow> string \<Rightarrow> string" where
  "quoted name v = name @ ''='' @ Quote v"

definition numbered :: "string \<Rightarrow> int \<Rightarrow> string" where
  "numbered name i = name @ ''='' @ [CHR 0x22] @ show_int i @ [CHR 0x22]"

section \<open>Series\<close>

definition series :: "string \<Rightarrow> string list \<Rightarrow> string \<Rightarrow> string" where
  "series name labels val = name @ ''{'' @ Join labels '','' @ ''} '' @ val @ [CHR 0x0A]"

definition metric_head :: "string \<Rightarrow> string \<Rightarrow> string" where
  "metric_head name help =
     ''# HELP '' @ name @ '' '' @ help @ [CHR 0x0A] @ ''# TYPE '' @ name @ '' gauge'' @ [CHR 0x0A]"

definition machine_labels :: "machine \<Rightarrow> string list" where
  "machine_labels m = [escaped ''machine_id'' (m_ID m), escaped ''name'' (m_Name m)]"

text \<open>A metric: its head and, machine by machine, the series \<open>f\<close> gives.\<close>

definition metric :: "string \<Rightarrow> string \<Rightarrow> (machine \<Rightarrow> (string list \<times> string) list) \<Rightarrow> machine list \<Rightarrow> string" where
  "metric name help f machines =
     metric_head name help @
     concat (map (\<lambda>m. concat (map (\<lambda>(labels, val). series name (machine_labels m @ labels) val) (f m))) machines)"

section \<open>Facts from heartbeats\<close>

type_synonym float_format = "float64 \<Rightarrow> string"

definition of_word :: "int64 \<Rightarrow> float64" where
  "of_word x = real_of_int (sint x)"

definition of_uword :: "uint64 \<Rightarrow> float64" where
  "of_uword x = real_of_int (uint x)"

definition info_series :: "machine \<Rightarrow> string" where
  "info_series m =
     (let iv = m_Inventory m
      in series ''fleet_machine_info''
           [escaped ''machine_id'' (m_ID m), escaped ''name'' (m_Name m), escaped ''tenant_id'' (m_TenantID m),
            escaped ''os'' (inv_OS iv), escaped ''os_version'' (inv_OSVersion iv), escaped ''arch'' (inv_Arch iv),
            escaped ''kernel'' (inv_Kernel iv), escaped ''agent_version'' (inv_AgentVersion iv)] ''1'')"

definition flag :: "bool \<Rightarrow> string" where
  "flag b = (if b then ''1'' else ''0'')"

definition gauges :: "float_format \<Rightarrow> machine list \<Rightarrow> string" where
  "gauges fmtG ms =
     (let gauge = (\<lambda>name help val. metric name help (\<lambda>m. [([], fmtG (val m))]) ms)
      in gauge ''fleet_machine_last_seen_timestamp_seconds'' ''Unix time of last heartbeat.'' (\<lambda>m. of_word (m_LastSeen m)) @
         gauge ''fleet_machine_uptime_seconds'' ''Host uptime at last heartbeat.'' (\<lambda>m. of_word (inv_UptimeSec (m_Inventory m))) @
         gauge ''fleet_machine_packages'' ''Installed package count (-1 unknown).'' (\<lambda>m. of_word (inv_Packages (m_Inventory m))) @
         gauge ''fleet_machine_processes'' ''Running process count at last heartbeat.'' (\<lambda>m. of_word (inv_Processes (m_Inventory m))) @
         gauge ''fleet_machine_gpus'' ''Detected GPU count.'' (\<lambda>m. real (length (inv_GPUs (m_Inventory m)))) @
         gauge ''fleet_machine_desired_revision'' ''Current desired-state revision.'' (\<lambda>m. of_word (ds_Revision (m_Desired m))))"

definition hardware_metrics :: "machine list \<Rightarrow> string" where
  "hardware_metrics ms =
     metric ''fleet_machine_gpu_info'' ''Detected GPUs (value is always 1).''
       (\<lambda>m. map (\<lambda>(i, g). ([numbered ''index'' (int i), escaped ''gpu'' g], ''1''))
          (enumerate 0 (inv_GPUs (m_Inventory m)))) ms @
     metric ''fleet_machine_service_info'' ''Detected server software with category (value is always 1).''
       (\<lambda>m. map (\<lambda>svc. ([escaped ''service'' (svc_Name svc), escaped ''category'' (svc_Category svc)], ''1''))
          (inv_Services (m_Inventory m))) ms @
     metric ''fleet_machine_interface_info'' ''Network interfaces with addresses (value is always 1).''
       (\<lambda>m. map (\<lambda>ifc. ([escaped ''interface'' (if_Name ifc), escaped ''mac'' (if_MAC ifc),
              escaped ''ipv4'' (Join (if_IPv4 ifc) '',''), quoted ''primary'' (flag (if_Primary ifc)),
              quoted ''virtual'' (flag (if_Virtual ifc)), quoted ''up'' (flag (if_Up ifc))], ''1''))
          (inv_Interfaces (m_Inventory m))) ms @
     metric ''fleet_machine_primary_ip_info'' ''The machine's default-route IPv4 address (value is always 1).''
       (\<lambda>m. if inv_PrimaryIP (m_Inventory m) \<noteq> [] then [([escaped ''ip'' (inv_PrimaryIP (m_Inventory m))], ''1'')] else []) ms @
     metric ''fleet_machine_kubernetes_info'' ''Kubernetes role (value is always 1); absent if not a K8s node.''
       (\<lambda>m. if inv_Kubernetes (m_Inventory m) \<noteq> [] then [([escaped ''role'' (inv_Kubernetes (m_Inventory m))], ''1'')] else []) ms"

definition update_metrics :: "machine list \<Rightarrow> string" where
  "update_metrics ms =
     (let upd = (\<lambda>f m. case inv_Updates (m_Inventory m) of None \<Rightarrow> [] | Some u \<Rightarrow> [f u])
      in metric ''fleet_machine_updates_pending'' ''Upgradable packages at last scan.''
           (upd (\<lambda>u. ([escaped ''manager'' (up_Manager u)], show_int (sint (up_Total u))))) ms @
         metric ''fleet_machine_updates_security'' ''Security updates pending at last scan.''
           (upd (\<lambda>u. ([], show_int (sint (up_Security u))))) ms @
         metric ''fleet_machine_reboot_required'' ''1 if the machine needs a reboot.''
           (upd (\<lambda>u. ([], flag (up_RebootReq u)))) ms)"

definition module_metrics :: "machine list \<Rightarrow> string" where
  "module_metrics ms =
     metric ''fleet_module_applied'' ''Module state per machine (1 applied, 0 failed).''
       (\<lambda>m. map (\<lambda>st. ([escaped ''module'' (st_Name st), escaped ''version'' (st_Version st)],
              flag (st_State st = ''applied''))) (m_Status m)) ms"

section \<open>Live samples\<close>

definition fresh_sample :: "int \<Rightarrow> metrics_sample gomap \<Rightarrow> machine \<Rightarrow> metrics_sample option" where
  "fresh_sample nowNs live m =
     (case fmlookup live (m_ID m) of
        None \<Rightarrow> None
      | Some sample \<Rightarrow> if fresh_at nowNs sample then Some sample else None)"

text \<open>A metric of the machines with a fresh sample.\<close>

definition live_metric ::
  "int \<Rightarrow> metrics_sample gomap \<Rightarrow> string \<Rightarrow> string \<Rightarrow> (metrics_sample \<Rightarrow> (string list \<times> string) list) \<Rightarrow>
   machine list \<Rightarrow> string" where
  "live_metric nowNs live name help f ms =
     metric name help (\<lambda>m. case fresh_sample nowNs live m of None \<Rightarrow> [] | Some sample \<Rightarrow> f sample) ms"

definition sample_gauges :: "float_format \<Rightarrow> int \<Rightarrow> metrics_sample gomap \<Rightarrow> machine list \<Rightarrow> string" where
  "sample_gauges fmtG nowNs live ms =
     (let g = (\<lambda>name help val. live_metric nowNs live name help (\<lambda>s. [([], fmtG (val s))]) ms)
      in g ''fleet_live_cpu_percent'' ''CPU busy percent over the last sample interval.'' mt_CPUPercent @
         g ''fleet_live_load1'' ''1-minute load average.'' mt_Load1 @
         g ''fleet_live_memory_used_bytes'' ''Memory in use (total - available).'' (\<lambda>s. of_uword (mt_MemUsed s)) @
         g ''fleet_live_memory_total_bytes'' ''Total memory.'' (\<lambda>s. of_uword (mt_MemTotal s)) @
         g ''fleet_live_disk_used_bytes'' ''Root filesystem used.'' (\<lambda>s. of_uword (mt_DiskUsed s)) @
         g ''fleet_live_disk_total_bytes'' ''Root filesystem size.'' (\<lambda>s. of_uword (mt_DiskTotal s)) @
         g ''fleet_live_net_rx_bytes_per_second'' ''Receive rate across non-loopback interfaces.'' mt_NetRxBps @
         g ''fleet_live_net_tx_bytes_per_second'' ''Transmit rate across non-loopback interfaces.'' mt_NetTxBps @
         g ''fleet_live_process_count'' ''Total running processes.'' (\<lambda>s. of_word (mt_ProcCount s)) @
         g ''fleet_live_process_rss_total_bytes'' ''Summed RSS across every process.'' (\<lambda>s. of_uword (mt_ProcTotalRSS s)))"

definition interface_gauges :: "float_format \<Rightarrow> int \<Rightarrow> metrics_sample gomap \<Rightarrow> machine list \<Rightarrow> string" where
  "interface_gauges fmtG nowNs live ms =
     (let g = (\<lambda>name help val. live_metric nowNs live name help
            (\<lambda>s. map (\<lambda>n. ([escaped ''interface'' (ns_Name n)], fmtG (val n))) (mt_Interfaces s)) ms)
      in g ''fleet_live_interface_rx_bytes_per_second'' ''Per-interface receive rate.'' ns_RxBps @
         g ''fleet_live_interface_tx_bytes_per_second'' ''Per-interface transmit rate.'' ns_TxBps)"

definition pod_gauges :: "float_format \<Rightarrow> int \<Rightarrow> metrics_sample gomap \<Rightarrow> machine list \<Rightarrow> string" where
  "pod_gauges fmtG nowNs live ms =
     (let g = (\<lambda>name help val. live_metric nowNs live name help
            (\<lambda>s. map (\<lambda>p. ([escaped ''namespace'' (pod_Namespace p), escaped ''pod'' (pod_Name p),
               escaped ''uid'' (pod_UID p), escaped ''source'' (pod_Source p)], fmtG (val p))) (mt_Pods s)) ms);
          c = (\<lambda>name help val. live_metric nowNs live name help
            (\<lambda>s. concat (map (\<lambda>p. map (\<lambda>cs. ([escaped ''namespace'' (pod_Namespace p), escaped ''pod'' (pod_Name p),
               escaped ''container'' (cs_Name cs)], fmtG (val cs))) (pod_Containers p)) (mt_Pods s))) ms)
      in g ''fleet_live_pod_cpu_percent'' ''Pod CPU usage as percent of one core.'' pod_CPUPercent @
         g ''fleet_live_pod_memory_bytes'' ''Pod working-set memory.'' (\<lambda>p. of_uword (pod_MemBytes p)) @
         c ''fleet_live_container_cpu_percent'' ''Container CPU usage as percent of one core.'' cs_CPUPercent @
         c ''fleet_live_container_memory_bytes'' ''Container working-set memory.'' (\<lambda>cs. of_uword (cs_MemBytes cs)))"

definition process_gauges :: "float_format \<Rightarrow> int \<Rightarrow> metrics_sample gomap \<Rightarrow> machine list \<Rightarrow> string" where
  "process_gauges fmtG nowNs live ms =
     (let g = (\<lambda>name help val. live_metric nowNs live name help
            (\<lambda>s. map (\<lambda>p. ([numbered ''pid'' (sint (ps_PID p)), escaped ''comm'' (ps_Comm p)], val p)) (mt_TopProcesses s)) ms)
      in g ''fleet_live_process_cpu_percent'' ''Top process CPU% (labeled by pid/comm).'' (\<lambda>p. fmtG (ps_CPUPercent p)) @
         g ''fleet_live_process_memory_bytes'' ''Top process RSS bytes.'' (\<lambda>p. show_int (uint (ps_MemBytes p))))"

definition gpu_gauges :: "float_format \<Rightarrow> int \<Rightarrow> metrics_sample gomap \<Rightarrow> machine list \<Rightarrow> string" where
  "gpu_gauges fmtG nowNs live ms =
     (let g = (\<lambda>name help val. live_metric nowNs live name help
            (\<lambda>s. map (\<lambda>x. ([numbered ''index'' (sint (gpu_Index x)), escaped ''gpu'' (gpu_Name x)], fmtG (val x))) (mt_GPUs s)) ms)
      in g ''fleet_live_gpu_utilization_percent'' ''GPU utilization percent.'' gpu_UtilPercent @
         g ''fleet_live_gpu_memory_used_bytes'' ''GPU memory used.'' (\<lambda>x. of_uword (gpu_MemUsed x)) @
         g ''fleet_live_gpu_memory_total_bytes'' ''GPU memory total.'' (\<lambda>x. of_uword (gpu_MemTotal x)) @
         g ''fleet_live_gpu_temp_celsius'' ''GPU temperature.'' gpu_TempC @
         g ''fleet_live_gpu_power_watts'' ''GPU power draw.'' gpu_PowerW)"

definition writeLiveMetrics :: "float_format \<Rightarrow> int \<Rightarrow> metrics_sample gomap \<Rightarrow> machine list \<Rightarrow> string" where
  "writeLiveMetrics fmtG nowNs live ms =
     sample_gauges fmtG nowNs live ms @ interface_gauges fmtG nowNs live ms @ pod_gauges fmtG nowNs live ms @
     process_gauges fmtG nowNs live ms @ gpu_gauges fmtG nowNs live ms"

definition handleMetrics ::
  "'s store_ops \<Rightarrow> float_format \<Rightarrow> int \<Rightarrow> ('s, 'b) world \<Rightarrow> unit response \<times> ('s, 'b) world" where
  "handleMetrics S fmtG nowNs w =
     (case on_store (ListMachines S []) w of
        (Inl _, w1) \<Rightarrow> (HttpError StatusInternalServerError ''store error'', w1)
      | (Inr ms, w1) \<Rightarrow>
          (Plain (metric_head ''fleet_machine_info'' ''Static machine facts (value is always 1).'' @
             concat (map info_series ms) @ gauges fmtG ms @ hardware_metrics ms @ update_metrics ms @
             module_metrics ms @ writeLiveMetrics fmtG nowNs (w_live w1) ms), w1))"

section \<open>Dead machines\<close>

lemma live_metric_fresh:
  "live_metric nowNs live name help f (filter (\<lambda>m. fresh_sample nowNs live m \<noteq> None) ms) =
     live_metric nowNs live name help f ms"
  unfolding live_metric_def metric_def by (induction ms) auto

text \<open>
  A machine whose last sample is older than thirty seconds drops out of the scrape: the
  live part of the text is the same as if the machine were not in the fleet.
\<close>

theorem stale_machines_drop_out:
  "writeLiveMetrics fmtG nowNs live (filter (\<lambda>m. fresh_sample nowNs live m \<noteq> None) ms) =
     writeLiveMetrics fmtG nowNs live ms"
  by (simp only: writeLiveMetrics_def sample_gauges_def interface_gauges_def pod_gauges_def process_gauges_def
      gpu_gauges_def live_metric_fresh Let_def)

section \<open>Reading a label back\<close>

text \<open>
  The text format knows three escapes in a label value: backslash, double quote, newline.
\<close>

fun unescape :: "string \<Rightarrow> string option" where
  "unescape [] = Some []"
| "unescape (c # s) =
     (if c = CHR 0x22 then None
      else if c \<noteq> CHR 0x5C then map_option (Cons c) (unescape s)
      else (case s of
              [] \<Rightarrow> None
            | d # r \<Rightarrow>
                if d = CHR 0x5C \<or> d = CHR 0x22 then map_option (Cons d) (unescape r)
                else if d = CHR ''n'' then map_option (Cons (CHR 0x0A)) (unescape r) else None))"

definition read_label :: "string \<Rightarrow> string option" where
  "read_label q = (if length q < 2 then None else unescape (butlast (tl q)))"

definition plain_text :: "string \<Rightarrow> bool" where
  "plain_text s \<longleftrightarrow> list_all (\<lambda>c. 32 \<le> (of_char c :: nat) \<and> of_char c \<noteq> (127 :: nat) \<or> c = CHR 0x0A) s"

lemma unescape_quote_char:
  assumes "32 \<le> (of_char c :: nat) \<and> of_char c \<noteq> (127 :: nat) \<or> c = CHR 0x0A"
  shows "unescape (quote_char c @ s) = map_option (Cons c) (unescape s)"
  using assms by (auto simp: quote_char_def Let_def)

lemma unescape_quoted:
  "plain_text s \<Longrightarrow> unescape (concat (map quote_char s)) = Some s"
  by (induction s) (simp_all add: plain_text_def unescape_quote_char)

lemma plain_text_esc: "plain_text s \<Longrightarrow> plain_text (esc s)"
  by (induction s) (auto simp: plain_text_def esc_def ReplaceAll_def)

lemma read_label_Quote: "plain_text s \<Longrightarrow> read_label (Quote s) = Some s"
  by (simp add: read_label_def Quote_def butlast_append unescape_quoted)

lemma esc_id: "esc s = s \<longleftrightarrow> CHR 0x5C \<notin> set s \<and> CHR 0x0A \<notin> set s \<and> CHR 0x22 \<notin> set s"
proof -
  have len: "length s \<le> length (esc s)" for s
    by (induction s) (auto simp: esc_def ReplaceAll_def)
  have cons: "esc (c # s) = (if c = CHR 0x5C then [c, c] else if c = CHR 0x0A then [CHR 0x5C, CHR ''n'']
      else if c = CHR 0x22 then [CHR 0x5C, c] else [c]) @ esc s" for c s
    by (simp add: esc_def ReplaceAll_def)
  show ?thesis
  proof (induction s)
    case Nil
    then show ?case by (simp add: esc_def ReplaceAll_def)
  next
    case (Cons c s)
    have "esc (c # s) \<noteq> c # s" if "c = CHR 0x5C \<or> c = CHR 0x0A \<or> c = CHR 0x22"
      using len [of s] that by (auto simp: cons dest: arg_cong [of _ _ length])
    with Cons show ?case by (auto simp: cons)
  qed
qed

text \<open>
  A label value is escaped twice, by \<open>esc\<close> and again by \<open>%q\<close>: what a scraper reads back is
  \<open>esc\<close> of the value, so the name of a machine comes through unchanged only if it has no
  backslash, double quote or newline.
\<close>

theorem label_read_back:
  assumes "plain_text s"
  shows "read_label (Quote (esc s)) = Some (esc s) \<and>
    (read_label (Quote (esc s)) = Some s \<longleftrightarrow> CHR 0x5C \<notin> set s \<and> CHR 0x0A \<notin> set s \<and> CHR 0x22 \<notin> set s)"
  using read_label_Quote [OF plain_text_esc [OF assms]] esc_id [of s] by simp

lemma label_read_back_witness:
  "read_label (Quote (esc [CHR ''a'', CHR 0x22])) = Some [CHR ''a'', CHR 0x5C, CHR 0x22]"
  using label_read_back [of "[CHR ''a'', CHR 0x22]"] by (simp add: plain_text_def esc_def ReplaceAll_def)

end
