(* ===== verification/Server_Setup.thy ===== *)
theory Server_Setup
  imports Agent_Api
begin

text \<open>
  What the server does besides its two APIs: the installer (\<open>internal/server/install.go\<close>),
  which serves the agent's binaries and a script that checks their digests, and the parts
  of \<open>cmd/fleet-server/main.go\<close> that compute something. \<open>digest\<close> is the hexadecimal SHA-256.
\<close>

section \<open>The installer\<close>

text \<open>Digests are computed once per file and kept.\<close>

record installer =
  in_BinDir :: string
  in_CAFingerprint :: string
  in_Sums :: "string gomap"

definition installerBinaries :: "string list" where
  "installerBinaries = [''fleet-agent-linux-amd64'', ''fleet-agent-linux-arm64'']"

text \<open>\<open>files\<close> is the binary directory: the names in it and their contents.\<close>

definition installer_sum ::
  "(bytes \<Rightarrow> string) \<Rightarrow> bytes gomap \<Rightarrow> string \<Rightarrow> installer \<Rightarrow> string option \<times> installer" where
  "installer_sum digest files name inst =
     (case fmlookup (in_Sums inst) name of
        Some s \<Rightarrow> (Some s, inst)
      | None \<Rightarrow>
          (case fmlookup files name of
             None \<Rightarrow> (None, inst)
           | Some raw \<Rightarrow> (Some (digest raw), inst\<lparr>in_Sums := fmupd name (digest raw) (in_Sums inst)\<rparr>)))"

definition handleDownload :: "bytes gomap \<Rightarrow> installer option \<Rightarrow> string \<Rightarrow> unit response" where
  "handleDownload files inst name =
     (case inst of
        None \<Rightarrow> HttpError StatusNotFound ''binary distribution not configured (start fleet-server with --binaries)''
      | Some i \<Rightarrow>
          if in_BinDir i = []
          then HttpError StatusNotFound ''binary distribution not configured (start fleet-server with --binaries)''
          else if name \<notin> set installerBinaries then HttpError StatusNotFound ''unknown artifact''
          else (case fmlookup files name of
                  None \<Rightarrow> HttpError StatusNotFound ''404 page not found''
                | Some raw \<Rightarrow> Plain raw))"

section \<open>The script\<close>

definition installScript :: string where
  "installScript = concat (map (\<lambda>l. l @ [CHR 0x0A])
     [''#!/bin/sh'',
      ''# fleetcore agent installer '' @ [CHR 0xE2, CHR 0x80, CHR 0x94] @ '' generated by the control plane.'',
      ''# Usage: curl -sk https://%HOST%/install.sh | FLEET_TOKEN=<token> sh'',
      ''# Optional env: FLEET_NAME (machine name), FLEET_METRICS (e.g. 1s),'',
      ''#               FLEET_NO_SYSTEMD=1 (skip unit setup)'',
      ''set -eu'',
      [],
      ''SERVER=\"https://%HOST%\"'',
      ''FP=\"%FP%\"'',
      ''%SUMS%'',
      '': \"${FLEET_TOKEN:?FLEET_TOKEN is required}\"'',
      [],
      ''case \"$(uname -m)\" in'',
      ''  x86_64|amd64) ARCH=amd64; SUM=${SUM_amd64:-} ;;'',
      ''  aarch64|arm64) ARCH=arm64; SUM=${SUM_arm64:-} ;;'',
      ''  *) echo \"unsupported architecture: $(uname -m)\" >&2; exit 1 ;;'',
      ''esac'',
      ''[ -n \"$SUM\" ] || { echo \"no binary published for $ARCH\" >&2; exit 1; }'',
      [],
      ''TMP=$(mktemp)'',
      ''echo \"downloading fleet-agent ($ARCH)...\"'',
      ''curl -skf \"$SERVER/download/fleet-agent-linux-$ARCH\" -o \"$TMP\"'',
      ''echo \"$SUM  $TMP\" | sha256sum -c - >/dev/null'',
      ''install -m 0755 \"$TMP\" /usr/local/bin/fleet-agent'',
      ''rm -f \"$TMP\"'',
      [],
      ''if [ ! -f /var/lib/fleet-agent/cert.pem ]; then'',
      ''  /usr/local/bin/fleet-agent enroll --server \"$SERVER\" --token \"$FLEET_TOKEN\" '' @ [CHR 0x5C],
      ''    --fingerprint \"$FP\" --name \"${FLEET_NAME:-$(hostname)}\"'',
      ''else'',
      ''  echo \"already enrolled; keeping existing identity\"'',
      ''fi'',
      [],
      ''if [ -z \"${FLEET_NO_SYSTEMD:-}\" ] && command -v systemctl >/dev/null 2>&1 && [ -d /run/systemd/system ]; then'',
      ''  cat > /etc/systemd/system/fleet-agent.service <<UNIT'',
      ''[Unit]'',
      ''Description=fleetcore agent'',
      ''After=network-online.target'',
      ''Wants=network-online.target'',
      [],
      ''[Service]'',
      ''Type=simple'',
      ''ExecStart=/usr/local/bin/fleet-agent run --server $SERVER --metrics-interval ${FLEET_METRICS:-10s}'',
      ''Restart=always'',
      ''RestartSec=5'',
      ''ProtectHome=read-only'',
      ''StateDirectory=fleet-agent'',
      ''MemoryMax=128M'',
      [],
      ''[Install]'',
      ''WantedBy=multi-user.target'',
      ''UNIT'',
      ''  systemctl daemon-reload'',
      ''  systemctl enable --now fleet-agent'',
      ''  echo \"fleet-agent installed, enrolled, and running\"'',
      ''else'',
      ''  echo \"systemd not detected; start manually with:\"'',
      ''  echo \"  /usr/local/bin/fleet-agent run --server $SERVER --metrics-interval ${FLEET_METRICS:-10s}\"'',
      ''fi''])"

text \<open>
  \<open>strings.NewReplacer(...).Replace\<close>: one pass, the first pattern in the order given wins
  at each position, and what was put in is not looked at again.
\<close>

function replace_from :: "(string \<times> string) list \<Rightarrow> string \<Rightarrow> string" where
  "replace_from pairs [] = []"
| "replace_from pairs (c # s) =
     (case find (\<lambda>(old, new). old \<noteq> [] \<and> HasPrefix (c # s) old) pairs of
        None \<Rightarrow> c # replace_from pairs s
      | Some (old, new) \<Rightarrow> new @ replace_from pairs (drop (max 1 (length old)) (c # s)))"
  by pat_completeness auto
termination by (relation "measure (\<lambda>(pairs, s). length s)") auto

fun sum_lines :: "(bytes \<Rightarrow> string) \<Rightarrow> bytes gomap \<Rightarrow> string list \<Rightarrow> installer \<Rightarrow> string \<times> installer" where
  "sum_lines digest files [] inst = ([], inst)"
| "sum_lines digest files (b # bs) inst =
     (case installer_sum digest files b inst of
        (None, i1) \<Rightarrow> sum_lines digest files bs i1
      | (Some s, i1) \<Rightarrow>
          (case sum_lines digest files bs i1 of
             (rest, i2) \<Rightarrow>
               (''SUM_'' @ TrimPrefix b ''fleet-agent-linux-'' @ ''='' @ s @ [CHR 0x0A] @ rest, i2)))"

definition handleInstallScript ::
  "(bytes \<Rightarrow> string) \<Rightarrow> bytes gomap \<Rightarrow> string \<Rightarrow> installer option \<Rightarrow> unit response \<times> installer option" where
  "handleInstallScript digest files hostname inst =
     (case inst of
        None \<Rightarrow> (HttpError StatusNotFound ''installer not configured (start fleet-server with --binaries)'', None)
      | Some i \<Rightarrow>
          if in_BinDir i = []
          then (HttpError StatusNotFound ''installer not configured (start fleet-server with --binaries)'', Some i)
          else
            (case sum_lines digest files installerBinaries i of
               (checks, i1) \<Rightarrow>
                 (Plain (replace_from
                    [(''%HOST%'', hostname), (''%FP%'', in_CAFingerprint i), (''%SUMS%'', checks)] installScript),
                  Some i1)))"

section \<open>Start of the server\<close>

definition splitCSV :: "string \<Rightarrow> string list" where
  "splitCSV s = filter (\<lambda>p. p \<noteq> []) (map TrimSpace (Split s (CHR '','')))"

section \<open>Digests\<close>

text \<open>The digests kept are those of the files.\<close>

definition sums_current :: "(bytes \<Rightarrow> string) \<Rightarrow> bytes gomap \<Rightarrow> installer \<Rightarrow> bool" where
  "sums_current digest files inst \<longleftrightarrow>
     (\<forall>name s. fmlookup (in_Sums inst) name = Some s \<longrightarrow>
        (\<exists>raw. fmlookup files name = Some raw \<and> s = digest raw))"

lemma installer_sum_current:
  assumes "sums_current digest files inst"
  shows "fst (installer_sum digest files name inst) = map_option digest (fmlookup files name)"
    "sums_current digest files (snd (installer_sum digest files name inst))"
proof -
  show "fst (installer_sum digest files name inst) = map_option digest (fmlookup files name)"
  proof (cases "fmlookup (in_Sums inst) name")
    case None
    then show ?thesis by (simp add: installer_sum_def split: option.split)
  next
    case (Some s)
    with assms obtain raw where "fmlookup files name = Some raw" "s = digest raw" by (auto simp: sums_current_def)
    with Some show ?thesis by (simp add: installer_sum_def)
  qed
  show "sums_current digest files (snd (installer_sum digest files name inst))"
    using assms by (auto simp: installer_sum_def sums_current_def split: option.split)
qed

lemma sum_lines_current:
  "sums_current digest files inst \<Longrightarrow> sums_current digest files (snd (sum_lines digest files bs inst))"
proof (induction bs arbitrary: inst)
  case Nil
  then show ?case by simp
next
  case (Cons b bs)
  from Cons.IH [OF installer_sum_current(2) [OF Cons.prems, of b]] show ?case
    by (cases "installer_sum digest files b inst") (auto split: option.split prod.split)
qed

text \<open>
  While the binaries stay what they were, the digest in the script is that of the binary
  the download serves. A binary that is replaced under a running server keeps its old
  digest, and every installation fails at the check until the server is restarted.
\<close>

lemma script_digest:
  assumes "sums_current digest files inst" and "name \<in> set installerBinaries" and "in_BinDir inst \<noteq> []"
  shows "handleDownload files (Some inst) name =
      (case fst (installer_sum digest files name inst) of
         None \<Rightarrow> HttpError StatusNotFound ''404 page not found''
       | Some s \<Rightarrow> Plain (the (fmlookup files name))) \<and>
    (\<forall>s. fst (installer_sum digest files name inst) = Some s \<longrightarrow> s = digest (the (fmlookup files name)))"
  using assms installer_sum_current(1) [OF assms(1), of name]
  by (auto simp: handleDownload_def split: option.split)

lemma replaced_binary_keeps_digest:
  assumes "fmlookup (in_Sums inst) name = Some (digest old)"
  shows "installer_sum digest (fmupd name new files) name inst = (Some (digest old), inst)"
  using assms by (simp add: installer_sum_def)

lemma download_stays_inside:
  "handleDownload files inst name = Plain raw \<Longrightarrow> name \<in> set installerBinaries \<and> fmlookup files name = Some raw"
  by (auto simp: handleDownload_def split: option.splits if_splits)

end
