(* ===== verification/Hrana_Wire.thy ===== *)
theory Hrana_Wire
  imports Api_Types
begin

text \<open>
  The values of the Hrana protocol as \<open>internal/store/turso.go\<close> writes and reads them:
  integers as decimal texts and blobs as base64. Go's \<open>StdEncoding\<close> pads a blob; the
  database answers without padding, and \<open>blob\<close> reads both.
\<close>

section \<open>Base64\<close>

definition b64_alphabet :: string where
  "b64_alphabet = ''ABCDEFGHIJKLMNOPQRSTUVWXYZabcdefghijklmnopqrstuvwxyz0123456789+/''"

definition b64_char :: "nat \<Rightarrow> char" where
  "b64_char n = b64_alphabet ! n"

fun position :: "char \<Rightarrow> string \<Rightarrow> nat option" where
  "position c [] = None"
| "position c (x # xs) = (if x = c then Some 0 else map_option Suc (position c xs))"

definition b64_value :: "char \<Rightarrow> nat option" where
  "b64_value c = position c b64_alphabet"

text \<open>Three bytes are four groups of six bits; a last single byte two, a pair three.\<close>

fun sextets :: "nat list \<Rightarrow> nat list" where
  "sextets [] = []"
| "sextets [a] = [a div 4, a mod 4 * 16]"
| "sextets [a, b] = [a div 4, a mod 4 * 16 + b div 16, b mod 16 * 4]"
| "sextets (a # b # c # rest) =
     [a div 4, a mod 4 * 16 + b div 16, b mod 16 * 4 + c div 64, c mod 64] @ sextets rest"

fun unsextets :: "nat list \<Rightarrow> nat list option" where
  "unsextets [] = Some []"
| "unsextets [p] = None"
| "unsextets [p, q] = Some [p * 4 + q div 16]"
| "unsextets [p, q, r] = Some [p * 4 + q div 16, q mod 16 * 16 + r div 4]"
| "unsextets (p # q # r # s # rest) =
     map_option (\<lambda>bs. [p * 4 + q div 16, q mod 16 * 16 + r div 4, r mod 4 * 64 + s] @ bs) (unsextets rest)"

definition raw_encode :: "bytes \<Rightarrow> string" where
  "raw_encode bs = map b64_char (sextets (map of_char bs))"

definition raw_decode :: "string \<Rightarrow> bytes option" where
  "raw_decode s =
     (let vals = map b64_value (filter (\<lambda>c. c \<noteq> CHR 0x0A \<and> c \<noteq> CHR 0x0D) s)
      in if None \<in> set vals then None else map_option (map char_of) (unsextets (map the vals)))"

definition std_encode :: "bytes \<Rightarrow> string" where
  "std_encode bs = raw_encode bs @ replicate ((3 - length bs mod 3) mod 3) (CHR ''='')"

section \<open>Values\<close>

record hrana_value =
  hv_Type :: string
  hv_Value :: string
  hv_Base64 :: string

text \<open>\<open>arg\<close>, one definition per case of its type switch that the store uses.\<close>

definition arg_text :: "string \<Rightarrow> hrana_value" where
  "arg_text s = \<lparr>hv_Type = ''text'', hv_Value = s, hv_Base64 = []\<rparr>"

definition arg_int :: "int64 \<Rightarrow> hrana_value" where
  "arg_int x = \<lparr>hv_Type = ''integer'', hv_Value = FormatInt x, hv_Base64 = []\<rparr>"

definition arg_bool :: "bool \<Rightarrow> hrana_value" where
  "arg_bool x = \<lparr>hv_Type = ''integer'', hv_Value = (if x then ''1'' else ''0''), hv_Base64 = []\<rparr>"

definition arg_blob :: "bytes \<Rightarrow> hrana_value" where
  "arg_blob x = \<lparr>hv_Type = ''blob'', hv_Value = [], hv_Base64 = std_encode x\<rparr>"

text \<open>The JSON members of a value: an empty text is left out (\<open>omitempty\<close>).\<close>

definition json_members :: "hrana_value \<Rightarrow> (string \<times> string) list" where
  "json_members v =
     [(''type'', hv_Type v)] @
     (if hv_Value v = [] then [] else [(''value'', hv_Value v)]) @
     (if hv_Base64 v = [] then [] else [(''base64'', hv_Base64 v)])"

definition i64 :: "hrana_value \<Rightarrow> int64" where
  "i64 v = fst (ParseInt (hv_Value v))"

definition trim_right :: "string \<Rightarrow> char \<Rightarrow> string" where
  "trim_right s c = rev (dropWhile (\<lambda>x. x = c) (rev s))"

definition blob :: "hrana_value \<Rightarrow> bytes" where
  "blob v = (case raw_decode (trim_right (hv_Base64 v) (CHR ''='')) of None \<Rightarrow> [] | Some b \<Rightarrow> b)"

section \<open>What is written is read back\<close>

lemma b64_value_char: "n < 64 \<Longrightarrow> b64_value (b64_char n) = Some n"
proof -
  have "list_all (\<lambda>n. b64_value (b64_char n) = Some n) [0..<64]" by code_simp
  then show "n < 64 \<Longrightarrow> b64_value (b64_char n) = Some n" by (simp add: list_all_iff)
qed

lemma b64_char_plain:
  assumes "n < 64"
  shows "b64_char n \<noteq> CHR ''=''" "b64_char n \<noteq> CHR 0x0A" "b64_char n \<noteq> CHR 0x0D"
proof -
  have "list_all (\<lambda>n. b64_char n \<noteq> CHR ''='' \<and> b64_char n \<noteq> CHR 0x0A \<and> b64_char n \<noteq> CHR 0x0D) [0..<64]"
    by code_simp
  with assms show "b64_char n \<noteq> CHR ''=''" "b64_char n \<noteq> CHR 0x0A" "b64_char n \<noteq> CHR 0x0D"
    by (auto simp: list_all_iff)
qed

lemma sextets_small: "\<forall>b \<in> set bs. b < 256 \<Longrightarrow> \<forall>n \<in> set (sextets bs). n < 64"
  by (induction bs rule: sextets.induct) (auto intro: order_less_le_trans [of _ "16 * 4"])

lemma unsextets_sextets: "\<forall>b \<in> set bs. b < 256 \<Longrightarrow> unsextets (sextets bs) = Some bs"
  by (induction bs rule: sextets.induct) (auto simp: algebra_simps)

lemma char_bytes: "\<forall>b \<in> set (map of_char bs). (b :: nat) < 256"
  by auto

lemma raw_decode_encode: "raw_decode (raw_encode bs) = Some bs"
proof -
  have small: "\<forall>n \<in> set (sextets (map of_char bs)). n < 64"
    by (rule sextets_small [OF char_bytes])
  then have "filter (\<lambda>c. c \<noteq> CHR 0x0A \<and> c \<noteq> CHR 0x0D) (raw_encode bs) = raw_encode bs"
    using b64_char_plain by (auto simp: raw_encode_def)
  moreover have "map b64_value (raw_encode bs) = map Some (sextets (map of_char bs))"
    using small b64_value_char by (auto simp: raw_encode_def)
  ultimately show ?thesis
    using unsextets_sextets [OF char_bytes [of bs]]
    by (auto simp: raw_decode_def Let_def comp_def)
qed

lemma trim_padding: "trim_right (raw_encode bs @ replicate k (CHR ''='')) (CHR ''='') = raw_encode bs"
proof -
  have plain: "CHR ''='' \<notin> set (raw_encode bs)"
    using sextets_small [OF char_bytes [of bs]] b64_char_plain(1)
    unfolding raw_encode_def by (metis imageE list.set_map)
  have "dropWhile (\<lambda>x. x = CHR ''='') (replicate k (CHR ''='') @ rev (raw_encode bs)) = rev (raw_encode bs)"
    using plain by (cases "rev (raw_encode bs)") (auto simp: dropWhile_append3 dest: arg_cong [of _ _ set])
  then show ?thesis by (simp add: trim_right_def)
qed

lemma i64_arg_int [simp]: "i64 (arg_int x) = x"
  by (simp add: i64_def arg_int_def ParseInt_FormatInt)

lemma i64_arg_bool [simp, code_unfold]: "i64 (arg_bool x) = (if x then 1 else 0)"
  by (simp add: i64_def arg_bool_def ParseInt_def is_digit_def)

lemma blob_raw [simp]: "blob \<lparr>hv_Type = ''blob'', hv_Value = [], hv_Base64 = raw_encode b\<rparr> = b"
  using trim_padding [of b 0] by (simp add: blob_def raw_decode_encode)

lemma blob_arg_blob [simp]: "blob (arg_blob b) = b"
  by (simp add: blob_def arg_blob_def std_encode_def trim_padding raw_decode_encode)

text \<open>
  A blob survives the wire in both directions, whether the other side pads base64 or
  not: the payload of a module and its signature come back byte for byte.
\<close>

theorem blob_reads_padded_and_raw:
  "blob (arg_blob b) = b \<and> blob \<lparr>hv_Type = ''blob'', hv_Value = [], hv_Base64 = raw_encode b\<rparr> = b"
  by simp

text \<open>An empty text is sent without its value: the database cannot tell what was meant.\<close>

theorem empty_text_loses_value: "json_members (arg_text []) = [(''type'', ''text'')]"
  by (simp add: json_members_def arg_text_def)

end
