(* ===== verification/Turso_Store.thy ===== *)
theory Turso_Store
  imports Store_Interface Hrana_Wire
begin

text \<open>
  The database store of \<open>internal/store/turso.go\<close>: each operation is one or two SQL
  statements sent over HTTP, and each statement is atomic in the database, so concurrent
  callers are an interleaving of statements. The state is the tables and what the
  environment decides: how each request ends and in which order rows come out where the
  query leaves it open. A JSON column holds the value its text encodes, or a text that
  does not decode.
\<close>

section \<open>Tables\<close>

datatype 'a json_column = Encodes 'a | Malformed

record token_row =
  tr_Token :: string
  tr_TenantID :: string
  tr_Labels :: "string gomap json_column"
  tr_Created :: int64
  tr_ExpiresAt :: int
  tr_MaxUses :: int
  tr_Uses :: int
  tr_Used :: bool

record machine_row =
  mr_ID :: string
  mr_TenantID :: string
  mr_Name :: string
  mr_Labels :: "string gomap json_column"
  mr_Override :: "module_spec list json_column"
  mr_Enrolled :: int64
  mr_LastSeen :: int64
  mr_Inventory :: "inventory json_column"
  mr_Desired :: "desired_state json_column"
  mr_Status :: "module_status list json_column"

record group_table_row =
  gt_ID :: string
  gt_TenantID :: string
  gt_Name :: string
  gt_MatchAll :: int
  gt_Selector :: "string gomap json_column"
  gt_Modules :: "module_spec list json_column"
  gt_Created :: int64

record module_row =
  md_Name :: string
  md_Version :: string
  md_Exec :: string
  md_Payload :: bytes
  md_Signature :: bytes

text \<open>The primary keys of the schema are the keys of the finite maps.\<close>

record tables =
  tb_Tenants :: "tenant gomap"
  tb_Tokens :: "token_row gomap"
  tb_Machines :: "machine_row gomap"
  tb_Groups :: "group_table_row gomap"
  tb_Members :: "(string \<times> string) fset"
  tb_Modules :: "(string \<times> string, module_row) fmap"

section \<open>Running a statement\<close>

text \<open>
  A request runs, never arrives, or runs with its reply lost; the client gives an error in
  the last two cases. A statement the database rejects changes nothing.
\<close>

datatype request_outcome = Executed | NotSent | NoReply

record turso =
  ts_db :: tables
  ts_outcome :: "nat \<Rightarrow> request_outcome"
  ts_order :: "nat \<Rightarrow> shuffle"
  ts_calls :: nat
  ts_pads :: bool

definition sql_exec :: "(tables \<Rightarrow> 'r option \<times> tables) \<Rightarrow> (turso, 'r) action" where
  "sql_exec stmt ts =
     (let n = ts_calls ts;
          ts1 = ts\<lparr>ts_calls := Suc n\<rparr>
      in case ts_outcome ts n of
           NotSent \<Rightarrow> (Inl ErrIO, ts1)
         | NoReply \<Rightarrow> (Inl ErrIO, ts1\<lparr>ts_db := snd (stmt (ts_db ts))\<rparr>)
         | Executed \<Rightarrow>
             (case stmt (ts_db ts) of
                (None, d) \<Rightarrow> (Inl ErrIO, ts1)
              | (Some r, d) \<Rightarrow> (Inr r, ts1\<lparr>ts_db := d\<rparr>)))"

text \<open>Statements that always succeed, and the rows of a query.\<close>

definition sql_update :: "(tables \<Rightarrow> tables) \<Rightarrow> (turso, unit) action" where
  "sql_update upd = sql_exec (\<lambda>d. (Some (), upd d))"

definition sql_query :: "(tables \<Rightarrow> 'r) \<Rightarrow> (turso, 'r) action" where
  "sql_query sel = sql_exec (\<lambda>d. (Some (sel d), d))"

definition next_order :: "turso \<Rightarrow> shuffle" where
  "next_order ts = ts_order ts (ts_calls ts)"

text \<open>Two statements in a row; the second is not sent when the first gave an error.\<close>

definition then_exec :: "(turso, unit) action \<Rightarrow> (turso, unit) action \<Rightarrow> (turso, unit) action" where
  "then_exec a b ts = (case a ts of (Inl e, ts1) \<Rightarrow> (Inl e, ts1) | (Inr _, ts1) \<Rightarrow> b ts1)"

definition on_result :: "('a \<Rightarrow> store_error + 'b) \<Rightarrow> (turso, 'a) action \<Rightarrow> (turso, 'b) action" where
  "on_result f act ts = (case act ts of (Inl e, ts1) \<Rightarrow> (Inl e, ts1) | (Inr r, ts1) \<Rightarrow> (f r, ts1))"

definition one_row :: "('a \<Rightarrow> store_error + 'b) \<Rightarrow> 'a option \<Rightarrow> store_error + 'b" where
  "one_row scan rows = (case rows of None \<Rightarrow> Inl ErrNotFound | Some row \<Rightarrow> scan row)"

fun scan_rows :: "('a \<Rightarrow> store_error + 'b) \<Rightarrow> 'a list \<Rightarrow> store_error + 'b list" where
  "scan_rows scan [] = Inr []"
| "scan_rows scan (row # rows) =
     (case scan row of
        Inl e \<Rightarrow> Inl e
      | Inr x \<Rightarrow> (case scan_rows scan rows of Inl e \<Rightarrow> Inl e | Inr xs \<Rightarrow> Inr (x # xs)))"

definition affected :: "nat \<Rightarrow> store_error + unit" where
  "affected n = (if n = 0 then Inl ErrNotFound else Inr ())"

section \<open>Tenants and tokens\<close>

definition ts_SaveTenant :: "tenant \<Rightarrow> (turso, unit) action" where
  "ts_SaveTenant t =
     sql_update (\<lambda>d. d\<lparr>tb_Tenants :=
       (case fmlookup (tb_Tenants d) (t_ID t) of
          None \<Rightarrow> fmupd (t_ID t) t (tb_Tenants d)
        | Some old \<Rightarrow> fmupd (t_ID t) (old\<lparr>t_Name := t_Name t\<rparr>) (tb_Tenants d))\<rparr>)"

definition ts_GetTenant :: "string \<Rightarrow> (turso, tenant) action" where
  "ts_GetTenant k = on_result (one_row Inr) (sql_query (\<lambda>d. fmlookup (tb_Tenants d) k))"

definition ts_ListTenants :: "(turso, tenant list) action" where
  "ts_ListTenants ts =
     sql_query (\<lambda>d. sort_slice (next_order ts) (\<lambda>a b. t_Created a <s t_Created b)
       (map snd (sorted_list_of_fmap (tb_Tenants d)))) ts"

definition ts_SaveToken :: "enroll_token \<Rightarrow> (turso, unit) action" where
  "ts_SaveToken t =
     (let mu = (if tok_MaxUses t = 0 then 1 else tok_MaxUses t)
      in sql_exec (\<lambda>d.
        (case fmlookup (tb_Tokens d) (tok_Token t) of
           Some _ \<Rightarrow> (None, d)
         | None \<Rightarrow>
             (Some (), d\<lparr>tb_Tokens := fmupd (tok_Token t)
                \<lparr>tr_Token = tok_Token t, tr_TenantID = tok_TenantID t, tr_Labels = Encodes (tok_Labels t),
                 tr_Created = tok_Created t, tr_ExpiresAt = sint (tok_ExpiresAt t), tr_MaxUses = sint mu,
                 tr_Uses = sint (tok_Uses t), tr_Used = tok_Used t\<rparr> (tb_Tokens d)\<rparr>))))"

text \<open>The condition and the assignment of the \<open>UPDATE ... RETURNING\<close>.\<close>

definition token_row_open :: "int64 \<Rightarrow> token_row \<Rightarrow> bool" where
  "token_row_open now row \<longleftrightarrow>
     (tr_ExpiresAt row = 0 \<or> sint now < tr_ExpiresAt row) \<and>
     (tr_MaxUses row < 0 \<or> tr_Uses row < tr_MaxUses row)"

definition use_token_row :: "token_row \<Rightarrow> token_row" where
  "use_token_row row =
     row\<lparr>tr_Uses := tr_Uses row + 1,
         tr_Used := (0 < tr_MaxUses row \<and> tr_MaxUses row \<le> tr_Uses row + 1)\<rparr>"

definition ts_ConsumeToken :: "int64 \<Rightarrow> string \<Rightarrow> (turso, enroll_token) action" where
  "ts_ConsumeToken now token =
     on_result (\<lambda>rows. case rows of
          None \<Rightarrow> Inl ErrTokenUsed
        | Some row \<Rightarrow>
            Inr \<lparr>tok_Token = tr_Token row, tok_TenantID = tr_TenantID row,
                 tok_Labels = (case tr_Labels row of Encodes l \<Rightarrow> l | Malformed \<Rightarrow> fmempty),
                 tok_Created = tr_Created row, tok_ExpiresAt = 0, tok_MaxUses = 0, tok_Uses = 0,
                 tok_Used = True\<rparr>)
       (sql_exec (\<lambda>d.
          case fmlookup (tb_Tokens d) token of
            None \<Rightarrow> (Some None, d)
          | Some row \<Rightarrow>
              if token_row_open now row
              then (Some (Some row), d\<lparr>tb_Tokens := fmupd token (use_token_row row) (tb_Tokens d)\<rparr>)
              else (Some None, d)))"

text \<open>The last statement of \<open>migrate\<close>, for tokens spent before uses were counted.\<close>

definition migrate_tokens :: "(turso, unit) action" where
  "migrate_tokens =
     sql_update (\<lambda>d. d\<lparr>tb_Tokens :=
       fmmap (\<lambda>row. if tr_Used row \<and> tr_Uses row = 0 then row\<lparr>tr_Uses := 1\<rparr> else row) (tb_Tokens d)\<rparr>)"

section \<open>Machines\<close>

definition machine_row_of :: "machine \<Rightarrow> machine_row" where
  "machine_row_of m =
     \<lparr>mr_ID = m_ID m, mr_TenantID = m_TenantID m, mr_Name = m_Name m, mr_Labels = Encodes (m_Labels m),
      mr_Override = Encodes (m_Override m), mr_Enrolled = m_Enrolled m, mr_LastSeen = m_LastSeen m,
      mr_Inventory = Encodes (m_Inventory m), mr_Desired = Encodes (m_Desired m),
      mr_Status = Encodes (m_Status m)\<rparr>"

text \<open>On conflict the tenant and the time of enrollment stay.\<close>

definition upsert_machine :: "machine_row \<Rightarrow> machine_row option \<Rightarrow> machine_row" where
  "upsert_machine new old =
     (case old of
        None \<Rightarrow> new
      | Some prev \<Rightarrow> new\<lparr>mr_TenantID := mr_TenantID prev, mr_Enrolled := mr_Enrolled prev\<rparr>)"

definition ts_SaveMachine :: "machine \<Rightarrow> (turso, unit) action" where
  "ts_SaveMachine m =
     sql_update (\<lambda>d. d\<lparr>tb_Machines :=
       fmupd (m_ID m) (upsert_machine (machine_row_of m) (fmlookup (tb_Machines d) (m_ID m)))
         (tb_Machines d)\<rparr>)"

definition scanMachine :: "machine_row \<Rightarrow> store_error + machine" where
  "scanMachine row =
     (case (mr_Labels row, mr_Override row, mr_Inventory row, mr_Desired row, mr_Status row) of
        (Encodes labels, Encodes ovr, Encodes invt, Encodes des, Encodes st) \<Rightarrow>
          Inr \<lparr>m_ID = mr_ID row, m_TenantID = mr_TenantID row, m_Name = mr_Name row, m_Labels = labels,
               m_Enrolled = mr_Enrolled row, m_LastSeen = mr_LastSeen row, m_Inventory = invt,
               m_Override = ovr, m_Desired = des, m_Status = st\<rparr>
      | _ \<Rightarrow> Inl ErrIO)"

definition ts_GetMachine :: "string \<Rightarrow> (turso, machine) action" where
  "ts_GetMachine k = on_result (one_row scanMachine) (sql_query (\<lambda>d. fmlookup (tb_Machines d) k))"

definition ts_ListMachines :: "string \<Rightarrow> (turso, machine list) action" where
  "ts_ListMachines tenantID ts =
     on_result (scan_rows scanMachine)
       (sql_query (\<lambda>d. sort_slice (next_order ts) (\<lambda>a b. mr_Enrolled a <s mr_Enrolled b)
          (filter (\<lambda>row. tenantID = [] \<or> mr_TenantID row = tenantID)
            (map snd (sorted_list_of_fmap (tb_Machines d)))))) ts"

definition ts_DeleteMachine :: "string \<Rightarrow> (turso, unit) action" where
  "ts_DeleteMachine k =
     then_exec
       (sql_update (\<lambda>d. d\<lparr>tb_Members := ffilter (\<lambda>(g, m). m \<noteq> k) (tb_Members d)\<rparr>))
       (sql_update (\<lambda>d. d\<lparr>tb_Machines := fmdrop k (tb_Machines d)\<rparr>))"

text \<open>An \<open>UPDATE ... WHERE id=?\<close> affects one row or none.\<close>

definition update_machine :: "string \<Rightarrow> (machine_row \<Rightarrow> machine_row) \<Rightarrow> (turso, unit) action" where
  "update_machine k f =
     on_result affected (sql_exec (\<lambda>d.
       case fmlookup (tb_Machines d) k of
         None \<Rightarrow> (Some 0, d)
       | Some row \<Rightarrow> (Some 1, d\<lparr>tb_Machines := fmupd k (f row) (tb_Machines d)\<rparr>)))"

definition ts_TouchHeartbeat :: "string \<Rightarrow> int64 \<Rightarrow> inventory \<Rightarrow> (turso, unit) action" where
  "ts_TouchHeartbeat k lastSeen iv =
     update_machine k (\<lambda>row. row\<lparr>mr_LastSeen := lastSeen, mr_Inventory := Encodes iv\<rparr>)"

definition ts_SetStatus :: "string \<Rightarrow> int64 \<Rightarrow> module_status list \<Rightarrow> (turso, unit) action" where
  "ts_SetStatus k lastSeen status =
     update_machine k (\<lambda>row. row\<lparr>mr_LastSeen := lastSeen, mr_Status := Encodes status\<rparr>)"

section \<open>Modules\<close>

text \<open>
  The bytes travel as base64 both ways: \<open>arg_blob\<close> out, and back with or without padding.
\<close>

definition ts_SaveModule :: "module_artifact \<Rightarrow> (turso, unit) action" where
  "ts_SaveModule a =
     sql_update (\<lambda>d. d\<lparr>tb_Modules := fmupd (art_Name a, art_Version a)
       \<lparr>md_Name = art_Name a, md_Version = art_Version a, md_Exec = art_Exec a,
        md_Payload = blob (arg_blob (art_Payload a)), md_Signature = blob (arg_blob (art_Signature a))\<rparr>
       (tb_Modules d)\<rparr>)"

definition sent_blob :: "bool \<Rightarrow> bytes \<Rightarrow> hrana_value" where
  "sent_blob pads b =
     (if pads then arg_blob b else \<lparr>hv_Type = ''blob'', hv_Value = [], hv_Base64 = raw_encode b\<rparr>)"

definition ts_GetModule :: "string \<Rightarrow> string \<Rightarrow> (turso, module_artifact) action" where
  "ts_GetModule name version ts =
     on_result (one_row (\<lambda>row. Inr
         \<lparr>art_Name = md_Name row, art_Version = md_Version row, art_Exec = md_Exec row,
          art_Payload = blob (sent_blob (ts_pads ts) (md_Payload row)),
          art_Signature = blob (sent_blob (ts_pads ts) (md_Signature row))\<rparr>))
       (sql_query (\<lambda>d. fmlookup (tb_Modules d) (name, version))) ts"

definition ts_DeleteModule :: "string \<Rightarrow> string \<Rightarrow> (turso, unit) action" where
  "ts_DeleteModule name version =
     sql_update (\<lambda>d. d\<lparr>tb_Modules := fmdrop (name, version) (tb_Modules d)\<rparr>)"

definition ts_ListModules :: "(turso, module_artifact list) action" where
  "ts_ListModules =
     sql_query (\<lambda>d. map (\<lambda>row. \<lparr>art_Name = md_Name row, art_Version = md_Version row,
         art_Exec = md_Exec row, art_Payload = [], art_Signature = []\<rparr>)
       (map snd (sorted_list_of_fmap (tb_Modules d))))"

section \<open>Groups\<close>

definition group_row_of :: "group \<Rightarrow> group_table_row" where
  "group_row_of g =
     \<lparr>gt_ID = g_ID g, gt_TenantID = g_TenantID g, gt_Name = g_Name g,
      gt_MatchAll = sint (i64 (arg_bool (g_MatchAll g))), gt_Selector = Encodes (g_Selector g),
      gt_Modules = Encodes (g_Modules g), gt_Created = g_Created g\<rparr>"

definition upsert_group :: "group_table_row \<Rightarrow> group_table_row option \<Rightarrow> group_table_row" where
  "upsert_group new old =
     (case old of
        None \<Rightarrow> new
      | Some prev \<Rightarrow> new\<lparr>gt_TenantID := gt_TenantID prev, gt_Created := gt_Created prev\<rparr>)"

definition ts_SaveGroup :: "group \<Rightarrow> (turso, unit) action" where
  "ts_SaveGroup g =
     sql_update (\<lambda>d. d\<lparr>tb_Groups :=
       fmupd (g_ID g) (upsert_group (group_row_of g) (fmlookup (tb_Groups d) (g_ID g))) (tb_Groups d)\<rparr>)"

definition scanGroup :: "group_table_row \<Rightarrow> store_error + group" where
  "scanGroup row =
     (case (gt_Selector row, gt_Modules row) of
        (Encodes sel, Encodes mods) \<Rightarrow>
          Inr \<lparr>g_ID = gt_ID row, g_TenantID = gt_TenantID row, g_Name = gt_Name row,
               g_MatchAll = (gt_MatchAll row = 1), g_Selector = sel, g_Modules = mods,
               g_Created = gt_Created row\<rparr>
      | _ \<Rightarrow> Inl ErrIO)"

definition ts_GetGroup :: "string \<Rightarrow> (turso, group) action" where
  "ts_GetGroup k = on_result (one_row scanGroup) (sql_query (\<lambda>d. fmlookup (tb_Groups d) k))"

definition ts_ListGroups :: "string \<Rightarrow> (turso, group list) action" where
  "ts_ListGroups tenantID ts =
     on_result (scan_rows scanGroup)
       (sql_query (\<lambda>d. sort_slice (next_order ts) (\<lambda>a b. gt_Name a < gt_Name b)
          (filter (\<lambda>row. tenantID = [] \<or> gt_TenantID row = tenantID)
            (map snd (sorted_list_of_fmap (tb_Groups d)))))) ts"

definition ts_DeleteGroup :: "string \<Rightarrow> (turso, unit) action" where
  "ts_DeleteGroup k =
     then_exec
       (sql_update (\<lambda>d. d\<lparr>tb_Members := ffilter (\<lambda>(g, m). g \<noteq> k) (tb_Members d)\<rparr>))
       (sql_update (\<lambda>d. d\<lparr>tb_Groups := fmdrop k (tb_Groups d)\<rparr>))"

definition ts_AddGroupMember :: "string \<Rightarrow> string \<Rightarrow> (turso, unit) action" where
  "ts_AddGroupMember gid mid = sql_update (\<lambda>d. d\<lparr>tb_Members := finsert (gid, mid) (tb_Members d)\<rparr>)"

definition ts_RemoveGroupMember :: "string \<Rightarrow> string \<Rightarrow> (turso, unit) action" where
  "ts_RemoveGroupMember gid mid =
     sql_update (\<lambda>d. d\<lparr>tb_Members := tb_Members d |-| {|(gid, mid)|}\<rparr>)"

definition ts_ListGroupMembers :: "string \<Rightarrow> (turso, string list) action" where
  "ts_ListGroupMembers gid ts =
     sql_query (\<lambda>d. arrange (next_order ts)
       (map snd (filter (\<lambda>(g, m). g = gid) (sorted_list_of_fset (tb_Members d))))) ts"

definition turso_ops :: "turso store_ops" where
  "turso_ops =
     \<lparr>SaveTenant = ts_SaveTenant, GetTenant = ts_GetTenant, ListTenants = ts_ListTenants,
      SaveToken = ts_SaveToken, ConsumeToken = ts_ConsumeToken,
      SaveMachine = ts_SaveMachine, GetMachine = ts_GetMachine,
      ListMachines = ts_ListMachines, DeleteMachine = ts_DeleteMachine,
      TouchHeartbeat = ts_TouchHeartbeat, SetStatus = ts_SetStatus,
      SaveModule = ts_SaveModule, GetModule = ts_GetModule, ListModules = ts_ListModules,
      DeleteModule = ts_DeleteModule,
      SaveGroup = ts_SaveGroup, GetGroup = ts_GetGroup, ListGroups = ts_ListGroups,
      DeleteGroup = ts_DeleteGroup, AddGroupMember = ts_AddGroupMember,
      RemoveGroupMember = ts_RemoveGroupMember, ListGroupMembers = ts_ListGroupMembers\<rparr>"

end
