(* ===== verification/Turso_Correct.thy ===== *)
theory Turso_Correct
  imports Turso_Store Control_Plane
begin

text \<open>
  The database store keeps the contract of the \<open>Store\<close> interface while its requests get
  through: the rows of the tables are an implementation of the fleet, and every statement
  does to the tables what the contract says of the fleet. The handlers, which are written
  against the contract, thereby run on both stores.
\<close>

section \<open>The fleet in the tables\<close>

definition json_value :: "'a \<Rightarrow> 'a json_column \<Rightarrow> 'a" where
  "json_value zero col = (case col of Encodes x \<Rightarrow> x | Malformed \<Rightarrow> zero)"

definition machine_of_row :: "machine_row \<Rightarrow> machine" where
  "machine_of_row row =
     \<lparr>m_ID = mr_ID row, m_TenantID = mr_TenantID row, m_Name = mr_Name row,
      m_Labels = json_value fmempty (mr_Labels row), m_Enrolled = mr_Enrolled row,
      m_LastSeen = mr_LastSeen row, m_Inventory = json_value zero_inventory (mr_Inventory row),
      m_Override = json_value [] (mr_Override row), m_Desired = json_value zero_desired (mr_Desired row),
      m_Status = json_value [] (mr_Status row)\<rparr>"

definition group_of_row :: "group_table_row \<Rightarrow> group" where
  "group_of_row row =
     \<lparr>g_ID = gt_ID row, g_TenantID = gt_TenantID row, g_Name = gt_Name row,
      g_MatchAll = (gt_MatchAll row = 1), g_Selector = json_value fmempty (gt_Selector row),
      g_Modules = json_value [] (gt_Modules row), g_Created = gt_Created row\<rparr>"

definition readable_machine :: "machine_row \<Rightarrow> bool" where
  "readable_machine row \<longleftrightarrow> scanMachine row = Inr (machine_of_row row)"

definition readable_group :: "group_table_row \<Rightarrow> bool" where
  "readable_group row \<longleftrightarrow> scanGroup row = Inr (group_of_row row)"

definition turso_view :: "turso \<Rightarrow> fleet" where
  "turso_view ts =
     \<lparr>fl_tenants = tb_Tenants (ts_db ts), fl_machines = fmmap machine_of_row (tb_Machines (ts_db ts)),
      fl_groups = fmmap group_of_row (tb_Groups (ts_db ts)), fl_members = fset (tb_Members (ts_db ts))\<rparr>"

definition executes :: "turso \<Rightarrow> bool" where
  "executes ts \<longleftrightarrow> (\<forall>n. ts_outcome ts n = Executed)"

definition readable :: "turso \<Rightarrow> bool" where
  "readable ts \<longleftrightarrow>
     fmpred (\<lambda>_. readable_machine) (tb_Machines (ts_db ts)) \<and> fmpred (\<lambda>_. readable_group) (tb_Groups (ts_db ts))"

definition turso_healthy :: "turso \<Rightarrow> bool" where
  "turso_healthy ts \<longleftrightarrow> executes ts \<and> readable ts \<and> keyed (turso_view ts)"

lemma turso_view_simps [simp]:
  "fl_tenants (turso_view ts) = tb_Tenants (ts_db ts)"
  "fl_machines (turso_view ts) = fmmap machine_of_row (tb_Machines (ts_db ts))"
  "fl_groups (turso_view ts) = fmmap group_of_row (tb_Groups (ts_db ts))"
  "fl_members (turso_view ts) = fset (tb_Members (ts_db ts))"
  by (simp_all add: turso_view_def)

lemma turso_view_calls [simp]: "turso_view (ts\<lparr>ts_calls := n\<rparr>) = turso_view ts"
  by (simp add: turso_view_def)

lemma executes_simps [simp]:
  "executes (ts\<lparr>ts_calls := n\<rparr>) = executes ts" "executes (ts\<lparr>ts_db := d\<rparr>) = executes ts"
  by (simp_all add: executes_def)

lemma readable_calls [simp]: "readable (ts\<lparr>ts_calls := n\<rparr>) = readable ts"
  by (simp add: readable_def)

lemma turso_healthy_calls [simp]: "turso_healthy (ts\<lparr>ts_calls := n\<rparr>) = turso_healthy ts"
  by (simp add: turso_healthy_def)

lemma healthy_executes [simp]: "turso_healthy ts \<Longrightarrow> executes ts"
  by (simp add: turso_healthy_def)

lemma row_fields [simp]:
  "m_ID (machine_of_row row) = mr_ID row" "m_TenantID (machine_of_row row) = mr_TenantID row"
  "g_ID (group_of_row r) = gt_ID r" "g_TenantID (group_of_row r) = gt_TenantID r"
  by (simp_all add: machine_of_row_def group_of_row_def)

section \<open>Statements that get through\<close>

lemma sql_exec_executes:
  "executes ts \<Longrightarrow> stmt (ts_db ts) = (Some r, d) \<Longrightarrow>
     sql_exec stmt ts = (Inr r, ts\<lparr>ts_calls := Suc (ts_calls ts), ts_db := d\<rparr>)"
  by (simp add: sql_exec_def executes_def Let_def)

lemma sql_update_executes:
  "executes ts \<Longrightarrow>
     sql_update upd ts = (Inr (), ts\<lparr>ts_calls := Suc (ts_calls ts), ts_db := upd (ts_db ts)\<rparr>)"
  by (simp add: sql_update_def sql_exec_executes)

lemma sql_query_executes:
  "executes ts \<Longrightarrow> sql_query sel ts = (Inr (sel (ts_db ts)), ts\<lparr>ts_calls := Suc (ts_calls ts)\<rparr>)"
  by (simp add: sql_query_def sql_exec_executes)

lemma on_result_executes:
  "act ts = (Inr r, ts1) \<Longrightarrow> on_result f act ts = (f r, ts1)"
  by (simp add: on_result_def)

lemma then_exec_updates:
  "executes ts \<Longrightarrow>
     then_exec (sql_update f) (sql_update g) ts =
       (Inr (), ts\<lparr>ts_calls := Suc (Suc (ts_calls ts)), ts_db := g (f (ts_db ts))\<rparr>)"
  by (simp add: then_exec_def sql_update_executes)

lemmas statement_simps =
  sql_update_executes sql_query_executes on_result_executes then_exec_updates

section \<open>Writing\<close>

lemma scan_machine_row [simp]: "machine_of_row (machine_row_of m) = m"
  by (cases m) (simp add: machine_of_row_def machine_row_of_def json_value_def)

lemma scan_group_row [simp]: "group_of_row (group_row_of g) = g"
  by (cases g) (simp add: group_of_row_def group_row_of_def json_value_def i64_def arg_bool_def
      ParseInt_def is_digit_def)

lemma readable_rows [simp]:
  "readable_machine (upsert_machine (machine_row_of m) prev)"
  "readable_group (upsert_group (group_row_of g) prev_group)"
  by (auto simp: readable_machine_def scanMachine_def upsert_machine_def machine_row_of_def machine_of_row_def
      json_value_def readable_group_def scanGroup_def upsert_group_def group_row_of_def group_of_row_def
      split: option.split)

lemma upsert_machine_same:
  assumes "same_place (turso_view ts) m"
  shows "machine_of_row (upsert_machine (machine_row_of m) (fmlookup (tb_Machines (ts_db ts)) (m_ID m))) = m"
proof (cases "fmlookup (tb_Machines (ts_db ts)) (m_ID m)")
  case None
  then show ?thesis by (simp add: upsert_machine_def)
next
  case (Some row)
  with assms have "mr_TenantID row = m_TenantID m" "mr_Enrolled row = m_Enrolled m"
    by (auto simp: same_place_def machine_of_row_def)
  with Some show ?thesis
    by (cases m) (simp add: upsert_machine_def machine_of_row_def machine_row_of_def json_value_def)
qed

lemma upsert_group_same:
  assumes "same_group_place (turso_view ts) g"
  shows "group_of_row (upsert_group (group_row_of g) (fmlookup (tb_Groups (ts_db ts)) (g_ID g))) = g"
proof (cases "fmlookup (tb_Groups (ts_db ts)) (g_ID g)")
  case None
  then show ?thesis by (simp add: upsert_group_def)
next
  case (Some row)
  with assms have "gt_TenantID row = g_TenantID g" "gt_Created row = g_Created g"
    by (auto simp: same_group_place_def group_of_row_def)
  with Some scan_group_row [of g] show ?thesis
    by (cases g) (simp add: upsert_group_def group_of_row_def group_row_of_def)
qed

text \<open>A statement keeps the store healthy when it gives the view a keyed update.\<close>

lemma healthy_after_update:
  assumes "turso_healthy ts" and "turso_view (ts\<lparr>ts_db := d\<rparr>) = fl" and "keyed fl"
    and "readable (ts\<lparr>ts_db := d\<rparr>)"
  shows "turso_healthy (ts\<lparr>ts_calls := n, ts_db := d\<rparr>)" and "turso_view (ts\<lparr>ts_calls := n, ts_db := d\<rparr>) = fl"
proof -
  have same: "turso_view (ts\<lparr>ts_calls := n, ts_db := d\<rparr>) = turso_view (ts\<lparr>ts_db := d\<rparr>)"
    "readable (ts\<lparr>ts_calls := n, ts_db := d\<rparr>) = readable (ts\<lparr>ts_db := d\<rparr>)"
    by (simp_all add: turso_view_def readable_def)
  with assms show "turso_healthy (ts\<lparr>ts_calls := n, ts_db := d\<rparr>)"
    and "turso_view (ts\<lparr>ts_calls := n, ts_db := d\<rparr>) = fl"
    by (simp_all add: turso_healthy_def)
qed

lemma update_step:
  assumes "turso_healthy ts" and "turso_view (ts\<lparr>ts_db := upd (ts_db ts)\<rparr>) = fl" and "keyed fl"
    and "readable (ts\<lparr>ts_db := upd (ts_db ts)\<rparr>)"
  shows "fst (sql_update upd ts) = Inr () \<and> turso_healthy (snd (sql_update upd ts)) \<and>
    turso_view (snd (sql_update upd ts)) = fl"
  using assms healthy_after_update [OF assms] by (simp add: sql_update_executes)

lemma query_step:
  assumes "turso_healthy ts"
  shows "fst (on_result f (sql_query sel) ts) = f (sel (ts_db ts))"
    and "turso_healthy (snd (on_result f (sql_query sel) ts))"
    and "turso_view (snd (on_result f (sql_query sel) ts)) = turso_view ts"
  using assms by (simp_all add: statement_simps)

lemma healthyD:
  assumes "turso_healthy ts"
  shows "keyed (turso_view ts)" "readable ts"
    "fmlookup (tb_Machines (ts_db ts)) k = Some row \<Longrightarrow> readable_machine row \<and> mr_ID row = k"
    "fmlookup (tb_Groups (ts_db ts)) k = Some grow \<Longrightarrow> readable_group grow \<and> gt_ID grow = k"
proof -
  show k: "keyed (turso_view ts)" and r: "readable ts" using assms by (simp_all add: turso_healthy_def)
  show "fmlookup (tb_Machines (ts_db ts)) k = Some row \<Longrightarrow> readable_machine row \<and> mr_ID row = k"
    using r keyed_machine [OF k, of k "machine_of_row row"] by (auto simp: readable_def)
  show "fmlookup (tb_Groups (ts_db ts)) k = Some grow \<Longrightarrow> readable_group grow \<and> gt_ID grow = k"
    using r keyed_group [OF k, of k "group_of_row grow"] by (auto simp: readable_def)
qed

section \<open>Listing\<close>

lemma scan_rows_all:
  "\<forall>row \<in> set rows. scan row = Inr (f row) \<Longrightarrow> scan_rows scan rows = Inr (map f rows)"
  by (induction rows) auto

lemma table_rows: "set (map snd (sorted_list_of_fmap t)) = {row. \<exists>k. fmlookup t k = Some row}"
  by force

lemma distinct_table_rows:
  assumes "\<And>k row. fmlookup t k = Some row \<Longrightarrow> key row = k"
  shows "distinct (map key (filter P (map snd (sorted_list_of_fmap t))))"
  using distinct_range_values [of key t in_order] assms
  by (intro distinct_map_filter) (simp add: range_map_def fmpred_iff del: map_map)

lemma distinct_map_sort_slice:
  "distinct (map f (sort_slice p lt xs)) = distinct (map f xs)"
  by (metis mset_eq_imp_distinct_iff mset_map_sort_slice)

lemma ts_ListMachines_law:
  assumes "turso_healthy ts"
  shows "(\<exists>ms. fst (ts_ListMachines t ts) = Inr ms \<and> distinct (map m_ID ms) \<and> set ms = machines_of (turso_view ts) t) \<and>
    turso_healthy (snd (ts_ListMachines t ts)) \<and> turso_view (snd (ts_ListMachines t ts)) = turso_view ts"
proof -
  let ?rows = "sort_slice (next_order ts) (\<lambda>a b. mr_Enrolled a <s mr_Enrolled b)
      (filter (\<lambda>row. t = [] \<or> mr_TenantID row = t) (map snd (sorted_list_of_fmap (tb_Machines (ts_db ts)))))"
  have "\<forall>row \<in> set ?rows. scanMachine row = Inr (machine_of_row row)"
    using healthyD(3) [OF assms] by (auto simp: readable_machine_def)
  then have run: "ts_ListMachines t ts = (Inr (map machine_of_row ?rows), ts\<lparr>ts_calls := Suc (ts_calls ts)\<rparr>)"
    using assms by (simp add: ts_ListMachines_def statement_simps scan_rows_all)
  have "distinct (map mr_ID ?rows)"
    unfolding distinct_map_sort_slice using healthyD(3) [OF assms] by (intro distinct_table_rows) blast
  then have "distinct (map m_ID (map machine_of_row ?rows))" by (simp add: comp_def)
  moreover have "set (map machine_of_row ?rows) = machines_of (turso_view ts) t"
  proof (rule set_eqI)
    fix x
    have "x \<in> set (map machine_of_row ?rows) \<longleftrightarrow>
        (\<exists>k row. fmlookup (tb_Machines (ts_db ts)) k = Some row \<and> in_tenant t (mr_TenantID row) \<and> x = machine_of_row row)"
      by (auto simp: in_tenant_def image_iff)
    also have "\<dots> \<longleftrightarrow> x \<in> machines_of (turso_view ts) t"
      unfolding machines_of_iff [OF healthyD(1) [OF assms]] by auto blast
    finally show "x \<in> set (map machine_of_row ?rows) \<longleftrightarrow> x \<in> machines_of (turso_view ts) t" .
  qed
  ultimately show ?thesis using run assms by simp
qed

lemma ts_ListGroups_law:
  assumes "turso_healthy ts"
  shows "(\<exists>gs. fst (ts_ListGroups t ts) = Inr gs \<and> distinct (map g_ID gs) \<and> set gs = groups_of (turso_view ts) t) \<and>
    turso_healthy (snd (ts_ListGroups t ts)) \<and> turso_view (snd (ts_ListGroups t ts)) = turso_view ts"
proof -
  let ?rows = "sort_slice (next_order ts) (\<lambda>a b. gt_Name a < gt_Name b)
      (filter (\<lambda>row. t = [] \<or> gt_TenantID row = t) (map snd (sorted_list_of_fmap (tb_Groups (ts_db ts)))))"
  have "\<forall>row \<in> set ?rows. scanGroup row = Inr (group_of_row row)"
    using healthyD(4) [OF assms] by (auto simp: readable_group_def)
  then have run: "ts_ListGroups t ts = (Inr (map group_of_row ?rows), ts\<lparr>ts_calls := Suc (ts_calls ts)\<rparr>)"
    using assms by (simp add: ts_ListGroups_def statement_simps scan_rows_all)
  have "distinct (map gt_ID ?rows)"
    unfolding distinct_map_sort_slice using healthyD(4) [OF assms] by (intro distinct_table_rows) blast
  then have "distinct (map g_ID (map group_of_row ?rows))" by (simp add: comp_def)
  moreover have "set (map group_of_row ?rows) = groups_of (turso_view ts) t"
  proof (rule set_eqI)
    fix x
    have "x \<in> set (map group_of_row ?rows) \<longleftrightarrow>
        (\<exists>k row. fmlookup (tb_Groups (ts_db ts)) k = Some row \<and> in_tenant t (gt_TenantID row) \<and> x = group_of_row row)"
      by (auto simp: in_tenant_def image_iff)
    also have "\<dots> \<longleftrightarrow> x \<in> groups_of (turso_view ts) t"
      unfolding groups_of_iff [OF healthyD(1) [OF assms]] by auto blast
    finally show "x \<in> set (map group_of_row ?rows) \<longleftrightarrow> x \<in> groups_of (turso_view ts) t" .
  qed
  ultimately show ?thesis using run assms by simp
qed

section \<open>The contract\<close>

lemma ts_view_updates:
  "turso_view (ts\<lparr>ts_db := d\<rparr>) =
     \<lparr>fl_tenants = tb_Tenants d, fl_machines = fmmap machine_of_row (tb_Machines d),
      fl_groups = fmmap group_of_row (tb_Groups d), fl_members = fset (tb_Members d)\<rparr>"
  by (simp add: turso_view_def)

lemma readable_update:
  "readable (ts\<lparr>ts_db := d\<rparr>) \<longleftrightarrow>
     fmpred (\<lambda>_. readable_machine) (tb_Machines d) \<and> fmpred (\<lambda>_. readable_group) (tb_Groups d)"
  by (simp add: readable_def)

lemma update_machine_law:
  assumes "turso_healthy ts"
    and "\<And>row. fmlookup (tb_Machines (ts_db ts)) k = Some row \<Longrightarrow>
      readable_machine (f row) \<and> mr_ID (f row) = k \<and> machine_of_row (f row) = g (machine_of_row row)"
  shows "turso_healthy (snd (update_machine k f ts)) \<and>
    (case fmlookup (fl_machines (turso_view ts)) k of
       None \<Rightarrow> fst (update_machine k f ts) = Inl ErrNotFound \<and> turso_view (snd (update_machine k f ts)) = turso_view ts
     | Some m \<Rightarrow> fst (update_machine k f ts) = Inr () \<and>
         turso_view (snd (update_machine k f ts)) = put_machine (g m) (turso_view ts))"
proof (cases "fmlookup (tb_Machines (ts_db ts)) k")
  case None
  then have "update_machine k f ts = (Inl ErrNotFound, ts\<lparr>ts_calls := Suc (ts_calls ts)\<rparr>)"
    using assms(1) by (simp add: update_machine_def on_result_def sql_exec_executes affected_def)
  with None assms(1) show ?thesis by simp
next
  case (Some row)
  let ?d = "ts_db ts\<lparr>tb_Machines := fmupd k (f row) (tb_Machines (ts_db ts))\<rparr>"
  have run: "update_machine k f ts = (Inr (), ts\<lparr>ts_calls := Suc (ts_calls ts), ts_db := ?d\<rparr>)"
    using assms(1) Some by (simp add: update_machine_def on_result_def sql_exec_executes affected_def)
  have new: "machine_of_row (f row) = g (machine_of_row row)" "readable_machine (f row)" "mr_ID (f row) = k"
    using assms(2) [OF Some] by simp_all
  then have "m_ID (g (machine_of_row row)) = k" by (metis row_fields(1))
  then have v: "turso_view (ts\<lparr>ts_db := ?d\<rparr>) = put_machine (g (machine_of_row row)) (turso_view ts)"
    using new by (simp add: ts_view_updates put_machine_def fmmap_fmupd turso_view_def)
  have "readable (ts\<lparr>ts_db := ?d\<rparr>)"
    using healthyD(2) [OF assms(1)] new(2) unfolding readable_update readable_def by auto
  from healthy_after_update [OF assms(1) v keyed_updates(2) [OF healthyD(1) [OF assms(1)]] this] run Some
  show ?thesis by simp
qed

lemma touched_row:
  assumes "turso_healthy ts" and "fmlookup (tb_Machines (ts_db ts)) k = Some row"
  shows
    "readable_machine (row\<lparr>mr_LastSeen := now, mr_Inventory := Encodes iv\<rparr>) \<and>
     mr_ID (row\<lparr>mr_LastSeen := now, mr_Inventory := Encodes iv\<rparr>) = k \<and>
     machine_of_row (row\<lparr>mr_LastSeen := now, mr_Inventory := Encodes iv\<rparr>) = touch now iv (machine_of_row row)"
    "readable_machine (row\<lparr>mr_LastSeen := now, mr_Status := Encodes sts\<rparr>) \<and>
     mr_ID (row\<lparr>mr_LastSeen := now, mr_Status := Encodes sts\<rparr>) = k \<and>
     machine_of_row (row\<lparr>mr_LastSeen := now, mr_Status := Encodes sts\<rparr>) = report now sts (machine_of_row row)"
  using healthyD(3) [OF assms]
  by (auto simp: readable_machine_def scanMachine_def machine_of_row_def json_value_def touch_def report_def
      split: json_column.splits)

lemma ts_ListGroupMembers_law:
  assumes "turso_healthy ts"
  shows "(\<exists>ids. fst (ts_ListGroupMembers k ts) = Inr ids \<and> set ids = {m. (k, m) \<in> fl_members (turso_view ts)}) \<and>
    turso_healthy (snd (ts_ListGroupMembers k ts)) \<and> turso_view (snd (ts_ListGroupMembers k ts)) = turso_view ts"
  using assms by (force simp: ts_ListGroupMembers_def statement_simps sorted_list_of_fset.rep_eq)

lemma ts_update_laws:
  assumes "turso_healthy ts"
  shows
    "fmlookup (fl_tenants (turso_view ts)) (t_ID tn) = None \<Longrightarrow>
       fst (ts_SaveTenant tn ts) = Inr () \<and> turso_healthy (snd (ts_SaveTenant tn ts)) \<and>
       turso_view (snd (ts_SaveTenant tn ts)) = put_tenant tn (turso_view ts)"
    "same_place (turso_view ts) m \<Longrightarrow>
       fst (ts_SaveMachine m ts) = Inr () \<and> turso_healthy (snd (ts_SaveMachine m ts)) \<and>
       turso_view (snd (ts_SaveMachine m ts)) = put_machine m (turso_view ts)"
    "same_group_place (turso_view ts) g \<Longrightarrow>
       fst (ts_SaveGroup g ts) = Inr () \<and> turso_healthy (snd (ts_SaveGroup g ts)) \<and>
       turso_view (snd (ts_SaveGroup g ts)) = put_group g (turso_view ts)"
    "fst (ts_AddGroupMember k j ts) = Inr () \<and> turso_healthy (snd (ts_AddGroupMember k j ts)) \<and>
       turso_view (snd (ts_AddGroupMember k j ts)) = add_member k j (turso_view ts)"
    "fst (ts_RemoveGroupMember k j ts) = Inr () \<and> turso_healthy (snd (ts_RemoveGroupMember k j ts)) \<and>
       turso_view (snd (ts_RemoveGroupMember k j ts)) = remove_member k j (turso_view ts)"
    "fst (ts_SaveModule a ts) = Inr () \<and> turso_healthy (snd (ts_SaveModule a ts)) \<and>
       turso_view (snd (ts_SaveModule a ts)) = turso_view ts"
    "fst (ts_DeleteModule n v ts) = Inr () \<and> turso_healthy (snd (ts_DeleteModule n v ts)) \<and>
       turso_view (snd (ts_DeleteModule n v ts)) = turso_view ts"
proof -
  note k = healthyD(1) [OF assms] and r = healthyD(2) [OF assms, unfolded readable_def]
  show "fst (ts_SaveTenant tn ts) = Inr () \<and> turso_healthy (snd (ts_SaveTenant tn ts)) \<and>
       turso_view (snd (ts_SaveTenant tn ts)) = put_tenant tn (turso_view ts)"
    if "fmlookup (fl_tenants (turso_view ts)) (t_ID tn) = None"
    unfolding ts_SaveTenant_def
    by (rule update_step [OF assms]) (use that r in \<open>auto simp: ts_view_updates put_tenant_def turso_view_def
        readable_update intro: keyed_updates(1) [OF k, unfolded put_tenant_def turso_view_def, simplified]\<close>)
  show "fst (ts_SaveMachine m ts) = Inr () \<and> turso_healthy (snd (ts_SaveMachine m ts)) \<and>
       turso_view (snd (ts_SaveMachine m ts)) = put_machine m (turso_view ts)"
    if "same_place (turso_view ts) m"
    unfolding ts_SaveMachine_def
    by (rule update_step [OF assms _ keyed_updates(2) [OF k]])
      (use upsert_machine_same [OF that] r in \<open>auto simp: ts_view_updates put_machine_def turso_view_def
        fmmap_fmupd readable_update\<close>)
  show "fst (ts_SaveGroup g ts) = Inr () \<and> turso_healthy (snd (ts_SaveGroup g ts)) \<and>
       turso_view (snd (ts_SaveGroup g ts)) = put_group g (turso_view ts)"
    if "same_group_place (turso_view ts) g"
    unfolding ts_SaveGroup_def
    by (rule update_step [OF assms _ keyed_updates(3) [OF k]])
      (use upsert_group_same [OF that] r in \<open>auto simp: ts_view_updates put_group_def turso_view_def
        fmmap_fmupd readable_update\<close>)
  show "fst (ts_AddGroupMember k j ts) = Inr () \<and> turso_healthy (snd (ts_AddGroupMember k j ts)) \<and>
       turso_view (snd (ts_AddGroupMember k j ts)) = add_member k j (turso_view ts)"
    unfolding ts_AddGroupMember_def
    by (rule update_step [OF assms _ keyed_updates(6) [OF k]])
      (use r in \<open>auto simp: ts_view_updates add_member_def turso_view_def readable_update\<close>)
  show "fst (ts_RemoveGroupMember k j ts) = Inr () \<and> turso_healthy (snd (ts_RemoveGroupMember k j ts)) \<and>
       turso_view (snd (ts_RemoveGroupMember k j ts)) = remove_member k j (turso_view ts)"
    unfolding ts_RemoveGroupMember_def
    by (rule update_step [OF assms _ keyed_updates(7) [OF k]])
      (use r in \<open>auto simp: ts_view_updates remove_member_def turso_view_def readable_update\<close>)
  show "fst (ts_SaveModule a ts) = Inr () \<and> turso_healthy (snd (ts_SaveModule a ts)) \<and>
       turso_view (snd (ts_SaveModule a ts)) = turso_view ts"
    unfolding ts_SaveModule_def
    by (rule update_step [OF assms _ k])
      (use r in \<open>auto simp: ts_view_updates turso_view_def readable_update\<close>)
  show "fst (ts_DeleteModule n v ts) = Inr () \<and> turso_healthy (snd (ts_DeleteModule n v ts)) \<and>
       turso_view (snd (ts_DeleteModule n v ts)) = turso_view ts"
    unfolding ts_DeleteModule_def
    by (rule update_step [OF assms _ k])
      (use r in \<open>auto simp: ts_view_updates turso_view_def readable_update\<close>)
qed

lemma ts_delete_laws:
  assumes "turso_healthy ts"
  shows
    "fst (ts_DeleteMachine k ts) = Inr () \<and> turso_healthy (snd (ts_DeleteMachine k ts)) \<and>
       turso_view (snd (ts_DeleteMachine k ts)) = drop_machine k (turso_view ts)"
    "fst (ts_DeleteGroup k ts) = Inr () \<and> turso_healthy (snd (ts_DeleteGroup k ts)) \<and>
       turso_view (snd (ts_DeleteGroup k ts)) = drop_group k (turso_view ts)"
proof -
  note k = healthyD(1) [OF assms] and r = healthyD(2) [OF assms, unfolded readable_def]
  let ?dm = "ts_db ts\<lparr>tb_Members := ffilter (\<lambda>(g, m). m \<noteq> k) (tb_Members (ts_db ts)),
      tb_Machines := fmdrop k (tb_Machines (ts_db ts))\<rparr>"
  have "turso_view (ts\<lparr>ts_db := ?dm\<rparr>) = drop_machine k (turso_view ts)"
    by (auto simp: ts_view_updates drop_machine_def turso_view_def)
  moreover have "readable (ts\<lparr>ts_db := ?dm\<rparr>)"
    using r by (auto simp: readable_update)
  ultimately show "fst (ts_DeleteMachine k ts) = Inr () \<and> turso_healthy (snd (ts_DeleteMachine k ts)) \<and>
       turso_view (snd (ts_DeleteMachine k ts)) = drop_machine k (turso_view ts)"
    using healthy_after_update [OF assms _ keyed_updates(4) [OF k]] assms
    by (simp add: ts_DeleteMachine_def then_exec_updates)
  let ?dg = "ts_db ts\<lparr>tb_Members := ffilter (\<lambda>(g, m). g \<noteq> k) (tb_Members (ts_db ts)),
      tb_Groups := fmdrop k (tb_Groups (ts_db ts))\<rparr>"
  have "turso_view (ts\<lparr>ts_db := ?dg\<rparr>) = drop_group k (turso_view ts)"
    by (auto simp: ts_view_updates drop_group_def turso_view_def)
  moreover have "readable (ts\<lparr>ts_db := ?dg\<rparr>)"
    using r by (auto simp: readable_update)
  ultimately show "fst (ts_DeleteGroup k ts) = Inr () \<and> turso_healthy (snd (ts_DeleteGroup k ts)) \<and>
       turso_view (snd (ts_DeleteGroup k ts)) = drop_group k (turso_view ts)"
    using healthy_after_update [OF assms _ keyed_updates(5) [OF k]] assms
    by (simp add: ts_DeleteGroup_def then_exec_updates)
qed

lemma token_statement:
  assumes "turso_healthy ts" and "\<And>d. snd (stmt d) = d \<or> (\<exists>t. snd (stmt d) = d\<lparr>tb_Tokens := t\<rparr>)"
  shows "turso_healthy (snd (on_result f (sql_exec stmt) ts)) \<and> turso_view (snd (on_result f (sql_exec stmt) ts)) = turso_view ts"
    and "turso_healthy (snd (sql_exec stmt ts)) \<and> turso_view (snd (sql_exec stmt ts)) = turso_view ts"
proof -
  obtain r d where sd: "stmt (ts_db ts) = (r, d)" by fastforce
  have "turso_view (ts\<lparr>ts_db := d\<rparr>) = turso_view ts \<and> readable (ts\<lparr>ts_db := d\<rparr>)"
    using assms(2) [of "ts_db ts"] sd healthyD(2) [OF assms(1)]
    by (auto simp: ts_view_updates turso_view_def readable_update readable_def)
  then have "turso_healthy (ts\<lparr>ts_calls := n, ts_db := d\<rparr>) \<and> turso_view (ts\<lparr>ts_calls := n, ts_db := d\<rparr>) = turso_view ts" for n
    using healthy_after_update [OF assms(1) _ healthyD(1) [OF assms(1)]] by blast
  then show "turso_healthy (snd (sql_exec stmt ts)) \<and> turso_view (snd (sql_exec stmt ts)) = turso_view ts"
    using assms(1) sd by (auto simp: sql_exec_def Let_def executes_def split: request_outcome.split option.split)
  then show "turso_healthy (snd (on_result f (sql_exec stmt) ts)) \<and> turso_view (snd (on_result f (sql_exec stmt) ts)) = turso_view ts"
    by (auto simp: on_result_def split: prod.split sum.split)
qed

lemma ts_token_laws:
  assumes "turso_healthy ts"
  shows "turso_healthy (snd (ts_ConsumeToken now k ts)) \<and> turso_view (snd (ts_ConsumeToken now k ts)) = turso_view ts"
    and "turso_healthy (snd (ts_SaveToken tk ts)) \<and> turso_view (snd (ts_SaveToken tk ts)) = turso_view ts"
proof -
  show "turso_healthy (snd (ts_ConsumeToken now k ts)) \<and> turso_view (snd (ts_ConsumeToken now k ts)) = turso_view ts"
    unfolding ts_ConsumeToken_def
    by (rule token_statement(1) [OF assms]) (auto split: option.split)
  show "turso_healthy (snd (ts_SaveToken tk ts)) \<and> turso_view (snd (ts_SaveToken tk ts)) = turso_view ts"
    unfolding ts_SaveToken_def Let_def
    by (rule token_statement(2) [OF assms]) (auto split: option.split)
qed

lemma ts_read_laws:
  assumes "turso_healthy ts"
  shows
    "fst (ts_GetTenant k ts) = (case fmlookup (fl_tenants (turso_view ts)) k of None \<Rightarrow> Inl ErrNotFound | Some t \<Rightarrow> Inr t)"
    "fst (ts_GetMachine k ts) = (case fmlookup (fl_machines (turso_view ts)) k of None \<Rightarrow> Inl ErrNotFound | Some m \<Rightarrow> Inr m)"
    "fst (ts_GetGroup k ts) = (case fmlookup (fl_groups (turso_view ts)) k of None \<Rightarrow> Inl ErrNotFound | Some g \<Rightarrow> Inr g)"
    "fst (ts_GetModule n v ts) \<noteq> Inl ErrIO" "\<exists>as. fst (ts_ListModules ts) = Inr as"
  using assms healthyD(3,4) [OF assms]
  by (auto simp: ts_GetTenant_def ts_GetMachine_def ts_GetGroup_def ts_GetModule_def ts_ListModules_def
      statement_simps one_row_def readable_machine_def readable_group_def split: option.split)

lemma ts_read_state:
  assumes "turso_healthy ts"
  shows
    "turso_healthy (snd (ts_GetTenant k ts)) \<and> turso_view (snd (ts_GetTenant k ts)) = turso_view ts"
    "turso_healthy (snd (ts_GetMachine k ts)) \<and> turso_view (snd (ts_GetMachine k ts)) = turso_view ts"
    "turso_healthy (snd (ts_GetGroup k ts)) \<and> turso_view (snd (ts_GetGroup k ts)) = turso_view ts"
    "turso_healthy (snd (ts_GetModule n v ts)) \<and> turso_view (snd (ts_GetModule n v ts)) = turso_view ts"
    "turso_healthy (snd (ts_ListModules ts)) \<and> turso_view (snd (ts_ListModules ts)) = turso_view ts"
    "turso_healthy (snd (ts_ListTenants ts)) \<and> turso_view (snd (ts_ListTenants ts)) = turso_view ts"
  using assms
  by (simp_all add: ts_GetTenant_def ts_GetMachine_def ts_GetGroup_def ts_GetModule_def ts_ListModules_def
      ts_ListTenants_def statement_simps)

lemma ts_touch_laws:
  assumes "turso_healthy ts"
  shows
    "turso_healthy (snd (ts_TouchHeartbeat k now iv ts)) \<and>
     (case fmlookup (fl_machines (turso_view ts)) k of
        None \<Rightarrow> fst (ts_TouchHeartbeat k now iv ts) = Inl ErrNotFound \<and>
                turso_view (snd (ts_TouchHeartbeat k now iv ts)) = turso_view ts
      | Some m \<Rightarrow> fst (ts_TouchHeartbeat k now iv ts) = Inr () \<and>
                turso_view (snd (ts_TouchHeartbeat k now iv ts)) = put_machine (touch now iv m) (turso_view ts))"
    "turso_healthy (snd (ts_SetStatus k now sts ts)) \<and>
     (case fmlookup (fl_machines (turso_view ts)) k of
        None \<Rightarrow> fst (ts_SetStatus k now sts ts) = Inl ErrNotFound \<and>
                turso_view (snd (ts_SetStatus k now sts ts)) = turso_view ts
      | Some m \<Rightarrow> fst (ts_SetStatus k now sts ts) = Inr () \<and>
                turso_view (snd (ts_SetStatus k now sts ts)) = put_machine (report now sts m) (turso_view ts))"
  unfolding ts_TouchHeartbeat_def ts_SetStatus_def
  by (rule update_machine_law [OF assms], rule touched_row [OF assms], assumption)+

lemma turso_op_simps:
  "SaveTenant turso_ops = ts_SaveTenant" "GetTenant turso_ops = ts_GetTenant"
  "ListTenants turso_ops = ts_ListTenants" "SaveToken turso_ops = ts_SaveToken"
  "ConsumeToken turso_ops = ts_ConsumeToken" "SaveMachine turso_ops = ts_SaveMachine"
  "GetMachine turso_ops = ts_GetMachine" "ListMachines turso_ops = ts_ListMachines"
  "DeleteMachine turso_ops = ts_DeleteMachine" "TouchHeartbeat turso_ops = ts_TouchHeartbeat"
  "SetStatus turso_ops = ts_SetStatus" "SaveModule turso_ops = ts_SaveModule"
  "GetModule turso_ops = ts_GetModule" "ListModules turso_ops = ts_ListModules"
  "DeleteModule turso_ops = ts_DeleteModule" "SaveGroup turso_ops = ts_SaveGroup"
  "GetGroup turso_ops = ts_GetGroup" "ListGroups turso_ops = ts_ListGroups"
  "DeleteGroup turso_ops = ts_DeleteGroup" "AddGroupMember turso_ops = ts_AddGroupMember"
  "RemoveGroupMember turso_ops = ts_RemoveGroupMember" "ListGroupMembers turso_ops = ts_ListGroupMembers"
  by (simp_all add: turso_ops_def)

lemma ts_get_laws:
  assumes "turso_healthy ts"
  shows
    "fst (ts_GetTenant k ts) = (case fmlookup (fl_tenants (turso_view ts)) k of None \<Rightarrow> Inl ErrNotFound | Some t \<Rightarrow> Inr t) \<and>
     turso_healthy (snd (ts_GetTenant k ts)) \<and> turso_view (snd (ts_GetTenant k ts)) = turso_view ts"
    "fst (ts_GetMachine k ts) = (case fmlookup (fl_machines (turso_view ts)) k of None \<Rightarrow> Inl ErrNotFound | Some m \<Rightarrow> Inr m) \<and>
     turso_healthy (snd (ts_GetMachine k ts)) \<and> turso_view (snd (ts_GetMachine k ts)) = turso_view ts"
    "fst (ts_GetGroup k ts) = (case fmlookup (fl_groups (turso_view ts)) k of None \<Rightarrow> Inl ErrNotFound | Some g \<Rightarrow> Inr g) \<and>
     turso_healthy (snd (ts_GetGroup k ts)) \<and> turso_view (snd (ts_GetGroup k ts)) = turso_view ts"
    "fst (ts_GetModule n v ts) \<noteq> Inl ErrIO \<and> turso_healthy (snd (ts_GetModule n v ts)) \<and>
     turso_view (snd (ts_GetModule n v ts)) = turso_view ts"
    "(\<exists>as. fst (ts_ListModules ts) = Inr as) \<and> turso_healthy (snd (ts_ListModules ts)) \<and>
     turso_view (snd (ts_ListModules ts)) = turso_view ts"
  by (intro conjI ts_read_laws [OF assms] ts_read_state [OF assms, THEN conjunct1]
      ts_read_state [OF assms, THEN conjunct2])+

lemmas turso_laws =
  healthyD(1) ts_update_laws ts_delete_laws ts_token_laws ts_touch_laws ts_get_laws ts_read_state(6)
  ts_ListMachines_law ts_ListGroups_law ts_ListGroupMembers_law

interpretation sql: store_contract turso_ops turso_view turso_healthy
  by (unfold_locales; (unfold turso_op_simps)?; rule turso_laws; assumption)

end
