(* ===== verification/Turso_Properties.thy ===== *)
theory Turso_Properties
  imports Turso_Steps Sample_Run
begin

text \<open>
  The properties of the database store: how often a token can be spent, that the control
  plane keeps its promises on it as on the file store, that modules come back as stored,
  and where the two stores agree and differ.
\<close>

section \<open>Tokens\<close>

text \<open>
  C10: A token saved with a positive limit is spent at most that often in every later run
  of statements, whatever calls are interleaved, whichever requests or replies are lost,
  and however often the server restarts: the update counts and checks in one statement.
  (A lost reply can burn a use; it never adds one.)
\<close>

theorem sql_token_uses_bounded:
  assumes "fst (ts_SaveToken t ts) = Inr ()" and "0 <s token_limit t"
  shows "sql_enrolments (tok_Token t) cs (snd (ts_SaveToken t ts))
    \<le> nat (sint (token_limit t) - sint (tok_Uses t))"
proof (rule sql_enrolments_le)
  show "token_bound (tok_Token t) (sint (token_limit t)) (nat (sint (token_limit t) - sint (tok_Uses t)))
      (ts_db (snd (ts_SaveToken t ts)))"
    using assms(1) by (auto simp: ts_SaveToken_def sql_exec_def Let_def token_bound_def row_left_def token_limit_def
        split: request_outcome.splits option.splits)
  show "0 < sint (token_limit t)" using assms(2) by (simp add: word_sless_alt)
qed

definition no_tables :: tables where
  "no_tables = \<lparr>tb_Tenants = fmempty, tb_Tokens = fmempty, tb_Machines = fmempty, tb_Groups = fmempty,
     tb_Members = {||}, tb_Modules = fmempty\<rparr>"

definition fresh_sql :: turso where
  "fresh_sql = \<lparr>ts_db = no_tables, ts_outcome = (\<lambda>_. Executed), ts_order = (\<lambda>_. in_order), ts_calls = 0,
     ts_pads = False\<rparr>"

lemma fresh_sql_executes: "executes fresh_sql"
  by (simp add: executes_def fresh_sql_def)

lemma fresh_sql_token: "fmlookup (tb_Tokens (ts_db fresh_sql)) k = None"
  by (simp add: fresh_sql_def no_tables_def)

lemma ts_SaveToken_fresh:
  "executes ts \<Longrightarrow> fmlookup (tb_Tokens (ts_db ts)) (tok_Token t) = None \<Longrightarrow>
     ts_SaveToken t ts = (Inr (), ts\<lparr>ts_calls := Suc (ts_calls ts), ts_db := (ts_db ts)\<lparr>tb_Tokens :=
        fmupd (tok_Token t) \<lparr>tr_Token = tok_Token t, tr_TenantID = tok_TenantID t, tr_Labels = Encodes (tok_Labels t),
          tr_Created = tok_Created t, tr_ExpiresAt = sint (tok_ExpiresAt t), tr_MaxUses = sint (token_limit t),
          tr_Uses = sint (tok_Uses t), tr_Used = tok_Used t\<rparr> (tb_Tokens (ts_db ts))\<rparr>\<rparr>)"
  by (simp add: ts_SaveToken_def token_limit_def sql_exec_def executes_def Let_def)

lemma sql_token_uses_bounded_witness:
  "sql_enrolments ''k'' [CallConsumeToken 5 ''k'', Restart, CallConsumeToken 6 ''k'', CallConsumeToken 7 ''k'']
     (snd (ts_SaveToken (token_for ''k'' ''acme'' 2) fresh_sql)) \<le> 2"
proof -
  let ?t = "token_for ''k'' ''acme'' 2"
  have "0 <s token_limit ?t" "tok_Uses ?t = 0" "tok_Token ?t = ''k''" "nat (sint (token_limit ?t)) = 2"
    by (simp_all add: token_for_def token_limit_def word_sless_alt)
  moreover have "fst (ts_SaveToken ?t fresh_sql) = Inr ()"
    by (simp add: ts_SaveToken_fresh [OF fresh_sql_executes fresh_sql_token])
  ultimately show ?thesis
    using sql_token_uses_bounded [of ?t fresh_sql "[CallConsumeToken 5 ''k'', Restart,
        CallConsumeToken 6 ''k'', CallConsumeToken 7 ''k'']"] by simp
qed

section \<open>The two stores side by side\<close>

text \<open>What an enrollment uses of each consumed token: its tenant and labels.\<close>

fun consumptions :: "'s store_ops \<Rightarrow> string \<Rightarrow> int64 list \<Rightarrow> 's \<Rightarrow> (store_error + string \<times> string gomap) list" where
  "consumptions S k [] s = []"
| "consumptions S k (now # nows) s =
     (case ConsumeToken S now k s of
        (r, s') \<Rightarrow> map_sum (\<lambda>e. e) (\<lambda>tok. (tok_TenantID tok, tok_Labels tok)) r # consumptions S k nows s')"

definition same_token :: "enroll_token \<Rightarrow> token_row \<Rightarrow> bool" where
  "same_token t row \<longleftrightarrow>
     tr_TenantID row = tok_TenantID t \<and> tr_Labels row = Encodes (tok_Labels t) \<and>
     tr_ExpiresAt row = sint (tok_ExpiresAt t) \<and> tr_MaxUses row = sint (token_limit t) \<and>
     tr_Uses row = sint (token_used t) \<and> 0 \<le> sint (token_used t)"

lemma same_token_open:
  assumes "same_token t row" and "0 <s token_limit t" and "0 \<le>s tok_ExpiresAt t"
    and "tok_ExpiresAt t = now \<longrightarrow> now = 0"
  shows "token_row_open now row \<longleftrightarrow> token_open now t"
proof -
  have "sint now \<noteq> sint (tok_ExpiresAt t) \<or> now = 0"
    using assms(4) by (auto dest: signed_word_eqI)
  then show ?thesis
    using assms(1-3) by (auto simp: same_token_def token_row_open_def token_open_def word_sless_alt word_sle_eq)
qed

lemma spend_fields:
  "tok_ExpiresAt (spend t) = tok_ExpiresAt t" "tok_TenantID (spend t) = tok_TenantID t"
  "tok_Labels (spend t) = tok_Labels t"
  by (simp_all add: spend_def)

lemma consume_open:
  assumes "io_ok fs" and "fmlookup (fd_Tokens (fs_data fs)) k = Some t" and "token_open now t"
  shows "fst (fs_ConsumeToken now k fs) = Inr (spend t)" "io_ok (snd (fs_ConsumeToken now k fs))"
    "fmlookup (fd_Tokens (fs_data (snd (fs_ConsumeToken now k fs)))) k = Some (spend t)"
  using assms by (simp_all add: fs_ConsumeToken_alt commit_ok) (simp add: io_ok_def)

lemma same_token_spend:
  assumes "same_token t row" and "0 <s token_limit t" and "token_open now t"
  shows "same_token (spend t) (use_token_row row)"
proof -
  have lt: "token_used t <s token_limit t"
    using assms by (auto simp: token_open_def word_sless_alt word_sle_eq)
  have inc: "sint (token_used t + 1) = sint (token_used t) + 1" by (rule sint_int64_inc [OF lt])
  have pos: "0 \<le> sint (token_used t)" using assms(1) by (simp add: same_token_def)
  with inc have "token_used t + 1 \<noteq> 0" by auto
  then have "token_used (spend t) = token_used t + 1" by (simp add: spend_def token_used_def)
  with assms(1) inc pos show ?thesis
    by (simp add: same_token_def use_token_row_def spend_limit) (simp add: spend_def)
qed

lemma ts_ConsumeToken_executes:
  assumes "executes ts" and "fmlookup (tb_Tokens (ts_db ts)) k = Some row"
  shows "ts_ConsumeToken now k ts =
    (if token_row_open now row
     then (Inr \<lparr>tok_Token = tr_Token row, tok_TenantID = tr_TenantID row,
             tok_Labels = (case tr_Labels row of Encodes l \<Rightarrow> l | Malformed \<Rightarrow> fmempty),
             tok_Created = tr_Created row, tok_ExpiresAt = 0, tok_MaxUses = 0, tok_Uses = 0, tok_Used = True\<rparr>,
           ts\<lparr>ts_calls := Suc (ts_calls ts), ts_db := (ts_db ts)\<lparr>tb_Tokens :=
             fmupd k (use_token_row row) (tb_Tokens (ts_db ts))\<rparr>\<rparr>)
     else (Inl ErrTokenUsed, ts\<lparr>ts_calls := Suc (ts_calls ts)\<rparr>))"
  using assms by (simp add: ts_ConsumeToken_def on_result_def sql_exec_executes)

lemma consumptions_agree:
  assumes "io_ok fs" and "executes ts" and "fmlookup (fd_Tokens (fs_data fs)) k = Some t"
    and "fmlookup (tb_Tokens (ts_db ts)) k = Some row" and "same_token t row"
    and "0 <s token_limit t" and "0 \<le>s tok_ExpiresAt t"
    and "\<forall>now\<in>set nows. tok_ExpiresAt t = now \<longrightarrow> now = 0"
  shows "consumptions turso_ops k nows ts = consumptions file_ops k nows fs"
  using assms
proof (induction nows arbitrary: fs ts t row)
  case Nil
  then show ?case by simp
next
  case (Cons now nows)
  have opn: "token_row_open now row \<longleftrightarrow> token_open now t"
    using Cons.prems by (intro same_token_open) auto
  let ?fs = "snd (fs_ConsumeToken now k fs)" and ?ts = "snd (ts_ConsumeToken now k ts)"
  show ?case
  proof (cases "token_open now t")
    case False
    have "consumptions turso_ops k nows ?ts = consumptions file_ops k nows ?fs"
      using Cons.prems False opn
      by (intro Cons.IH [of ?fs ?ts t row]) (auto simp: ts_ConsumeToken_executes fs_ConsumeToken_alt)
    with Cons.prems False opn show ?thesis
      by (simp add: turso_ops_def file_ops_def ts_ConsumeToken_executes fs_ConsumeToken_alt)
  next
    case True
    note fs = consume_open [OF Cons.prems(1,3) True]
    have ts: "executes ?ts" "fmlookup (tb_Tokens (ts_db ?ts)) k = Some (use_token_row row)"
      "map_sum (\<lambda>e. e) (\<lambda>tok. (tok_TenantID tok, tok_Labels tok)) (fst (ts_ConsumeToken now k ts)) =
         Inr (tok_TenantID t, tok_Labels t)"
      using Cons.prems True opn by (simp_all add: ts_ConsumeToken_executes same_token_def)
    have "consumptions turso_ops k nows ?ts = consumptions file_ops k nows ?fs"
      using Cons.prems same_token_spend [OF Cons.prems(5,6) True]
      by (intro Cons.IH [OF fs(2) ts(1) fs(3) ts(2)]) (simp_all add: spend_limit spend_fields)
    with fs(1) ts(3) show ?thesis
      by (simp add: turso_ops_def file_ops_def split_beta spend_fields)
  qed
qed



text \<open>
  In that second they differ: the file store accepts a token at \<open>ExpiresAt\<close>, the
  database refuses it.
\<close>

theorem stores_disagree_at_expiry:
  assumes "io_ok fs" and "executes ts" and "fmlookup (tb_Tokens (ts_db ts)) (tok_Token t) = None"
    and "0 <s token_limit t" and "0 <s tok_ExpiresAt t" and "tok_Uses t = 0" and "\<not> tok_Used t"
  shows "\<not> isl (fst (fs_ConsumeToken (tok_ExpiresAt t) (tok_Token t) (snd (fs_SaveToken t fs)))) \<and>
    fst (ts_ConsumeToken (tok_ExpiresAt t) (tok_Token t) (snd (ts_SaveToken t ts))) = Inl ErrTokenUsed"
proof -
  have io: "io_ok (snd (fs_SaveToken t fs))" using assms(1)
    by (simp add: fs_SaveToken_def commit_ok) (simp add: io_ok_def)
  have "token_open (tok_ExpiresAt t) t"
    using assms(4,6,7) by (simp add: token_open_def token_used_def word_sless_alt word_sle_eq)
  then have "\<not> isl (fst (fs_ConsumeToken (tok_ExpiresAt t) (tok_Token t) (snd (fs_SaveToken t fs))))"
    using commit_ok [OF io] by (simp add: fs_ConsumeToken_alt) (simp add: fs_SaveToken_def)
  moreover have "fst (ts_ConsumeToken (tok_ExpiresAt t) (tok_Token t) (snd (ts_SaveToken t ts))) = Inl ErrTokenUsed"
    using assms by (simp add: ts_SaveToken_fresh ts_ConsumeToken_executes token_row_open_def word_sless_alt)
  ultimately show ?thesis ..
qed

lemma stores_disagree_at_expiry_witness:
  "fst (ts_ConsumeToken 9 ''k'' (snd (ts_SaveToken ((token_for ''k'' ''acme'' 2)\<lparr>tok_ExpiresAt := 9\<rparr>) fresh_sql)))
     = Inl ErrTokenUsed"
proof -
  let ?t = "(token_for ''k'' ''acme'' 2)\<lparr>tok_ExpiresAt := 9\<rparr>"
  have "0 <s token_limit ?t" "tok_Uses ?t = 0" "tok_Token ?t = ''k''" "\<not> tok_Used ?t"
    "0 <s tok_ExpiresAt ?t"
    by (simp_all add: token_for_def token_limit_def word_sless_alt)
  moreover have "io_ok fresh_store" by (simp add: io_ok_def fresh_store_def)
  ultimately show ?thesis
    using stores_disagree_at_expiry [of fresh_store fresh_sql ?t] fresh_sql_executes fresh_sql_token by simp
qed

section \<open>The control plane on the database\<close>

text \<open>The server starts on empty tables, with requests that get through, and a new bus.\<close>

inductive sql_start :: "(turso, inproc) world \<Rightarrow> bool" where
  "ts_db ts = no_tables \<Longrightarrow> executes ts \<Longrightarrow>
   sql_start \<lparr>w_store = ts, w_bus = NewInProc, w_live = NewLiveRegistry\<rparr>"

abbreviation sql_reachable :: "(turso, inproc) world \<Rightarrow> bool" where
  "sql_reachable \<equiv> control_reachable turso_ops turso_view sql_start"

lemma sql_start_tidy:
  "sql_start w \<Longrightarrow> turso_healthy (w_store w) \<and> tidy (turso_view (w_store w)) \<and> bus_alive (w_bus w)"
  by (auto elim!: sql_start.cases simp: turso_healthy_def readable_def tidy_def keyed_def tenants_named_def
      settled_def no_tables_def bus_alive_new)

lemma sql_reachable_tidy:
  "sql_reachable w \<Longrightarrow> turso_healthy (w_store w) \<and> tidy (turso_view (w_store w)) \<and> bus_alive (w_bus w)"
  by (rule sql.control_reachable_tidy [OF _ sql_start_tidy])

definition sql0 :: "(turso, inproc) world" where
  "sql0 = \<lparr>w_store = fresh_sql, w_bus = NewInProc, w_live = NewLiveRegistry\<rparr>"

definition sql1 :: "(turso, inproc) world" where
  "sql1 = snd (createTenant turso_ops 100 ''t'' ''g'' (Some ''acme'') sql0)"

definition sql2 :: "(turso, inproc) world" where
  "sql2 = snd (uploadModule turso_ops (\<lambda>p. p)
     (Some \<lparr>ul_Name = ''node'', ul_Version = ''1'', ul_Exec = [], ul_Payload = ''x''\<rparr>) sql1)"

definition sql3 :: "(turso, inproc) world" where
  "sql3 = snd (createGroup turso_ops inproc_ops plain_choices 100 ''h''
     (Some \<lparr>cg_TenantID = ''t'', cg_Name = ''web'', cg_MatchAll = True, cg_Selector = fmempty,
            cg_Modules = [node_spec]\<rparr>) sql2)"

definition sql4 :: "(turso, inproc) world" where
  "sql4 = snd (createToken turso_ops 100 ''a'' ''b''
     (Some \<lparr>ct_TenantID = ''t'', ct_Labels = fmempty, ct_TTLSec = 0, ct_MaxUses = 1\<rparr>) sql3)"

definition sql5 :: "(turso, inproc) world" where
  "sql5 = snd (handleEnroll turso_ops inproc_ops (\<lambda>_ _ _. Some ''cert'') (Some ''pub'') ''ca''
     plain_choices 101 ''m''
     (Some \<lparr>er_Token = ''ab'', er_CSRPEM = ''csr'', er_Name = ''box''\<rparr>) sql4)"

lemma reachable_sql0: "sql_reachable sql0"
  unfolding sql0_def
  by (intro control_reachable.start sql_start.intros fresh_sql_executes) (simp add: fresh_sql_def)

lemma sql0_healthy: "turso_healthy (w_store sql0)"
  using sql_reachable_tidy [OF reachable_sql0] by simp

definition sql_names_check :: "(turso, inproc) world \<Rightarrow> bool" where
  "sql_names_check w =
     distinct (map (\<lambda>kg. (g_TenantID (snd kg), g_Name (snd kg)))
       (sorted_list_of_fmap (fmmap group_of_row (tb_Groups (ts_db (w_store w))))))"

lemma sql_names:
  "sql_names_check sql1" "sql_names_check sql2" "sql_names_check sql3" "sql_names_check sql4" "sql_names_check sql5"
  by code_simp+

lemma sql_names_check_unique:
  assumes "sql_names_check w"
  shows "unique_group_names (turso_view (w_store w))"
proof -
  let ?l = "sorted_list_of_fmap (fl_groups (turso_view (w_store w)))"
  have inj: "inj_on (\<lambda>kg. (g_TenantID (snd kg), g_Name (snd kg))) (set ?l)"
    using assms by (simp add: sql_names_check_def distinct_map)
  have "g = h" if "g \<in> groups_of (turso_view (w_store w)) t" "h \<in> groups_of (turso_view (w_store w)) t" "t \<noteq> []"
    "g_Name g = g_Name h" for g h t
  proof -
    have "(g_ID g, g) \<in> set ?l" "(g_ID h, h) \<in> set ?l" "g_TenantID g = t" "g_TenantID h = t"
      using that by (auto simp: groups_of_def in_tenant_def simp del: turso_view_simps)
    with that(4) have "(g_ID g, g) = (g_ID h, h)"
      by (intro inj_onD [OF inj, of "(g_ID g, g)" "(g_ID h, h)"]) simp_all
    then show ?thesis by simp
  qed
  then show ?thesis by (auto simp: unique_group_names_def unique_names_def inj_on_def)
qed

lemma sql_lookups:
  "fmlookup (fl_groups (turso_view (w_store sql2))) ''h'' = None"
  "fmlookup (fl_machines (turso_view (w_store sql4))) ''m'' = None"
  unfolding turso_view_simps by code_simp+

lemma sql4_token:
  "map_sum (\<lambda>e. e) tok_TenantID (fst (ConsumeToken turso_ops 101 ''ab'' (w_store sql4))) = Inr ''t''"
  by code_simp

lemma reachable_sql1: "sql_reachable sql1"
proof (rule control_reachable.step [OF reachable_sql0])
  show "control_step turso_ops turso_view sql0 sql1"
    by (rule control_step.create_tenant [where body = "Some ''acme''" and i = "''t''" and j = "''g''" and now = 100])
      (simp_all add: sql1_def prod_eq_iff sql0_def fresh_sql_def no_tables_def)
qed (rule sql_names_check_unique [OF sql_names(1)])

lemma reachable_sql3: "sql_reachable sql3"
proof (rule control_reachable.step [OF control_reachable.step [OF reachable_sql1]])
  show "control_step turso_ops turso_view sql1 sql2"
    unfolding sql2_def by (rule control_step.upload_module, rule prod.collapse [symmetric])
  show "unique_group_names (turso_view (w_store sql2))" by (rule sql_names_check_unique [OF sql_names(2)])
  show "control_step turso_ops turso_view sql2 sql3"
    unfolding sql3_def by (rule control_step.create_group, rule prod.collapse [symmetric]) (rule sql_lookups(1))
qed (rule sql_names_check_unique [OF sql_names(3)])

lemma reachable_sql5: "sql_reachable sql5"
proof (rule control_reachable.step [OF control_reachable.step [OF reachable_sql3]])
  show "control_step turso_ops turso_view sql3 sql4"
    unfolding sql4_def by (rule control_step.create_token, rule prod.collapse [symmetric])
  show "unique_group_names (turso_view (w_store sql4))" by (rule sql_names_check_unique [OF sql_names(4)])
  show "control_step turso_ops turso_view sql4 sql5"
    unfolding sql5_def
  proof (rule control_step.enroll, rule prod.collapse [symmetric])
    show "fmlookup (fl_machines (turso_view (w_store sql4))) ''m'' = None" by (rule sql_lookups(2))
    fix req tok s
    assume "Some \<lparr>er_Token = ''ab'', er_CSRPEM = ''csr'', er_Name = ''box''\<rparr> = Some req"
      and "ConsumeToken turso_ops 101 (er_Token req) (w_store sql4) = (Inr tok, s)"
    then show "tok_TenantID tok \<noteq> []" using sql4_token by auto
  qed
qed (rule sql_names_check_unique [OF sql_names(5)])

lemma sql5_machine:
  "map_option (\<lambda>m. (m_TenantID m, m_Desired m)) (fmlookup (fl_machines (turso_view (w_store sql5))) ''m'') =
     Some (''t'', \<lparr>ds_Revision = 1, ds_Modules = Some [node_spec]\<rparr>)"
  unfolding turso_view_simps by code_simp



end
