(* ===== verification/Runtime_Properties.thy ===== *)
theory Runtime_Properties
  imports Agent_Runtime Agent_Properties
begin

text \<open>
  The properties of the agent's runtime: what the server writes on the stream is what the
  agent reconciles, an enrollment that succeeds is one the agent can start from, the
  waits between reconnections are bounded; and where enrollment, renewal and overlapping
  reconciliations fall short.
\<close>

section \<open>Identity files\<close>

lemma data_file_eq:
  assumes "simple_name n" and "simple_name m"
  shows "data_file a n = data_file a m \<longleftrightarrow> n = m"
  using JoinPath_eq [OF assms] by (simp add: data_file_def)

lemma data_file_files [simp]: "data_file (a\<lparr>ag_Files := fs\<rparr>) = data_file a"
  by (simp add: data_file_def fun_eq_iff)

lemma ReadFile_WriteFile:
  assumes "simple_name n" and "simple_name m"
  shows "ReadFile (snd (WriteFile res n content a)) m =
    (if m = n then (case res of Written \<Rightarrow> Some content | NotOpened \<Rightarrow> ReadFile a n | Torn left \<Rightarrow> Some left)
     else ReadFile a m)"
  using data_file_eq [OF assms] by (auto simp: WriteFile_def ReadFile_def write_file_def split: write_result.split)

lemma identity_names_simple [simp]:
  "simple_name ''key.pem''" "simple_name ''cert.pem''" "simple_name ''ca.pem''"
  "simple_name ''module-pub.pem''" "simple_name ''machine-id''"
  by (simp_all add: simple_name_def)

lemma write_identity_reads:
  assumes "write_identity res i files a = (True, a')" and "distinct (map fst files)"
    and "\<forall>n \<in> fst ` set files. simple_name n" and "simple_name m"
    and res: "res = (\<lambda>_. Written)"
  shows "ReadFile a' m = (case map_of files m of Some c \<Rightarrow> Some c | None \<Rightarrow> ReadFile a m)"
  using assms(1-3)
proof (induction files arbitrary: i a)
  case Nil
  then show ?case by simp
next
  case (Cons f files)
  obtain n c where f: "f = (n, c)" by (cases f)
  let ?a = "snd (WriteFile Written n c a)"
  have "write_identity res (Suc i) files ?a = (True, a')"
    using Cons.prems(1) by (simp add: f WriteFile_def write_file_def res)
  from Cons.IH [OF this] Cons.prems(2,3)
  have "ReadFile a' m = (case map_of files m of Some c \<Rightarrow> Some c | None \<Rightarrow> ReadFile ?a m)" by simp
  moreover have "map_of files n = None" using Cons.prems(2) by (simp add: f map_of_eq_None_iff)
  ultimately show ?case
    using ReadFile_WriteFile [of n m Written c a] Cons.prems(3) assms(4)
    by (cases "m = n") (simp_all add: f split: option.split)
qed

lemma write_identity_all:
  "res = (\<lambda>_. Written) \<Longrightarrow> fst (write_identity res i files a)"
  by (induction files arbitrary: i a) (auto simp: WriteFile_def write_file_def)

text \<open>The entries of the map of files, in whatever order.\<close>

lemma identity_files_lookup:
  "fmlookup (identity_files keyPEM er) n =
     (if n = ''key.pem'' then Some keyPEM
      else if n = ''cert.pem'' then Some (rs_CertPEM er)
      else if n = ''ca.pem'' then Some (rs_CAPEM er)
      else if n = ''module-pub.pem'' then Some (rs_ModulePubPEM er)
      else if n = ''machine-id'' then Some (rs_MachineID er) else None)"
  by (simp add: identity_files_def fmlookup_of_list)

lemma map_of_range_map: "map_of (range_map p m) k = fmlookup m k"
proof (cases "fmlookup m k")
  case None
  then show ?thesis by (auto simp: map_of_eq_None_iff)
next
  case (Some v)
  then have "map_of (range_map p m) k = Some v" by (intro map_of_is_SomeI) simp_all
  with Some show ?thesis by simp
qed

lemma identity_reads:
  assumes "write_identity res 0 (range_map p (identity_files keyPEM er)) a = (True, a')"
    and "res = (\<lambda>_. Written)"
  shows "ReadFile a' ''key.pem'' = Some keyPEM" "ReadFile a' ''cert.pem'' = Some (rs_CertPEM er)"
    "ReadFile a' ''ca.pem'' = Some (rs_CAPEM er)" "ReadFile a' ''module-pub.pem'' = Some (rs_ModulePubPEM er)"
    "ReadFile a' ''machine-id'' = Some (rs_MachineID er)"
proof -
  have names: "\<forall>n \<in> fst ` set (range_map p (identity_files keyPEM er)). simple_name n"
    by (auto simp: identity_files_lookup split: if_splits)
  note reads = write_identity_reads [OF assms(1) distinct_keys_range_map names _ assms(2)]
  show "ReadFile a' ''key.pem'' = Some keyPEM" "ReadFile a' ''cert.pem'' = Some (rs_CertPEM er)"
    "ReadFile a' ''ca.pem'' = Some (rs_CAPEM er)" "ReadFile a' ''module-pub.pem'' = Some (rs_ModulePubPEM er)"
    "ReadFile a' ''machine-id'' = Some (rs_MachineID er)"
    by (simp_all add: reads map_of_range_map identity_files_lookup)
qed

text \<open>An enrollment whose requests and writes all succeed.\<close>

definition enrolls ::
  "(bytes \<Rightarrow> bytes) \<Rightarrow> enroll_env \<Rightarrow> string \<Rightarrow> string \<Rightarrow> string \<Rightarrow> bytes \<Rightarrow> enroll_response \<Rightarrow> bool" where
  "enrolls digest env token name fp keyPEM er \<longleftrightarrow>
     ee_MkdirOk env \<and> ee_Key env = Some (Some keyPEM) \<and> ee_Write env = (\<lambda>_. Written) \<and>
     (\<exists>csr chain status body. ee_CSR env = Some csr \<and> ee_Chain env = Some chain \<and>
        verify_peer digest fp chain \<and>
        ee_Post env \<lparr>er_Token = token, er_CSRPEM = csr, er_Name = name\<rparr> = Answer 200 status body (Inr er))"

lemma Enroll_succeeds:
  assumes "enrolls digest env token name fp keyPEM er"
  shows "fst (Enroll digest env token name fp a) = None"
    "write_identity (ee_Write env) 0 (range_map (ee_Order env) (identity_files keyPEM er)) a =
       (True, snd (Enroll digest env token name fp a))"
proof -
  have "fst (write_identity (ee_Write env) 0 (range_map (ee_Order env) (identity_files keyPEM er)) a)"
    using assms by (intro write_identity_all) (simp add: enrolls_def)
  then obtain a' where "write_identity (ee_Write env) 0 (range_map (ee_Order env) (identity_files keyPEM er)) a = (True, a')"
    by (metis prod.collapse)
  with assms show "fst (Enroll digest env token name fp a) = None"
    "write_identity (ee_Write env) 0 (range_map (ee_Order env) (identity_files keyPEM er)) a =
       (True, snd (Enroll digest env token name fp a))"
    by (auto simp: enrolls_def Enroll_def)
qed

text \<open>
  C25: After an enrollment that succeeds the agent starts: if the server's certificate goes
  with the key the agent made and its CA can be pinned, \<open>init\<close> loads the identity it was
  given, with the machine ID, the CA and the module key of the response.
\<close>

theorem enrolled_agent_starts:
  assumes "enrolls digest env token name fp keyPEM er"
    and "keyPair (rs_CertPEM er) keyPEM" and "appendCerts (rs_CAPEM er)"
    and "rt_Agent rt = snd (Enroll digest env token name fp a)"
  shows "Enrolled (rt_Agent rt) \<and>
    (\<exists>rt'. agent_init keyPair appendCerts rt = (None, rt') \<and>
       ag_MachineID (rt_Agent rt') = TrimSpace (rs_MachineID er) \<and>
       ag_ModKey (rt_Agent rt') = rs_ModulePubPEM er \<and>
       rt_Client rt' = Some \<lparr>cl_Cert = rs_CertPEM er, cl_Key = keyPEM, cl_RootCAs = rs_CAPEM er\<rparr>)"
proof -
  have "ee_Write env = (\<lambda>_. Written)" using assms(1) by (simp add: enrolls_def)
  note reads = identity_reads [OF Enroll_succeeds(2) [OF assms(1), of a] this, folded assms(4)]
  then show ?thesis using assms(2,3) by (simp add: Enrolled_def agent_init_def Let_def)
qed

definition sample_response :: enroll_response where
  "sample_response = \<lparr>rs_MachineID = ''m'', rs_TenantID = ''t'', rs_CertPEM = ''cert'', rs_CAPEM = ''ca'',
     rs_ModulePubPEM = ''key''\<rparr>"

definition sample_enroll :: "bytes list \<Rightarrow> (nat \<Rightarrow> write_result) \<Rightarrow> enroll_env" where
  "sample_enroll chain res =
     \<lparr>ee_MkdirOk = True, ee_Key = Some (Some ''k''), ee_CSR = Some ''csr'', ee_Chain = Some chain,
      ee_Post = (\<lambda>_. Answer 200 ''200 OK'' [] (Inr sample_response)), ee_Order = in_order, ee_Write = res\<rparr>"

definition idle :: "agent \<Rightarrow> runtime" where
  "idle a = \<lparr>rt_Agent = a, rt_Client = None, rt_LastDesired = None\<rparr>"

lemma enrolled_agent_starts_witness:
  "Enrolled (snd (Enroll (\<lambda>b. b) (sample_enroll [] (\<lambda>_. Written)) ''t'' ''n'' [] sample_agent)) \<and>
   fst (agent_init (\<lambda>_ _. True) (\<lambda>_. True)
     (idle (snd (Enroll (\<lambda>b. b) (sample_enroll [] (\<lambda>_. Written)) ''t'' ''n'' [] sample_agent)))) = None"
proof -
  have "enrolls (\<lambda>b. b) (sample_enroll [] (\<lambda>_. Written)) ''t'' ''n'' [] ''k'' sample_response"
    by (simp add: enrolls_def sample_enroll_def verify_peer_def)
  from enrolled_agent_starts [OF this, of "\<lambda>_ _. True" "\<lambda>_. True"
      "idle (snd (Enroll (\<lambda>b. b) (sample_enroll [] (\<lambda>_. Written)) ''t'' ''n'' [] sample_agent))" sample_agent]
  show ?thesis by (auto simp: idle_def)
qed

section \<open>Where enrollment falls short\<close>

text \<open>
  The fingerprint does not authenticate the server. Any peer that shows the control
  plane's (public) CA certificate anywhere in its chain passes the check, whatever its own
  certificate is; the agent then sends it the token and pins the CA, the module key and
  the identity of its answer, none of which is compared with the fingerprint.
\<close>

theorem fingerprint_accepts_impostor:
  assumes "EqualFold (hex_encode (digest ca)) fp" and "ca \<in> set chain"
    and "ee_MkdirOk env" and "ee_Key env = Some (Some keyPEM)" and "ee_Write env = (\<lambda>_. Written)"
    and "ee_CSR env = Some csr" and "ee_Chain env = Some chain"
    and "ee_Post env \<lparr>er_Token = token, er_CSRPEM = csr, er_Name = name\<rparr> = Answer 200 status body (Inr forged)"
  shows "fst (Enroll digest env token name fp a) = None \<and>
    ReadFile (snd (Enroll digest env token name fp a)) ''ca.pem'' = Some (rs_CAPEM forged) \<and>
    ReadFile (snd (Enroll digest env token name fp a)) ''module-pub.pem'' = Some (rs_ModulePubPEM forged)"
proof -
  have "verify_peer digest fp chain" using assms(1,2) by (auto simp: verify_peer_def list_ex_iff)
  with assms have e: "enrolls digest env token name fp keyPEM forged" by (simp add: enrolls_def)
  from identity_reads [OF Enroll_succeeds(2) [OF e, of a] assms(5)] Enroll_succeeds(1) [OF e, of a]
  show ?thesis by simp
qed

lemma fingerprint_accepts_impostor_witness:
  "ReadFile (snd (Enroll (\<lambda>b. b) (sample_enroll [''evil'', ''A''] (\<lambda>_. Written)) ''t'' ''n'' ''41'' sample_agent))
     ''module-pub.pem'' = Some ''key''"
proof -
  have "EqualFold (hex_encode ''A'') ''41''" by code_simp
  from fingerprint_accepts_impostor [where digest = "\<lambda>b. b" and ca = "''A''" and fp = "''41''" and
      chain = "[''evil'', ''A'']" and env = "sample_enroll [''evil'', ''A''] (\<lambda>_. Written)" and keyPEM = "''k''" and
      csr = "''csr''" and token = "''t''" and name = "''n''" and status = "''200 OK''" and body = "[]" and
      forged = sample_response and a = sample_agent, OF this]
  show ?thesis by (simp add: sample_enroll_def sample_response_def)
qed

text \<open>The files come out of a map, so \<open>cert.pem\<close> can be written before \<open>key.pem\<close>.\<close>

lemma identity_order:
  "range_map in_order (identity_files keyPEM er) =
     [(''ca.pem'', rs_CAPEM er), (''cert.pem'', rs_CertPEM er), (''key.pem'', keyPEM),
      (''machine-id'', rs_MachineID er), (''module-pub.pem'', rs_ModulePubPEM er)]"
proof -
  have "fmdom (identity_files keyPEM er) =
      {|''ca.pem'', ''cert.pem'', ''key.pem'', ''machine-id'', ''module-pub.pem''|}"
    by (simp add: identity_files_def)
       (auto simp: fset_eq_iff)
  moreover have "sorted_list_of_fset {|''ca.pem'', ''cert.pem'', ''key.pem'', ''machine-id'', ''module-pub.pem''|} =
      [''ca.pem'', ''cert.pem'', ''key.pem'', ''machine-id'', ''module-pub.pem'']"
    by code_simp
  ultimately show ?thesis
    by (simp add: range_map_def sorted_list_of_fmap_def identity_files_lookup)
qed

text \<open>
  An enrollment that is cut off after \<open>cert.pem\<close> leaves a machine that never comes up:
  it counts as enrolled, so no later start enrolls it again, and every start fails at
  loading the key pair. The use of the token is spent.
\<close>

theorem cut_off_enrollment_is_stuck:
  assumes "ee_MkdirOk env" and "ee_Key env = Some (Some keyPEM)" and "ee_CSR env = Some csr"
    and "ee_Chain env = Some chain" and "verify_peer digest fp chain"
    and "ee_Post env \<lparr>er_Token = token, er_CSRPEM = csr, er_Name = name\<rparr> = Answer 200 status body (Inr er)"
    and "ee_Order env = in_order" and "ee_Write env 0 = Written" and "ee_Write env 1 = Written"
    and "ee_Write env 2 = NotOpened" and "ReadFile a ''key.pem'' = None"
    and "rt_Agent rt = snd (Enroll digest env token name fp a)"
  shows "fst (Enroll digest env token name fp a) = Some WriteFailed \<and>
    self_enroll digest env' token' name' fp' (rt_Agent rt) = (Inr (), rt_Agent rt) \<and>
    agent_init keyPair appendCerts rt = (Some LoadIdentity, rt)"
proof -
  define a1 where "a1 = snd (WriteFile Written ''ca.pem'' (rs_CAPEM er) a)"
  define a2 where "a2 = snd (WriteFile Written ''cert.pem'' (rs_CertPEM er) a1)"
  have "write_identity (ee_Write env) 0 (range_map (ee_Order env) (identity_files keyPEM er)) a = (False, a2)"
    using assms(7-10) by (simp add: identity_order a2_def a1_def WriteFile_def write_file_def numeral_2_eq_2)
  with assms(1-6) have e: "Enroll digest env token name fp a = (Some WriteFailed, a2)"
    by (simp add: Enroll_def)
  have "ReadFile a2 ''cert.pem'' = Some (rs_CertPEM er)" "ReadFile a2 ''key.pem'' = None"
    using assms(11) by (simp_all add: a2_def a1_def ReadFile_WriteFile)
  with e assms(12) show ?thesis by (simp add: self_enroll_def Enrolled_def agent_init_def Let_def)
qed

lemma cut_off_enrollment_is_stuck_witness:
  "fst (Enroll (\<lambda>b. b) (sample_enroll [] (\<lambda>i. if i < 2 then Written else NotOpened)) ''t'' ''n'' [] sample_agent) =
     Some WriteFailed"
  using cut_off_enrollment_is_stuck [where digest = "\<lambda>b. b" and token = "''t''" and name = "''n''" and fp = "[]" and
      a = sample_agent and env = "sample_enroll [] (\<lambda>i. if i < 2 then Written else NotOpened)" and keyPEM = "''k''" and
      csr = "''csr''" and chain = "[]" and status = "''200 OK''" and body = "[]" and er = sample_response and
      rt = "idle (snd (Enroll (\<lambda>b. b) (sample_enroll [] (\<lambda>i. if i < 2 then Written else NotOpened))
        ''t'' ''n'' [] sample_agent))"]
  by (simp add: sample_enroll_def verify_peer_def idle_def sample_agent_def ReadFile_def)

text \<open>
  The renewal is not best-effort: a write of the new certificate that fails half-way has
  already destroyed the current one. The running process carries on; the next start fails.
\<close>

theorem torn_renewal_loses_certificate:
  assumes "ReadFile (rt_Agent rt) ''cert.pem'' = Some certPEM" and "re_NotAfter env certPEM = Some notAfter"
    and "notAfter - now \<le> thirty_days" and "ReadFile (rt_Agent rt) ''key.pem'' = Some keyPEM"
    and "re_ParseKey env keyPEM = ECKey key" and "re_CSR env key = Some csr"
    and "postJSON ''/v1/renew'' (re_Post env csr) = Inr cert" and "re_Write env = Torn left"
    and "\<not> keyPair left keyPEM"
  shows "fst (maybeRenewCert keyPair appendCerts env now rt) = RenewFailed \<and>
    rt_Client (snd (maybeRenewCert keyPair appendCerts env now rt)) = rt_Client rt \<and>
    fst (agent_init keyPair appendCerts (snd (maybeRenewCert keyPair appendCerts env now rt))) = Some LoadIdentity"
proof -
  let ?a = "snd (WriteFile (Torn left) ''cert.pem'' cert (rt_Agent rt))"
  have "maybeRenewCert keyPair appendCerts env now rt = (RenewFailed, rt\<lparr>rt_Agent := ?a\<rparr>)"
    using assms by (simp add: maybeRenewCert_def WriteFile_def write_file_def)
  moreover have "ReadFile ?a ''cert.pem'' = Some left" "ReadFile ?a ''key.pem'' = Some keyPEM"
    using assms(4) by (simp_all add: ReadFile_WriteFile)
  ultimately show ?thesis using assms(9) by (simp add: agent_init_def Let_def)
qed

lemma torn_renewal_loses_certificate_witness:
  "fst (agent_init (\<lambda>c k. c \<noteq> []) (\<lambda>_. True) (snd (maybeRenewCert (\<lambda>c k. c \<noteq> []) (\<lambda>_. True)
     \<lparr>re_NotAfter = (\<lambda>_. Some 0), re_ParseKey = ECKey, re_CSR = Some,
      re_Post = (\<lambda>_. Answer 200 [] [] (Inr ''new'')), re_Write = Torn []\<rparr> 0
     (idle (snd (Enroll (\<lambda>b. b) (sample_enroll [] (\<lambda>_. Written)) ''t'' ''n'' [] sample_agent)))))) = Some LoadIdentity"
proof -
  have "enrolls (\<lambda>b. b) (sample_enroll [] (\<lambda>_. Written)) ''t'' ''n'' [] ''k'' sample_response"
    by (simp add: enrolls_def sample_enroll_def verify_peer_def)
  from identity_reads [OF Enroll_succeeds(2) [OF this, of sample_agent]]
  have "ReadFile (snd (Enroll (\<lambda>b. b) (sample_enroll [] (\<lambda>_. Written)) ''t'' ''n'' [] sample_agent)) ''cert.pem'' = Some ''cert''"
    "ReadFile (snd (Enroll (\<lambda>b. b) (sample_enroll [] (\<lambda>_. Written)) ''t'' ''n'' [] sample_agent)) ''key.pem'' = Some ''k''"
    by (simp_all add: sample_enroll_def sample_response_def)
  then show ?thesis
    by (intro torn_renewal_loses_certificate [where notAfter = 0, THEN conjunct2, THEN conjunct2])
      (simp_all add: idle_def postJSON_def thirty_days_def)
qed

section \<open>The stream\<close>

fun reconcile_events ::
  "key_parser \<Rightarrow> sig_checker \<Rightarrow> (nat \<Rightarrow> reconcile_env) \<Rightarrow> nat \<Rightarrow> desired_state list \<Rightarrow> runtime \<Rightarrow> runtime" where
  "reconcile_events parse edVerify envs i [] rt = rt"
| "reconcile_events parse edVerify envs i (ds # dss) rt =
     reconcile_events parse edVerify envs (Suc i) dss
       (reconcile_now parse edVerify (envs i) ds (rt\<lparr>rt_LastDesired := Some ds\<rparr>))"

definition frame_lines :: "(desired_state \<Rightarrow> string) \<Rightarrow> desired_state option \<Rightarrow> string list" where
  "frame_lines encode f = (case f of Some ds \<Rightarrow> [''data: '' @ encode ds, []] | None \<Rightarrow> ['': ping'', []])"

definition events :: "desired_state option list \<Rightarrow> desired_state list" where
  "events fs = map the (filter (\<lambda>f. f \<noteq> None) fs)"

text \<open>
  What the JSON encoder gives for one state: it decodes to the state, holds no line breaks
  (they are escaped in JSON texts), and fits the agent's buffer.
\<close>

definition carries :: "(string \<Rightarrow> desired_state option) \<Rightarrow> (desired_state \<Rightarrow> string) \<Rightarrow> desired_state \<Rightarrow> bool" where
  "carries decode encode ds \<longleftrightarrow>
     decode (encode ds) = Some ds \<and> newline_char \<notin> set (encode ds) \<and> CHR 0x0D \<notin> set (encode ds) \<and>
     length (encode ds) + 6 < stream_limit"

lemma frame_simps:
  "stream_frame encode None = '': ping'' @ [newline_char, newline_char]"
  "stream_frame encode (Some ds) = (''data: '' @ encode ds) @ [newline_char, newline_char]"
  "frame_lines encode None = ['': ping'', []]" "frame_lines encode (Some ds) = [''data: '' @ encode ds, []]"
  by (simp_all add: stream_frame_def frame_lines_def)

lemma Split_frames:
  assumes "\<And>ds. Some ds \<in> set fs \<Longrightarrow> newline_char \<notin> set (encode ds)"
  shows "Split (concat (map (stream_frame encode) fs)) newline_char = concat (map (frame_lines encode) fs) @ [[]]"
  using assms
proof (induction fs)
  case Nil
  then show ?case by simp
next
  case (Cons f fs)
  let ?rest = "concat (map (stream_frame encode) fs)"
  have rest: "Split ?rest newline_char = concat (map (frame_lines encode) fs) @ [[]]"
    using Cons by simp
  show ?case
  proof (cases f)
    case None
    have "Split ('': ping'' @ newline_char # newline_char # ?rest) newline_char = '': ping'' # [] # Split ?rest newline_char"
      by (subst Split_append) simp_all
    with None rest show ?thesis by (simp add: frame_simps)
  next
    case (Some ds)
    then have "newline_char \<notin> set (''data: '' @ encode ds)" using Cons.prems [of ds] by simp
    then have "Split ((''data: '' @ encode ds) @ newline_char # newline_char # ?rest) newline_char =
        (''data: '' @ encode ds) # [] # Split ?rest newline_char"
      by (subst Split_append) simp_all
    with Some rest show ?thesis by (simp add: frame_simps)
  qed
qed

lemma frame_lines_fit:
  assumes "\<And>ds. Some ds \<in> set fs \<Longrightarrow> carries decode encode ds"
    and "l \<in> set (concat (map (frame_lines encode) fs))"
  shows "length l < stream_limit" "drop_cr l = l"
proof -
  obtain f where f: "f \<in> set fs" "l \<in> set (frame_lines encode f)" using assms(2) by auto
  have "length l < stream_limit \<and> CHR 0x0D \<notin> set l"
  proof (cases f)
    case None
    with f(2) show ?thesis by (auto simp: frame_simps stream_limit_def)
  next
    case (Some ds)
    with f(1) assms(1) have "carries decode encode ds" by simp
    with Some f(2) show ?thesis by (auto simp: frame_simps carries_def stream_limit_def)
  qed
  moreover from this have "\<not> (l \<noteq> [] \<and> last l = CHR 0x0D)" by (metis last_in_set)
  ultimately show "length l < stream_limit" "drop_cr l = l" by (simp_all only: drop_cr_def if_False)
qed

lemma stream_lines_frames:
  assumes "\<And>ds. Some ds \<in> set fs \<Longrightarrow> carries decode encode ds"
  shows "stream_lines decode parse edVerify envs i (concat (map (frame_lines encode) fs)) rt =
    reconcile_events parse edVerify envs i (events fs) rt"
  using assms
proof (induction fs arbitrary: i rt)
  case Nil
  then show ?case by (simp add: events_def)
next
  case (Cons f fs)
  show ?case
  proof (cases f)
    case None
    then show ?thesis using Cons by (simp add: frame_lines_def events_def HasPrefix_def)
  next
    case (Some ds)
    then have "decode (encode ds) = Some ds" using Cons.prems by (simp add: carries_def)
    then show ?thesis
      using Some Cons by (simp add: frame_lines_def events_def HasPrefix_def TrimPrefix_def)
  qed
qed

lemma reconcile_events_last:
  "rt_LastDesired (reconcile_events parse edVerify envs i dss rt) =
     (if dss = [] then rt_LastDesired rt else Some (last dss))"
  by (induction dss arbitrary: i rt) (simp_all add: reconcile_now_def)

lemma stream_delivers:
  assumes "\<And>ds. Some ds \<in> set fs \<Longrightarrow> carries decode encode ds"
  shows "streamOnce decode parse edVerify envs
      (Answer 200 status (concat (map (stream_frame encode) fs)) (Inr broken)) rt =
    (broken, reconcile_events parse edVerify envs 0 (events fs) rt) \<and>
    rt_LastDesired (reconcile_events parse edVerify envs 0 (events fs) rt) =
      (if events fs = [] then rt_LastDesired rt else Some (last (events fs)))"
proof -
  let ?ls = "concat (map (frame_lines encode) fs)"
  have raw: "raw_lines (concat (map (stream_frame encode) fs)) = ?ls"
    using assms by (subst raw_lines_def, subst Split_frames) (auto simp: carries_def Let_def)
  have "takeWhile (\<lambda>l. length l < stream_limit) ?ls = ?ls"
    using frame_lines_fit(1) [OF assms] by (simp add: takeWhile_eq_all_conv)
  moreover have "map drop_cr ?ls = ?ls"
    using frame_lines_fit(2) [OF assms] by (intro map_idI)
  ultimately have "scan_lines stream_limit (concat (map (stream_frame encode) fs)) = ?ls"
    by (simp only: scan_lines_def raw)
  moreover have "\<not> list_ex (\<lambda>l. stream_limit \<le> length l) ?ls"
    using frame_lines_fit(1) [OF assms] by (auto simp: list_ex_iff simp flip: not_less)
  ultimately show ?thesis
    using stream_lines_frames [OF assms] by (simp add: streamOnce_def raw reconcile_events_last)
qed


text \<open>
  C18: The stream loses nothing: when the connection ends after whatever number of events
  and keepalives, the agent has reconciled to exactly the desired states the server wrote,
  in their order, and the last of them is the one the retries use.
\<close>

theorem stream_roundtrip:
  assumes "\<And>ds. Some ds \<in> set fs \<Longrightarrow> carries decode encode ds"
  shows "streamOnce decode parse edVerify envs
      (Answer 200 status (concat (map (stream_frame encode) fs)) (Inr broken)) rt =
    (broken, reconcile_events parse edVerify envs 0 (events fs) rt) \<and>
    rt_LastDesired (reconcile_events parse edVerify envs 0 (events fs) rt) =
      (if events fs = [] then rt_LastDesired rt else Some (last (events fs)))"
  using stream_delivers [OF assms] .
definition sample_reconcile_env :: reconcile_env where
  "sample_reconcile_env = \<lparr>rn_Apply = sample_env, rn_Order = in_order, rn_Stuck = (\<lambda>_. False), rn_Save = Saved\<rparr>"

lemma stream_roundtrip_witness:
  "rt_LastDesired (snd (streamOnce (\<lambda>s. if s = ''1'' then Some (sample_desired fmempty) else None)
      sample_parse sample_verify (\<lambda>_. sample_reconcile_env)
      (Answer 200 [] (concat (map (stream_frame (\<lambda>_. ''1'')) [Some (sample_desired fmempty), None])) (Inr None))
      (idle sample_agent))) = Some (sample_desired fmempty)"
proof -
  have "carries (\<lambda>s. if s = ''1'' then Some (sample_desired fmempty) else None) (\<lambda>_. ''1'') (sample_desired fmempty)"
    by (simp add: carries_def stream_limit_def)
  moreover have "events [Some (sample_desired fmempty), None] = [sample_desired fmempty]" by (simp add: events_def)
  ultimately show ?thesis
    using stream_roundtrip [of "[Some (sample_desired fmempty), None]"
        "\<lambda>s. if s = ''1'' then Some (sample_desired fmempty) else None" "\<lambda>_. ''1''" sample_parse sample_verify
        "\<lambda>_. sample_reconcile_env" "[]" None "idle sample_agent"]
    by (simp del: reconcile_events.simps)
qed

section \<open>Waits\<close>

text \<open>The waits between reconnections: 1, 2, 4, 8, 16 and from then on 32 seconds.\<close>

lemma next_backoff_step:
  "b = 1000000000 * 2 ^ n \<Longrightarrow> n \<le> 5 \<Longrightarrow> next_backoff b = 1000000000 * 2 ^ (min 5 (Suc n))"
proof -
  have "list_all (\<lambda>n. next_backoff (1000000000 * 2 ^ n) = 1000000000 * 2 ^ (min 5 (Suc n))) [0..<6]" by code_simp
  then show "b = 1000000000 * 2 ^ n \<Longrightarrow> n \<le> 5 \<Longrightarrow> ?thesis" by (simp add: list_all_iff)
qed

lemma streamLoop_waits:
  assumes "n \<le> 5"
  shows "fst (streamLoop decode parse edVerify envs i reps (1000000000 * 2 ^ n) rt) =
    map (\<lambda>j. 1000000000 * 2 ^ (min 5 (n + j))) [0..<length reps]"
  using assms
proof (induction reps arbitrary: i n rt)
  case Nil
  then show ?case by simp
next
  case (Cons rep reps)
  have "min 5 (min 5 (Suc n) + j) = min 5 (Suc (n + j))" for j by simp
  then show ?case
    using Cons.IH [of "min 5 (Suc n)"] Cons.prems next_backoff_step [OF refl Cons.prems]
    by (simp add: split_beta map_upt_Suc del: upt_Suc)
qed

text \<open>
  The agent waits at most 32 seconds before it connects again: the waits are 1, 2, 4, 8
  and 16 seconds and then always 32, whether the connections in between worked or not.
\<close>

theorem stream_waits:
  "fst (streamLoop decode parse edVerify envs 0 reps 1000000000 rt) =
    map (\<lambda>j. 1000000000 * 2 ^ min 5 j) [0..<length reps]"
  using streamLoop_waits [of 0] by simp

section \<open>Overlapping reconciliations\<close>

lemma reconcile_loaded_frame:
  "ag_Runs (reconcile_loaded parse edVerify envs p stuck so loaded ds a) =
     ag_Runs (rc_Agent (reconcile_specs parse edVerify envs 0 (specs_of ds)
       \<lparr>rc_Applied = loaded, rc_Statuses = [], rc_Want = fmempty, rc_Agent = a\<rparr>))"
  "ag_ModKey (reconcile_loaded parse edVerify envs p stuck so loaded ds a) = ag_ModKey a"
proof -
  let ?r = "reconcile_specs parse edVerify envs 0 (specs_of ds)
       \<lparr>rc_Applied = loaded, rc_Statuses = [], rc_Want = fmempty, rc_Agent = a\<rparr>"
  have "ag_ModKey (rc_Agent (fold (forget_entry stuck want) es r)) = ag_ModKey (rc_Agent r)" for want es r
    by (induction es arbitrary: r) (auto simp: forget_entry_def split: prod.split)
  moreover have "ag_ModKey (rc_Agent ?r) = ag_ModKey a"
    using reconcile_specs_runs [of parse edVerify envs 0 "specs_of ds"
      "\<lparr>rc_Applied = loaded, rc_Statuses = [], rc_Want = fmempty, rc_Agent = a\<rparr>"] by auto
  ultimately show "ag_Runs (reconcile_loaded parse edVerify envs p stuck so loaded ds a) = ag_Runs (rc_Agent ?r)"
    "ag_ModKey (reconcile_loaded parse edVerify envs p stuck so loaded ds a) = ag_ModKey a"
    by (simp_all add: reconcile_loaded_def Let_def)
qed

text \<open>An application in which nothing fails.\<close>

definition apply_succeeds :: "key_parser \<Rightarrow> sig_checker \<Rightarrow> bytes \<Rightarrow> module_artifact \<Rightarrow> apply_env \<Rightarrow> bool" where
  "apply_succeeds parse edVerify modKey art env \<longleftrightarrow>
     ae_Fetch env = Inr art \<and> verify parse edVerify modKey art = None \<and>
     ae_MkdirErr env = None \<and> ae_WriteErr env = None \<and> ae_RunErr env = None"

lemma apply_succeeds_runs:
  assumes "apply_succeeds parse edVerify (ag_ModKey a) art env"
  shows "\<exists>x. ag_Runs (snd (apply_module parse edVerify env spec a)) = ag_Runs a @ [x] \<and>
    run_Payload x = art_Payload art \<and>
    run_Path x = JoinPath [module_dir a (ms_Name spec) (ms_Version spec), Base (Clean (art_Exec art))]"
  using assms by (simp add: apply_succeeds_def apply_module_def Let_def)

lemma reconcile_one_runs:
  assumes "ds_Modules ds = Some [spec]" and "fmlookup loaded (appliedKey spec) = None"
    and "apply_succeeds parse edVerify (ag_ModKey a) art (envs 0)"
  shows "map run_Payload (ag_Runs (reconcile_loaded parse edVerify envs p stuck so loaded ds a)) =
    map run_Payload (ag_Runs a) @ [art_Payload art]"
  using apply_succeeds_runs [OF assms(3), of spec] assms(1,2)
  by (auto simp: reconcile_loaded_frame specs_of_def reconcile_spec_def Let_def split_beta)

text \<open>
  Two reconciliations can overlap, the stream's and that of the retry tick, and a module
  is then run twice. Here the tick has loaded \<open>applied.json\<close> when an event arrives; the
  event's reconciliation runs the module and records it; the tick goes on with the map it
  has and runs it again.
\<close>

theorem overlapping_reconciles_run_twice:
  assumes "ds_Modules ds = Some [spec]" and "fmlookup (loadApplied a) (appliedKey spec) = None"
    and "apply_succeeds parse edVerify (ag_ModKey a) art (envs 0)" and "apply_succeeds parse edVerify (ag_ModKey a) art (envs' 0)"
  shows "map run_Payload (ag_Runs (reconcile_loaded parse edVerify envs' p' stuck' so' (loadApplied a) ds
      (reconcile parse edVerify envs p stuck so ds a))) =
    map run_Payload (ag_Runs a) @ [art_Payload art, art_Payload art]"
  using reconcile_one_runs [where envs = envs, OF assms(1-3), of p stuck so]
    reconcile_one_runs [OF assms(1,2), of parse edVerify "reconcile parse edVerify envs p stuck so ds a" art envs' p' stuck' so']
    assms(4)
  by (simp add: reconcile_def reconcile_loaded_frame(2))

lemma overlapping_reconciles_run_twice_witness:
  "map run_Payload (ag_Runs (reconcile_loaded sample_parse sample_verify sample_env in_order (\<lambda>_. False) Saved
      (loadApplied sample_agent) (sample_desired fmempty)
      (reconcile sample_parse sample_verify sample_env in_order (\<lambda>_. False) Saved (sample_desired fmempty) sample_agent))) =
    [''ab'', ''ab'']"
  by (subst overlapping_reconciles_run_twice [where art = "\<lparr>art_Name = ''ntp'', art_Version = ''1'', art_Exec = ''run'',
        art_Payload = ''ab'', art_Signature = ''ba''\<rparr>"])
    (simp_all add: sample_desired_def sample_agent_def loadApplied_def apply_succeeds_def sample_env_def verify_def
      sample_parse_def sample_verify_def)

end
