(* ===== verification/Certificate_Authority.thy ===== *)
theory Certificate_Authority
  imports Go_Paths
begin

text \<open>
  The certificate authority (\<open>internal/ca/ca.go\<close>): the root key that signs the agents'
  certificates, the Ed25519 key that signs modules, and the three files that keep them.
  Go's cryptography, X.509 and PEM are arguments, collected in a record; what is modelled
  is which of them the code calls with what, in which order, and what it keeps.
\<close>

section \<open>What the library provides\<close>

datatype key_usage = CertSign | DigitalSignature
datatype ext_key_usage = ClientAuth | ServerAuth

record certificate =
  tm_Serial :: nat
  tm_CommonName :: string
  tm_OrganizationalUnit :: "string list"
  tm_NotBefore :: int
  tm_NotAfter :: int
  tm_IsCA :: bool
  tm_KeyUsage :: "key_usage list"
  tm_ExtKeyUsage :: "ext_key_usage list"
  tm_IPAddresses :: "string list"
  tm_DNSNames :: "string list"

text \<open>Keys as \<open>x509.ParsePKCS8PrivateKey\<close> and \<open>x509.ParsePKIXPublicKey\<close> give them.\<close>

datatype private_key = Ed25519Private bytes | OtherPrivate
datatype public_key = Ed25519Public bytes | OtherPublic

text \<open>
  \<open>cr_CreateCertificate tmpl parent pub key\<close> is the DER of a certificate with the fields of
  \<open>tmpl\<close> for the public key \<open>pub\<close>, signed with \<open>key\<close>. \<open>cr_ParseCSR\<close> gives the public key
  of a request and whether its signature holds. Keys are byte strings.
\<close>

record crypto =
  cr_PemDecode :: "bytes \<Rightarrow> (string \<times> bytes) option"
  cr_PemEncode :: "string \<Rightarrow> bytes \<Rightarrow> bytes"
  cr_CreateCertificate :: "certificate \<Rightarrow> certificate \<Rightarrow> bytes \<Rightarrow> bytes \<Rightarrow> bytes option"
  cr_ParseCertificate :: "bytes \<Rightarrow> certificate option"
  cr_ParseCSR :: "bytes \<Rightarrow> (bytes \<times> bool) option"
  cr_MarshalEC :: "bytes \<Rightarrow> bytes option"
  cr_ParseEC :: "bytes \<Rightarrow> bytes option"
  cr_MarshalPKCS8 :: "bytes \<Rightarrow> bytes option"
  cr_ParsePKCS8 :: "bytes \<Rightarrow> private_key option"
  cr_MarshalPKIX :: "bytes \<Rightarrow> bytes option"
  cr_ParsePKIX :: "bytes \<Rightarrow> public_key option"
  cr_PublicEC :: "bytes \<Rightarrow> bytes"
  cr_PublicEd :: "bytes \<Rightarrow> bytes"
  cr_SignEd :: "bytes \<Rightarrow> bytes \<Rightarrow> bytes"
  cr_VerifyEd :: "bytes \<Rightarrow> bytes \<Rightarrow> bytes \<Rightarrow> bool"

text \<open>
  What the environment answers in one run: generated keys, the serial number, the clock and
  the date so many years from it, whether the directory can be made, how writes end.
\<close>

record ca_env =
  ce_Key :: "bytes option"
  ce_ModKey :: "bytes option"
  ce_Serial :: nat
  ce_Now :: int
  ce_InYears :: "nat \<Rightarrow> int"
  ce_MkdirOk :: bool
  ce_Write :: "nat \<Rightarrow> write_result"

record ca =
  ca_Cert :: certificate
  ca_Raw :: bytes
  ca_Key :: bytes
  ca_CertPEM :: bytes
  ca_ModulePriv :: bytes
  ca_ModulePub :: bytes

datatype ca_error =
  MkdirCA | CreateCA ca_error | NoKey | NoCertificate | NoEncoding | NotWritten | NotRead | NoPEMBlock | NotParsed
| NotEd25519 | BadCSR | BadCSRSignature

definition an_hour :: int where
  "an_hour = 3600"

section \<open>Files\<close>

definition writePEM :: "crypto \<Rightarrow> write_result \<Rightarrow> string \<Rightarrow> string \<Rightarrow> bytes \<Rightarrow> bytes gomap \<Rightarrow> bool \<times> bytes gomap" where
  "writePEM cr res path typ der files = write_file res path (cr_PemEncode cr typ der) files"

definition readPEM :: "crypto \<Rightarrow> string \<Rightarrow> bytes gomap \<Rightarrow> ca_error + bytes" where
  "readPEM cr path files =
     (case fmlookup files path of
        None \<Rightarrow> Inl NotRead
      | Some raw \<Rightarrow>
          (case cr_PemDecode cr raw of None \<Rightarrow> Inl NoPEMBlock | Some (typ, der) \<Rightarrow> Inr der))"

definition parseCertPEM :: "crypto \<Rightarrow> bytes \<Rightarrow> ca_error + certificate \<times> bytes" where
  "parseCertPEM cr raw =
     (case cr_PemDecode cr raw of
        None \<Rightarrow> Inl NoPEMBlock
      | Some (typ, der) \<Rightarrow>
          (case cr_ParseCertificate cr der of None \<Rightarrow> Inl NotParsed | Some cert \<Rightarrow> Inr (cert, der)))"

section \<open>Creating and loading\<close>

definition root_template :: "ca_env \<Rightarrow> certificate" where
  "root_template env =
     \<lparr>tm_Serial = ce_Serial env, tm_CommonName = ''fleetcore-root-ca'', tm_OrganizationalUnit = [],
      tm_NotBefore = ce_Now env - an_hour, tm_NotAfter = ce_InYears env 10, tm_IsCA = True,
      tm_KeyUsage = [CertSign, DigitalSignature], tm_ExtKeyUsage = [], tm_IPAddresses = [], tm_DNSNames = []\<rparr>"

text \<open>The module key is encoded after the first two files are written.\<close>

definition create_ca ::
  "crypto \<Rightarrow> ca_env \<Rightarrow> string \<Rightarrow> string \<Rightarrow> string \<Rightarrow> bytes gomap \<Rightarrow> ca_error option \<times> bytes gomap" where
  "create_ca cr env certPath keyPath modPath files =
     (case ce_Key env of
        None \<Rightarrow> (Some NoKey, files)
      | Some key \<Rightarrow>
          (case cr_CreateCertificate cr (root_template env) (root_template env) (cr_PublicEC cr key) key of
             None \<Rightarrow> (Some NoCertificate, files)
           | Some der \<Rightarrow>
               (case cr_MarshalEC cr key of
                  None \<Rightarrow> (Some NoEncoding, files)
                | Some keyDER \<Rightarrow>
                    (case ce_ModKey env of
                       None \<Rightarrow> (Some NoKey, files)
                     | Some modPriv \<Rightarrow>
                         (case writePEM cr (ce_Write env 0) certPath ''CERTIFICATE'' der files of
                            (False, f1) \<Rightarrow> (Some NotWritten, f1)
                          | (True, f1) \<Rightarrow>
                              (case writePEM cr (ce_Write env 1) keyPath ''EC PRIVATE KEY'' keyDER f1 of
                                 (False, f2) \<Rightarrow> (Some NotWritten, f2)
                               | (True, f2) \<Rightarrow>
                                   (case cr_MarshalPKCS8 cr modPriv of
                                      None \<Rightarrow> (Some NoEncoding, f2)
                                    | Some modDER \<Rightarrow>
                                        (case writePEM cr (ce_Write env 2) modPath ''PRIVATE KEY'' modDER f2 of
                                           (False, f3) \<Rightarrow> (Some NotWritten, f3)
                                         | (True, f3) \<Rightarrow> (None, f3)))))))))"

definition load_ca :: "crypto \<Rightarrow> string \<Rightarrow> string \<Rightarrow> string \<Rightarrow> bytes gomap \<Rightarrow> ca_error + ca" where
  "load_ca cr certPath keyPath modPath files =
     (case fmlookup files certPath of
        None \<Rightarrow> Inl NotRead
      | Some certPEM \<Rightarrow>
          (case parseCertPEM cr certPEM of
             Inl e \<Rightarrow> Inl e
           | Inr (cert, raw) \<Rightarrow>
               (case readPEM cr keyPath files of
                  Inl e \<Rightarrow> Inl e
                | Inr keyDER \<Rightarrow>
                    (case cr_ParseEC cr keyDER of
                       None \<Rightarrow> Inl NotParsed
                     | Some key \<Rightarrow>
                         (case readPEM cr modPath files of
                            Inl e \<Rightarrow> Inl e
                          | Inr modDER \<Rightarrow>
                              (case cr_ParsePKCS8 cr modDER of
                                 None \<Rightarrow> Inl NotParsed
                               | Some OtherPrivate \<Rightarrow> Inl NotEd25519
                               | Some (Ed25519Private modPriv) \<Rightarrow>
                                   Inr \<lparr>ca_Cert = cert, ca_Raw = raw, ca_Key = key, ca_CertPEM = certPEM,
                                        ca_ModulePriv = modPriv, ca_ModulePub = cr_PublicEd cr modPriv\<rparr>))))))"

definition LoadOrCreate :: "crypto \<Rightarrow> ca_env \<Rightarrow> string \<Rightarrow> bytes gomap \<Rightarrow> (ca_error + ca) \<times> bytes gomap" where
  "LoadOrCreate cr env dir files =
     (if \<not> ce_MkdirOk env then (Inl MkdirCA, files)
      else
        let certPath = JoinPath [dir, ''ca.pem''];
            keyPath = JoinPath [dir, ''ca.key''];
            modPath = JoinPath [dir, ''module-signing.key'']
        in if fmlookup files certPath = None
           then (case create_ca cr env certPath keyPath modPath files of
                   (Some e, f1) \<Rightarrow> (Inl (CreateCA e), f1)
                 | (None, f1) \<Rightarrow> (load_ca cr certPath keyPath modPath f1, f1))
           else (load_ca cr certPath keyPath modPath files, files))"

section \<open>Issuing\<close>

definition agent_template :: "ca_env \<Rightarrow> string \<Rightarrow> string \<Rightarrow> certificate" where
  "agent_template env machineID tenantID =
     \<lparr>tm_Serial = ce_Serial env, tm_CommonName = machineID, tm_OrganizationalUnit = [tenantID],
      tm_NotBefore = ce_Now env - an_hour, tm_NotAfter = ce_InYears env 1, tm_IsCA = False,
      tm_KeyUsage = [DigitalSignature], tm_ExtKeyUsage = [ClientAuth], tm_IPAddresses = [], tm_DNSNames = []\<rparr>"

text \<open>Of the request only the public key is used.\<close>

definition SignAgent :: "crypto \<Rightarrow> ca_env \<Rightarrow> ca \<Rightarrow> bytes \<Rightarrow> string \<Rightarrow> string \<Rightarrow> ca_error + bytes" where
  "SignAgent cr env c csrPEM machineID tenantID =
     (case cr_PemDecode cr csrPEM of
        None \<Rightarrow> Inl BadCSR
      | Some (typ, block) \<Rightarrow>
          if typ \<noteq> ''CERTIFICATE REQUEST'' then Inl BadCSR
          else
            (case cr_ParseCSR cr block of
               None \<Rightarrow> Inl BadCSR
             | Some (pub, valid) \<Rightarrow>
                 if \<not> valid then Inl BadCSRSignature
                 else
                   (case cr_CreateCertificate cr (agent_template env machineID tenantID) (ca_Cert c) pub (ca_Key c) of
                      None \<Rightarrow> Inl NoCertificate
                    | Some der \<Rightarrow> Inr (cr_PemEncode cr ''CERTIFICATE'' der))))"

text \<open>\<open>isIP\<close> is \<open>net.ParseIP\<close> succeeding. The chain presented ends in the CA.\<close>

definition server_template :: "(string \<Rightarrow> bool) \<Rightarrow> ca_env \<Rightarrow> string list \<Rightarrow> certificate" where
  "server_template isIP env sans =
     \<lparr>tm_Serial = ce_Serial env, tm_CommonName = ''fleetcore-server'', tm_OrganizationalUnit = [],
      tm_NotBefore = ce_Now env - an_hour, tm_NotAfter = ce_InYears env 2, tm_IsCA = False,
      tm_KeyUsage = [DigitalSignature], tm_ExtKeyUsage = [ServerAuth],
      tm_IPAddresses = filter isIP sans, tm_DNSNames = filter (\<lambda>s. \<not> isIP s) sans\<rparr>"

definition ServerTLSCert :: "crypto \<Rightarrow> (string \<Rightarrow> bool) \<Rightarrow> ca_env \<Rightarrow> ca \<Rightarrow> string list \<Rightarrow> ca_error + bytes list \<times> bytes" where
  "ServerTLSCert cr isIP env c sans =
     (case ce_Key env of
        None \<Rightarrow> Inl NoKey
      | Some key \<Rightarrow>
          (case cr_CreateCertificate cr (server_template isIP env sans) (ca_Cert c) (cr_PublicEC cr key) (ca_Key c) of
             None \<Rightarrow> Inl NoCertificate
           | Some der \<Rightarrow> Inr ([der, ca_Raw c], key)))"

definition SignModule :: "crypto \<Rightarrow> ca \<Rightarrow> bytes \<Rightarrow> bytes" where
  "SignModule cr c payload = cr_SignEd cr (ca_ModulePriv c) payload"

definition ModulePubPEM :: "crypto \<Rightarrow> ca \<Rightarrow> ca_error + bytes" where
  "ModulePubPEM cr c =
     (case cr_MarshalPKIX cr (ca_ModulePub c) of
        None \<Rightarrow> Inl NoEncoding
      | Some der \<Rightarrow> Inr (cr_PemEncode cr ''PUBLIC KEY'' der))"

section \<open>The authority across restarts\<close>

lemma load_ca_exists: "load_ca cr p q r files = Inr c \<Longrightarrow> fmlookup files p \<noteq> None"
  by (auto simp: load_ca_def split: option.splits)

lemma load_ca_module_key: "load_ca cr p q r files = Inr c \<Longrightarrow> ca_ModulePub c = cr_PublicEd cr (ca_ModulePriv c)"
  by (auto simp: load_ca_def split: option.splits sum.splits prod.splits private_key.splits)

lemma LoadOrCreate_module_key:
  "LoadOrCreate cr env dir files = (Inr c, files') \<Longrightarrow> ca_ModulePub c = cr_PublicEd cr (ca_ModulePriv c)"
  by (auto simp: LoadOrCreate_def Let_def split: if_splits prod.splits option.splits dest: load_ca_module_key)

end
