(* ===== verification/Authority_Properties.thy ===== *)
theory Authority_Properties
  imports Certificate_Authority Sample_Run
begin

text \<open>
  The properties of the certificate authority: it stays the same across restarts, the
  certificate an enrollment issues makes the agent known as the machine and the tenant it
  was enrolled for, and a creation that is cut off is never made good.
\<close>

section \<open>What the code relies on\<close>

text \<open>
  The documented behaviour of Go's library: PEM of the type \<open>typ\<close> decodes to what was encoded, a
  certificate parses with the subject of its template, a PKIX key parses to the key, and
  Ed25519 accepts what was signed.
\<close>

definition pem_roundtrip :: "crypto \<Rightarrow> string \<Rightarrow> bool" where
  "pem_roundtrip cr typ \<longleftrightarrow> (\<forall>b. cr_PemDecode cr (cr_PemEncode cr typ b) = Some (typ, b))"

definition keeps_subject :: "crypto \<Rightarrow> bool" where
  "keeps_subject cr \<longleftrightarrow>
     (\<forall>tm parent pub key der. cr_CreateCertificate cr tm parent pub key = Some der \<longrightarrow>
        (\<exists>c. cr_ParseCertificate cr der = Some c \<and> tm_CommonName c = tm_CommonName tm \<and>
           tm_OrganizationalUnit c = tm_OrganizationalUnit tm))"

definition pkix_roundtrip :: "crypto \<Rightarrow> bool" where
  "pkix_roundtrip cr \<longleftrightarrow>
     (\<forall>k der. cr_MarshalPKIX cr k = Some der \<longrightarrow> cr_ParsePKIX cr der = Some (Ed25519Public k))"

definition ed25519_accepts :: "crypto \<Rightarrow> bool" where
  "ed25519_accepts cr \<longleftrightarrow> (\<forall>priv b. cr_VerifyEd cr (cr_PublicEd cr priv) b (cr_SignEd cr priv b))"

text \<open>A library that behaves so: PEM is the type, a newline and the bytes.\<close>

definition sample_crypto :: crypto where
  "sample_crypto =
     \<lparr>cr_PemDecode = (\<lambda>s. if CHR 0x0A \<in> set s
        then Some (takeWhile (\<lambda>c. c \<noteq> CHR 0x0A) s, tl (dropWhile (\<lambda>c. c \<noteq> CHR 0x0A) s)) else None),
      cr_PemEncode = (\<lambda>typ b. typ @ CHR 0x0A # b),
      cr_CreateCertificate = (\<lambda>tm parent pub key.
        if tm_CommonName tm = ''m'' \<and> tm_OrganizationalUnit tm = [''t''] then Some ''agent''
        else if tm_CommonName tm = ''fleetcore-root-ca'' \<and> tm_OrganizationalUnit tm = [] then Some ''root'' else None),
      cr_ParseCertificate = (\<lambda>der.
        Some \<lparr>tm_Serial = 0, tm_CommonName = (if der = ''agent'' then ''m'' else ''fleetcore-root-ca''),
          tm_OrganizationalUnit = (if der = ''agent'' then [''t''] else []), tm_NotBefore = 0, tm_NotAfter = 0,
          tm_IsCA = False, tm_KeyUsage = [], tm_ExtKeyUsage = [], tm_IPAddresses = [], tm_DNSNames = []\<rparr>),
      cr_ParseCSR = (\<lambda>b. Some (b, True)), cr_MarshalEC = Some, cr_ParseEC = Some, cr_MarshalPKCS8 = Some,
      cr_ParsePKCS8 = (\<lambda>b. Some (Ed25519Private b)), cr_MarshalPKIX = Some,
      cr_ParsePKIX = (\<lambda>b. Some (Ed25519Public b)), cr_PublicEC = (\<lambda>k. k), cr_PublicEd = (\<lambda>k. k),
      cr_SignEd = (\<lambda>k b. k @ b), cr_VerifyEd = (\<lambda>k b sig. sig = k @ b)\<rparr>"

lemma sample_crypto_behaves:
  "CHR 0x0A \<notin> set typ \<Longrightarrow> pem_roundtrip sample_crypto typ" "keeps_subject sample_crypto" "pkix_roundtrip sample_crypto"
  "ed25519_accepts sample_crypto"
proof -
  assume "CHR 0x0A \<notin> set typ"
  then have "takeWhile (\<lambda>c. c \<noteq> CHR 0x0A) (typ @ CHR 0x0A # b) = typ"
    "dropWhile (\<lambda>c. c \<noteq> CHR 0x0A) (typ @ CHR 0x0A # b) = CHR 0x0A # b" for b
    by (simp_all add: takeWhile_append dropWhile_append)
  then show "pem_roundtrip sample_crypto typ" by (simp add: pem_roundtrip_def sample_crypto_def)
qed (auto simp: sample_crypto_def keeps_subject_def pkix_roundtrip_def ed25519_accepts_def split: if_splits)

definition sample_ca_env :: "(nat \<Rightarrow> write_result) \<Rightarrow> ca_env" where
  "sample_ca_env res =
     \<lparr>ce_Key = Some ''K'', ce_ModKey = Some ''M'', ce_Serial = 1, ce_Now = 0, ce_InYears = int,
      ce_MkdirOk = True, ce_Write = res\<rparr>"

section \<open>Restarts\<close>

lemma LoadOrCreate_again:
  assumes "LoadOrCreate cr env dir files = (Inr c, files')" and "ce_MkdirOk env'"
  shows "LoadOrCreate cr env' dir files' = (Inr c, files')"
proof -
  have "load_ca cr (JoinPath [dir, ''ca.pem'']) (JoinPath [dir, ''ca.key'']) (JoinPath [dir, ''module-signing.key'']) files' = Inr c"
    using assms(1) by (auto simp: LoadOrCreate_def Let_def split: if_splits prod.splits option.splits)
  with load_ca_exists [OF this] assms(2) show ?thesis by (auto simp: LoadOrCreate_def Let_def)
qed

text \<open>
  The authority is made once: after a first boot that succeeded, every later boot on the
  same directory gives the same CA, with the same root key and module key, whatever
  random numbers and clock it runs with, and changes no file. So certificates and module
  signatures issued before a restart stay valid after it.
\<close>

theorem ca_survives_restart:
  assumes "LoadOrCreate cr env dir files = (Inr c, files')" and "ce_MkdirOk env'"
  shows "LoadOrCreate cr env' dir files' = (Inr c, files')"
  using assms by (rule LoadOrCreate_again)

definition sample_ca :: "ca \<times> bytes gomap" where
  "sample_ca = (case LoadOrCreate sample_crypto (sample_ca_env (\<lambda>_. Written)) ''d'' fmempty of
     (r, files) \<Rightarrow> (projr r, files))"

lemma sample_ca_created:
  "LoadOrCreate sample_crypto (sample_ca_env (\<lambda>_. Written)) ''d'' fmempty = (Inr (fst sample_ca), snd sample_ca)"
proof -
  have "\<not> isl (fst (LoadOrCreate sample_crypto (sample_ca_env (\<lambda>_. Written)) ''d'' fmempty))" by code_simp
  then show ?thesis by (auto simp: sample_ca_def split: prod.split)
qed

lemma ca_survives_restart_witness:
  "LoadOrCreate sample_crypto ((sample_ca_env (\<lambda>_. NotOpened))\<lparr>ce_Key := Some ''other''\<rparr>) ''d'' (snd sample_ca) =
    (Inr (fst sample_ca), snd sample_ca)"
  by (rule ca_survives_restart [OF sample_ca_created]) (simp add: sample_ca_env_def)

text \<open>
  A first boot that fails after \<open>ca.pem\<close> is written is never made good: the file makes
  every later boot skip the creation and fail at the missing key.
\<close>

theorem cut_off_creation_is_stuck:
  assumes "ce_MkdirOk env" and "ce_Key env = Some key" and "ce_ModKey env = Some modKey"
    and "cr_CreateCertificate cr (root_template env) (root_template env) (cr_PublicEC cr key) key = Some der"
    and "cr_MarshalEC cr key = Some keyDER" and "ce_Write env 0 = Written" and "ce_Write env 1 = NotOpened"
    and "fmlookup files (JoinPath [dir, ''ca.pem'']) = None" and "fmlookup files (JoinPath [dir, ''ca.key'']) = None"
    and "LoadOrCreate cr env dir files = (r, files')" and "ce_MkdirOk env'"
  shows "isl r \<and> isl (fst (LoadOrCreate cr env' dir files')) \<and> snd (LoadOrCreate cr env' dir files') = files'"
proof -
  have ne: "JoinPath [dir, ''ca.pem''] \<noteq> JoinPath [dir, ''ca.key'']"
    by (subst JoinPath_eq) (simp_all add: simple_name_def)
  have first: "r = Inl (CreateCA NotWritten)"
    "files' = fmupd (JoinPath [dir, ''ca.pem'']) (cr_PemEncode cr ''CERTIFICATE'' der) files"
    using assms(1-8,10) by (simp_all add: LoadOrCreate_def Let_def create_ca_def writePEM_def write_file_def)
  then have "isl (load_ca cr (JoinPath [dir, ''ca.pem'']) (JoinPath [dir, ''ca.key'']) p files')" for p
    using assms(9) ne by (auto simp: load_ca_def readPEM_def split: sum.split)
  with first assms(11) show ?thesis by (simp add: LoadOrCreate_def Let_def)
qed

lemma cut_off_creation_is_stuck_witness:
  "isl (fst (LoadOrCreate sample_crypto (sample_ca_env (\<lambda>_. Written)) ''d''
     (snd (LoadOrCreate sample_crypto (sample_ca_env (\<lambda>i. if i = 0 then Written else NotOpened)) ''d'' fmempty))))"
  by (rule cut_off_creation_is_stuck [where env = "sample_ca_env (\<lambda>i. if i = 0 then Written else NotOpened)" and
        key = "''K''" and modKey = "''M''" and der = "''root''" and keyDER = "''K''" and files = fmempty and
        r = "fst (LoadOrCreate sample_crypto (sample_ca_env (\<lambda>i. if i = 0 then Written else NotOpened)) ''d'' fmempty)",
        THEN conjunct2, THEN conjunct1])
    (simp_all add: sample_ca_env_def sample_crypto_def root_template_def)

section \<open>Identity\<close>

text \<open>The signing the handlers use, and what they see of a client that presents a certificate.\<close>

definition agent_signer :: "crypto \<Rightarrow> ca_env \<Rightarrow> ca \<Rightarrow> string \<Rightarrow> string \<Rightarrow> string \<Rightarrow> string option" where
  "agent_signer cr cenv c csr machineID tenantID =
     (case SignAgent cr cenv c csr machineID tenantID of Inl _ \<Rightarrow> None | Inr certPEM \<Rightarrow> Some certPEM)"

definition presented :: "crypto \<Rightarrow> bytes \<Rightarrow> subject list option" where
  "presented cr certPEM =
     (case parseCertPEM cr certPEM of
        Inl _ \<Rightarrow> None
      | Inr (cert, raw) \<Rightarrow>
          Some [\<lparr>sub_CommonName = tm_CommonName cert, sub_OrganizationalUnit = tm_OrganizationalUnit cert\<rparr>])"

lemma signed_subject:
  assumes "pem_roundtrip cr ''CERTIFICATE''" and "keeps_subject cr" and "agent_signer cr cenv c csr mid tid = Some certPEM"
  shows "presented cr certPEM = Some [\<lparr>sub_CommonName = mid, sub_OrganizationalUnit = [tid]\<rparr>]"
proof -
  obtain der pub where der: "cr_CreateCertificate cr (agent_template cenv mid tid) (ca_Cert c) pub (ca_Key c) = Some der"
    "certPEM = cr_PemEncode cr ''CERTIFICATE'' der"
    using assms(3) by (auto simp: agent_signer_def SignAgent_def split: option.splits prod.splits if_splits sum.splits)
  from assms(2) der(1) obtain cert where "cr_ParseCertificate cr der = Some cert" "tm_CommonName cert = mid"
    "tm_OrganizationalUnit cert = [tid]"
    by (fastforce simp: keeps_subject_def agent_template_def)
  with assms(1) der(2) show ?thesis by (simp add: presented_def parseCertPEM_def pem_roundtrip_def)
qed

text \<open>
  C20: Whoever enrolls with a token is from then on, on every connection made with the
  certificate it was issued, the machine that was created and of the token's tenant:
  nothing in the request can choose either.
\<close>

theorem enrolled_machine_is_identified:
  assumes "pem_roundtrip cr ''CERTIFICATE''" and "keeps_subject cr"
    and "handleEnroll S B (agent_signer cr cenv c) pub caPEM env now newID (Some req) w = (Json rs, w')"
  shows "\<exists>tok s. ConsumeToken S now (er_Token req) (w_store w) = (Inr tok, s) \<and>
    withIdentity (presented cr (rs_CertPEM rs)) nxt w2 = nxt \<lparr>idn_MachineID = newID, idn_TenantID = tok_TenantID tok\<rparr> w2"
proof -
  obtain tok s where tok: "ConsumeToken S now (er_Token req) (w_store w) = (Inr tok, s)"
    and cert: "agent_signer cr cenv c (er_CSRPEM req) newID (tok_TenantID tok) = Some (rs_CertPEM rs)"
    using assms(3)
    by (auto simp: handleEnroll_def on_store_def Let_def split: prod.splits sum.splits option.splits)
  from signed_subject [OF assms(1,2) cert] tok show ?thesis by (auto simp: withIdentity_def)
qed

definition sample_enroll_request :: enroll_request where
  "sample_enroll_request =
     \<lparr>er_Token = ''ab'', er_CSRPEM = ''CERTIFICATE REQUEST'' @ CHR 0x0A # ''X'', er_Name = ''box''\<rparr>"

fun json_of :: "'a response \<Rightarrow> 'a option" where
  "json_of (Json x) = Some x"
| "json_of _ = None"

lemma json_ofD: "json_of r = Some x \<Longrightarrow> r = Json x"
  by (cases r) simp_all

lemma sample_enrolls:
  "json_of (fst (handleEnroll file_ops inproc_ops
     (agent_signer sample_crypto (sample_ca_env (\<lambda>_. Written)) (fst sample_ca)) (Some ''pub'') ''ca'' plain_choices 101
     ''m'' (Some sample_enroll_request) plane4)) \<noteq> None"
  by code_simp

lemma enrolled_machine_is_identified_witness:
  "\<exists>rs. json_of (fst (handleEnroll file_ops inproc_ops
       (agent_signer sample_crypto (sample_ca_env (\<lambda>_. Written)) (fst sample_ca)) (Some ''pub'') ''ca'' plain_choices 101
       ''m'' (Some sample_enroll_request) plane4)) = Some rs \<and>
     withIdentity (presented sample_crypto (rs_CertPEM rs)) (\<lambda>idn w. (Json idn, w)) () =
       (Json \<lparr>idn_MachineID = ''m'', idn_TenantID = ''t''\<rparr>, ())"
proof -
  obtain rs where rs: "json_of (fst (handleEnroll file_ops inproc_ops
     (agent_signer sample_crypto (sample_ca_env (\<lambda>_. Written)) (fst sample_ca)) (Some ''pub'') ''ca'' plain_choices 101
     ''m'' (Some sample_enroll_request) plane4)) = Some rs"
    using sample_enrolls by blast
  have pem: "pem_roundtrip sample_crypto ''CERTIFICATE''" by (rule sample_crypto_behaves(1)) simp
  obtain w' where "handleEnroll file_ops inproc_ops
     (agent_signer sample_crypto (sample_ca_env (\<lambda>_. Written)) (fst sample_ca)) (Some ''pub'') ''ca'' plain_choices 101
     ''m'' (Some sample_enroll_request) plane4 = (Json rs, w')"
    using json_ofD [OF rs] by (metis prod.collapse)
  from enrolled_machine_is_identified [OF pem sample_crypto_behaves(2) this, of "\<lambda>idn w. (Json idn, w)" "()"]
  show ?thesis using rs plane4_token by (auto simp: sample_enroll_request_def)
qed

end
