(* ===== verification/Module_Transfer.thy ===== *)
theory Module_Transfer
  imports Turso_Properties Runtime_Properties Authority_Properties
begin

text \<open>
  A module from the operator to the machine: the upload signs it and stores it, the agent
  downloads it over its API, checks the signature and runs the payload. The store's part
  is a law of its own, on top of the contract the control plane needs: what was saved
  last under a name and version is what is served for them. Both stores keep it; for other
  names and versions only the database leaves everything as it was.
\<close>

section \<open>The store's part\<close>

locale module_store = store_contract S view healthy
  for S :: "'s store_ops" and view :: "'s \<Rightarrow> fleet" and healthy :: "'s \<Rightarrow> bool" +
  assumes saved_module: "healthy s \<Longrightarrow>
    fst (SaveModule S art s) = Inr () \<and>
    fst (GetModule S (art_Name art) (art_Version art) (snd (SaveModule S art s))) = Inr art"
begin

lemma uploaded_module_served:
  assumes "healthy (w_store w)" and "ul_Name req \<noteq> []" and "ul_Version req \<noteq> []" and "ul_Payload req \<noteq> []"
  shows "\<exists>art. fst (handleModule S (ul_Name req) (ul_Version req) idn
      (snd (uploadModule S signModule (Some req) w))) = Json art \<and>
    art_Payload art = ul_Payload req \<and> art_Signature art = signModule (ul_Payload req)"
proof -
  define art where "art = \<lparr>art_Name = ul_Name req, art_Version = ul_Version req,
    art_Exec = (if ul_Exec req = [] then ''payload'' else ul_Exec req), art_Payload = ul_Payload req,
    art_Signature = signModule (ul_Payload req)\<rparr>"
  obtain s where s: "SaveModule S art (w_store w) = (Inr (), s)" "fst (GetModule S (ul_Name req) (ul_Version req) s) = Inr art"
    using saved_module [OF assms(1), of art] by (cases "SaveModule S art (w_store w)") (simp add: art_def)
  from s(1) assms(2-4) have "snd (uploadModule S signModule (Some req) w) = w\<lparr>w_store := s\<rparr>"
    by (simp add: uploadModule_def Let_def on_store_def flip: art_def)
  with s(2) show ?thesis
    by (cases "GetModule S (ul_Name req) (ul_Version req) s") (simp add: handleModule_def on_store_def art_def)
qed

lemma uploaded_runs:
  assumes "healthy (w_store w)" and "ul_Name req \<noteq> []" and "ul_Version req \<noteq> []" and "ul_Payload req \<noteq> []"
    and "parse (ag_ModKey a) = Ed25519Key pub" and "\<And>payload. edVerify pub payload (signModule payload)"
    and "ae_Fetch env = getJSON ''/v1/module'' (carried (fst (handleModule S (ul_Name req) (ul_Version req) idn
      (snd (uploadModule S signModule (Some req) w)))))"
    and "ae_MkdirErr env = None" and "ae_WriteErr env = None" and "ae_RunErr env = None"
  shows "\<exists>x. ag_Runs (snd (apply_module parse edVerify env spec a)) = ag_Runs a @ [x] \<and>
    run_Payload x = ul_Payload req"
proof -
  obtain art where art: "fst (handleModule S (ul_Name req) (ul_Version req) idn
      (snd (uploadModule S signModule (Some req) w))) = Json art"
    "art_Payload art = ul_Payload req" "art_Signature art = signModule (ul_Payload req)"
    using uploaded_module_served [OF assms(1-4)] by metis
  have "edVerify pub (art_Payload art) (art_Signature art)" using assms(6) by (simp add: art(2,3))
  with art(1) assms(5,7-10) have "apply_succeeds parse edVerify (ag_ModKey a) art env"
    by (simp add: apply_succeeds_def verify_def carried_def getJSON_def)
  from apply_succeeds_runs [OF this, of spec] art(2) show ?thesis by auto
qed

end

lemma fs_saved_module:
  "fs_healthy s \<Longrightarrow> fst (SaveModule file_ops art s) = Inr () \<and>
     fst (GetModule file_ops (art_Name art) (art_Version art) (snd (SaveModule file_ops art s))) = Inr art"
  by (simp add: file_ops_def fs_SaveModule_def fs_GetModule_def lookup_table_def)

lemma blob_sent [simp]: "blob (sent_blob pads b) = b"
  by (simp add: sent_blob_def)

lemma ts_GetModule_after_save:
  assumes "executes ts"
  shows "fst (ts_GetModule n v (snd (ts_SaveModule art ts))) =
    (if (n, v) = (art_Name art, art_Version art) then Inr art else fst (ts_GetModule n v ts))"
  using assms
  by (cases art) (auto simp: ts_GetModule_def ts_SaveModule_def sql_update_executes sql_query_executes on_result_def
      one_row_def)

lemma ts_saved_module:
  "turso_healthy s \<Longrightarrow> fst (SaveModule turso_ops art s) = Inr () \<and>
     fst (GetModule turso_ops (art_Name art) (art_Version art) (snd (SaveModule turso_ops art s))) = Inr art"
  by (simp add: turso_ops_def ts_GetModule_after_save) (simp add: ts_SaveModule_def sql_update_executes)

interpretation fsm: module_store file_ops fs_view fs_healthy
  by unfold_locales (rule fs_saved_module)

interpretation sqlm: module_store turso_ops turso_view turso_healthy
  by unfold_locales (rule ts_saved_module)

section \<open>From the upload to the run\<close>

text \<open>The agent's \<open>pem.Decode\<close> and \<open>x509.ParsePKIXPublicKey\<close>.\<close>

definition module_key_parser :: "crypto \<Rightarrow> bytes \<Rightarrow> parsed_key" where
  "module_key_parser cr modKey =
     (case cr_PemDecode cr modKey of
        None \<Rightarrow> NoPEM
      | Some (typ, der) \<Rightarrow>
          (case cr_ParsePKIX cr der of
             None \<Rightarrow> ParseError ''x509''
           | Some OtherPublic \<Rightarrow> OtherKey
           | Some (Ed25519Public pub) \<Rightarrow> Ed25519Key pub))"

lemma pinned_key_accepts:
  assumes "pem_roundtrip cr ''PUBLIC KEY''" and "pkix_roundtrip cr" and "ed25519_accepts cr"
    and "LoadOrCreate cr cenv dir files = (Inr c, files')" and "ModulePubPEM cr c = Inr modKey"
  shows "module_key_parser cr modKey = Ed25519Key (ca_ModulePub c)"
    "\<And>payload. cr_VerifyEd cr (ca_ModulePub c) payload (SignModule cr c payload)"
proof -
  show "module_key_parser cr modKey = Ed25519Key (ca_ModulePub c)"
    using assms(1,2,5)
    by (auto simp: module_key_parser_def ModulePubPEM_def pem_roundtrip_def pkix_roundtrip_def split: option.splits)
  show "cr_VerifyEd cr (ca_ModulePub c) payload (SignModule cr c payload)" for payload
    using LoadOrCreate_module_key [OF assms(4)] assms(3) by (simp add: SignModule_def ed25519_accepts_def)
qed

text \<open>
  C17: A module an operator uploads is run by the agents exactly as uploaded: an agent that
  pinned the server's module key and downloads the module from the server accepts the
  signature and runs a program whose content is the uploaded payload. (That Ed25519
  accepts what was signed with its key is the hypothesis on the library.)
\<close>

theorem uploaded_module_runs:
  assumes "fs_healthy (w_store w)"
    and "ul_Name req \<noteq> []" and "ul_Version req \<noteq> []" and "ul_Payload req \<noteq> []"
    and "pem_roundtrip cr ''PUBLIC KEY''" and "pkix_roundtrip cr" and "ed25519_accepts cr"
    and "LoadOrCreate cr cenv dir files = (Inr c, files')" and "ModulePubPEM cr c = Inr (ag_ModKey a)"
    and "ae_Fetch env = getJSON ''/v1/module'' (carried (fst (handleModule file_ops (ul_Name req) (ul_Version req) idn
      (snd (uploadModule file_ops (SignModule cr c) (Some req) w)))))"
    and "ae_MkdirErr env = None" and "ae_WriteErr env = None" and "ae_RunErr env = None"
  shows "\<exists>x. ag_Runs (snd (apply_module (module_key_parser cr) (cr_VerifyEd cr) env spec a)) = ag_Runs a @ [x] \<and>
    run_Payload x = ul_Payload req"
  by (rule fsm.uploaded_runs [where w = w and req = req and pub = "ca_ModulePub c" and signModule = "SignModule cr c" and
      idn = idn and a = a and parse = "module_key_parser cr" and edVerify = "cr_VerifyEd cr", OF assms(1-4) pinned_key_accepts(1) [OF assms(5-9)] pinned_key_accepts(2) [OF assms(5-9)] assms(10-13)])

definition sample_upload :: upload_req where
  "sample_upload = \<lparr>ul_Name = ''ntp'', ul_Version = ''1'', ul_Exec = [], ul_Payload = ''ab''\<rparr>"

definition sample_identity :: identity where
  "sample_identity = \<lparr>idn_MachineID = ''m'', idn_TenantID = ''t''\<rparr>"

definition fetched_env :: "module_artifact response \<Rightarrow> apply_env" where
  "fetched_env r =
     \<lparr>ae_Now = 7, ae_Fetch = getJSON ''/v1/module'' (carried r), ae_MkdirErr = None, ae_WriteErr = None,
      ae_Output = [], ae_RunErr = None, ae_Order = in_order\<rparr>"

definition pinned_agent :: agent where
  "pinned_agent = sample_agent\<lparr>ag_ModKey := projr (ModulePubPEM sample_crypto (fst sample_ca))\<rparr>"

lemma pinned_key: "ModulePubPEM sample_crypto (fst sample_ca) = Inr (ag_ModKey pinned_agent)"
  by (simp add: pinned_agent_def ModulePubPEM_def sample_crypto_def)

lemma pinned_agent_runs: "ag_Runs pinned_agent = []"
  by (simp add: pinned_agent_def sample_agent_def)

lemma uploaded_module_runs_witness:
  "\<exists>x. ag_Runs (snd (apply_module (module_key_parser sample_crypto) (cr_VerifyEd sample_crypto)
      (fetched_env (fst (handleModule file_ops ''ntp'' ''1'' sample_identity
        (snd (uploadModule file_ops (SignModule sample_crypto (fst sample_ca)) (Some sample_upload) plane0)))))
      node_spec pinned_agent)) = [x] \<and> run_Payload x = ''ab''"
proof -
  have pem: "pem_roundtrip sample_crypto ''PUBLIC KEY''" by (rule sample_crypto_behaves(1)) simp
  have healthy: "fs_healthy (w_store plane0)" using cp_reachable_tidy [OF reachable_plane0] by simp
  from uploaded_module_runs [where w = plane0, OF healthy _ _ _ pem sample_crypto_behaves(3,4) sample_ca_created, where req = sample_upload and
      a = pinned_agent and idn = sample_identity and spec = node_spec and
      env = "fetched_env (fst (handleModule file_ops ''ntp'' ''1'' sample_identity
        (snd (uploadModule file_ops (SignModule sample_crypto (fst sample_ca)) (Some sample_upload) plane0))))"]
  show ?thesis by (simp add: sample_upload_def fetched_env_def pinned_key pinned_agent_runs)
qed

text \<open>
  The same on the database store: the payload survives the base64 of the wire in both
  directions, and what is served is what was signed.
\<close>

theorem sql_uploaded_module_runs:
  assumes "turso_healthy (w_store w)"
    and "ul_Name req \<noteq> []" and "ul_Version req \<noteq> []" and "ul_Payload req \<noteq> []"
    and "pem_roundtrip cr ''PUBLIC KEY''" and "pkix_roundtrip cr" and "ed25519_accepts cr"
    and "LoadOrCreate cr cenv dir files = (Inr c, files')" and "ModulePubPEM cr c = Inr (ag_ModKey a)"
    and "ae_Fetch env = getJSON ''/v1/module'' (carried (fst (handleModule turso_ops (ul_Name req) (ul_Version req) idn
      (snd (uploadModule turso_ops (SignModule cr c) (Some req) w)))))"
    and "ae_MkdirErr env = None" and "ae_WriteErr env = None" and "ae_RunErr env = None"
  shows "\<exists>x. ag_Runs (snd (apply_module (module_key_parser cr) (cr_VerifyEd cr) env spec a)) = ag_Runs a @ [x] \<and>
    run_Payload x = ul_Payload req"
  by (rule sqlm.uploaded_runs [where w = w and req = req and pub = "ca_ModulePub c" and signModule = "SignModule cr c" and
      idn = idn and a = a and parse = "module_key_parser cr" and edVerify = "cr_VerifyEd cr", OF assms(1-4) pinned_key_accepts(1) [OF assms(5-9)] pinned_key_accepts(2) [OF assms(5-9)] assms(10-13)])

lemma sql_uploaded_module_runs_witness:
  "\<exists>x. ag_Runs (snd (apply_module (module_key_parser sample_crypto) (cr_VerifyEd sample_crypto)
      (fetched_env (fst (handleModule turso_ops ''ntp'' ''1'' sample_identity
        (snd (uploadModule turso_ops (SignModule sample_crypto (fst sample_ca)) (Some sample_upload) sql0)))))
      node_spec pinned_agent)) = [x] \<and> run_Payload x = ''ab''"
proof -
  have pem: "pem_roundtrip sample_crypto ''PUBLIC KEY''" by (rule sample_crypto_behaves(1)) simp
  note healthy = sql0_healthy
  from sql_uploaded_module_runs [where w = sql0, OF healthy _ _ _ pem sample_crypto_behaves(3,4) sample_ca_created, where req = sample_upload and
      a = pinned_agent and idn = sample_identity and spec = node_spec and
      env = "fetched_env (fst (handleModule turso_ops ''ntp'' ''1'' sample_identity
        (snd (uploadModule turso_ops (SignModule sample_crypto (fst sample_ca)) (Some sample_upload) sql0))))"]
  show ?thesis by (simp add: sample_upload_def fetched_env_def pinned_key pinned_agent_runs)
qed

section \<open>Other names and versions\<close>

text \<open>
  In the database a module saved under one name and version is served for exactly that
  pair. In the file store it is served for every pair that joins to the same key with an
  \<open>@\<close>: saving \<open>a\<close> in version \<open>b@c\<close> replaces \<open>a@b\<close> in version \<open>c\<close>.
\<close>

theorem module_keys_of_the_stores:
  assumes "executes ts" and "fs_healthy fs"
  shows "fst (ts_GetModule n v (snd (ts_SaveModule art ts))) =
      (if (n, v) = (art_Name art, art_Version art) then Inr art else fst (ts_GetModule n v ts)) \<and>
    fst (fs_GetModule n v (snd (fs_SaveModule art fs))) =
      (if n @ ''@'' @ v = art_Name art @ ''@'' @ art_Version art then Inr art else fst (fs_GetModule n v fs))"
  using ts_GetModule_after_save [OF assms(1)] assms(2)
  by (auto simp: fs_GetModule_def fs_SaveModule_def lookup_table_def moduleKey_def split: option.split)

lemma module_keys_of_the_stores_witness:
  "fst (fs_GetModule ''a@b'' ''c'' (snd (fs_SaveModule
      \<lparr>art_Name = ''a'', art_Version = ''b@c'', art_Exec = [], art_Payload = [], art_Signature = []\<rparr> (w_store plane0)))) =
    Inr \<lparr>art_Name = ''a'', art_Version = ''b@c'', art_Exec = [], art_Payload = [], art_Signature = []\<rparr>"
proof -
  have "fs_healthy (w_store plane0)" using cp_reachable_tidy [OF reachable_plane0] by simp
  from module_keys_of_the_stores [OF fresh_sql_executes this, of "''a@b''" "''c''"
      "\<lparr>art_Name = ''a'', art_Version = ''b@c'', art_Exec = [], art_Payload = [], art_Signature = []\<rparr>"]
  show ?thesis by simp
qed

end
