(* ===== verification/Request_Threads.thy ===== *)
theory Request_Threads
  imports Admin_Api Agent_Api
begin

text \<open>
  Requests that overlap. Go runs every request in a goroutine of its own; a store call and
  a publish are atomic (the store and the bus lock), the code between them is not. A
  request is a thread: finished, or an atomic action that tells how to go on. The threads
  below make the calls of \<open>Recompute\<close> and the handlers of \<open>groups.go\<close>, \<open>admin.go\<close> and
  \<open>server.go\<close> one by one; run alone, each is the handler of the sequential model.
\<close>

section \<open>Threads\<close>

datatype ('w, 'a) thread = Finished 'a | Atomic "'w \<Rightarrow> ('w, 'a) thread \<times> 'w"

primrec solo :: "('w, 'a) thread \<Rightarrow> 'w \<Rightarrow> 'a \<times> 'w" where
  "solo (Finished a) = (\<lambda>w. (a, w))"
| "solo (Atomic f) = (\<lambda>w. case (map_prod solo id \<circ> f) w of (go, w') \<Rightarrow> go w')"

primrec and_then :: "('w, 'a) thread \<Rightarrow> ('a \<Rightarrow> ('w, 'b) thread) \<Rightarrow> ('w, 'b) thread" where
  "and_then (Finished a) = (\<lambda>k. k a)"
| "and_then (Atomic f) = (\<lambda>k. Atomic (\<lambda>w. case (map_prod and_then id \<circ> f) w of (go, w') \<Rightarrow> (go k, w')))"

definition calls :: "('w \<Rightarrow> 'a \<times> 'w) \<Rightarrow> ('w, 'a) thread" where
  "calls act = Atomic (\<lambda>w. case act w of (a, w') \<Rightarrow> (Finished a, w'))"

lemma solo_Atomic: "solo (Atomic f) w = (case f w of (t, w') \<Rightarrow> solo t w')"
  by (simp add: split_beta)

lemma and_then_Atomic [simp]:
  "and_then (Atomic f) k = Atomic (\<lambda>w. case f w of (t, w') \<Rightarrow> (and_then t k, w'))"
  by (simp add: split_beta fun_eq_iff)

declare and_then.simps(2) [simp del]

lemma solo_and_then: "solo (and_then t k) w = (case solo t w of (a, w') \<Rightarrow> solo (k a) w')"
proof (induction t arbitrary: w)
  case (Atomic f)
  obtain t w' where f: "f w = (t, w')" by fastforce
  then have "(t, w') \<in> range f" by (metis rangeI)
  with f Atomic [of "(t, w')" t] show ?case by (simp add: solo_Atomic del: solo.simps)
qed simp

lemma solo_calls: "solo (calls act) w = act w"
  by (simp add: calls_def solo_Atomic split: prod.split)

lemma solo_then_calls: "solo (and_then (calls act) k) w = (case act w of (a, w') \<Rightarrow> solo (k a) w')"
  by (simp only: solo_and_then solo_calls)

text \<open>Several requests under a schedule: each entry lets one of them make its next call.\<close>

fun run_pool :: "nat list \<Rightarrow> ('w, 'a) thread list \<Rightarrow> 'w \<Rightarrow> ('w, 'a) thread list \<times> 'w" where
  "run_pool [] ts w = (ts, w)"
| "run_pool (i # is) ts w =
     (if i < length ts
      then case ts ! i of
             Finished _ \<Rightarrow> run_pool is ts w
           | Atomic f \<Rightarrow> (case f w of (t, w') \<Rightarrow> run_pool is (ts[i := t]) w')
      else run_pool is ts w)"

fun is_finished :: "('w, 'a) thread \<Rightarrow> bool" where
  "is_finished (Finished _) = True"
| "is_finished (Atomic _) = False"

definition quietly :: "('w, 'a) thread \<Rightarrow> ('w, unit) thread" where
  "quietly t = and_then t (\<lambda>_. Finished ())"

section \<open>Recompute\<close>

fun load_members_t ::
  "'s store_ops \<Rightarrow> group list \<Rightarrow> bool gomap gomap \<Rightarrow> (('s, 'b) world, store_error + bool gomap gomap) thread" where
  "load_members_t S [] members = Finished (Inr members)"
| "load_members_t S (g # gs) members =
     and_then (calls (on_store (ListGroupMembers S (g_ID g)))) (\<lambda>r.
       case r of
         Inl e \<Rightarrow> Finished (Inl e)
       | Inr ids \<Rightarrow> load_members_t S gs (fmupd (g_ID g) (fold (\<lambda>i. fmupd i True) ids fmempty) members))"

fun load_machines_t ::
  "'s store_ops \<Rightarrow> string list \<Rightarrow> machine list \<Rightarrow> (('s, 'b) world, store_error + machine list) thread" where
  "load_machines_t S [] ms = Finished (Inr ms)"
| "load_machines_t S (i # ids) ms =
     and_then (calls (on_store (GetMachine S i))) (\<lambda>r.
       case r of
         Inl e \<Rightarrow> Finished (Inl e)
       | Inr m \<Rightarrow> load_machines_t S ids (ms @ [m]))"

fun recompute_each_t ::
  "'s store_ops \<Rightarrow> 'b bus_ops \<Rightarrow> (nat \<Rightarrow> choices) \<Rightarrow> nat \<Rightarrow> bool gomap gomap \<Rightarrow> group list \<Rightarrow>
   machine list \<Rightarrow> (('s, 'b) world, store_error + unit) thread" where
  "recompute_each_t S B env i members groups [] = Finished (Inr ())"
| "recompute_each_t S B env i members groups (m # ms) =
     (case computeModules (env i) m groups members of (nxt, groups') \<Rightarrow>
        if ds_Modules (m_Desired m) = Some nxt
        then recompute_each_t S B env (Suc i) members groups' ms
        else
          let m' = m\<lparr>m_Desired := \<lparr>ds_Revision = ds_Revision (m_Desired m) + 1, ds_Modules = Some nxt\<rparr>\<rparr>
          in and_then (calls (on_store (SaveMachine S m'))) (\<lambda>r.
               case r of
                 Inl e \<Rightarrow> Finished (Inl e)
               | Inr _ \<Rightarrow>
                   and_then (calls (\<lambda>w. ((), publish B (m_ID m') w))) (\<lambda>_.
                     recompute_each_t S B env (Suc i) members groups' ms)))"

definition Recompute_t ::
  "'s store_ops \<Rightarrow> 'b bus_ops \<Rightarrow> (nat \<Rightarrow> choices) \<Rightarrow> string \<Rightarrow> string list \<Rightarrow>
   (('s, 'b) world, store_error + unit) thread" where
  "Recompute_t S B env tenantID machineIDs =
     and_then (calls (on_store (ListGroups S tenantID))) (\<lambda>r1.
       case r1 of
         Inl e \<Rightarrow> Finished (Inl e)
       | Inr groups \<Rightarrow>
           and_then (load_members_t S groups fmempty) (\<lambda>r2.
             case r2 of
               Inl e \<Rightarrow> Finished (Inl e)
             | Inr members \<Rightarrow>
                 and_then (if machineIDs = [] then calls (on_store (ListMachines S tenantID))
                           else load_machines_t S machineIDs []) (\<lambda>r3.
                   case r3 of
                     Inl e \<Rightarrow> Finished (Inl e)
                   | Inr machines \<Rightarrow> recompute_each_t S B env 0 members groups machines)))"

lemma solo_load_members: "solo (load_members_t S gs members) w = load_members S gs members w"
  by (induction gs arbitrary: members w)
    (simp_all add: solo_then_calls split: prod.split sum.split)

lemma solo_load_machines: "solo (load_machines_t S ids ms) w = load_machines S ids ms w"
  by (induction ids arbitrary: ms w)
    (simp_all add: solo_then_calls split: prod.split sum.split)

lemma solo_recompute_each:
  "solo (recompute_each_t S B env i members groups ms) w = recompute_each S B env i members groups ms w"
  by (induction ms arbitrary: i groups w)
    (simp_all add: solo_then_calls Let_def split: prod.split sum.split)

lemma solo_Recompute: "solo (Recompute_t S B env tenantID ids) w = Recompute S B env tenantID ids w"
  by (simp add: Recompute_t_def Recompute_def solo_and_then solo_calls solo_load_members solo_load_machines
      solo_recompute_each split: prod.split sum.split)

section \<open>Handlers\<close>

fun validateModules_t ::
  "'s store_ops \<Rightarrow> module_spec list \<Rightarrow> (('s, 'b) world, 'a response option) thread" where
  "validateModules_t S [] = Finished None"
| "validateModules_t S (spec # specs) =
     and_then (calls (on_store (GetModule S (ms_Name spec) (ms_Version spec)))) (\<lambda>r.
       case r of
         Inl e \<Rightarrow>
           Finished (Some (if e = ErrNotFound
             then HttpError StatusBadRequest (''unknown module '' @ ms_Name spec @ ''@'' @ ms_Version spec)
             else HttpError StatusInternalServerError ''store error''))
       | Inr _ \<Rightarrow> validateModules_t S specs)"

text \<open>A recomputation whose error is only logged, before the answer \<open>r\<close>.\<close>

definition recompute_and_answer ::
  "'s store_ops \<Rightarrow> 'b bus_ops \<Rightarrow> (nat \<Rightarrow> choices) \<Rightarrow> string \<Rightarrow> string list \<Rightarrow> 'a \<Rightarrow> (('s, 'b) world, 'a) thread" where
  "recompute_and_answer S B env t ids r = and_then (Recompute_t S B env t ids) (\<lambda>_. Finished r)"

definition updateGroup_t ::
  "'s store_ops \<Rightarrow> 'b bus_ops \<Rightarrow> (nat \<Rightarrow> choices) \<Rightarrow> string \<Rightarrow> update_group_req option \<Rightarrow>
   (('s, 'b) world, group response) thread" where
  "updateGroup_t S B env pid body =
     and_then (calls (on_store (GetGroup S pid))) (\<lambda>r1.
       case r1 of
         Inl _ \<Rightarrow> Finished (HttpError StatusNotFound ''not found'')
       | Inr g \<Rightarrow>
           (case body of
              None \<Rightarrow> Finished (HttpError StatusBadRequest ''bad request'')
            | Some req \<Rightarrow>
                let g1 = (case ug_Name req of None \<Rightarrow> g | Some n \<Rightarrow> g\<lparr>g_Name := n\<rparr>);
                    g2 = (case ug_Selector req of None \<Rightarrow> g1 | Some s \<Rightarrow> g1\<lparr>g_Selector := s\<rparr>)
                in and_then (case ug_Modules req of
                               None \<Rightarrow> Finished (None, g2)
                             | Some ms \<Rightarrow>
                                 and_then (validateModules_t S ms) (\<lambda>r2.
                                   case r2 of
                                     Some r \<Rightarrow> Finished (Some r, g2)
                                   | None \<Rightarrow> Finished (None, g2\<lparr>g_Modules := ms\<rparr>))) (\<lambda>(bad, g3).
                     case bad of
                       Some r \<Rightarrow> Finished r
                     | None \<Rightarrow>
                         and_then (calls (on_store (SaveGroup S g3))) (\<lambda>r3.
                           case r3 of
                             Inl _ \<Rightarrow> Finished (HttpError StatusInternalServerError ''store error'')
                           | Inr _ \<Rightarrow> recompute_and_answer S B env (g_TenantID g3) [] (Json g3)))))"

definition deleteGroup_t ::
  "'s store_ops \<Rightarrow> 'b bus_ops \<Rightarrow> (nat \<Rightarrow> choices) \<Rightarrow> string \<Rightarrow> (('s, 'b) world, unit response) thread" where
  "deleteGroup_t S B env pid =
     and_then (calls (on_store (GetGroup S pid))) (\<lambda>r1.
       case r1 of
         Inl _ \<Rightarrow> Finished (HttpError StatusNotFound ''not found'')
       | Inr g \<Rightarrow>
           and_then (calls (on_store (DeleteGroup S (g_ID g)))) (\<lambda>r2.
             case r2 of
               Inl _ \<Rightarrow> Finished (HttpError StatusInternalServerError ''store error'')
             | Inr _ \<Rightarrow> recompute_and_answer S B env (g_TenantID g) [] NoContent))"

definition removeGroupMember_t ::
  "'s store_ops \<Rightarrow> 'b bus_ops \<Rightarrow> (nat \<Rightarrow> choices) \<Rightarrow> string \<Rightarrow> string \<Rightarrow> (('s, 'b) world, unit response) thread" where
  "removeGroupMember_t S B env pid mid =
     and_then (calls (on_store (GetGroup S pid))) (\<lambda>r1.
       case r1 of
         Inl _ \<Rightarrow> Finished (HttpError StatusNotFound ''group not found'')
       | Inr g \<Rightarrow>
           and_then (calls (on_store (RemoveGroupMember S (g_ID g) mid))) (\<lambda>r2.
             case r2 of
               Inl _ \<Rightarrow> Finished (HttpError StatusInternalServerError ''store error'')
             | Inr _ \<Rightarrow> recompute_and_answer S B env (g_TenantID g) [mid] NoContent))"

definition addGroupMember_t ::
  "'s store_ops \<Rightarrow> 'b bus_ops \<Rightarrow> (nat \<Rightarrow> choices) \<Rightarrow> string \<Rightarrow> string option \<Rightarrow>
   (('s, 'b) world, unit response) thread" where
  "addGroupMember_t S B env pid body =
     and_then (calls (on_store (GetGroup S pid))) (\<lambda>r1.
       case r1 of
         Inl _ \<Rightarrow> Finished (HttpError StatusNotFound ''group not found'')
       | Inr g \<Rightarrow>
           (case body of
              None \<Rightarrow> Finished (HttpError StatusBadRequest ''machine_id required'')
            | Some machineID \<Rightarrow>
                if machineID = [] then Finished (HttpError StatusBadRequest ''machine_id required'')
                else and_then (calls (on_store (GetMachine S machineID))) (\<lambda>r2.
                  case r2 of
                    Inl _ \<Rightarrow> Finished (HttpError StatusNotFound ''unknown machine in this tenant'')
                  | Inr m \<Rightarrow>
                      if m_TenantID m \<noteq> g_TenantID g
                      then Finished (HttpError StatusNotFound ''unknown machine in this tenant'')
                      else and_then (calls (on_store (AddGroupMember S (g_ID g) (m_ID m)))) (\<lambda>r3.
                        case r3 of
                          Inl _ \<Rightarrow> Finished (HttpError StatusInternalServerError ''store error'')
                        | Inr _ \<Rightarrow> recompute_and_answer S B env (g_TenantID g) [m_ID m] NoContent))))"

definition putLabels_t ::
  "'s store_ops \<Rightarrow> 'b bus_ops \<Rightarrow> (nat \<Rightarrow> choices) \<Rightarrow> string \<Rightarrow> string gomap option \<Rightarrow>
   (('s, 'b) world, (string \<times> string gomap) response) thread" where
  "putLabels_t S B env pid body =
     and_then (calls (on_store (GetMachine S pid))) (\<lambda>r1.
       case r1 of
         Inl _ \<Rightarrow> Finished (HttpError StatusNotFound ''not found'')
       | Inr m0 \<Rightarrow>
           (case body of
              None \<Rightarrow> Finished (HttpError StatusBadRequest ''bad request'')
            | Some labels \<Rightarrow>
                let m = m0\<lparr>m_Labels := labels\<rparr>
                in and_then (calls (on_store (SaveMachine S m))) (\<lambda>r2.
                     case r2 of
                       Inl _ \<Rightarrow> Finished (HttpError StatusInternalServerError ''store error'')
                     | Inr _ \<Rightarrow> recompute_and_answer S B env (m_TenantID m) [m_ID m] (Json (m_ID m, m_Labels m)))))"

definition deleteMachine_t ::
  "'s store_ops \<Rightarrow> 'b bus_ops \<Rightarrow> string \<Rightarrow> (('s, 'b) world, unit response) thread" where
  "deleteMachine_t S B pid =
     and_then (calls (on_store (GetMachine S pid))) (\<lambda>r1.
       case r1 of
         Inl _ \<Rightarrow> Finished (HttpError StatusNotFound ''not found'')
       | Inr m \<Rightarrow>
           and_then (calls (on_store (DeleteMachine S (m_ID m)))) (\<lambda>r2.
             case r2 of
               Inl _ \<Rightarrow> Finished (HttpError StatusInternalServerError ''store error'')
             | Inr _ \<Rightarrow> and_then (calls (\<lambda>w. ((), publish B (m_ID m) w))) (\<lambda>_. Finished NoContent)))"

text \<open>Heartbeats and status reports make one call.\<close>

definition handleHeartbeat_t ::
  "'s store_ops \<Rightarrow> int64 \<Rightarrow> heartbeat option \<Rightarrow> identity \<Rightarrow> (('s, 'b) world, unit response) thread" where
  "handleHeartbeat_t S now body idn = calls (handleHeartbeat S now body idn)"

definition handleStatus_t ::
  "'s store_ops \<Rightarrow> int64 \<Rightarrow> status_report option \<Rightarrow> identity \<Rightarrow> (('s, 'b) world, unit response) thread" where
  "handleStatus_t S now body idn = calls (handleStatus S now body idn)"

lemma solo_validateModules: "solo (validateModules_t S specs) w = validateModules S specs w"
  by (induction specs arbitrary: w) (simp_all add: solo_then_calls split: prod.split sum.split)

lemma solo_recompute_and_answer:
  "solo (recompute_and_answer S B env t ids r) w = (r, snd (Recompute S B env t ids w))"
  by (simp add: recompute_and_answer_def solo_and_then solo_Recompute split: prod.split)

lemmas solo_simps = solo_and_then solo_calls solo_validateModules solo_recompute_and_answer


end
