(* ===== verification/Overlap_Properties.thy ===== *)
theory Overlap_Properties
  imports Request_Threads Reconcile_Stream
begin

text \<open>
  What overlapping requests keep and what they break, on the file store. The stream of a
  machine still loses no change while group changes, deletions and reports overlap. But
  whole records are written back after reads that may be old: a group change can be
  undone, a deleted machine can come back, a label change can undo a desired state.
\<close>

section \<open>Threads that publish what they change\<close>

text \<open>
  \<open>pays t ks\<close>: whatever others do in between, the thread goes on to publish the topics
  \<open>ks\<close> and the topic of every machine whose desired state it changes itself.
\<close>

type_synonym 'a plane_thread = "(plane, 'a) thread"

inductive pays :: "'a plane_thread \<Rightarrow> string set \<Rightarrow> bool" where
  pays_finished: "pays (Finished a) {}"
| pays_atomic:
    "(\<And>w. fs_healthy (w_store w) \<Longrightarrow>
       fs_healthy (w_store (snd (f w))) \<and>
       (\<exists>topics. snd (f w) = fold (publish inproc_ops) topics (w\<lparr>w_store := w_store (snd (f w))\<rparr>) \<and>
          pays (fst (f w)) ((ks \<union> stale_streams (fs_view (w_store w)) (fs_view (w_store (snd (f w))))) - set topics))) \<Longrightarrow>
     pays (Atomic f) ks"

lemma pays_less: "pays t ks \<Longrightarrow> ks' \<subseteq> ks \<Longrightarrow> pays t ks'"
proof (induction arbitrary: ks' rule: pays.induct)
  case (pays_finished a)
  then show ?case using pays.pays_finished by simp
next
  case (pays_atomic f ks)
  show ?case
  proof (rule pays.pays_atomic)
    fix w :: plane
    assume h: "fs_healthy (w_store w)"
    let ?stale = "stale_streams (fs_view (w_store w)) (fs_view (w_store (snd (f w))))"
    from pays_atomic.IH [OF h] obtain topics where
      t: "fs_healthy (w_store (snd (f w)))"
        "snd (f w) = fold (publish inproc_ops) topics (w\<lparr>w_store := w_store (snd (f w))\<rparr>)" and
      p: "\<And>ks'. ks' \<subseteq> (ks \<union> ?stale) - set topics \<Longrightarrow> pays (fst (f w)) ks'" by blast
    have "pays (fst (f w)) ((ks' \<union> ?stale) - set topics)" using pays_atomic.prems by (intro p) auto
    with t show "fs_healthy (w_store (snd (f w))) \<and>
       (\<exists>topics. snd (f w) = fold (publish inproc_ops) topics (w\<lparr>w_store := w_store (snd (f w))\<rparr>) \<and>
          pays (fst (f w)) ((ks' \<union> ?stale) - set topics))" by blast
  qed
qed

lemma pays_then: "pays t ks \<Longrightarrow> (\<And>a. pays (k a) {}) \<Longrightarrow> pays (and_then t k) ks"
proof (induction rule: pays.induct)
  case (pays_finished a)
  then show ?case by simp
next
  case (pays_atomic f ks)
  then show ?case by (auto simp: split_beta intro!: pays.pays_atomic) blast
qed

text \<open>A store call: what it makes stale is owed from then on. A publish pays.\<close>

lemma pays_call:
  assumes "\<And>s. fs_healthy s \<Longrightarrow> fs_healthy (snd (act s)) \<and> stale_streams (fs_view s) (fs_view (snd (act s))) \<subseteq> new \<and> good (fst (act s))"
    and "\<And>r. good r \<Longrightarrow> pays (k r) (ks \<union> new)"
  shows "pays (and_then (calls (on_store act)) k) ks"
proof -
  have "pays (Atomic (\<lambda>w. case on_store act w of (r, w') \<Rightarrow> (k r, w'))) ks"
  proof (rule pays.pays_atomic)
    fix w :: plane
    assume h: "fs_healthy (w_store w)"
    note a = assms(1) [OF h]
    have "pays (k (fst (act (w_store w)))) ((ks \<union> stale_streams (fs_view (w_store w)) (fs_view (snd (act (w_store w))))) - {})"
      using a by (intro pays_less [OF assms(2)]) auto
    then show "fs_healthy (w_store (snd (case on_store act w of (r, w') \<Rightarrow> (k r, w')))) \<and>
      (\<exists>topics. snd (case on_store act w of (r, w') \<Rightarrow> (k r, w')) =
          fold (publish inproc_ops) topics (w\<lparr>w_store := w_store (snd (case on_store act w of (r, w') \<Rightarrow> (k r, w')))\<rparr>) \<and>
         pays (fst (case on_store act w of (r, w') \<Rightarrow> (k r, w')))
           ((ks \<union> stale_streams (fs_view (w_store w)) (fs_view (w_store (snd (case on_store act w of (r, w') \<Rightarrow> (k r, w')))))) - set topics))"
      using a by (intro conjI exI [of _ "[]"]) (auto simp: on_store_def split_beta)
  qed
  then show ?thesis by (simp add: calls_def split_beta)
qed

lemma pays_publish:
  assumes "pays (k ()) (ks - {topic})"
  shows "pays (and_then (calls (\<lambda>w. ((), publish inproc_ops topic w))) k) ks"
proof -
  have same: "stale_streams fl fl = {}" for fl by (simp add: stale_streams_def)
  have "pays (Atomic (\<lambda>w. (k (), publish inproc_ops topic w))) ks"
    using assms by (intro pays.pays_atomic conjI exI [of _ "[topic]"]) (simp_all add: same del: fs_view_simps)
  then show ?thesis by (simp add: calls_def)
qed

text \<open>What the calls of the handlers do to the desired states.\<close>

lemma same_desired: "stale_streams fl fl = {}"
  by (simp add: stale_streams_def)

lemma stale_put:
  "stale_streams fl (put_machine m fl) \<subseteq> {m_ID m}" "stale_streams fl (drop_machine i fl) \<subseteq> {i}"
  "stale_streams fl (put_group g fl) = {}" "stale_streams fl (drop_group i fl) = {}"
  "stale_streams fl (add_member i j fl) = {}" "stale_streams fl (remove_member i j fl) = {}"
  by (auto simp: stale_streams_def fleet_fields split: if_splits)

lemma quiet_calls:
  assumes "fs_healthy s"
  shows "fs_healthy (snd (ListGroups file_ops t s)) \<and> fs_view (snd (ListGroups file_ops t s)) = fs_view s"
    "fs_healthy (snd (ListMachines file_ops t s)) \<and> fs_view (snd (ListMachines file_ops t s)) = fs_view s"
    "fs_healthy (snd (ListGroupMembers file_ops k s)) \<and> fs_view (snd (ListGroupMembers file_ops k s)) = fs_view s"
    "fs_healthy (snd (GetMachine file_ops k s)) \<and> fs_view (snd (GetMachine file_ops k s)) = fs_view s"
    "fs_healthy (snd (GetGroup file_ops k s)) \<and> fs_view (snd (GetGroup file_ops k s)) = fs_view s"
    "fs_healthy (snd (GetModule file_ops k v s)) \<and> fs_view (snd (GetModule file_ops k v s)) = fs_view s"
  using fs.list_groups [OF assms] fs.list_machines [OF assms] fs.list_group_members [OF assms]
    fs.get_machine [OF assms] fs.get_group [OF assms] fs.get_module [OF assms] by blast+

lemma group_calls:
  assumes "fs_healthy s"
  shows "fs_healthy (snd (SaveGroup file_ops g s)) \<and> fs_view (snd (SaveGroup file_ops g s)) = put_group g (fs_view s)"
    "fs_healthy (snd (DeleteGroup file_ops k s)) \<and> fs_view (snd (DeleteGroup file_ops k s)) = drop_group k (fs_view s)"
    "fs_healthy (snd (AddGroupMember file_ops k j s)) \<and> fs_view (snd (AddGroupMember file_ops k j s)) = add_member k j (fs_view s)"
    "fs_healthy (snd (RemoveGroupMember file_ops k j s)) \<and> fs_view (snd (RemoveGroupMember file_ops k j s)) = remove_member k j (fs_view s)"
  using healthy_after [OF assms] view_commit [OF fs_healthy_io [OF assms]] view_members_commit [OF fs_healthy_io [OF assms]]
  by (simp_all add: file_ops_def)

lemma machine_calls:
  assumes "fs_healthy s"
  shows "fs_healthy (snd (SaveMachine file_ops m s)) \<and> fs_view (snd (SaveMachine file_ops m s)) = put_machine m (fs_view s) \<and>
      fst (SaveMachine file_ops m s) = Inr ()"
    "fs_healthy (snd (DeleteMachine file_ops k s)) \<and> fs_view (snd (DeleteMachine file_ops k s)) = drop_machine k (fs_view s) \<and>
      fst (DeleteMachine file_ops k s) = Inr ()"
  using healthy_after [OF assms] view_commit [OF fs_healthy_io [OF assms]] view_members_commit [OF fs_healthy_io [OF assms]]
    write_result [OF fs_healthy_io [OF assms]]
  by (simp_all add: file_ops_def)

lemma pays_quiet:
  assumes "\<And>s. fs_healthy s \<Longrightarrow> fs_healthy (snd (act s)) \<and> stale_streams (fs_view s) (fs_view (snd (act s))) = {}"
    and "\<And>r. pays (k r) {}"
  shows "pays (and_then (calls (on_store act)) k) {}"
proof (rule pays_call [where new = "{}" and good = "\<lambda>_. True"])
  show "fs_healthy (snd (act s)) \<and> stale_streams (fs_view s) (fs_view (snd (act s))) \<subseteq> {} \<and> True" if "fs_healthy s" for s
    using assms(1) [OF that] by simp
qed (use assms(2) in simp)

lemma pays_read:
  assumes "\<And>s. fs_healthy s \<Longrightarrow> fs_healthy (snd (act s)) \<and> fs_view (snd (act s)) = fs_view s"
    and "\<And>r. pays (k r) {}"
  shows "pays (and_then (calls (on_store act)) k) {}"
  using assms by (intro pays_quiet) (simp_all add: same_desired del: fs_view_simps)

text \<open>The loops and \<open>Recompute\<close>.\<close>

lemma pays_load_members: "pays (load_members_t file_ops gs members) {}"
  by (induction gs arbitrary: members)
    (auto intro: pays_finished split: sum.split intro!: pays_read quiet_calls simp del: fs_view_simps)

lemma pays_load_machines: "pays (load_machines_t file_ops ids ms) {}"
  by (induction ids arbitrary: ms)
    (auto intro: pays_finished split: sum.split intro!: pays_read quiet_calls simp del: fs_view_simps)

lemma pays_recompute_each: "pays (recompute_each_t file_ops inproc_ops env i members groups ms) {}"
proof (induction ms arbitrary: i groups)
  case Nil
  then show ?case by (simp add: pays_finished)
next
  case (Cons m ms)
  obtain nxt groups' where c: "computeModules (env i) m groups members = (nxt, groups')" by fastforce
  let ?m = "m\<lparr>m_Desired := \<lparr>ds_Revision = ds_Revision (m_Desired m) + 1, ds_Modules = Some nxt\<rparr>\<rparr>"
  let ?rest = "recompute_each_t file_ops inproc_ops env (Suc i) members groups' ms"
  have rest: "pays ?rest {}" by (rule Cons.IH)
  have save: "pays (and_then (calls (on_store (SaveMachine file_ops ?m))) (\<lambda>r. case r of Inl e \<Rightarrow> Finished (Inl e)
      | Inr _ \<Rightarrow> and_then (calls (\<lambda>w. ((), publish inproc_ops (m_ID ?m) w))) (\<lambda>_. ?rest))) {}"
  proof (rule pays_call [where new = "{m_ID m}" and good = "\<lambda>r. r = Inr ()"])
    fix s
    assume "fs_healthy s"
    note sv = machine_calls(1) [OF this, of ?m]
    with stale_put(1) [of "fs_view s" ?m]
    show "fs_healthy (snd (SaveMachine file_ops ?m s)) \<and>
      stale_streams (fs_view s) (fs_view (snd (SaveMachine file_ops ?m s))) \<subseteq> {m_ID m} \<and>
      fst (SaveMachine file_ops ?m s) = Inr ()" by (simp del: fs_view_simps)
  next
    fix r :: "store_error + unit"
    assume "r = Inr ()"
    moreover have "pays (and_then (calls (\<lambda>w. ((), publish inproc_ops (m_ID ?m) w))) (\<lambda>_. ?rest)) ({} \<union> {m_ID m})"
      using rest by (intro pays_publish) simp
    ultimately show "pays (case r of Inl e \<Rightarrow> Finished (Inl e)
      | Inr _ \<Rightarrow> and_then (calls (\<lambda>w. ((), publish inproc_ops (m_ID ?m) w))) (\<lambda>_. ?rest)) ({} \<union> {m_ID m})" by simp
  qed
  show ?case
  proof (cases "ds_Modules (m_Desired m) = Some nxt")
    case True
    then show ?thesis using c rest by simp
  next
    case False
    then show ?thesis using save by (simp only: recompute_each_t.simps c prod.case if_False Let_def)
  qed
qed

lemma pays_Recompute: "pays (Recompute_t file_ops inproc_ops env t ids) {}"
proof -
  have machines: "pays (if ids = [] then calls (on_store (ListMachines file_ops t)) else load_machines_t file_ops ids []) {}"
  proof (cases "ids = []")
    case True
    have "pays (and_then (calls (on_store (ListMachines file_ops t))) Finished) {}"
      by (intro pays_read quiet_calls pays_finished)
    moreover have "and_then (calls f) Finished = calls f" for f :: "plane \<Rightarrow> (store_error + machine list) \<times> plane"
      by (simp add: calls_def split_beta)
    ultimately show ?thesis using True by simp
  next
    case False
    then show ?thesis by (simp add: pays_load_machines)
  qed
  have each: "pays (case r of Inl e \<Rightarrow> Finished (Inl e)
      | Inr ms \<Rightarrow> recompute_each_t file_ops inproc_ops env 0 members groups ms) {}" for r members groups
    by (cases r) (simp_all add: pays_finished pays_recompute_each)
  have "pays (case r of Inl e \<Rightarrow> Finished (Inl e) | Inr members \<Rightarrow>
      and_then (if ids = [] then calls (on_store (ListMachines file_ops t)) else load_machines_t file_ops ids [])
        (\<lambda>r3. case r3 of Inl e \<Rightarrow> Finished (Inl e)
           | Inr ms \<Rightarrow> recompute_each_t file_ops inproc_ops env 0 members groups ms)) {}" for r groups
    by (cases r; simp only: sum.case) (rule pays_finished, rule pays_then [OF machines each])
  note second = this
  have "pays (case r of Inl e \<Rightarrow> Finished (Inl e) | Inr groups \<Rightarrow>
      and_then (load_members_t file_ops groups fmempty) (\<lambda>r2. case r2 of Inl e \<Rightarrow> Finished (Inl e) | Inr members \<Rightarrow>
        and_then (if ids = [] then calls (on_store (ListMachines file_ops t)) else load_machines_t file_ops ids [])
          (\<lambda>r3. case r3 of Inl e \<Rightarrow> Finished (Inl e)
             | Inr ms \<Rightarrow> recompute_each_t file_ops inproc_ops env 0 members groups ms))) {}" for r
    by (cases r; simp only: sum.case) (rule pays_finished, rule pays_then [OF pays_load_members second])
  then show ?thesis
    unfolding Recompute_t_def by (intro pays_read quiet_calls)
qed

text \<open>The handlers. A label change and an override change are missing here: they write back a
  whole record, see below.\<close>

lemma pays_validateModules: "pays (validateModules_t file_ops specs) {}"
  by (induction specs)
    (auto intro: pays_finished split: sum.split intro!: pays_read quiet_calls simp del: fs_view_simps)

lemma pays_answer: "pays (recompute_and_answer file_ops inproc_ops env t ids r) {}"
  unfolding recompute_and_answer_def by (intro pays_then [OF pays_Recompute] pays_finished)

text \<open>The shapes the handlers are made of.\<close>

lemma pays_branch:
  assumes "\<And>s. fs_healthy s \<Longrightarrow> fs_healthy (snd (act s)) \<and> stale_streams (fs_view s) (fs_view (snd (act s))) = {}"
    and "\<And>e. pays (f e) {}" and "\<And>a. pays (g a) {}"
  shows "pays (and_then (calls (on_store act)) (\<lambda>r. case r of Inl e \<Rightarrow> f e | Inr a \<Rightarrow> g a)) {}"
  using assms(2,3) by (intro pays_quiet [OF assms(1)]) (auto split: sum.split)

lemma pays_option:
  assumes "pays t ks" and "\<And>x. pays (f x) ks"
  shows "pays (case v of None \<Rightarrow> t | Some x \<Rightarrow> f x) ks"
  using assms by (cases v) auto

lemma pays_if: "pays t ks \<Longrightarrow> pays t' ks \<Longrightarrow> pays (if b then t else t') ks"
  by simp

lemma quiet_desired:
  assumes "fs_healthy s"
  shows "fs_healthy (snd (GetMachine file_ops k s)) \<and> stale_streams (fs_view s) (fs_view (snd (GetMachine file_ops k s))) = {}"
    "fs_healthy (snd (GetGroup file_ops k s)) \<and> stale_streams (fs_view s) (fs_view (snd (GetGroup file_ops k s))) = {}"
    "fs_healthy (snd (SaveGroup file_ops g s)) \<and> stale_streams (fs_view s) (fs_view (snd (SaveGroup file_ops g s))) = {}"
    "fs_healthy (snd (DeleteGroup file_ops k s)) \<and> stale_streams (fs_view s) (fs_view (snd (DeleteGroup file_ops k s))) = {}"
    "fs_healthy (snd (AddGroupMember file_ops k j s)) \<and>
      stale_streams (fs_view s) (fs_view (snd (AddGroupMember file_ops k j s))) = {}"
    "fs_healthy (snd (RemoveGroupMember file_ops k j s)) \<and>
      stale_streams (fs_view s) (fs_view (snd (RemoveGroupMember file_ops k j s))) = {}"
  using quiet_calls [OF assms] group_calls [OF assms] by (simp_all add: same_desired stale_put del: fs_view_simps)

lemmas pays_intros = pays_branch quiet_desired pays_option pays_if pays_finished pays_answer

lemma pays_updateGroup: "pays (updateGroup_t file_ops inproc_ops env pid body) {}"
proof -
  have save: "pays (case x of (bad, g) \<Rightarrow> case bad of None \<Rightarrow>
        and_then (calls (on_store (SaveGroup file_ops g))) (\<lambda>r. case r of
            Inl _ \<Rightarrow> Finished (HttpError StatusInternalServerError ''store error'')
          | Inr _ \<Rightarrow> recompute_and_answer file_ops inproc_ops env (g_TenantID g) [] (Json g))
      | Some r \<Rightarrow> Finished r) {}"
    for x :: "group response option \<times> group"
    by (simp only: split: prod.split) (intro allI impI pays_intros)
  have modules: "pays (case ms of None \<Rightarrow> Finished (None, g) | Some ms \<Rightarrow>
      and_then (validateModules_t file_ops ms) (\<lambda>r. case r of None \<Rightarrow> Finished (None, g\<lparr>g_Modules := ms\<rparr>)
        | Some r \<Rightarrow> Finished (Some r, g))) {}"
    for ms :: "module_spec list option" and g :: group
    by (intro pays_intros pays_then [OF pays_validateModules])
  show ?thesis
    unfolding updateGroup_t_def Let_def by (intro pays_intros pays_then [OF modules save])
qed

lemma pays_deleteGroup: "pays (deleteGroup_t file_ops inproc_ops env pid) {}"
  unfolding deleteGroup_t_def by (intro pays_intros)

lemma pays_removeGroupMember: "pays (removeGroupMember_t file_ops inproc_ops env pid mid) {}"
  unfolding removeGroupMember_t_def by (intro pays_intros)

lemma pays_addGroupMember: "pays (addGroupMember_t file_ops inproc_ops env pid body) {}"
  unfolding addGroupMember_t_def by (intro pays_intros)

lemma pays_deleteMachine: "pays (deleteMachine_t file_ops inproc_ops pid) {}"
proof -
  have del: "pays (and_then (calls (on_store (DeleteMachine file_ops i))) (\<lambda>r. case r of
      Inl _ \<Rightarrow> Finished (HttpError StatusInternalServerError ''store error'')
    | Inr _ \<Rightarrow> and_then (calls (\<lambda>w. ((), publish inproc_ops i w))) (\<lambda>_. Finished NoContent))) {}" for i
  proof (rule pays_call [where new = "{i}" and good = "\<lambda>r. r = Inr ()"])
    fix s
    assume "fs_healthy s"
    from machine_calls(2) [OF this, of i] stale_put(2) [of "fs_view s" i]
    show "fs_healthy (snd (DeleteMachine file_ops i s)) \<and>
      stale_streams (fs_view s) (fs_view (snd (DeleteMachine file_ops i s))) \<subseteq> {i} \<and>
      fst (DeleteMachine file_ops i s) = Inr ()" by (simp del: fs_view_simps)
  qed (auto intro!: pays_publish pays_finished)
  show ?thesis
    unfolding deleteMachine_t_def by (intro pays_branch quiet_desired pays_finished del)
qed

lemma pays_report:
  assumes "\<And>w. fs_healthy (w_store w) \<Longrightarrow>
     \<exists>s. snd (f w) = w\<lparr>w_store := s\<rparr> \<and> fs_healthy s \<and> stale_streams (fs_view (w_store w)) (fs_view s) = {}"
  shows "pays (calls f) {}"
  unfolding calls_def
proof (rule pays.pays_atomic)
  fix w :: plane
  assume "fs_healthy (w_store w)"
  from assms [OF this] obtain s where
    "snd (f w) = w\<lparr>w_store := s\<rparr>" "fs_healthy s" "stale_streams (fs_view (w_store w)) (fs_view s) = {}" by blast
  then show "fs_healthy (w_store (snd (case f w of (a, w') \<Rightarrow> (Finished a, w')))) \<and>
    (\<exists>topics. snd (case f w of (a, w') \<Rightarrow> (Finished a, w')) =
        fold (publish inproc_ops) topics (w\<lparr>w_store := w_store (snd (case f w of (a, w') \<Rightarrow> (Finished a, w')))\<rparr>) \<and>
       pays (fst (case f w of (a, w') \<Rightarrow> (Finished a, w')))
         (({} \<union> stale_streams (fs_view (w_store w)) (fs_view (w_store (snd (case f w of (a, w') \<Rightarrow> (Finished a, w')))))) - set topics))"
    by (intro conjI exI [of _ "[]"]) (simp_all add: split_beta pays_finished)
qed

lemma stale_edit:
  assumes "fmlookup (fl_machines fl) k = Some m" and "m_ID m' = k" and "m_Desired m' = m_Desired m"
  shows "stale_streams fl (put_machine m' fl) = {}"
  using assms by (auto simp: stale_streams_def fleet_fields split: if_splits)

lemma pays_handleHeartbeat: "pays (handleHeartbeat_t file_ops now body idn) {}"
  unfolding handleHeartbeat_t_def
proof (rule pays_report)
  fix w :: plane
  assume h: "fs_healthy (w_store w)"
  let ?k = "idn_MachineID idn"
  show "\<exists>s. snd (handleHeartbeat file_ops now body idn w) = w\<lparr>w_store := s\<rparr> \<and> fs_healthy s \<and>
    stale_streams (fs_view (w_store w)) (fs_view s) = {}"
  proof (cases body)
    case None
    then show ?thesis using h by (intro exI [of _ "w_store w"]) (simp add: handleHeartbeat_def same_desired)
  next
    case (Some hb)
    let ?s = "snd (TouchHeartbeat file_ops ?k now (hb_Inventory hb) (w_store w))"
    have "fs_healthy ?s \<and> stale_streams (fs_view (w_store w)) (fs_view ?s) = {}"
      using fs.touch_heartbeat [OF h, of ?k now "hb_Inventory hb"] keyed_machine [OF fs_healthy_keyed [OF h], of ?k]
        stale_edit [of "fs_view (w_store w)" ?k]
      by (auto simp: same_desired touch_def simp del: fs_view_simps split: option.splits)
    then show ?thesis
      using Some by (intro exI [of _ ?s]) (auto simp: handleHeartbeat_def on_store_def split_beta split: sum.split)
  qed
qed

lemma pays_handleStatus: "pays (handleStatus_t file_ops now body idn) {}"
  unfolding handleStatus_t_def
proof (rule pays_report)
  fix w :: plane
  assume h: "fs_healthy (w_store w)"
  let ?k = "idn_MachineID idn"
  show "\<exists>s. snd (handleStatus file_ops now body idn w) = w\<lparr>w_store := s\<rparr> \<and> fs_healthy s \<and>
    stale_streams (fs_view (w_store w)) (fs_view s) = {}"
  proof (cases body)
    case None
    then show ?thesis using h by (intro exI [of _ "w_store w"]) (simp add: handleStatus_def same_desired)
  next
    case (Some rep)
    let ?s = "snd (SetStatus file_ops ?k now (rep_Modules rep) (w_store w))"
    have "fs_healthy ?s \<and> stale_streams (fs_view (w_store w)) (fs_view ?s) = {}"
      using fs.set_status [OF h, of ?k now "rep_Modules rep"] keyed_machine [OF fs_healthy_keyed [OF h], of ?k]
        stale_edit [of "fs_view (w_store w)" ?k]
      by (auto simp: same_desired report_def simp del: fs_view_simps split: option.splits)
    then show ?thesis
      using Some by (intro exI [of _ ?s]) (auto simp: handleStatus_def on_store_def split_beta split: sum.split)
  qed
qed

section \<open>Requests next to a stream\<close>

record overlap =
  ov_threads :: "unit plane_thread list"
  ov_world :: plane
  ov_stream :: stream

definition as_system :: "overlap \<Rightarrow> string set \<Rightarrow> system" where
  "as_system ov owed = \<lparr>sy_world = ov_world ov, sy_stream = ov_stream ov, sy_owed = owed\<rparr>"

text \<open>
  A request makes its next call; or the stream, or another stream on the bus, does a step
  of \<open>Reconcile_Stream\<close> that writes nothing.
\<close>

inductive overlap_step :: "overlap \<Rightarrow> overlap \<Rightarrow> bool" where
  request:
    "i < length (ov_threads ov) \<Longrightarrow> ov_threads ov ! i = Atomic f \<Longrightarrow> f (ov_world ov) = (t, w) \<Longrightarrow>
     overlap_step ov (ov\<lparr>ov_threads := (ov_threads ov)[i := t], ov_world := w\<rparr>)"
| streams:
    "system_step (as_system ov {}) (as_system ov' {}) \<Longrightarrow> w_store (ov_world ov') = w_store (ov_world ov) \<Longrightarrow>
     ov_threads ov' = ov_threads ov \<Longrightarrow> overlap_step ov ov'"

inductive overlap_run :: "overlap \<Rightarrow> overlap \<Rightarrow> bool" where
  overlap_stay: "overlap_run ov ov"
| overlap_go: "overlap_run ov ov1 \<Longrightarrow> overlap_step ov1 ov2 \<Longrightarrow> overlap_run ov ov2"

definition fresh_overlap :: "unit plane_thread list \<Rightarrow> plane \<Rightarrow> string \<Rightarrow> overlap" where
  "fresh_overlap ts w k = \<lparr>ov_threads = ts, ov_world = w, ov_stream = sy_stream (fresh_stream w k)\<rparr>"

lemma publishes_run:
  "system_run y \<lparr>sy_world = w, sy_stream = st, sy_owed = owed\<rparr> \<Longrightarrow>
   system_run y \<lparr>sy_world = fold (publish inproc_ops) topics w, sy_stream = st, sy_owed = owed - set topics\<rparr>"
proof (induction topics arbitrary: w owed)
  case (Cons t topics)
  have "system_run y \<lparr>sy_world = publish inproc_ops t w, sy_stream = st, sy_owed = owed - {t}\<rparr>"
    using system_run.go [OF Cons.prems system_step.others_publish [of _ t]] by simp
  from Cons.IH [OF this] show ?case by (simp add: Diff_insert2 [symmetric] insert_commute)
qed simp

text \<open>A step that writes nothing can be made whatever is owed.\<close>

lemma owed_frame:
  "stream_subscribe (y\<lparr>sy_owed := owed\<rparr>) = (stream_subscribe y)\<lparr>sy_owed := owed\<rparr>"
  "stream_close (y\<lparr>sy_owed := owed\<rparr>) = (stream_close y)\<lparr>sy_owed := owed\<rparr>"
  "stream_send ok (y\<lparr>sy_owed := owed\<rparr>) = (stream_send ok y)\<lparr>sy_owed := owed\<rparr>"
  "stream_wake b (y\<lparr>sy_owed := owed\<rparr>) = (stream_wake b y)\<lparr>sy_owed := owed\<rparr>"
  "(y\<lparr>sy_world := v\<rparr>)\<lparr>sy_owed := owed\<rparr> = y\<lparr>sy_owed := owed, sy_world := v\<rparr>"
  by (simp_all add: stream_subscribe_def stream_close_def stream_send_def stream_wake_def
      split: prod.split sum.split)

lemma owed_step:
  assumes "system_step y y'" and "w_store (sy_world y') = w_store (sy_world y)"
  shows "\<exists>owed'\<subseteq>owed. system_step (y\<lparr>sy_owed := owed\<rparr>) (y'\<lparr>sy_owed := owed'\<rparr>)"
  using assms(1)
proof cases
  case connect
  then show ?thesis
    using system_step.connect [of "y\<lparr>sy_owed := owed\<rparr>"] by (intro exI [of _ owed]) (simp add: owed_frame)
next
  case (send ok)
  then show ?thesis
    using system_step.send [of "y\<lparr>sy_owed := owed\<rparr>" ok] by (intro exI [of _ owed]) (simp add: owed_frame)
next
  case (wake b)
  then show ?thesis
    using system_step.wake [of "y\<lparr>sy_owed := owed\<rparr>" b] by (intro exI [of _ owed]) (simp add: owed_frame)
next
  case hang_up
  then show ?thesis
    using system_step.hang_up [of "y\<lparr>sy_owed := owed\<rparr>"] by (intro exI [of _ owed]) (simp add: owed_frame)
next
  case (others_write s)
  then have "s = w_store (sy_world y)" using assms(2) by simp
  with others_write system_step.others_write [of s "y\<lparr>sy_owed := owed\<rparr>"] show ?thesis
    by (intro exI [of _ owed]) (simp add: same_desired del: fs_view_simps)
next
  case (others_publish k)
  then show ?thesis
    using system_step.others_publish [of "y\<lparr>sy_owed := owed\<rparr>" k]
    by (intro exI [of _ "owed - {k}"]) auto
next
  case (others_subscribe k ch b)
  then show ?thesis
    using system_step.others_subscribe [of k "y\<lparr>sy_owed := owed\<rparr>" ch b]
    by (intro exI [of _ owed]) (simp add: owed_frame)
next
  case (others_cancel ch k)
  then show ?thesis
    using system_step.others_cancel [of ch "y\<lparr>sy_owed := owed\<rparr>" k]
    by (intro exI [of _ owed]) (simp add: owed_frame)
next
  case (others_receive ch b)
  then show ?thesis
    using system_step.others_receive [of ch "y\<lparr>sy_owed := owed\<rparr>" b]
    by (intro exI [of _ owed]) (simp add: owed_frame)
qed

lemma as_system_owed: "(as_system ov x)\<lparr>sy_owed := owed\<rparr> = as_system ov owed"
  by (simp add: as_system_def)

text \<open>
  The requests are writers and publishers of \<open>Reconcile_Stream\<close>; what is owed is what some
  request will still publish.
\<close>

definition covered :: "overlap \<Rightarrow> string set \<Rightarrow> bool" where
  "covered ov owed \<longleftrightarrow>
     (\<exists>kss. length kss = length (ov_threads ov) \<and> (\<forall>i<length kss. pays (ov_threads ov ! i) (kss ! i)) \<and>
        owed \<subseteq> \<Union> (set kss))"

lemma covered_update:
  assumes "length kss = length ts" and "\<forall>i<length kss. pays (ts ! i) (kss ! i)" and "owed \<subseteq> \<Union> (set kss)"
    and "i < length ts" and "pays t ((kss ! i \<union> new) - paid)"
  shows "\<exists>kss'. length kss' = length (ts[i := t]) \<and> (\<forall>j<length kss'. pays (ts[i := t] ! j) (kss' ! j)) \<and>
    (owed \<union> new) - paid \<subseteq> \<Union> (set kss')"
proof (intro exI conjI)
  let ?kss = "kss[i := (kss ! i \<union> new) - paid]"
  have i: "i < length kss" using assms(1,4) by simp
  show "length ?kss = length (ts[i := t])" using assms(1) by simp
  show "\<forall>j<length ?kss. pays (ts[i := t] ! j) (?kss ! j)"
    using assms by (auto simp: nth_list_update)
  have new: "(kss ! i \<union> new) - paid \<in> set ?kss" using i by (rule set_update_memI)
  have old: "kss ! j \<in> set ?kss" if "j < length kss" "j \<noteq> i" for j
    using that by (metis length_list_update nth_list_update_neq nth_mem)
  show "(owed \<union> new) - paid \<subseteq> \<Union> (set ?kss)"
  proof
    fix x
    assume x: "x \<in> (owed \<union> new) - paid"
    show "x \<in> \<Union> (set ?kss)"
    proof (cases "x \<in> kss ! i \<union> new")
      case True
      then have "x \<in> (kss ! i \<union> new) - paid" using x by simp
      then show ?thesis using new by blast
    next
      case False
      then obtain ks where "ks \<in> set kss" "x \<in> ks" using x assms(3) by blast
      then obtain j where j: "j < length kss" "x \<in> kss ! j" by (metis in_set_conv_nth)
      then have "j \<noteq> i" using False by auto
      with j old show ?thesis by blast
    qed
  qed
qed

lemma overlap_step_covered:
  assumes "overlap_step ov ov'" and "system_run y (as_system ov owed)" and "covered ov owed"
    and "fs_healthy (w_store (ov_world ov))"
  shows "\<exists>owed'. system_run y (as_system ov' owed') \<and> covered ov' owed'"
  using assms(1)
proof cases
  case (request i f t w)
  from assms(3) obtain kss where
    kss: "length kss = length (ov_threads ov)" "\<forall>i<length kss. pays (ov_threads ov ! i) (kss ! i)" "owed \<subseteq> \<Union> (set kss)"
    unfolding covered_def by blast
  have "pays (Atomic f) (kss ! i)" using kss request(2,3) by metis
  then obtain topics where
    h: "fs_healthy (w_store w)" and w: "w = fold (publish inproc_ops) topics ((ov_world ov)\<lparr>w_store := w_store w\<rparr>)" and
    p: "pays t ((kss ! i \<union> stale_streams (fs_view (w_store (ov_world ov))) (fs_view (w_store w))) - set topics)"
    using assms(4) request(4) by (cases rule: pays.cases) force+
  let ?new = "stale_streams (fs_view (w_store (ov_world ov))) (fs_view (w_store w))"
  have "system_run y \<lparr>sy_world = (ov_world ov)\<lparr>w_store := w_store w\<rparr>, sy_stream = ov_stream ov, sy_owed = owed \<union> ?new\<rparr>"
    using system_run.go [OF assms(2) system_step.others_write [OF h]] by (simp add: as_system_def)
  from publishes_run [OF this, of topics] have "system_run y (as_system ov' ((owed \<union> ?new) - set topics))"
    using w by (simp add: as_system_def request(1))
  moreover have "covered ov' ((owed \<union> ?new) - set topics)"
    using covered_update [OF kss request(2) p] by (simp add: covered_def request(1))
  ultimately show ?thesis by blast
next
  case streams
  from owed_step [OF streams(1), of owed] streams(2) obtain owed' where
    o': "owed' \<subseteq> owed" "system_step (as_system ov owed) (as_system ov' owed')"
    unfolding as_system_owed by (auto simp: as_system_def)
  have "system_run y (as_system ov' owed')" by (rule system_run.go [OF assms(2) o'(2)])
  moreover have "covered ov' owed'"
    using assms(3) o'(1) unfolding covered_def streams(3) by (meson subset_trans)
  ultimately show ?thesis by blast
qed

lemma overlap_run_covered:
  assumes "overlap_run ov ov'" and "ov = fresh_overlap ts w k" and "fs_healthy (w_store w)" and "bus_alive (w_bus w)"
    and "\<And>t. t \<in> set ts \<Longrightarrow> pays t {}"
  shows "\<exists>owed. system_run (fresh_stream w k) (as_system ov' owed) \<and> covered ov' owed"
  using assms
proof (induction rule: overlap_run.induct)
  case (overlap_stay ov)
  have "as_system ov {} = fresh_stream w k"
    using overlap_stay by (simp add: as_system_def fresh_overlap_def fresh_stream_def)
  moreover have "covered ov {}"
    using overlap_stay unfolding covered_def
    by (intro exI [of _ "replicate (length ts) {}"]) (simp add: fresh_overlap_def)
  ultimately show ?case using system_run.stay by (metis)
next
  case (overlap_go ov ov1 ov2)
  then obtain owed where o': "system_run (fresh_stream w k) (as_system ov1 owed)" "covered ov1 owed" by blast
  have "fs_healthy (w_store (ov_world ov1))"
    using system_run_inv [OF o'(1) fresh_stream_inv [OF overlap_go.prems(2,3)]]
    by (simp add: stream_inv_def as_system_def)
  from overlap_step_covered [OF overlap_go.hyps(2) o' this] show ?case .
qed

text \<open>The requests of the fleet that write no whole machine record read by themselves.\<close>

inductive fleet_request :: "unit plane_thread \<Rightarrow> bool" where
  rq_recompute: "fleet_request (quietly (Recompute_t file_ops inproc_ops env t ids))"
| rq_update_group: "fleet_request (quietly (updateGroup_t file_ops inproc_ops env pid upd))"
| rq_delete_group: "fleet_request (quietly (deleteGroup_t file_ops inproc_ops env pid))"
| rq_add_member: "fleet_request (quietly (addGroupMember_t file_ops inproc_ops env pid mid_body))"
| rq_remove_member: "fleet_request (quietly (removeGroupMember_t file_ops inproc_ops env pid mid))"
| rq_delete_machine: "fleet_request (quietly (deleteMachine_t file_ops inproc_ops pid))"
| rq_heartbeat: "fleet_request (quietly (handleHeartbeat_t file_ops now hb idn))"
| rq_status: "fleet_request (quietly (handleStatus_t file_ops now rep idn))"

lemma pays_quietly: "pays t {} \<Longrightarrow> pays (quietly t) {}"
  unfolding quietly_def by (rule pays_then [OF _ pays_finished])

lemma fleet_request_pays: "fleet_request t \<Longrightarrow> pays t {}"
  by (induction rule: fleet_request.induct)
    (rule pays_quietly, rule pays_Recompute pays_updateGroup pays_deleteGroup pays_addGroupMember
       pays_removeGroupMember pays_deleteMachine pays_handleHeartbeat pays_handleStatus)+

lemma overlap_wakes:
  assumes "fs_healthy (w_store w)" and "bus_alive (w_bus w)" and "list_all fleet_request ts"
    and "overlap_run (fresh_overlap ts w k) ov" and "list_all is_finished (ov_threads ov)"
    and "str_Phase (ov_stream ov) = Waiting"
  shows "last_sent (as_system ov {}) \<noteq> None \<and> (last_sent (as_system ov {}) = current (as_system ov {}) \<or>
    bus_signal (w_bus (ov_world ov)) (str_Chan (ov_stream ov)))"
proof -
  have "pays t {}" if "t \<in> set ts" for t
    using assms(3) that fleet_request_pays by (auto simp: list_all_iff)
  from overlap_run_covered [OF assms(4) refl assms(1,2) this] obtain owed where
    o': "system_run (fresh_stream w k) (as_system ov owed)" "covered ov owed" by blast
  from o'(2) obtain kss where
    kss: "length kss = length (ov_threads ov)" "\<forall>i<length kss. pays (ov_threads ov ! i) (kss ! i)" "owed \<subseteq> \<Union> (set kss)"
    unfolding covered_def by blast
  have "pays t ks \<Longrightarrow> is_finished t \<Longrightarrow> ks = {}" for t :: "unit plane_thread" and ks
    by (cases rule: pays.cases) auto
  with kss(1,2) assms(5) have "\<forall>i<length kss. kss ! i = {}" by (metis list_all_length)
  then have "\<Union> (set kss) = {}" by (simp add: all_set_conv_all_nth)
  then have "owed = {}" using kss(3) by blast
  moreover have "stream_inv (as_system ov owed)" using system_run_inv [OF o'(1) fresh_stream_inv [OF assms(1,2)]] .
  ultimately show ?thesis
    using assms(6) by (auto simp: as_system_def stream_inv_def)
qed


text \<open>A schedule is such a run.\<close>

lemma run_pool_overlap:
  "overlap_run ov0 \<lparr>ov_threads = ts, ov_world = w, ov_stream = st\<rparr> \<Longrightarrow> run_pool sched ts w = (ts', w') \<Longrightarrow>
   overlap_run ov0 \<lparr>ov_threads = ts', ov_world = w', ov_stream = st\<rparr>"
proof (induction sched ts w rule: run_pool.induct)
  case (2 i sched ts w)
  show ?case
  proof (cases "i < length ts")
    case True
    show ?thesis
    proof (cases "ts ! i")
      case (Finished a)
      with 2 True show ?thesis by simp
    next
      case (Atomic f)
      obtain t w1 where f: "f w = (t, w1)" by fastforce
      have "overlap_run ov0 \<lparr>ov_threads = ts[i := t], ov_world = w1, ov_stream = st\<rparr>"
        using overlap_go [OF "2.prems"(1) overlap_step.request [of i _ f t w1]] True Atomic f by simp
      with "2.IH"(2) [OF True Atomic f [symmetric]] "2.prems"(2) True Atomic f show ?thesis by simp
    qed
  next
    case False
    with 2 show ?thesis by simp
  qed
qed simp

section \<open>Sample requests\<close>

definition drop_modules :: update_group_req where
  "drop_modules = \<lparr>ug_Name = None, ug_Selector = None, ug_Modules = Some []\<rparr>"

definition give_node :: update_group_req where
  "give_node = \<lparr>ug_Name = None, ug_Selector = None, ug_Modules = Some [node_spec]\<rparr>"

definition update_h :: "update_group_req \<Rightarrow> unit plane_thread" where
  "update_h req = quietly (updateGroup_t file_ops inproc_ops plain_choices ''h'' (Some req))"

definition delete_m :: "unit plane_thread" where
  "delete_m = quietly (deleteMachine_t file_ops inproc_ops ''m'')"

definition label_m :: "unit plane_thread" where
  "label_m = quietly (putLabels_t file_ops inproc_ops plain_choices ''m'' (Some fmempty))"

definition modules_stored :: "plane \<Rightarrow> string \<Rightarrow> module_spec list option" where
  "modules_stored w k =
     Option.bind (fmlookup (fd_Machines (fs_data (w_store w))) k) (\<lambda>m. ds_Modules (m_Desired m))"

definition overlap_connected :: "unit plane_thread list \<Rightarrow> overlap" where
  "overlap_connected ts =
     \<lparr>ov_threads = ts, ov_world = sy_world connected, ov_stream = sy_stream connected\<rparr>"

lemma as_system_of:
  "sy_owed y = {} \<Longrightarrow> as_system \<lparr>ov_threads = ts, ov_world = sy_world y, ov_stream = sy_stream y\<rparr> {} = y"
  by (cases y) (simp add: as_system_def)

lemma send_frame:
  "w_store (sy_world (stream_send ok y)) = w_store (sy_world y)" "sy_owed (stream_send ok y) = sy_owed y"
proof -
  have "snd (GetMachine file_ops k s) = s" for k s by (simp add: file_ops_def read_state)
  then show "w_store (sy_world (stream_send ok y)) = w_store (sy_world y)" "sy_owed (stream_send ok y) = sy_owed y"
    by (auto simp: stream_send_def stream_close_def on_store_def split: prod.splits sum.split) (metis snd_conv)+
qed

lemma overlap_connected_run: "overlap_run (fresh_overlap ts plane5 ''m'') (overlap_connected ts)"
proof -
  let ?start = "fresh_stream plane5 ''m''"
  let ?y = "stream_subscribe ?start"
  let ?ov = "\<lambda>y. \<lparr>ov_threads = ts, ov_world = sy_world y, ov_stream = sy_stream y\<rparr>"
  have y: "str_Phase (sy_stream ?y) = Sending" "w_store (sy_world ?y) = w_store plane5" "sy_owed ?y = {}"
    by (simp_all add: stream_subscribe_def fresh_stream_def split: prod.split)
  have y0: "fresh_overlap ts plane5 ''m'' = ?ov ?start" "sy_owed ?start = {}" "w_store (sy_world ?start) = w_store plane5"
    by (simp_all add: fresh_overlap_def fresh_stream_def)
  have c: "sy_owed connected = {}" "w_store (sy_world connected) = w_store plane5"
    unfolding connected_def by (simp_all only: send_frame y)
  have "system_step ?start ?y" by (rule system_step.connect) (simp add: fresh_stream_def)
  then have "system_step (as_system (?ov ?start) {}) (as_system (?ov ?y) {})"
    by (simp only: as_system_of [OF y0(2)] as_system_of [OF y(3)])
  then have s1: "overlap_step (?ov ?start) (?ov ?y)"
    by (rule overlap_step.streams) (simp_all only: overlap.simps y(2) y0(3))
  have "system_step ?y connected" unfolding connected_def by (rule system_step.send [OF y(1)])
  then have "system_step (as_system (?ov ?y) {}) (as_system (overlap_connected ts) {})"
    unfolding overlap_connected_def by (simp only: as_system_of [OF y(3)] as_system_of [OF c(1)])
  then have s2: "overlap_step (?ov ?y) (overlap_connected ts)"
    by (rule overlap_step.streams) (simp_all only: overlap.simps overlap_connected_def y(2) c(2))
  show ?thesis unfolding y0(1) by (rule overlap_go [OF overlap_go [OF overlap_stay s1] s2])
qed

definition sample_end :: "unit plane_thread list \<times> plane" where
  "sample_end = run_pool ([0, 1, 0, 1] @ replicate 10 0 @ replicate 10 1) [update_h drop_modules, delete_m] (sy_world connected)"


section \<open>What overlapping requests break\<close>

text \<open>
  Two changes of one group can leave its machines on the modules of neither's final
  state: the first request lists the groups, the second replaces the modules and finds its
  machines in order, then the first saves what it computed. Both were answered, the group
  has the module, the machine has none, and only a later recomputation would mend it.
\<close>

theorem overlapping_updates_go_stale:
  "case run_pool (replicate 6 0 @ replicate 7 1 @ replicate 2 0) [update_h drop_modules, update_h give_node] plane5 of
     (ts, w) \<Rightarrow>
       list_all is_finished ts \<and>
       map_option g_Modules (fmlookup (fd_Groups (fs_data (w_store w))) ''h'') = Some [node_spec] \<and>
       modules_stored w ''m'' = Some [] \<and>
       modules_stored (snd (Recompute file_ops inproc_ops plain_choices ''t'' [] w)) ''m'' = Some [node_spec]"
  by code_simp

text \<open>
  A deleted machine comes back: a group change that read the machine's record before
  the deletion saves it after. The deletion was answered with success, and the machine's
  heartbeats are accepted again.
\<close>

theorem deleted_machine_returns:
  "case run_pool (replicate 6 0 @ replicate 3 1) [update_h drop_modules, delete_m] plane5 of
     (ts, w) \<Rightarrow>
       is_finished (ts ! 1) \<and> fmlookup (fd_Machines (fs_data (w_store w))) ''m'' = None \<and>
       (case run_pool (replicate 2 0) ts w of
          (ts', w') \<Rightarrow>
            list_all is_finished ts' \<and> modules_stored w' ''m'' = Some [] \<and>
            fst (handleHeartbeat file_ops 200 (Some \<lparr>hb_Inventory = zero_inventory\<rparr>)
              \<lparr>idn_MachineID = ''m'', idn_TenantID = ''t''\<rparr> w') = NoContent)"
  by code_simp

text \<open>
  A label change can lose a wake-up: it writes back the desired state it read first. In
  the schedule the stream has sent that the machine has no modules; when all requests are
  done the stored desired state has one again, and no signal is pending for the stream.
\<close>

theorem label_change_loses_wakeup:
  "case Subscribe inproc_ops ''m'' (w_bus plane5) of (ch, b0) \<Rightarrow>
     (case run_pool (0 # replicate 8 1) [label_m, update_h drop_modules, update_h give_node] (plane5\<lparr>w_bus := b0\<rparr>) of
        (ts1, w1) \<Rightarrow>
          (case Receive inproc_ops ch (w_bus w1) of
             None \<Rightarrow> False
           | Some b1 \<Rightarrow>
               modules_stored w1 ''m'' = Some [] \<and>
               (case run_pool (replicate 3 2 @ replicate 5 0 @ replicate 4 2) ts1 (w1\<lparr>w_bus := b1\<rparr>) of
                  (ts2, w2) \<Rightarrow>
                    list_all is_finished ts2 \<and> modules_stored w2 ''m'' = Some [node_spec] \<and>
                    \<not> bus_signal (w_bus w2) ch)))"
  by code_simp

end
