(* ===== verification/Request_Routing.thy ===== *)
theory Request_Routing
  imports Admin_Api Agent_Api Agent_Runtime
begin

text \<open>
  The route tables of the two servers (\<open>Handler\<close> in \<open>internal/server/admin.go\<close> and
  \<open>internal/server/server.go\<close>) with Go's \<open>http.ServeMux\<close>, behind the bearer check and the
  client certificates: which requests reach which handlers.
\<close>

section \<open>Requests\<close>

text \<open>
  \<open>hq_Path\<close> holds the segments of the escaped path, after its first slash; \<open>hq_TLS\<close> what
  \<open>withIdentity\<close> sees of the client.
\<close>

record http_request =
  hq_Method :: string
  hq_Path :: "string list"
  hq_Authorization :: string
  hq_TLS :: "subject list option"

definition unhex :: "char \<Rightarrow> nat option" where
  "unhex c =
     (let n = of_char c :: nat
      in if 48 \<le> n \<and> n \<le> 57 then Some (n - 48)
         else if 97 \<le> n \<and> n \<le> 102 then Some (n - 87)
         else if 65 \<le> n \<and> n \<le> 70 then Some (n - 55) else None)"

fun unescape :: "string \<Rightarrow> string" where
  "unescape (c # a # b # s) =
     (if c = CHR ''%'' then
        (case (unhex a, unhex b) of
           (Some x, Some y) \<Rightarrow> char_of (16 * x + y) # unescape s
         | _ \<Rightarrow> c # unescape (a # b # s))
      else c # unescape (a # b # s))"
| "unescape s = s"

text \<open>\<open>r.URL.Path\<close>.\<close>

definition url_path :: "http_request \<Rightarrow> string" where
  "url_path rq = ''/'' @ Join (map unescape (hq_Path rq)) ''/''"

section \<open>The multiplexer\<close>

datatype segment = Lit string | Wild

record 'h route =
  ro_Method :: string
  ro_Pattern :: "segment list"
  ro_Handler :: 'h

text \<open>\<open>METHOD /a/{b}/c\<close>, as the code writes a pattern.\<close>

definition route_of :: "string \<Rightarrow> 'h \<Rightarrow> 'h route" where
  "route_of pattern h =
     (case Cut pattern '' '' of (meth, path, ok) \<Rightarrow>
        \<lparr>ro_Method = meth,
         ro_Pattern = map (\<lambda>s. if HasPrefix s ''{'' then Wild else Lit s) (Split (drop 1 path) (CHR ''/'')),
         ro_Handler = h\<rparr>)"

text \<open>A literal matches the unescaped segment; a wildcard a segment that is no trailing slash.\<close>

fun match_segments :: "segment list \<Rightarrow> string list \<Rightarrow> string list option" where
  "match_segments [] [] = Some []"
| "match_segments (Lit l # ps) (s # ss) = (if unescape s = l then match_segments ps ss else None)"
| "match_segments (Wild # ps) (s # ss) =
     (if s = [] \<or> unescape s = ''/'' then None else map_option (Cons (unescape s)) (match_segments ps ss))"
| "match_segments _ _ = None"

definition method_fits :: "string \<Rightarrow> string \<Rightarrow> bool" where
  "method_fits pattern meth \<longleftrightarrow> meth = pattern \<or> (meth = ''HEAD'' \<and> pattern = ''GET'')"

definition route_fits :: "'h route \<Rightarrow> http_request \<Rightarrow> bool" where
  "route_fits ro rq \<longleftrightarrow>
     method_fits (ro_Method ro) (hq_Method rq) \<and> match_segments (ro_Pattern ro) (hq_Path rq) \<noteq> None"

text \<open>A path that \<open>cleanPath\<close> would change is redirected.\<close>

definition clean_path :: "string list \<Rightarrow> bool" where
  "clean_path segs \<longleftrightarrow>
     list_all (\<lambda>s. s \<noteq> []) (butlast segs) \<and> list_all (\<lambda>s. s \<noteq> ''.'' \<and> s \<noteq> ''..'') segs"

datatype 'h routed = Handle 'h "string list" | Redirected | NoRoute | WrongMethod

definition dispatch :: "'h route list \<Rightarrow> http_request \<Rightarrow> 'h routed" where
  "dispatch routes rq =
     (if \<not> clean_path (hq_Path rq) then Redirected
      else case find (\<lambda>ro. route_fits ro rq) routes of
             Some ro \<Rightarrow> Handle (ro_Handler ro) (the (match_segments (ro_Pattern ro) (hq_Path rq)))
           | None \<Rightarrow>
               if list_ex (\<lambda>ro. match_segments (ro_Pattern ro) (hq_Path rq) \<noteq> None) routes then WrongMethod
               else NoRoute)"

text \<open>The answers of the multiplexer itself; \<open>run\<close> runs a handler with the path's values.\<close>

definition answer ::
  "('h \<Rightarrow> string list \<Rightarrow> 'w \<Rightarrow> 'a response \<times> 'w) \<Rightarrow> 'h routed \<Rightarrow> 'w \<Rightarrow> 'a response \<times> 'w" where
  "answer run rd w =
     (case rd of
        Handle h vals \<Rightarrow> run h vals w
      | Redirected \<Rightarrow> (HttpError 301 ''Moved Permanently'', w)
      | NoRoute \<Rightarrow> (HttpError 404 ''404 page not found'', w)
      | WrongMethod \<Rightarrow> (HttpError 405 ''Method Not Allowed'', w))"

section \<open>The operator API\<close>

datatype admin_handler =
  A_healthz | A_handleDashboard | A_createTenant | A_listTenants | A_createToken | A_listMachines | A_getMachine
| A_putDesired | A_createGroup | A_listGroups | A_updateGroup | A_deleteGroup | A_listGroupMembers
| A_addGroupMember | A_removeGroupMember | A_putLabels | A_deleteMachine | A_uploadModule | A_listModules
| A_handleMetrics | A_handleAlertRules | A_createCommand | A_listCommands | A_cancelCommand | A_machineGroups
| A_handleLiveAll | A_handleLiveStream

definition admin_routes :: "admin_handler route list" where
  "admin_routes =
     [route_of ''GET /healthz'' A_healthz,
      route_of ''GET /dashboard'' A_handleDashboard,
      route_of ''POST /admin/tenants'' A_createTenant,
      route_of ''GET /admin/tenants'' A_listTenants,
      route_of ''POST /admin/tokens'' A_createToken,
      route_of ''GET /admin/machines'' A_listMachines,
      route_of ''GET /admin/machines/{id}'' A_getMachine,
      route_of ''PUT /admin/machines/{id}/desired'' A_putDesired,
      route_of ''POST /admin/groups'' A_createGroup,
      route_of ''GET /admin/groups'' A_listGroups,
      route_of ''PATCH /admin/groups/{id}'' A_updateGroup,
      route_of ''DELETE /admin/groups/{id}'' A_deleteGroup,
      route_of ''GET /admin/groups/{id}/members'' A_listGroupMembers,
      route_of ''POST /admin/groups/{id}/members'' A_addGroupMember,
      route_of ''DELETE /admin/groups/{id}/members/{machine_id}'' A_removeGroupMember,
      route_of ''PUT /admin/machines/{id}/labels'' A_putLabels,
      route_of ''DELETE /admin/machines/{id}'' A_deleteMachine,
      route_of ''POST /admin/modules'' A_uploadModule,
      route_of ''GET /admin/modules'' A_listModules,
      route_of ''GET /metrics'' A_handleMetrics,
      route_of ''GET /metrics/alerts'' A_handleAlertRules,
      route_of ''POST /admin/commands'' A_createCommand,
      route_of ''GET /admin/commands'' A_listCommands,
      route_of ''DELETE /admin/commands/{name}'' A_cancelCommand,
      route_of ''GET /admin/machines/{id}/groups'' A_machineGroups,
      route_of ''GET /admin/live'' A_handleLiveAll,
      route_of ''GET /admin/machines/{id}/live'' A_handleLiveStream]"

definition AdminHandler ::
  "string \<Rightarrow> (admin_handler \<Rightarrow> string list \<Rightarrow> 'w \<Rightarrow> 'a response \<times> 'w) \<Rightarrow> http_request \<Rightarrow> 'w \<Rightarrow> 'a response \<times> 'w" where
  "AdminHandler token run rq w =
     auth token (url_path rq) (hq_Authorization rq) (answer run (dispatch admin_routes rq)) w"

section \<open>The agent API\<close>

datatype agent_handler =
  G_healthz | G_handleInstallScript | G_handleDownload | G_handleEnroll | G_handleRenew | G_handleHeartbeat
| G_handleStream | G_handleModule | G_handleStatus | G_handleMetricsPush

text \<open>A route is open, or its handler is wrapped in \<open>withIdentity\<close>.\<close>

datatype agent_access = Open agent_handler | WithIdentity agent_handler

definition agent_routes :: "agent_access route list" where
  "agent_routes =
     [route_of ''GET /v1/healthz'' (Open G_healthz),
      route_of ''GET /install.sh'' (Open G_handleInstallScript),
      route_of ''GET /download/{name}'' (Open G_handleDownload),
      route_of ''POST /v1/enroll'' (Open G_handleEnroll),
      route_of ''POST /v1/renew'' (WithIdentity G_handleRenew),
      route_of ''POST /v1/heartbeat'' (WithIdentity G_handleHeartbeat),
      route_of ''GET /v1/stream'' (WithIdentity G_handleStream),
      route_of ''GET /v1/module'' (WithIdentity G_handleModule),
      route_of ''POST /v1/status'' (WithIdentity G_handleStatus),
      route_of ''POST /v1/metrics'' (WithIdentity G_handleMetricsPush)]"

definition AgentHandler ::
  "(agent_handler \<Rightarrow> string list \<Rightarrow> 'w \<Rightarrow> 'a response \<times> 'w) \<Rightarrow>
   (agent_handler \<Rightarrow> identity \<Rightarrow> 'w \<Rightarrow> 'a response \<times> 'w) \<Rightarrow> http_request \<Rightarrow> 'w \<Rightarrow> 'a response \<times> 'w" where
  "AgentHandler run run_as rq w =
     answer (\<lambda>ac vals. case ac of Open h \<Rightarrow> run h vals | WithIdentity h \<Rightarrow> withIdentity (hq_TLS rq) (run_as h))
       (dispatch agent_routes rq) w"

section \<open>Patterns that cannot both match\<close>

fun apart :: "segment list \<Rightarrow> segment list \<Rightarrow> bool" where
  "apart [] [] = False"
| "apart (Lit a # ps) (Lit b # qs) = (a \<noteq> b \<or> apart ps qs)"
| "apart (_ # ps) (_ # qs) = apart ps qs"
| "apart _ _ = True"

lemma match_sides: "match_segments ps ss \<noteq> None \<Longrightarrow> length ss = length ps"
  by (induction ps ss rule: match_segments.induct) (auto split: if_splits)

lemma match_Cons:
  "match_segments (p # ps) (s # ss) \<noteq> None \<Longrightarrow>
     match_segments ps ss \<noteq> None \<and> (\<forall>l. p = Lit l \<longrightarrow> unescape s = l)"
  by (cases p) (auto split: if_splits)

lemma apart_Cons:
  "apart (p # ps) (q # qs) \<longleftrightarrow> (\<exists>a b. p = Lit a \<and> q = Lit b \<and> a \<noteq> b) \<or> apart ps qs"
  by (cases p; cases q) auto

lemma apart_sound: "apart ps qs \<Longrightarrow> match_segments ps ss \<noteq> None \<Longrightarrow> match_segments qs ss = None"
proof (induction ps arbitrary: qs ss)
  case Nil
  then show ?case using match_sides [of "[]" ss] match_sides [of qs ss] by (cases qs) auto
next
  case (Cons p ps)
  show ?case
  proof (rule ccontr)
    assume q: "match_segments qs ss \<noteq> None"
    from match_sides [OF Cons.prems(2)] match_sides [OF q] obtain s ss' q qs' where
      eq: "ss = s # ss'" "qs = q # qs'" by (metis length_Suc_conv list.size(4) add.right_neutral add_Suc_right)
    from match_Cons [OF Cons.prems(2) [unfolded eq]] match_Cons [OF q [unfolded eq]] Cons.prems(1)
    show False using Cons.IH [of qs' ss'] unfolding eq apart_Cons by auto
  qed
qed

text \<open>A table in which no two routes of fitting methods can match the same path.\<close>

fun routes_apart :: "'h route list \<Rightarrow> bool" where
  "routes_apart [] = True"
| "routes_apart (ro # ros) =
     (list_all (\<lambda>r. (ro_Method ro \<noteq> ro_Method r \<and> ro_Method ro \<noteq> ''HEAD'' \<and> ro_Method r \<noteq> ''HEAD'') \<or>
        apart (ro_Pattern ro) (ro_Pattern r)) ros \<and> routes_apart ros)"

lemma routes_apart_unique: "routes_apart routes \<Longrightarrow> length (filter (\<lambda>ro. route_fits ro rq) routes) \<le> 1"
proof (induction routes)
  case (Cons ro ros)
  have "\<not> route_fits r rq" if "r \<in> set ros" "route_fits ro rq" for r
    using Cons.prems that apart_sound [of "ro_Pattern ro" "ro_Pattern r" "hq_Path rq"]
    by (auto simp: list_all_iff route_fits_def method_fits_def)
  then have "route_fits ro rq \<Longrightarrow> filter (\<lambda>ro. route_fits ro rq) ros = []" by (simp add: filter_empty_conv)
  with Cons show ?case by auto
qed simp

text \<open>
  No request is ambiguous: on both servers at most one route fits a request, so the
  patterns register without a conflict and their order does not matter.
\<close>

theorem routes_are_unambiguous:
  "length (filter (\<lambda>ro. route_fits ro rq) admin_routes) \<le> 1 \<and>
   length (filter (\<lambda>ro. route_fits ro rq) agent_routes) \<le> 1"
proof (rule conjI)
  have "routes_apart admin_routes" "routes_apart agent_routes" by code_simp+
  then show "length (filter (\<lambda>ro. route_fits ro rq) admin_routes) \<le> 1"
    and "length (filter (\<lambda>ro. route_fits ro rq) agent_routes) \<le> 1" by (simp_all only: routes_apart_unique)
qed

section \<open>Who gets in\<close>

lemma Join_no_slash:
  assumes "CHR ''/'' \<notin> set (Join xs ''/'')" and "xs \<noteq> []"
  shows "xs = [Join xs ''/'']"
proof (cases xs)
  case (Cons x ys)
  then show ?thesis using assms by (cases ys) auto
qed (use assms in simp)

lemma single_segment:
  assumes "url_path rq = ''/'' @ name" and "name \<noteq> []" and "CHR ''/'' \<notin> set name"
  shows "\<exists>seg. hq_Path rq = [seg] \<and> unescape seg = name"
proof -
  have j: "Join (map unescape (hq_Path rq)) ''/'' = name" using assms(1) by (simp add: url_path_def)
  moreover have "hq_Path rq \<noteq> []" using j assms(2) by auto
  ultimately have "map unescape (hq_Path rq) = [name]"
    using Join_no_slash [of "map unescape (hq_Path rq)"] assms(3) by simp
  then show ?thesis by auto
qed

definition lone_lit :: "segment list \<Rightarrow> string option" where
  "lone_lit ps = (case ps of [Lit l] \<Rightarrow> Some l | _ \<Rightarrow> None)"

text \<open>No pattern of the operator API starts with a wildcard.\<close>

lemma match_single:
  "list_all (\<lambda>ro. case ro_Pattern ro of Wild # _ \<Rightarrow> False | _ \<Rightarrow> True) routes \<Longrightarrow> ro \<in> set routes \<Longrightarrow>
   match_segments (ro_Pattern ro) [seg] \<noteq> None \<Longrightarrow> ro_Pattern ro = [Lit (unescape seg)]"
proof -
  assume nowild: "list_all (\<lambda>ro. case ro_Pattern ro of Wild # _ \<Rightarrow> False | _ \<Rightarrow> True) routes" "ro \<in> set routes"
    and m: "match_segments (ro_Pattern ro) [seg] \<noteq> None"
  from match_sides [OF m] obtain p where p: "ro_Pattern ro = [p]"
    by (cases "ro_Pattern ro") auto
  have "case ro_Pattern ro of Wild # _ \<Rightarrow> False | _ \<Rightarrow> True" using nowild by (auto simp: list_all_iff)
  with p m show "ro_Pattern ro = [Lit (unescape seg)]" by (cases p) (auto split: if_splits)
qed

lemma dispatch_single:
  assumes "list_all (\<lambda>ro. case ro_Pattern ro of Wild # _ \<Rightarrow> False | _ \<Rightarrow> True) routes"
    and "hq_Path rq = [seg]" and "dispatch routes rq = Handle h vals"
  shows "vals = [] \<and> (\<exists>ro\<in>set routes. ro_Pattern ro = [Lit (unescape seg)] \<and> ro_Handler ro = h)"
proof -
  from assms(3) obtain ro where ro: "find (\<lambda>ro. route_fits ro rq) routes = Some ro" "ro_Handler ro = h"
    "vals = the (match_segments (ro_Pattern ro) (hq_Path rq))"
    by (auto simp: dispatch_def split: if_splits option.splits)
  then have in_ro: "ro \<in> set routes" "route_fits ro rq" by (auto simp: find_Some_iff)
  then have "match_segments (ro_Pattern ro) [seg] \<noteq> None" using assms(2) by (simp add: route_fits_def)
  from match_single [OF assms(1) in_ro(1) this] ro in_ro(1) assms(2) show ?thesis by auto
qed

lemma CutPrefix_holds: "CutPrefix s p = (t, True) \<Longrightarrow> s = p @ t"
  by (auto simp: CutPrefix_def HasPrefix_def split: if_splits) (metis append_take_drop_id)

lemma auth_refuses:
  assumes "path \<noteq> ''/healthz''" and "path \<noteq> ''/dashboard''" and "hdr \<noteq> ''Bearer '' @ token"
  shows "auth token path hdr nxt w = (HttpError StatusUnauthorized ''unauthorized'', w)"
proof (cases "CutPrefix hdr ''Bearer ''")
  case (Pair got ok)
  then have "ok \<Longrightarrow> hdr = ''Bearer '' @ got" using CutPrefix_holds [of hdr "''Bearer ''" got] by (simp only: simp_thms)
  with assms(3) have "\<not> ok \<or> got \<noteq> token" by blast
  with Pair assms(1,2) show ?thesis unfolding auth_def by (simp only: if_False if_True prod.case simp_thms)
qed

lemma admin_single:
  assumes "hq_Path rq = [seg]" and "unescape seg = ''healthz'' \<or> unescape seg = ''dashboard''"
    and "dispatch admin_routes rq = Handle h vals"
  shows "vals = [] \<and> (h = A_healthz \<or> h = A_handleDashboard)"
proof -
  have nowild: "list_all (\<lambda>ro. case ro_Pattern ro of Wild # _ \<Rightarrow> False | _ \<Rightarrow> True) admin_routes" by code_simp
  have only: "list_all (\<lambda>ro. ro_Pattern ro = [Lit ''healthz''] \<or> ro_Pattern ro = [Lit ''dashboard''] \<longrightarrow>
      ro_Handler ro = A_healthz \<or> ro_Handler ro = A_handleDashboard) admin_routes" by code_simp
  from dispatch_single [OF nowild assms(1,3)] obtain ro where
    ro: "vals = []" "ro \<in> set admin_routes" "ro_Pattern ro = [Lit (unescape seg)]" "ro_Handler ro = h" by blast
  have "ro_Pattern ro = [Lit ''healthz''] \<or> ro_Pattern ro = [Lit ''dashboard'']"
    using assms(2) by (rule disjE) (simp_all only: ro(3) simp_thms)
  with only ro(2) have "ro_Handler ro = A_healthz \<or> ro_Handler ro = A_handleDashboard"
    unfolding list_all_iff by blast
  with ro(1,4) show ?thesis by (simp only: simp_thms)
qed

lemma open_paths:
  assumes "url_path rq = ''/healthz'' \<or> url_path rq = ''/dashboard''"
  shows "\<exists>seg. hq_Path rq = [seg] \<and> (unescape seg = ''healthz'' \<or> unescape seg = ''dashboard'')"
proof (rule disjE [OF assms])
  assume "url_path rq = ''/healthz''"
  then show ?thesis using single_segment [of rq "''healthz''"] by simp blast
next
  assume "url_path rq = ''/dashboard''"
  then show ?thesis using single_segment [of rq "''dashboard''"] by simp blast
qed



text \<open>The comment on \<open>handleAlertRules\<close> says that it needs no token. It does.\<close>

lemma alert_rules_need_token:
  assumes "hq_Path rq = [''metrics'', ''alerts'']" and "hq_Authorization rq \<noteq> ''Bearer '' @ token"
  shows "AdminHandler token run rq w = (HttpError 401 ''unauthorized'', w)"
proof -
  have "url_path rq = ''/metrics/alerts''" using assms(1) by (simp add: url_path_def)
  then show ?thesis unfolding AdminHandler_def by (simp add: auth_refuses [OF _ _ assms(2)])
qed

definition open_handlers :: "agent_handler list" where
  "open_handlers = [G_healthz, G_handleInstallScript, G_handleDownload, G_handleEnroll]"

lemma agent_open:
  assumes "ro \<in> set agent_routes" and "ro_Handler ro = Open h"
  shows "h \<in> set open_handlers"
proof -
  have "list_all (\<lambda>ro. case ro_Handler ro of Open h \<Rightarrow> List.member open_handlers h | WithIdentity _ \<Rightarrow> True) agent_routes"
    by code_simp
  with assms(1) have "case ro_Handler ro of Open h \<Rightarrow> List.member open_handlers h | WithIdentity _ \<Rightarrow> True"
    unfolding list_all_iff by blast
  with assms(2) show ?thesis by simp
qed

text \<open>
  C14: On the agent API a request without a client certificate runs at most the health
  check, the installer, a download or an enrollment. Every other handler runs as the
  machine and the tenant the certificate names; nothing in the request can say otherwise.
\<close>

theorem agent_needs_certificate:
  "case AgentHandler run run_as rq w of (r, w') \<Rightarrow>
     (is_error r \<and> w' = w) \<or>
     (\<exists>h vals. h \<in> set open_handlers \<and> run h vals w = (r, w')) \<or>
     (\<exists>h leaf rest t ts. hq_TLS rq = Some (leaf # rest) \<and> sub_OrganizationalUnit leaf = t # ts \<and>
        run_as h \<lparr>idn_MachineID = sub_CommonName leaf, idn_TenantID = t\<rparr> w = (r, w'))"
proof (cases "dispatch agent_routes rq")
  case (Handle ac vals)
  then obtain ro where "find (\<lambda>ro. route_fits ro rq) agent_routes = Some ro" "ro_Handler ro = ac"
    by (auto simp: dispatch_def split: if_splits option.splits)
  then have ro: "ro \<in> set agent_routes" "ro_Handler ro = ac" by (auto simp: find_Some_iff)
  show ?thesis
  proof (cases ac)
    case (Open h)
    then have "AgentHandler run run_as rq w = run h vals w" by (simp add: AgentHandler_def answer_def Handle)
    moreover have "h \<in> set open_handlers" using agent_open [OF ro(1)] ro(2) Open by simp
    ultimately show ?thesis by (cases "run h vals w") auto
  next
    case (WithIdentity h)
    then have "AgentHandler run run_as rq w = withIdentity (hq_TLS rq) (run_as h) w"
      by (simp add: AgentHandler_def answer_def Handle)
    then show ?thesis
      by (auto simp: withIdentity_def split: prod.split option.split list.split)
  qed
qed (simp_all add: AgentHandler_def answer_def)

end
