(* ===== verification/Turso_Schema.thy ===== *)
theory Turso_Schema
  imports Turso_Store
begin

text \<open>
  Opening the database store (\<open>OpenTurso\<close> and \<open>migrate\<close> of \<open>internal/store/turso.go\<close>): the
  tables are created where they are missing, and columns that older versions lack are
  added. A database here is its tables with their columns and rows, every value as its
  text; SQLite's data definition is modelled as far as the statements need it.
\<close>

section \<open>A database\<close>

record sql_table =
  st_Columns :: "string list"
  st_Rows :: "string gomap list"

record sql_database =
  db_Tables :: "sql_table gomap"
  db_Indexes :: "string list"

text \<open>\<open>UPDATE tokens SET uses=1 WHERE used=1 AND uses=0\<close> is the one statement about rows.\<close>

datatype statement =
  CreateTable string "string list"
| CreateIndex string string string
| AddColumn string string string
| CountSpentTokens

definition has_column :: "sql_database \<Rightarrow> string \<Rightarrow> string \<Rightarrow> bool" where
  "has_column db t c \<longleftrightarrow>
     (case fmlookup (db_Tables db) t of None \<Rightarrow> False | Some tb \<Rightarrow> c \<in> set (st_Columns tb))"

definition count_spent :: "string gomap \<Rightarrow> string gomap" where
  "count_spent row =
     (if fmlookup row ''used'' = Some ''1'' \<and> fmlookup row ''uses'' = Some ''0''
      then fmupd ''uses'' ''1'' row else row)"

text \<open>What a statement does, with the database's error message where it rejects it.\<close>

definition run_statement :: "statement \<Rightarrow> sql_database \<Rightarrow> string option \<times> sql_database" where
  "run_statement s db =
     (case s of
        CreateTable t cols \<Rightarrow>
          (None, if fmlookup (db_Tables db) t = None
             then db\<lparr>db_Tables := fmupd t \<lparr>st_Columns = cols, st_Rows = []\<rparr> (db_Tables db)\<rparr> else db)
      | CreateIndex i t c \<Rightarrow>
          if i \<in> set (db_Indexes db) then (None, db)
          else if \<not> has_column db t c then (Some (''no such column: '' @ t @ ''.'' @ c), db)
          else (None, db\<lparr>db_Indexes := i # db_Indexes db\<rparr>)
      | AddColumn t c deflt \<Rightarrow>
          (case fmlookup (db_Tables db) t of
             None \<Rightarrow> (Some (''no such table: '' @ t), db)
           | Some tb \<Rightarrow>
               if c \<in> set (st_Columns tb) then (Some (''duplicate column name: '' @ c), db)
               else (None, db\<lparr>db_Tables := fmupd t
                      \<lparr>st_Columns = st_Columns tb @ [c], st_Rows = map (fmupd c deflt) (st_Rows tb)\<rparr> (db_Tables db)\<rparr>))
      | CountSpentTokens \<Rightarrow>
          (case fmlookup (db_Tables db) ''tokens'' of
             None \<Rightarrow> (Some ''no such table: tokens'', db)
           | Some tb \<Rightarrow>
               if ''used'' \<notin> set (st_Columns tb) \<or> ''uses'' \<notin> set (st_Columns tb) then (Some ''no such column: uses'', db)
               else (None, db\<lparr>db_Tables := fmupd ''tokens'' (tb\<lparr>st_Rows := map count_spent (st_Rows tb)\<rparr>) (db_Tables db)\<rparr>)))"

section \<open>The statements\<close>

definition create_statements :: "statement list" where
  "create_statements =
     [CreateTable ''tenants'' [''id'', ''name'', ''created''],
      CreateTable ''tokens'' [''token'', ''tenant_id'', ''created'', ''used''],
      CreateTable ''machines'' [''id'', ''tenant_id'', ''name'', ''enrolled'', ''last_seen'', ''inventory'', ''desired'', ''status''],
      CreateIndex ''machines_tenant'' ''machines'' ''tenant_id'',
      CreateTable ''groups'' [''id'', ''tenant_id'', ''name'', ''selector'', ''modules'', ''created''],
      CreateIndex ''groups_tenant'' ''groups'' ''tenant_id'',
      CreateTable ''group_members'' [''group_id'', ''machine_id''],
      CreateTable ''modules'' [''name'', ''version'', ''exec'', ''payload'', ''signature'']]"

definition upgrade_statements :: "statement list" where
  "upgrade_statements =
     [AddColumn ''machines'' ''labels'' ''{}'',
      AddColumn ''machines'' ''override'' ''[]'',
      AddColumn ''tokens'' ''labels'' ''{}'',
      AddColumn ''groups'' ''match_all'' ''0'',
      AddColumn ''tokens'' ''expires_at'' ''0'',
      AddColumn ''tokens'' ''max_uses'' ''1'',
      AddColumn ''tokens'' ''uses'' ''0'',
      CountSpentTokens]"

text \<open>
  One request: lost on the way, run with its reply lost, or run; the error is the
  database's message after a prefix, or the transport's.
\<close>

definition exec_statement :: "request_outcome \<Rightarrow> statement \<Rightarrow> sql_database \<Rightarrow> string option \<times> sql_database" where
  "exec_statement oc s db =
     (case oc of
        NotSent \<Rightarrow> (Some ''no answer'', db)
      | NoReply \<Rightarrow> (Some ''no answer'', snd (run_statement s db))
      | Executed \<Rightarrow>
          (case run_statement s db of
             (None, db') \<Rightarrow> (None, db')
           | (Some e, db') \<Rightarrow> (Some (''turso: '' @ e), db')))"

fun run_all :: "(string \<Rightarrow> bool) \<Rightarrow> (nat \<Rightarrow> request_outcome) \<Rightarrow> nat \<Rightarrow> statement list \<Rightarrow> sql_database \<Rightarrow>
   string option \<times> sql_database" where
  "run_all ignored oc n [] db = (None, db)"
| "run_all ignored oc n (s # ss) db =
     (case exec_statement (oc n) s db of
        (None, db') \<Rightarrow> run_all ignored oc (Suc n) ss db'
      | (Some e, db') \<Rightarrow> if ignored e then run_all ignored oc (Suc n) ss db' else (Some e, db'))"

definition duplicate_column :: "string \<Rightarrow> bool" where
  "duplicate_column e \<longleftrightarrow> Contains e ''duplicate column''"

definition migrate :: "(nat \<Rightarrow> request_outcome) \<Rightarrow> sql_database \<Rightarrow> string option \<times> sql_database" where
  "migrate oc db =
     (case run_all (\<lambda>_. False) oc 0 create_statements db of
        (Some e, db') \<Rightarrow> (Some e, db')
      | (None, db') \<Rightarrow> run_all duplicate_column oc (length create_statements) upgrade_statements db')"

text \<open>\<open>OpenTurso\<close>: a store, or the error of the migration.\<close>

record turso_store =
  to_url :: string
  to_token :: string

definition OpenTurso ::
  "string \<Rightarrow> string \<Rightarrow> (nat \<Rightarrow> request_outcome) \<Rightarrow> sql_database \<Rightarrow> (string + turso_store) \<times> sql_database" where
  "OpenTurso url token oc db =
     (case migrate oc db of
        (Some e, db') \<Rightarrow> (Inl (''turso migrate: '' @ e), db')
      | (None, db') \<Rightarrow> (Inr \<lparr>to_url = url, to_token = token\<rparr>, db'))"


section \<open>Running the statements again\<close>

text \<open>A database whose tables, where they exist, have the columns they were created with.\<close>

definition created_by :: "sql_database \<Rightarrow> statement \<Rightarrow> bool" where
  "created_by db s =
     (case s of
        CreateTable t cols \<Rightarrow> list_all (\<lambda>c. fmlookup (db_Tables db) t = None \<or> has_column db t c) cols
      | _ \<Rightarrow> True)"

definition earlier_version :: "sql_database \<Rightarrow> bool" where
  "earlier_version db \<longleftrightarrow> list_all (created_by db) create_statements"

text \<open>Every request arrives and is answered.\<close>

definition answered :: "nat \<Rightarrow> request_outcome" where
  "answered n = Executed"

text \<open>What a statement leaves in place and what it finds there: a table, or a column of it.\<close>

definition present :: "sql_database \<Rightarrow> string \<times> string option \<Rightarrow> bool" where
  "present db x = (case x of (t, None) \<Rightarrow> fmlookup (db_Tables db) t \<noteq> None | (t, Some c) \<Rightarrow> has_column db t c)"

definition gives :: "statement \<Rightarrow> (string \<times> string option) list" where
  "gives s =
     (case s of
        CreateTable t cols \<Rightarrow> (t, None) # map (\<lambda>c. (t, Some c)) cols
      | AddColumn t c _ \<Rightarrow> [(t, None), (t, Some c)]
      | _ \<Rightarrow> [])"

definition needs :: "statement \<Rightarrow> (string \<times> string option) list" where
  "needs s =
     (case s of
        CreateTable t cols \<Rightarrow> []
      | CreateIndex i t c \<Rightarrow> [(t, Some c)]
      | AddColumn t c _ \<Rightarrow> [(t, None)]
      | CountSpentTokens \<Rightarrow> [(''tokens'', Some ''used''), (''tokens'', Some ''uses'')])"

fun supported :: "(string \<times> string option) list \<Rightarrow> statement list \<Rightarrow> bool" where
  "supported seen [] \<longleftrightarrow> True"
| "supported seen (s # ss) \<longleftrightarrow> list_all (\<lambda>x. x \<in> set seen) (needs s) \<and> supported (gives s @ seen) ss"

text \<open>Two statements do not create the same table with different columns.\<close>

definition one_shape :: "statement \<Rightarrow> statement \<Rightarrow> bool" where
  "one_shape s s' =
     (case (s, s') of (CreateTable t cols, CreateTable t' cols') \<Rightarrow> t = t' \<longrightarrow> cols = cols' | _ \<Rightarrow> True)"

lemmas statement_simps = run_statement_def has_column_def created_by_def present_def gives_def needs_def one_shape_def

lemma Contains_prefix: "Contains (ys @ zs) ys"
  using HasPrefix_append[of ys zs] by (cases "ys @ zs") (auto simp del: HasPrefix_append)

lemma Contains_middle: "Contains (xs @ ys @ zs) ys"
  by (induction xs) (auto simp: Contains_prefix)

lemma duplicate_column_message: "duplicate_column (''turso: '' @ ''duplicate column name: '' @ c)"
  using Contains_middle[of "''turso: ''" "''duplicate column''" "'' name: '' @ c"]
  by (simp add: duplicate_column_def)

lemma run_keeps_present: "present db x \<Longrightarrow> present (snd (run_statement s db)) x"
  by (auto simp: statement_simps split: statement.splits option.splits prod.splits)

lemma run_keeps_created:
  "created_by db s' \<Longrightarrow> one_shape s s' \<Longrightarrow> created_by (snd (run_statement s db)) s'"
  by (auto simp: statement_simps list_all_iff split: statement.splits option.splits prod.splits if_splits)

lemma run_gives:
  "created_by db s \<Longrightarrow> list_all (present db) (needs s) \<Longrightarrow>
   list_all (present (snd (run_statement s db))) (gives s)"
  by (auto simp: statement_simps list_all_iff split: statement.splits option.splits prod.splits if_splits)

text \<open>A statement that finds what it needs runs, or finds its column there already.\<close>

lemma run_succeeds:
  assumes "list_all (present db) (needs s)"
  shows "fst (run_statement s db) = None \<or>
    (\<exists>t c d. s = AddColumn t c d \<and> fst (run_statement s db) = Some (''duplicate column name: '' @ c))"
  using assms by (auto simp: statement_simps split: statement.splits option.splits prod.splits if_splits)


definition apply_statement :: "statement \<Rightarrow> sql_database \<Rightarrow> sql_database" where
  "apply_statement s db = snd (run_statement s db)"

definition tolerated :: "(string \<Rightarrow> bool) \<Rightarrow> statement \<Rightarrow> bool" where
  "tolerated ignored s = (case s of AddColumn t c d \<Rightarrow> ignored = duplicate_column | _ \<Rightarrow> True)"

lemma answered_step:
  assumes "list_all (present db) (needs s)" and "tolerated ignored s"
  shows "run_all ignored answered n (s # ss) db = run_all ignored answered (Suc n) ss (apply_statement s db)"
  using run_succeeds[OF assms(1)] assms(2) duplicate_column_message
  by (auto simp: exec_statement_def answered_def apply_statement_def tolerated_def split: prod.splits)

lemma answered_run:
  assumes "supported seen ss" and "list_all (present db) seen" and "list_all (created_by db) ss"
    and "\<forall>s\<in>set ss. \<forall>s'\<in>set ss. one_shape s s'" and "list_all (tolerated ignored) ss"
  shows "run_all ignored answered n ss db = (None, fold apply_statement ss db)
    \<and> list_all (present (fold apply_statement ss db)) (concat (map gives ss) @ seen)"
  using assms
proof (induction ss arbitrary: seen db n)
  case (Cons s ss)
  have found: "list_all (present db) (needs s)"
    using Cons.prems(1,2) by (auto simp: list_all_iff)
  have now: "list_all (present (apply_statement s db)) (gives s @ seen)"
    using run_gives[of db s] found Cons.prems(2,3) run_keeps_present[of db _ s]
    by (auto simp: apply_statement_def list_all_iff)
  have later: "list_all (created_by (apply_statement s db)) ss"
    using Cons.prems(3,4) run_keeps_created[of db _ s] by (auto simp: apply_statement_def list_all_iff)
  show ?case
    using Cons.IH[OF _ now later] Cons.prems answered_step[OF found] by (auto simp: list_all_iff)
qed simp

text \<open>A run that is cut off has done a prefix of the statements.\<close>

lemma run_all_prefix:
  assumes "\<not> ignored ''no answer''"
  shows "\<exists>k. snd (run_all ignored oc n ss db) = fold apply_statement (take k ss) db \<and>
    (fst (run_all ignored oc n ss db) = None \<longrightarrow> length ss \<le> k)"
proof (induction ss arbitrary: n db)
  case (Cons s ss)
  let ?db = "apply_statement s db"
  from Cons obtain k where go: "snd (run_all ignored oc (Suc n) ss ?db) = fold apply_statement (take k ss) ?db"
    "fst (run_all ignored oc (Suc n) ss ?db) = None \<longrightarrow> length ss \<le> k" by blast
  have "run_all ignored oc n (s # ss) db = run_all ignored oc (Suc n) ss ?db \<or>
    (\<exists>e. run_all ignored oc n (s # ss) db = (Some e, db) \<or> run_all ignored oc n (s # ss) db = (Some e, ?db))"
    using assms by (auto simp: exec_statement_def apply_statement_def split: request_outcome.splits prod.splits option.splits)
  then show ?case
  proof (elim disjE exE)
    assume "run_all ignored oc n (s # ss) db = run_all ignored oc (Suc n) ss ?db"
    then show ?thesis using go by (intro exI[of _ "Suc k"]) (simp del: run_all.simps)
  next
    fix e assume "run_all ignored oc n (s # ss) db = (Some e, db)"
    then show ?thesis by (intro exI[of _ 0]) (simp del: run_all.simps)
  next
    fix e assume "run_all ignored oc n (s # ss) db = (Some e, ?db)"
    then show ?thesis by (intro exI[of _ 1]) (simp del: run_all.simps)
  qed
qed simp

text \<open>Statements that have been run change nothing when they are run again.\<close>

definition in_place :: "sql_database \<Rightarrow> statement \<Rightarrow> bool" where
  "in_place db s =
     (case s of
        CreateTable t cols \<Rightarrow> fmlookup (db_Tables db) t \<noteq> None
      | CreateIndex i t c \<Rightarrow> i \<in> set (db_Indexes db)
      | AddColumn t c d \<Rightarrow> has_column db t c
      | CountSpentTokens \<Rightarrow> False)"

lemma in_place_again: "in_place db s \<Longrightarrow> apply_statement s db = db"
  by (auto simp: in_place_def apply_statement_def statement_simps split: statement.splits option.splits)

lemma in_place_stays: "in_place db s \<Longrightarrow> in_place (apply_statement s' db) s"
  by (auto simp: in_place_def apply_statement_def statement_simps split: statement.splits option.splits)

lemma in_place_after:
  "list_all (present db) (needs s) \<Longrightarrow> s \<noteq> CountSpentTokens \<Longrightarrow> in_place (apply_statement s db) s"
  by (auto simp: in_place_def apply_statement_def statement_simps split: statement.splits option.splits)

lemma count_again: "apply_statement CountSpentTokens (apply_statement CountSpentTokens db) = apply_statement CountSpentTokens db"
  by (auto simp: apply_statement_def run_statement_def count_spent_def fmap_ext comp_def intro!: sql_database.equality
    split: option.splits)

section \<open>Migration\<close>

definition schema_statements :: "statement list" where
  "schema_statements = create_statements @ upgrade_statements"

definition early_statements :: "statement list" where
  "early_statements = create_statements @ butlast upgrade_statements"

lemma schema_early: "schema_statements = early_statements @ [CountSpentTokens]"
  by (simp add: schema_statements_def early_statements_def upgrade_statements_def)

lemma schema_supported: "supported [] schema_statements"
  by code_simp

lemma schema_one_shape: "\<forall>s\<in>set schema_statements. \<forall>s'\<in>set schema_statements. one_shape s s'"
  by code_simp

lemma no_column_created: "list_all (tolerated (\<lambda>_. False)) create_statements"
  by (simp add: create_statements_def tolerated_def)

lemma column_tolerated: "list_all (tolerated duplicate_column) upgrade_statements"
  by (simp add: upgrade_statements_def tolerated_def)

lemma early_counts_nothing: "CountSpentTokens \<notin> set early_statements"
  by (simp add: early_statements_def create_statements_def upgrade_statements_def)

lemma supported_append: "supported seen (ss @ ss') \<longleftrightarrow> supported seen ss \<and> supported (concat (map gives (rev ss)) @ seen) ss'"
  by (induction ss arbitrary: seen) auto

lemma earlier_created: "earlier_version db \<longleftrightarrow> list_all (created_by db) schema_statements"
  by (auto simp: earlier_version_def schema_statements_def upgrade_statements_def created_by_def)

lemma earlier_stays:
  assumes "earlier_version db" and "set ss \<subseteq> set schema_statements"
  shows "earlier_version (fold apply_statement ss db)"
  using assms
proof (induction ss arbitrary: db)
  case (Cons s ss)
  have "earlier_version (apply_statement s db)"
    using Cons.prems schema_one_shape run_keeps_created[of db _ s]
    by (auto simp: earlier_created list_all_iff apply_statement_def)
  then show ?case using Cons by simp
qed simp

lemma answered_migration:
  assumes "earlier_version db"
  shows "migrate answered db = (None, fold apply_statement schema_statements db)"
    and "list_all (present (fold apply_statement schema_statements db)) (concat (map gives schema_statements))"
proof -
  let ?db = "fold apply_statement create_statements db"
  have sub: "set create_statements \<subseteq> set schema_statements" "set upgrade_statements \<subseteq> set schema_statements"
    by (auto simp: schema_statements_def)
  have shape: "\<forall>s\<in>set ss. \<forall>s'\<in>set ss. one_shape s s'" if "set ss \<subseteq> set schema_statements" for ss
    using that schema_one_shape by blast
  have first: "run_all (\<lambda>_. False) answered n create_statements db = (None, ?db) \<and>
      list_all (present ?db) (concat (map gives create_statements) @ [])" for n
    using schema_supported assms no_column_created shape[OF sub(1)]
    by (intro answered_run) (auto simp: earlier_version_def schema_statements_def supported_append)
  have "supported (concat (map gives (rev create_statements))) upgrade_statements"
    using schema_supported by (simp add: schema_statements_def supported_append)
  moreover have "list_all (present ?db) (concat (map gives (rev create_statements)))"
    using first by (auto simp: list_all_iff)
  moreover have "list_all (created_by ?db) upgrade_statements"
    using earlier_stays[OF assms sub(1)] sub(2) by (auto simp: earlier_created list_all_iff)
  ultimately have second: "run_all duplicate_column answered n upgrade_statements ?db =
        (None, fold apply_statement upgrade_statements ?db) \<and>
      list_all (present (fold apply_statement upgrade_statements ?db))
        (concat (map gives upgrade_statements) @ concat (map gives (rev create_statements)))" for n
    by (intro answered_run) (use shape[OF sub(2)] column_tolerated in auto)
  show "migrate answered db = (None, fold apply_statement schema_statements db)"
    using first second by (simp add: migrate_def schema_statements_def)
  show "list_all (present (fold apply_statement schema_statements db)) (concat (map gives schema_statements))"
    using second by (auto simp: schema_statements_def list_all_iff)
qed

lemma cut_off_migration:
  "\<exists>k. snd (migrate oc db) = fold apply_statement (take k schema_statements) db"
proof -
  obtain k where k: "snd (run_all (\<lambda>_. False) oc 0 create_statements db) = fold apply_statement (take k create_statements) db"
    "fst (run_all (\<lambda>_. False) oc 0 create_statements db) = None \<longrightarrow> length create_statements \<le> k"
    using run_all_prefix[of "\<lambda>_. False"] by blast
  have "\<not> duplicate_column ''no answer''" by code_simp
  then obtain m where m: "snd (run_all duplicate_column oc (length create_statements) upgrade_statements
      (fold apply_statement create_statements db)) =
    fold apply_statement (take m upgrade_statements) (fold apply_statement create_statements db)"
    using run_all_prefix[of duplicate_column] by blast
  show ?thesis
  proof (cases "run_all (\<lambda>_. False) oc 0 create_statements db")
    case (Pair e db')
    show ?thesis
    proof (cases e)
      case None
      then have "snd (migrate oc db) = fold apply_statement (take (length create_statements + m) schema_statements) db"
        using k m Pair by (simp add: migrate_def schema_statements_def)
      then show ?thesis by blast
    next
      case (Some msg)
      have "snd (migrate oc db) = fold apply_statement (take (min k (length create_statements)) schema_statements) db"
        using k Pair Some by (simp add: migrate_def schema_statements_def min_def)
      then show ?thesis by blast
    qed
  qed
qed

lemma early_in_place:
  assumes "earlier_version db" and "ss @ ss' = early_statements"
  shows "list_all (in_place (fold apply_statement ss db)) ss"
  using assms(2)
proof (induction ss arbitrary: ss' rule: rev_induct)
  case (snoc s ss)
  let ?db = "fold apply_statement ss db"
  have part: "ss @ s # ss' = early_statements" using snoc.prems by simp
  then have all: "schema_statements = ss @ s # (ss' @ [CountSpentTokens])" by (simp add: schema_early)
  have sup: "supported [] ss" "list_all (\<lambda>x. x \<in> set (concat (map gives (rev ss)))) (needs s)"
    using schema_supported unfolding all by (auto simp: supported_append)
  have "list_all (tolerated duplicate_column) ss"
    by (auto simp: list_all_iff tolerated_def split: statement.split)
  then have "list_all (present ?db) (concat (map gives ss) @ [])"
    using answered_run[OF sup(1), of db duplicate_column 0] assms(1) schema_one_shape
    by (auto simp: earlier_created all list_all_iff)
  then have "list_all (present ?db) (needs s)" using sup(2) by (auto simp: list_all_iff)
  moreover have "s \<noteq> CountSpentTokens" using early_counts_nothing part by (metis in_set_conv_decomp)
  ultimately have "in_place (apply_statement s ?db) s" by (rule in_place_after)
  moreover have "list_all (in_place ?db) ss" using snoc.IH[OF part] .
  ultimately show ?case by (auto simp: list_all_iff in_place_stays)
qed simp

lemma in_place_all_again: "list_all (in_place db) ss \<Longrightarrow> fold apply_statement ss db = db"
  by (induction ss) (auto simp: in_place_again)

lemma migrate_from_prefix:
  assumes "earlier_version db"
  shows "fold apply_statement schema_statements (fold apply_statement (take k schema_statements) db) =
    fold apply_statement schema_statements db"
proof (cases "k \<le> length early_statements")
  case True
  let ?ss = "take k early_statements" and ?rest = "drop k early_statements"
  have "list_all (in_place (fold apply_statement ?ss db)) ?ss"
    by (rule early_in_place[OF assms, of _ ?rest]) simp
  then have "fold apply_statement (?ss @ ?rest) (fold apply_statement ?ss db) = fold apply_statement (?ss @ ?rest) db"
    by (simp add: in_place_all_again del: append_take_drop_id)
  then show ?thesis using True by (simp add: schema_early)
next
  case False
  let ?db = "fold apply_statement early_statements db"
  have "list_all (in_place ?db) early_statements"
    by (rule early_in_place[OF assms, of _ "[]"]) simp
  then have "list_all (in_place (apply_statement CountSpentTokens ?db)) early_statements"
    by (auto simp: list_all_iff in_place_stays)
  then show ?thesis using False by (simp add: schema_early in_place_all_again count_again)
qed

text \<open>The columns the statements of \<open>turso.go\<close> read and write.\<close>

definition used_columns :: "(string \<times> string) list" where
  "used_columns =
     map (Pair ''tenants'') [''id'', ''name'', ''created'']
     @ map (Pair ''tokens'') [''token'', ''tenant_id'', ''labels'', ''created'', ''expires_at'', ''max_uses'', ''uses'', ''used'']
     @ map (Pair ''machines'') [''id'', ''tenant_id'', ''name'', ''labels'', ''override'', ''enrolled'', ''last_seen'',
          ''inventory'', ''desired'', ''status'']
     @ map (Pair ''groups'') [''id'', ''tenant_id'', ''name'', ''match_all'', ''selector'', ''modules'', ''created'']
     @ map (Pair ''group_members'') [''group_id'', ''machine_id'']
     @ map (Pair ''modules'') [''name'', ''version'', ''exec'', ''payload'', ''signature'']"

lemma used_columns_given: "list_all (\<lambda>(t, c). (t, Some c) \<in> set (concat (map gives schema_statements))) used_columns"
  by code_simp

lemma present_column: "list_all (present db) xs \<Longrightarrow> (t, Some c) \<in> set xs \<Longrightarrow> has_column db t c"
  by (auto simp: list_all_iff present_def)

text \<open>
  C15: However the opening of a database was cut off - a request lost, or its reply - opening
  it again succeeds, leaves exactly what one undisturbed opening would have left, and every
  column the store's statements use is there. This holds for an empty database and for one of
  any earlier version, with or without the columns added since.
\<close>

theorem migration_resumes:
  assumes "earlier_version db" and "OpenTurso url token oc db = (r, db')"
  shows "OpenTurso url token answered db' = (Inr \<lparr>to_url = url, to_token = token\<rparr>, snd (OpenTurso url token answered db)) \<and>
    list_all (\<lambda>(t, c). has_column (snd (OpenTurso url token answered db')) t c) used_columns"
proof
  obtain k where k: "db' = fold apply_statement (take k schema_statements) db"
    using cut_off_migration[of oc db] assms(2) by (auto simp: OpenTurso_def split: prod.splits option.splits)
  have "earlier_version db'"
    unfolding k by (rule earlier_stays[OF assms(1)]) (auto dest: in_set_takeD)
  then have again: "migrate answered db' = (None, fold apply_statement schema_statements db)"
    using answered_migration(1)[of db'] migrate_from_prefix[OF assms(1)] by (simp add: k)
  then show "OpenTurso url token answered db' = (Inr \<lparr>to_url = url, to_token = token\<rparr>, snd (OpenTurso url token answered db))"
    using answered_migration(1)[OF assms(1)] by (simp add: OpenTurso_def)
  show "list_all (\<lambda>(t, c). has_column (snd (OpenTurso url token answered db')) t c) used_columns"
    by (rule list.pred_mono_strong [OF used_columns_given])
      (auto simp: OpenTurso_def again simp del: set_concat dest: present_column [OF answered_migration(2) [OF assms(1)]])
qed

definition empty_database :: sql_database where
  "empty_database = \<lparr>db_Tables = fmempty, db_Indexes = []\<rparr>"

definition lost_reply :: "nat \<Rightarrow> nat \<Rightarrow> request_outcome" where
  "lost_reply k n = (if n = k then NoReply else Executed)"

lemma migration_resumes_witness:
  "earlier_version empty_database \<and>
   OpenTurso ''u'' ''t'' answered (snd (OpenTurso ''u'' ''t'' (lost_reply 3) empty_database)) =
     (Inr \<lparr>to_url = ''u'', to_token = ''t''\<rparr>, snd (OpenTurso ''u'' ''t'' answered empty_database)) \<and>
   (\<exists>e. fst (OpenTurso ''u'' ''t'' (lost_reply 3) empty_database) = Inl e)"
proof -
  have *: "earlier_version empty_database" by code_simp
  have "case fst (OpenTurso ''u'' ''t'' (lost_reply 3) empty_database) of Inl e \<Rightarrow> True | Inr _ \<Rightarrow> False"
    by code_simp
  then show ?thesis
    using * migration_resumes[OF *, of "''u''" "''t''" "lost_reply 3"]
    by (cases "OpenTurso ''u'' ''t'' (lost_reply 3) empty_database") (auto split: sum.splits)
qed

section \<open>Rows of an earlier version\<close>

text \<open>A statement changes the tables that exist one by one.\<close>

definition table_step :: "string \<Rightarrow> statement \<Rightarrow> sql_table \<Rightarrow> sql_table" where
  "table_step t s tb =
     (case s of
        AddColumn t' c d \<Rightarrow>
          if t' = t \<and> c \<notin> set (st_Columns tb)
          then \<lparr>st_Columns = st_Columns tb @ [c], st_Rows = map (fmupd c d) (st_Rows tb)\<rparr> else tb
      | CountSpentTokens \<Rightarrow>
          if t = ''tokens'' \<and> ''used'' \<in> set (st_Columns tb) \<and> ''uses'' \<in> set (st_Columns tb)
          then tb\<lparr>st_Rows := map count_spent (st_Rows tb)\<rparr> else tb
      | _ \<Rightarrow> tb)"

lemma apply_table_step:
  "fmlookup (db_Tables db) t = Some tb \<Longrightarrow>
   fmlookup (db_Tables (apply_statement s db)) t = Some (table_step t s tb)"
  by (auto simp: apply_statement_def run_statement_def has_column_def table_step_def split: statement.split option.split)

lemma fold_table_step:
  "fmlookup (db_Tables db) t = Some tb \<Longrightarrow>
   fmlookup (db_Tables (fold apply_statement ss db)) t = Some (fold (table_step t) ss tb)"
  by (induction ss arbitrary: db tb) (auto simp: apply_table_step)

lemma table_step_creates:
  "list_all (\<lambda>s. case s of AddColumn _ _ _ \<Rightarrow> False | CountSpentTokens \<Rightarrow> False | _ \<Rightarrow> True) ss \<Longrightarrow>
   fold (table_step t) ss tb = tb"
  by (induction ss) (auto simp: table_step_def split: statement.splits)

text \<open>
  A token of a store from before groups, expiry and multiple uses reads after the
  migration as a token for one use that never expires and sets no labels; it is used up
  exactly if it was used, and what it held before is unchanged. (Here the tokens table has
  its four first columns; every row is kept, in its place.)
\<close>

theorem old_tokens_stay_single_use:
  assumes "earlier_version db"
    and "fmlookup (db_Tables db) ''tokens'' = Some tb"
    and "st_Columns tb = [''token'', ''tenant_id'', ''created'', ''used'']"
    and "OpenTurso url token answered db = (r, db')"
  shows "\<exists>tb'. fmlookup (db_Tables db') ''tokens'' = Some tb' \<and>
    list_all2 (\<lambda>row row'.
        fmlookup row' ''max_uses'' = Some ''1'' \<and> fmlookup row' ''expires_at'' = Some ''0'' \<and>
        fmlookup row' ''labels'' = Some ''{}'' \<and>
        fmlookup row' ''uses'' = Some (if fmlookup row ''used'' = Some ''1'' then ''1'' else ''0'') \<and>
        list_all (\<lambda>c. fmlookup row' c = fmlookup row c) [''token'', ''tenant_id'', ''created'', ''used''])
      (st_Rows tb) (st_Rows tb')"
proof -
  have db': "db' = fold apply_statement schema_statements db"
    using assms(4) answered_migration(1)[OF assms(1)] by (simp add: OpenTurso_def)
  have "fold (table_step ''tokens'') create_statements tb = tb"
    by (rule table_step_creates) (simp add: create_statements_def)
  then have "st_Rows (fold (table_step ''tokens'') schema_statements tb) =
     map (\<lambda>row. count_spent (fmupd ''uses'' ''0'' (fmupd ''max_uses'' ''1'' (fmupd ''expires_at'' ''0'' (fmupd ''labels'' ''{}'' row)))))
       (st_Rows tb)"
    using assms(3) by (simp add: schema_statements_def upgrade_statements_def table_step_def comp_def)
  then show ?thesis
    unfolding db' fold_table_step[OF assms(2)]
    by (auto simp: list_all2_conv_all_nth count_spent_def)
qed

definition old_store :: sql_database where
  "old_store = \<lparr>db_Tables = fmap_of_list
     [(''tokens'', \<lparr>st_Columns = [''token'', ''tenant_id'', ''created'', ''used''],
        st_Rows = [fmap_of_list [(''token'', ''ab''), (''tenant_id'', ''t1''), (''created'', ''7''), (''used'', ''1'')],
                   fmap_of_list [(''token'', ''cd''), (''tenant_id'', ''t1''), (''created'', ''8''), (''used'', ''0'')]]\<rparr>)],
     db_Indexes = []\<rparr>"

lemma old_tokens_stay_single_use_witness:
  "earlier_version old_store \<and>
   (\<exists>tb'. fmlookup (db_Tables (snd (OpenTurso ''u'' ''t'' answered old_store))) ''tokens'' = Some tb' \<and>
      length (st_Rows tb') = 2 \<and> fmlookup (st_Rows tb' ! 0) ''uses'' = Some ''1'' \<and>
      fmlookup (st_Rows tb' ! 1) ''uses'' = Some ''0'')"
proof -
  have *: "earlier_version old_store" by code_simp
  obtain r db' where r: "OpenTurso ''u'' ''t'' answered old_store = (r, db')" by fastforce
  show ?thesis
    using old_tokens_stay_single_use[OF * _ _ r] * r
    by (auto simp: old_store_def fmlookup_of_list list_all2_Cons1)
qed

end
