(* ===== verification/Dashboard_Text.thy ===== *)
theory Dashboard_Text
  imports Command_Api Agent_Api
begin

text \<open>
  The dashboard's script (\<open>internal/server/dashboard.go\<close>): what it computes from text and
  numbers, and the HTML it writes for the records of the API. A number is a real; the text
  of a number outside \<open>toFixed\<close>, a local time and \<open>toLowerCase\<close> beyond ASCII are left to arguments
  or left alone. JavaScript strings are their UTF-8 bytes.
\<close>

section \<open>The entries of a map\<close>

lemma in_sorted_list_of_fmap: "(k, v) \<in> set (sorted_list_of_fmap m) \<longleftrightarrow> fmlookup m k = Some v"
  by (auto simp: sorted_list_of_fmap_def fmlookup_dom_iff image_iff)

section \<open>JavaScript strings\<close>

text \<open>White space of \<open>trim\<close> and of \<open>\s\<close>: Go's without U+0085 and with U+FEFF.\<close>

definition js_space :: "string list" where
  "js_space = filter (\<lambda>r. r \<noteq> [CHR 0xC2, CHR 0x85]) space_runes @ [[CHR 0xEF, CHR 0xBB, CHR 0xBF]]"

definition js_trim :: "string \<Rightarrow> string" where
  "js_trim s = rev (trim_leading (map rev js_space) (rev (trim_leading js_space s)))"

lemma length_trim_leading: "length (trim_leading runes s) \<le> length s"
  by (induction runes s rule: trim_leading.induct) (subst trim_leading.simps, auto)

text \<open>\<open>split\<close> at runs of separators.\<close>

function split_runs :: "string list \<Rightarrow> string \<Rightarrow> string \<Rightarrow> string list" where
  "split_runs seps cur s =
     (if s = [] then [cur]
      else if leading_space seps s = 0 then split_runs seps (cur @ [hd s]) (tl s)
      else cur # split_runs seps [] (trim_leading seps (drop (leading_space seps s) s)))"
  by pat_completeness auto
termination
  by (relation "measure (\<lambda>(seps, cur, s). length s)") (auto intro: le_less_trans [OF length_trim_leading])

declare split_runs.simps [simp del]

definition to_lower :: "string \<Rightarrow> string" where
  "to_lower s = map (\<lambda>c. if 65 \<le> (of_char c :: nat) \<and> (of_char c :: nat) \<le> 90 then char_of (of_char c + 32 :: nat) else c) s"

text \<open>\<open>a || b\<close> on strings.\<close>

definition or_else :: "string \<Rightarrow> string \<Rightarrow> string" where
  "or_else a b = (if a \<noteq> [] then a else b)"

section \<open>Numbers and times\<close>

definition js_round :: "real \<Rightarrow> int" where
  "js_round x = \<lfloor>x + 1 / 2\<rfloor>"

text \<open>\<open>x.toFixed(0)\<close> and \<open>x.toFixed(1)\<close>.\<close>

definition toFixed0 :: "real \<Rightarrow> string" where
  "toFixed0 x = (if x < 0 then ''-'' @ show_int (js_round (- x)) else show_int (js_round x))"

definition toFixed1 :: "real \<Rightarrow> string" where
  "toFixed1 x =
     (let n = js_round (10 * \<bar>x\<bar>); s = show_int (n div 10) @ ''.'' @ show_int (n mod 10)
      in if x < 0 then ''-'' @ s else s)"

fun unit_of :: "nat \<Rightarrow> real \<Rightarrow> nat \<Rightarrow> real \<times> nat" where
  "unit_of 0 b i = (b, i)"
| "unit_of (Suc k) b i = (if 1024 \<le> b then unit_of k (b / 1024) (i + 1) else (b, i))"

definition fmtB :: "real \<Rightarrow> string" where
  "fmtB b =
     (case unit_of 4 b 0 of
        (v, i) \<Rightarrow> (if v < 10 \<and> 0 < i then toFixed1 v else toFixed0 v) @
          [''B'', ''KiB'', ''MiB'', ''GiB'', ''TiB''] ! i)"

definition fmtAge :: "real \<Rightarrow> string" where
  "fmtAge x =
     (let s = max 0 (js_round x)
      in if s < 60 then show_int s @ ''s ago''
         else if s < 3600 then show_int (s div 60) @ ''m ago''
         else if s < 86400 then show_int (s div 3600) @ ''h ago''
         else show_int (s div 86400) @ ''d ago'')"

definition fmtUp :: "real \<Rightarrow> string" where
  "fmtUp x =
     (let s = js_round x
      in if s < 3600 then show_int (s div 60) @ ''m''
         else if s < 86400 then show_int (s div 3600) @ ''h''
         else show_int (s div 86400) @ ''d '' @ show_int ((s mod 86400) div 3600) @ ''h'')"

definition fmtSecs :: "real \<Rightarrow> string" where
  "fmtSecs x =
     (let s = max 0 (js_round x)
      in if s < 60 then show_int s @ ''s''
         else if s < 3600 then show_int (s div 60) @ ''m'' else show_int (s div 3600) @ ''h'')"

definition barColor :: "real \<Rightarrow> string" where
  "barColor p = (if p < 70 then ''var(--accent)'' else if p < 90 then ''var(--warn)'' else ''var(--danger)'')"

section \<open>Machines\<close>

definition last_seen :: "machine \<Rightarrow> real" where
  "last_seen m = real_of_int (sint (m_LastSeen m))"

definition sampled_at :: "metrics_sample \<Rightarrow> real" where
  "sampled_at s = real_of_int (sint (mt_AtUnix s))"

definition down_after :: real where
  "down_after = 120"

definition isUp :: "real \<Rightarrow> metrics_sample gomap \<Rightarrow> machine \<Rightarrow> bool" where
  "isUp now live m \<longleftrightarrow> now - last_seen m < down_after \<or> fmlookup live (m_ID m) \<noteq> None"

text \<open>Text and class of a card's age; the middle dot in UTF-8.\<close>

definition middle_dot :: string where
  "middle_dot = [CHR 0x20, CHR 0xC2, CHR 0xB7, CHR 0x20]"

definition seenLabel :: "real \<Rightarrow> metrics_sample gomap \<Rightarrow> machine \<Rightarrow> string \<times> string" where
  "seenLabel now live m =
     (let hb = fmtAge (now - last_seen m)
      in case fmlookup live (m_ID m) of
           Some s \<Rightarrow> (''live'' @ middle_dot @ fmtSecs (now - sampled_at s), '' live'')
         | None \<Rightarrow> if isUp now live m then (hb, []) else (''down '' @ hb, '' down''))"

definition display_name :: "machine \<Rightarrow> string" where
  "display_name m = or_else (m_Name m) (m_ID m)"

definition otherIPs :: "inventory \<Rightarrow> int" where
  "otherIPs iv =
     max 0 (sum_list (map (\<lambda>i. if if_Virtual i then 0 else int (length (if_IPv4 i)) + int (length (if_IPv6 i)))
       (inv_Interfaces iv)) - 1)"

text \<open>
  The badge of the header and the title of the document. The classes \<open>hidden\<close> and \<open>bad\<close>
  are the second component.
\<close>

definition renderHealth :: "real \<Rightarrow> metrics_sample gomap \<Rightarrow> machine list \<Rightarrow> string \<times> bool \<times> string" where
  "renderHealth now live machines =
     (let up = length (filter (isUp now live) machines);
          down = map display_name (filter (\<lambda>m. \<not> isUp now live m) machines)
      in if down \<noteq> []
         then (show_int (int (length down)) @ '' offline: '' @ Join (take 3 down) '', '' @
                 (if 3 < length down then '' +'' @ show_int (int (length down) - 3) else []),
               True, ''('' @ show_int (int (length down)) @ '' down) fleetcore'')
         else (show_int (int up) @ '' machine'' @ (if up = 1 then [] else ''s'') @ '' online'', False, ''fleetcore''))"

text \<open>The text a filter searches; the order of the labels does not matter to it.\<close>

definition haystack :: "machine \<Rightarrow> string" where
  "haystack m =
     (let iv = m_Inventory m
      in to_lower (Join
           ([m_Name m, m_ID m, inv_PrimaryIP iv, inv_Hostname iv, inv_OS iv, inv_OSVersion iv, inv_Arch iv,
             inv_Kubernetes iv] @
            map (\<lambda>(k, v). k @ ''='' @ v) (sorted_list_of_fmap (m_Labels m)) @
            map (\<lambda>i. Join (if_IPv4 i) '' '') (inv_Interfaces iv)) '' ''))"

definition matchesFilter :: "string \<Rightarrow> machine \<Rightarrow> bool" where
  "matchesFilter filterText m \<longleftrightarrow>
     filterText = [] \<or> list_all (\<lambda>t. Contains (haystack m) t) (split_runs js_space [] filterText)"

section \<open>Commands\<close>

text \<open>The first optional group of lines that \<open>createCommand\<close> puts in front, and trailing line breaks.\<close>

definition displayScript :: "string \<Rightarrow> string" where
  "displayScript s =
     (let t = (if HasPrefix s (''#!/bin/sh'' @ newline)
               then TrimPrefix (TrimPrefix (TrimPrefix s (''#!/bin/sh'' @ newline)) (''set -eu'' @ newline)) (''cd /'' @ newline)
               else s)
      in rev (dropWhile (\<lambda>c. c = CHR 0x0A) (rev t)))"

text \<open>A status the machine reported, or \<open>queued\<close>.\<close>

definition cmdState :: "machine \<Rightarrow> string \<Rightarrow> module_status" where
  "cmdState m name =
     (case find (\<lambda>x. st_Name x = name) (m_Status m) of
        Some st \<Rightarrow> st
      | None \<Rightarrow> \<lparr>st_Name = [], st_Version = [], st_State = ''queued'', st_Detail = [], st_AtUnix = 0\<rparr>)"

text \<open>\<open>role=gpu region=hk\<close>; no result when no pair was found. The key \<open>__proto__\<close> is left out.\<close>

definition selector_seps :: "string list" where
  "selector_seps = '','' # js_space"

definition add_pair :: "string gomap \<Rightarrow> string \<Rightarrow> string gomap" where
  "add_pair out pair =
     (case Cut pair ''='' of (k, v, found) \<Rightarrow> if found \<and> k \<noteq> [] then fmupd k v out else out)"

definition parseSelector :: "string \<Rightarrow> string gomap option" where
  "parseSelector raw =
     (let t = js_trim raw; out = foldl add_pair fmempty (split_runs selector_seps [] t)
      in if t = [] \<or> out = fmempty then None else Some out)"

text \<open>
  The button that runs a command on the fleet: what is posted to the server, or the
  message that is shown. The arguments are the text areas, the chosen group and the machines.
\<close>

definition command_for :: "string \<Rightarrow> string \<Rightarrow> string \<Rightarrow> string gomap \<Rightarrow> string + create_command_req" where
  "command_for kind target script selector =
     (if js_trim script = [] then Inl ''type a command first''
      else Inr \<lparr>cc_Script = js_trim script, cc_TargetKind = kind, cc_TargetID = target,
                cc_Selector = selector, cc_Label = [], cc_Config = fmempty\<rparr>)"

definition fleet_command :: "string \<Rightarrow> string \<Rightarrow> string \<Rightarrow> machine list \<Rightarrow> string + create_command_req" where
  "fleet_command selector_text group_id script machines =
     (case parseSelector selector_text of
        Some sel \<Rightarrow>
          (let tenant = (case machines of [] \<Rightarrow> [] | m # _ \<Rightarrow> m_TenantID m)
           in if tenant = [] then Inl ''no machines'' else command_for ''selector'' tenant script sel)
      | None \<Rightarrow>
          if group_id = [] then Inl ''no group selected'' else command_for ''group'' group_id script fmempty)"

text \<open>The button of a machine, and running a listed command again.\<close>

definition machine_command :: "string option \<Rightarrow> string \<Rightarrow> (string + create_command_req) option" where
  "machine_command selected script =
     map_option (\<lambda>i. command_for ''machine'' i script fmempty) selected"

definition rerun_command :: "string \<Rightarrow> string \<Rightarrow> create_command_req" where
  "rerun_command script target =
     \<lparr>cc_Script = displayScript script, cc_TargetKind = ''machine'', cc_TargetID = target,
      cc_Selector = fmempty, cc_Label = [], cc_Config = fmempty\<rparr>"

end
