(* ===== verification/Dashboard_Rows.thy ===== *)
theory Dashboard_Rows
  imports Dashboard_Text
begin

text \<open>
  The HTML that the dashboard's script (\<open>internal/server/dashboard.go\<close>) builds as text and
  assigns to \<open>innerHTML\<close>.
\<close>

section \<open>Building HTML\<close>

text \<open>Attributes are written in single quotes throughout.\<close>

definition quote :: char where
  "quote = CHR 0x27"

definition attr :: "string \<times> string \<Rightarrow> string" where
  "attr a = '' '' @ fst a @ ''='' @ [quote] @ snd a @ [quote]"

definition tag :: "string \<Rightarrow> (string \<times> string) list \<Rightarrow> string" where
  "tag n atts = ''<'' @ n @ concat (map attr atts) @ ''>''"

definition elem :: "string \<Rightarrow> (string \<times> string) list \<Rightarrow> string \<Rightarrow> string" where
  "elem n atts body = tag n atts @ body @ ''</'' @ n @ ''>''"

text \<open>\<open>esc\<close>: the text of an element read back as HTML; quotes are not escaped.\<close>

fun esc_html :: "string \<Rightarrow> string" where
  "esc_html [] = []"
| "esc_html (c # s) =
     (if c = CHR ''&'' then ''&amp;'' @ esc_html s
      else if c = CHR ''<'' then ''&lt;'' @ esc_html s
      else if c = CHR ''>'' then ''&gt;'' @ esc_html s
      else if c = CHR 0xC2 \<and> HasPrefix s [CHR 0xA0] then ''&nbsp;'' @ esc_html (tl s)
      else c # esc_html s)"

definition span_style :: "string \<Rightarrow> string \<Rightarrow> string" where
  "span_style style body = elem ''span'' [(''style'', style)] body"

definition em_dash :: string where
  "em_dash = [CHR 0xE2, CHR 0x80, CHR 0x94]"

definition ellipsis :: string where
  "ellipsis = [CHR 0xE2, CHR 0x80, CHR 0xA6]"

section \<open>Commands and groups\<close>

text \<open>What the page knows of a command: the script and when it was created.\<close>

record command_info =
  ci_Script :: string
  ci_Created :: int64

text \<open>\<open>local_time\<close> is \<open>toLocaleTimeString\<close>. No info about a command is the empty object.\<close>

definition cmdRow :: "(int \<Rightarrow> string) \<Rightarrow> module_spec \<Rightarrow> module_status \<Rightarrow> command_info option \<Rightarrow> string" where
  "cmdRow local_time sp st c =
     (let shown = (case c of None \<Rightarrow> [] | Some i \<Rightarrow> if ci_Created i = 0 then [] else local_time (sint (ci_Created i)));
          script = (case c of None \<Rightarrow> [] | Some i \<Rightarrow> ci_Script i);
          label = (case fmlookup (ms_Config sp) ''label'' of None \<Rightarrow> [] | Some l \<Rightarrow> l)
      in elem ''div'' [(''class'', ''cmdrow'')]
           (elem ''div'' [(''class'', ''cmdhead'')]
              (elem ''span'' [(''class'', ''badge '' @ esc_html (st_State st))] (esc_html (st_State st)) @
               elem ''span'' [(''class'', ''mono'')] (esc_html (ms_Name sp)) @
               (if label \<noteq> [] then elem ''span'' [(''class'', ''chip'')] (esc_html label) else []) @
               elem ''span'' [(''class'', ''cmdtime'')] (esc_html shown) @
               elem ''button'' [(''class'', ''ghost cmdbtn''), (''data-act'', ''rerun''), (''data-name'', esc_html (ms_Name sp))]
                 ''Re-run'' @
               elem ''button'' [(''class'', ''ghost cmdbtn''), (''data-act'', ''cancel''), (''data-name'', esc_html (ms_Name sp))]
                 (if st_State st = ''queued'' then ''Cancel'' else ''Remove'')) @
            elem ''div'' [(''class'', ''cmdscript'')] (esc_html (displayScript script)) @
            (if st_Detail st \<noteq> [] then elem ''div'' [(''class'', ''cmdout'')] (esc_html (st_Detail st))
             else if st_State st = ''queued''
             then elem ''div'' [(''class'', ''cmdout'')] (''waiting for the agent to pull'' @ ellipsis) else [])))"

text \<open>
  The two panels of commands: those the agent has not reported, and the others. \<open>order\<close> is
  the order \<open>sort\<close> leaves them in, which is by time of creation where every command is known.
\<close>

definition panels ::
  "(module_spec list \<Rightarrow> module_spec list) \<Rightarrow> machine \<Rightarrow> module_spec list \<times> module_spec list" where
  "panels order m =
     (let specs = order (filter (\<lambda>s. HasPrefix (ms_Name s) ''cmd-'')
            (case ds_Modules (m_Desired m) of None \<Rightarrow> [] | Some ms \<Rightarrow> ms));
          is_queued = (\<lambda>sp. st_State (cmdState m (ms_Name sp)) = ''queued'')
      in (filter is_queued specs, filter (\<lambda>sp. \<not> is_queued sp) specs))"

definition renderCommands ::
  "(int \<Rightarrow> string) \<Rightarrow> (module_spec list \<Rightarrow> module_spec list) \<Rightarrow> command_info gomap \<Rightarrow> machine \<Rightarrow> string \<times> string" where
  "renderCommands local_time order commands m =
     (let row = (\<lambda>sp. cmdRow local_time sp (cmdState m (ms_Name sp)) (fmlookup commands (ms_Name sp)))
      in case panels order m of
           (pending, history) \<Rightarrow>
             (concat (map row pending),
              if history \<noteq> [] then concat (map row history)
              else elem ''div'' [(''class'', ''nodata'')] ''no commands have run on this machine yet''))"

definition group_why :: "group_row \<Rightarrow> string" where
  "group_why g =
     (if gr_Via g = ''match_all'' then ''every machine in the tenant''
      else if gr_Via g = ''selector''
      then ''labels '' @ Join (map (\<lambda>(k, v). k @ ''='' @ v) (sorted_list_of_fmap (gr_Selector g))) '' ''
      else ''added directly'')"

definition group_chip :: "group_row \<Rightarrow> string" where
  "group_chip g =
     elem ''span'' [(''class'', ''gchip''), (''title'', esc_html (group_why g))]
       (esc_html (gr_Name g) @ '' '' @ elem ''span'' [(''class'', ''via'')] (esc_html (group_why g)))"

definition renderGroups :: "group_row list \<Rightarrow> string" where
  "renderGroups gs =
     (if gs = [] then elem ''span'' [(''class'', ''chip'')] ''no groups'' else concat (map group_chip gs))"

definition group_option :: "group \<Rightarrow> string" where
  "group_option g =
     elem ''option'' [(''value'', esc_html (g_ID g))]
       (esc_html (g_Name g) @ (if g_MatchAll g then '' (all machines)'' else []))"

section \<open>Cards and details\<close>

definition label_chips :: "string gomap \<Rightarrow> string" where
  "label_chips labels =
     concat (map (\<lambda>(k, v). elem ''span'' [(''class'', ''chip'')] (esc_html k @ ''='' @ esc_html v)) (sorted_list_of_fmap labels))"

definition card_ip :: "inventory \<Rightarrow> string" where
  "card_ip iv =
     (if inv_PrimaryIP iv \<noteq> []
      then esc_html (inv_PrimaryIP iv) @
        (if otherIPs iv \<noteq> 0
         then elem ''span'' [(''class'', ''chip''), (''style'', ''margin-left:6px'')] (''+'' @ show_int (otherIPs iv) @ '' more'')
         else [])
      else elem ''span'' [(''class'', ''noip'')] ''no address'')"

text \<open>The table of modules that are no commands.\<close>

definition module_row_html :: "module_status list \<Rightarrow> module_spec \<Rightarrow> string" where
  "module_row_html statuses sp =
     (let st = find (\<lambda>x. st_Name x = ms_Name sp) (rev statuses);
          state = (case st of None \<Rightarrow> ''pending'' | Some x \<Rightarrow> st_State x);
          col = (if state = ''applied'' then ''var(--accent)'' else if state = ''failed'' then ''var(--danger)''
                 else ''var(--muted)'')
      in elem ''tr'' []
           (elem ''td'' [(''class'', ''name'')] (esc_html (ms_Name sp)) @
            elem ''td'' [] (esc_html (ms_Version sp)) @
            elem ''td'' [(''style'', ''color:'' @ col)]
              (esc_html state @ (case st of None \<Rightarrow> [] | Some x \<Rightarrow>
                 if st_Detail x \<noteq> [] then '' &mdash; '' @ esc_html (st_Detail x) else []))))"

definition module_table :: "machine \<Rightarrow> string" where
  "module_table m =
     (let specs = filter (\<lambda>s. \<not> HasPrefix (ms_Name s) ''cmd-'') (case ds_Modules (m_Desired m) of None \<Rightarrow> [] | Some ms \<Rightarrow> ms);
          st = filter (\<lambda>x. \<not> HasPrefix (st_Name x) ''cmd-'') (m_Status m)
      in if specs = [] \<and> st = [] then elem ''div'' [(''class'', ''nodata'')] ''no modules assigned''
         else elem ''table'' []
                (elem ''thead'' [] (elem ''tr'' [] (elem ''th'' [] ''module'' @ elem ''th'' [] ''version'' @ elem ''th'' [] ''state'')) @
                 elem ''tbody'' [] (concat (map (module_row_html st) specs))))"

text \<open>The facts of a machine, by name; \<open>--\<close> for those that are missing.\<close>

definition detail_facts :: "machine \<Rightarrow> (string \<times> string) list" where
  "detail_facts m =
     (let iv = m_Inventory m;
          count = (\<lambda>n. if n = 0 then ''--'' else show_int n)
      in [(''hostname'', inv_Hostname iv), (''primary ip'', or_else (inv_PrimaryIP iv) ''--''),
          (''interfaces'', count (int (length (inv_Interfaces iv)))),
          (''os'', inv_OS iv @ '' '' @ inv_OSVersion iv), (''kernel'', inv_Kernel iv), (''arch'', inv_Arch iv),
          (''cpu cores'', count (sint (inv_CPUCores iv))),
          (''uptime'', if inv_UptimeSec iv = 0 then ''--'' else fmtUp (real_of_int (sint (inv_UptimeSec iv)))),
          (''packages'', show_int (sint (inv_Packages iv))), (''processes'', show_int (sint (inv_Processes iv))),
          (''agent'', inv_AgentVersion iv), (''kubernetes'', or_else (inv_Kubernetes iv) ''--''),
          (''desired rev'', show_int (sint (ds_Revision (m_Desired m))))] @
         (case inv_Updates iv of None \<Rightarrow> [] | Some u \<Rightarrow>
            [(''updates'', show_int (sint (up_Total u)) @ '' pending / '' @ show_int (sint (up_Security u)) @ '' security'' @
               (if up_RebootReq u then middle_dot @ ''REBOOT REQUIRED'' else []))]) @
         (if inv_Services iv = [] then []
          else [(''services'', Join (map (\<lambda>s. svc_Name s @ '' ('' @ svc_Category s @ '')'') (inv_Services iv)) '', '')]) @
         (if inv_GPUs iv = [] then [] else [(''gpus'', Join (inv_GPUs iv) '', '')]))"

definition detail_inventory :: "machine \<Rightarrow> string" where
  "detail_inventory m =
     concat (map (\<lambda>(k, v). elem ''b'' [] (esc_html k) @ elem ''span'' [] (esc_html (or_else v ''--''))) (detail_facts m))"

definition up_dot :: "bool \<Rightarrow> string" where
  "up_dot up = elem ''span'' [(''class'', ''dot '' @ (if up then ''up'' else ''down'')), (''style'', ''display:inline-block'')] []"

definition detail_state :: "real \<Rightarrow> metrics_sample gomap \<Rightarrow> machine \<Rightarrow> string" where
  "detail_state now live m =
     (let up = isUp now live m
      in up_dot up @ '' '' @ (if up then ''online'' else ''OFFLINE'') @
         '' &middot; heartbeat '' @ fmtAge (now - last_seen m) @ '' &middot; '' @
         (case fmlookup live (m_ID m) of
            Some s \<Rightarrow> span_style ''color:var(--accent)'' (''live sample '' @ fmtSecs (now - sampled_at s) @ '' ago'')
          | None \<Rightarrow> span_style ''color:var(--muted)'' ''no live sample''))"

text \<open>Interfaces joined with their rates; \<open>rates\<close> has the last sample of a name.\<close>

definition right_cell :: "string \<Rightarrow> string" where
  "right_cell body = elem ''td'' [(''style'', ''text-align:right'')] body"

definition rates_of :: "metrics_sample option \<Rightarrow> string \<Rightarrow> real \<times> real" where
  "rates_of s name =
     (case s of
        None \<Rightarrow> (0, 0)
      | Some x \<Rightarrow>
          (case find (\<lambda>n. ns_Name n = name) (rev (mt_Interfaces x)) of
             None \<Rightarrow> (0, 0)
           | Some n \<Rightarrow> (ns_RxBps n, ns_TxBps n)))"

definition interface_row :: "metrics_sample option \<Rightarrow> net_interface \<Rightarrow> string" where
  "interface_row s i =
     (let r = rates_of s (if_Name i);
          addrs = if_IPv4 i @ if_IPv6 i;
          tg = (if if_Primary i
                then elem ''span'' [(''class'', ''chip''), (''style'', ''color:var(--accent)'')] ''primary'' @ '' ''
                else if if_Virtual i then elem ''span'' [(''class'', ''chip'')] ''virtual'' @ '' '' else [])
      in elem ''tr'' []
           (elem ''td'' [(''class'', ''name'')] (tg @ esc_html (if_Name i) @
              (if if_Up i then [] else '' '' @ span_style ''color:var(--danger)'' ''down'')) @
            elem ''td'' [(''class'', ''name mono'')]
              (if addrs \<noteq> [] then esc_html (Join addrs '' '') else span_style ''color:var(--muted)'' em_dash) @
            elem ''td'' [(''class'', ''name mono'')] (esc_html (or_else (if_MAC i) em_dash)) @
            elem ''td'' [(''style'', ''text-align:right;color:var(--muted)'')]
              (if if_SpeedMbps i \<noteq> 0 then show_int (sint (if_SpeedMbps i)) @ '' Mb/s'' else em_dash) @
            right_cell (fmtB (fst r) @ ''/s'') @ right_cell (fmtB (snd r) @ ''/s'')))"

definition renderInterfaces :: "metrics_sample option \<Rightarrow> machine \<Rightarrow> string \<times> string" where
  "renderInterfaces s m =
     (let ifaces = inv_Interfaces (m_Inventory m)
      in (show_int (int (length ifaces)) @ '' total'' @ middle_dot @
            show_int (int (length (filter (\<lambda>i. \<not> if_Virtual i) ifaces))) @ '' physical'',
          concat (map (interface_row s) ifaces)))"

section \<open>Tables of a sample\<close>

definition bytes_of :: "uint64 \<Rightarrow> real" where
  "bytes_of x = real_of_int (uint x)"

definition process_row :: "proc_sample \<Rightarrow> string" where
  "process_row p =
     elem ''tr'' []
       (elem ''td'' [(''style'', ''color:var(--muted)'')] (show_int (sint (ps_PID p))) @
        elem ''td'' [(''class'', ''name'')] (esc_html (ps_Comm p)) @
        elem ''td'' [(''class'', ''name''), (''style'', ''color:var(--accent)'')] (esc_html (ps_Service p)) @
        right_cell (toFixed1 (ps_CPUPercent p) @ ''%'') @ right_cell (fmtB (bytes_of (ps_MemBytes p))))"

definition pod_row :: "pod_sample \<Rightarrow> string" where
  "pod_row p =
     elem ''tr'' []
       (elem ''td'' [(''class'', ''name''), (''style'', ''color:var(--muted)'')] (esc_html (or_else (pod_Namespace p) em_dash)) @
        elem ''td'' [(''class'', ''name'')]
          (if pod_Name p \<noteq> [] then esc_html (pod_Name p)
           else span_style ''color:var(--muted)'' (esc_html (take 18 (pod_UID p)) @ ellipsis)) @
        elem ''td'' [(''class'', ''name''), (''style'', ''color:var(--muted)'')]
          (esc_html (Join (map cs_Name (pod_Containers p)) '', '')) @
        right_cell (toFixed1 (pod_CPUPercent p) @ ''%'') @ right_cell (fmtB (bytes_of (pod_MemBytes p))))"

definition pods_summary :: "pod_sample list \<Rightarrow> string" where
  "pods_summary pods =
     show_int (int (length pods)) @ '' pods'' @ middle_dot @ toFixed1 (sum_list (map pod_CPUPercent pods)) @ ''% cpu'' @
       middle_dot @ fmtB (sum_list (map (\<lambda>p. bytes_of (pod_MemBytes p)) pods)) @ middle_dot @ ''via '' @
       or_else (pod_Source (hd pods)) ''?''"

text \<open>\<open>number\<close> is the text of a number.\<close>

definition gpu_box :: "(real \<Rightarrow> string) \<Rightarrow> gpu_sample \<Rightarrow> string" where
  "gpu_box number g =
     (let pct = (if gpu_MemTotal g = 0 then 0 else js_round (100 * bytes_of (gpu_MemUsed g) / bytes_of (gpu_MemTotal g)))
      in elem ''b'' [] (''#'' @ show_int (sint (gpu_Index g)) @ '' '' @ esc_html (gpu_Name g)) @
         '' &mdash; util '' @ number (gpu_UtilPercent g) @ ''%'' @ middle_dot @
         fmtB (bytes_of (gpu_MemUsed g)) @ ''/'' @ fmtB (bytes_of (gpu_MemTotal g)) @ '' ('' @ show_int pct @ ''%)'' @ middle_dot @
         number (gpu_TempC g) @ [CHR 0xC2, CHR 0xB0] @ ''C'' @ middle_dot @ number (gpu_PowerW g) @ ''W'')"

section \<open>The summary of the fleet\<close>

definition stat :: "string \<Rightarrow> string \<Rightarrow> bool \<Rightarrow> string" where
  "stat k v bad =
     elem ''div'' [(''class'', ''stat'')]
       (elem ''div'' [(''class'', ''k'')] k @ elem ''div'' [(''class'', ''v'' @ (if bad then '' bad'' else []))] v)"

definition summary :: "real \<Rightarrow> metrics_sample gomap \<Rightarrow> machine list \<Rightarrow> string" where
  "summary now live machines =
     (let up = length (filter (isUp now live) machines);
          down = length machines - up;
          samples = map snd (sorted_list_of_fmap live);
          avg = (if samples = [] then 0 else sum_list (map mt_CPUPercent samples) / real (length samples));
          memU = sum_list (map (\<lambda>s. bytes_of (mt_MemUsed s)) samples);
          memT = sum_list (map (\<lambda>s. bytes_of (mt_MemTotal s)) samples)
      in stat ''machines'' (show_int (int (length machines))) False @ stat ''online'' (show_int (int up)) False @
         stat ''offline'' (show_int (int down)) (0 < down) @ stat ''avg cpu'' (toFixed1 avg @ ''%'') False @
         stat ''memory'' (if memT \<noteq> 0 then fmtB memU @ '' / '' @ fmtB memT else ''--'') False)"

definition banner :: "string \<Rightarrow> machine \<Rightarrow> bool \<Rightarrow> string" where
  "banner clock m up =
     elem ''b'' [] (esc_html (display_name m)) @ '' went '' @ (if up then ''back online'' else ''OFFLINE'') @
       elem ''span'' [(''class'', ''t'')] clock"

end
