(* ===== verification/Dashboard_Markup.thy ===== *)
theory Dashboard_Markup
  imports Dashboard_Rows Sample_Run
begin

text \<open>
  How a browser reads the HTML of \<open>Dashboard_Rows\<close>: the tokenizer of the HTML standard, reduced
  to tags and the names of their attributes. Data of the fleet stays text in every table; in
  the rows of commands it can leave an attribute.
\<close>

section \<open>The tokenizer\<close>

datatype markup = Open string "string list" | Close string

datatype mode =
  Text | TagOpen | TagName string | BeforeName string "string list" | AttrName string "string list" string
| AfterName string "string list" | BeforeValue string "string list" | Quoted char string "string list"
| Unquoted string "string list" | EndName string | Bogus

definition html_space :: "char \<Rightarrow> bool" where
  "html_space c \<longleftrightarrow> c = CHR 0x20 \<or> c = CHR 0x09 \<or> c = CHR 0x0A \<or> c = CHR 0x0C \<or> c = CHR 0x0D"

definition html_letter :: "char \<Rightarrow> bool" where
  "html_letter c \<longleftrightarrow> (let n = of_char c :: nat in (65 \<le> n \<and> n \<le> 90) \<or> (97 \<le> n \<and> n \<le> 122))"

definition html_step :: "mode \<Rightarrow> char \<Rightarrow> mode \<times> markup list" where
  "html_step st c =
     (case st of
        Text \<Rightarrow> (if c = CHR ''<'' then TagOpen else Text, [])
      | TagOpen \<Rightarrow>
          (if html_letter c then TagName [c] else if c = CHR ''/'' then EndName []
           else if c = CHR ''!'' \<or> c = CHR ''?'' then Bogus
           else if c = CHR ''<'' then TagOpen else Text, [])
      | TagName n \<Rightarrow>
          if html_space c \<or> c = CHR ''/'' then (BeforeName n [], [])
          else if c = CHR ''>'' then (Text, [Open n []]) else (TagName (n @ [c]), [])
      | BeforeName n as \<Rightarrow>
          if html_space c \<or> c = CHR ''/'' then (BeforeName n as, [])
          else if c = CHR ''>'' then (Text, [Open n as]) else (AttrName n as [c], [])
      | AttrName n as a \<Rightarrow>
          if html_space c \<or> c = CHR ''/'' then (AfterName n (as @ [a]), [])
          else if c = CHR ''='' then (BeforeValue n (as @ [a]), [])
          else if c = CHR ''>'' then (Text, [Open n (as @ [a])]) else (AttrName n as (a @ [c]), [])
      | AfterName n as \<Rightarrow>
          if html_space c \<or> c = CHR ''/'' then (AfterName n as, [])
          else if c = CHR ''='' then (BeforeValue n as, [])
          else if c = CHR ''>'' then (Text, [Open n as]) else (AttrName n as [c], [])
      | BeforeValue n as \<Rightarrow>
          if html_space c then (BeforeValue n as, [])
          else if c = CHR 0x22 \<or> c = quote then (Quoted c n as, [])
          else if c = CHR ''>'' then (Text, [Open n as]) else (Unquoted n as, [])
      | Quoted q n as \<Rightarrow> (if c = q then BeforeName n as else Quoted q n as, [])
      | Unquoted n as \<Rightarrow>
          if html_space c then (BeforeName n as, [])
          else if c = CHR ''>'' then (Text, [Open n as]) else (Unquoted n as, [])
      | EndName n \<Rightarrow> if c = CHR ''>'' then (Text, [Close n]) else (EndName (n @ [c]), [])
      | Bogus \<Rightarrow> (if c = CHR ''>'' then Text else Bogus, []))"

fun html_run :: "mode \<Rightarrow> string \<Rightarrow> mode \<times> markup list" where
  "html_run st [] = (st, [])"
| "html_run st (c # s) =
     (case html_step st c of (st1, out1) \<Rightarrow> (case html_run st1 s of (st2, out2) \<Rightarrow> (st2, out1 @ out2)))"

text \<open>The tags of a text that is assigned to \<open>innerHTML\<close>, in order.\<close>

definition markup_of :: "string \<Rightarrow> markup list" where
  "markup_of s = snd (html_run Text s)"

lemma html_run_append:
  "html_run st (s @ t) = (case html_run st s of (st1, out1) \<Rightarrow> (case html_run st1 t of (st2, out2) \<Rightarrow> (st2, out1 @ out2)))"
  by (induction s arbitrary: st) (auto split: prod.splits)

section \<open>Pieces that stay text\<close>

text \<open>A well-formed piece: read as text it gives these tags and ends as text.\<close>

definition piece :: "string \<Rightarrow> markup list \<Rightarrow> bool" where
  "piece s ms \<longleftrightarrow> html_run Text s = (Text, ms)"

lemma markup_of_piece: "piece s ms \<Longrightarrow> markup_of s = ms"
  by (simp add: piece_def markup_of_def)

lemma piece_Nil: "piece [] []"
  by (simp add: piece_def)

lemma piece_append: "piece s ms \<Longrightarrow> piece t ns \<Longrightarrow> piece (s @ t) (ms @ ns)"
  by (simp add: piece_def html_run_append)

lemma piece_concat: "(\<And>x. x \<in> set xs \<Longrightarrow> piece (f x) (g x)) \<Longrightarrow> piece (concat (map f xs)) (concat (map g xs))"
  by (induction xs) (auto intro: piece_Nil piece_append)

lemma piece_text: "CHR ''<'' \<notin> set s \<Longrightarrow> piece s []"
  unfolding piece_def by (induction s) (auto simp: html_step_def)

lemma esc_html_plain: "CHR ''<'' \<notin> set (esc_html s)" "CHR ''>'' \<notin> set (esc_html s)"
  by (induction s rule: esc_html.induct) auto

lemma piece_esc: "piece (esc_html s) []"
  by (rule piece_text) (rule esc_html_plain)

lemma quote_esc_html: "quote \<in> set (esc_html s) \<longleftrightarrow> quote \<in> set s"
proof (induction s rule: esc_html.induct)
  case (2 c s)
  show ?case
  proof (cases "c = CHR 0xC2 \<and> HasPrefix s [CHR 0xA0]")
    case True
    then obtain t where "s = CHR 0xA0 # t" by (auto simp: HasPrefix_iff)
    with True 2 show ?thesis by (auto simp: quote_def)
  next
    case False
    with 2 show ?thesis by (auto simp: quote_def)
  qed
qed simp

text \<open>Names as the templates have them.\<close>

definition html_name :: "string \<Rightarrow> bool" where
  "html_name n \<longleftrightarrow> n \<noteq> [] \<and> list_all (\<lambda>c. html_letter c \<or> c = CHR ''-'') n \<and> html_letter (hd n)"

lemma html_letter_plain:
  "html_letter c \<or> c = CHR ''-'' \<Longrightarrow> \<not> html_space c \<and> c \<noteq> CHR ''/'' \<and> c \<noteq> CHR ''>'' \<and> c \<noteq> CHR ''=''"
  by (auto simp: html_letter_def html_space_def Let_def)

lemma run_tag_name:
  "list_all (\<lambda>c. html_letter c \<or> c = CHR ''-'') n \<Longrightarrow> html_run (TagName p) n = (TagName (p @ n), [])"
proof (induction n arbitrary: p)
  case (Cons c n)
  then have "html_step (TagName p) c = (TagName (p @ [c]), [])"
    using html_letter_plain[of c] by (simp add: html_step_def)
  with Cons show ?case by simp
qed simp

lemma run_attr_name:
  "list_all (\<lambda>c. html_letter c \<or> c = CHR ''-'') a \<Longrightarrow> html_run (AttrName n as p) a = (AttrName n as (p @ a), [])"
proof (induction a arbitrary: p)
  case (Cons c a)
  then have "html_step (AttrName n as p) c = (AttrName n as (p @ [c]), [])"
    using html_letter_plain[of c] by (simp add: html_step_def)
  with Cons show ?case by simp
qed simp

lemma run_quoted: "quote \<notin> set v \<Longrightarrow> html_run (Quoted quote n as) v = (Quoted quote n as, [])"
  by (induction v) (auto simp: html_step_def)

lemma steps:
  "html_step Text CHR ''<'' = (TagOpen, [])"
  "html_step TagOpen CHR ''/'' = (EndName [], [])"
  "html_step (TagName n) CHR '' '' = (BeforeName n [], [])"
  "html_step (TagName n) CHR ''>'' = (Text, [Open n []])"
  "html_step (BeforeName n as) CHR '' '' = (BeforeName n as, [])"
  "html_step (BeforeName n as) CHR ''>'' = (Text, [Open n as])"
  "html_step (AttrName n as b) CHR ''='' = (BeforeValue n (as @ [b]), [])"
  "html_step (BeforeValue n as) quote = (Quoted quote n as, [])"
  "html_step (Quoted quote n as) quote = (BeforeName n as, [])"
  "html_step (EndName n) CHR ''>'' = (Text, [Close n])"
  by (simp_all add: html_step_def html_space_def html_letter_def quote_def)

lemma first_letter:
  assumes "html_letter c"
  shows "html_step TagOpen c = (TagName [c], [])" and "html_step (BeforeName n as) c = (AttrName n as [c], [])"
  using html_letter_plain[of c] assms by (simp_all add: html_step_def)

lemma run_attr:
  assumes "html_name (fst a)" and "quote \<notin> set (snd a)"
  shows "html_run (BeforeName n as) (attr a) = (BeforeName n (as @ [fst a]), [])"
proof -
  obtain c cs where a: "fst a = c # cs" using assms(1) by (cases "fst a") (auto simp: html_name_def)
  have c: "html_letter c" "list_all (\<lambda>c. html_letter c \<or> c = CHR ''-'') cs"
    using assms(1) by (auto simp: a html_name_def)
  have form: "attr a = CHR '' '' # c # cs @ CHR ''='' # quote # snd a @ [quote]"
    by (simp add: attr_def a)
  show ?thesis
    unfolding form
    by (simp add: steps first_letter[OF c(1)] html_run_append run_attr_name[OF c(2)] run_quoted[OF assms(2)] a)
qed

lemma run_attrs:
  "\<forall>a\<in>set atts. html_name (fst a) \<and> quote \<notin> set (snd a) \<Longrightarrow>
   html_run (BeforeName n as) (concat (map attr atts)) = (BeforeName n (as @ map fst atts), [])"
  by (induction atts arbitrary: as) (auto simp: html_run_append run_attr)

lemma run_attrs_of_tag:
  assumes "\<forall>a\<in>set atts. html_name (fst a) \<and> quote \<notin> set (snd a)"
  shows "html_run (TagName n) (concat (map attr atts) @ ''>'') = (Text, [Open n (map fst atts)])"
proof (cases atts)
  case Nil
  then show ?thesis by (simp add: steps)
next
  case (Cons a rest)
  let ?s = "tl (attr a) @ concat (map attr rest) @ ''>''"
  have form: "concat (map attr atts) @ ''>'' = CHR '' '' # ?s" by (simp add: Cons attr_def)
  have "html_run (BeforeName n []) (concat (map attr atts) @ ''>'') = (Text, [Open n (map fst atts)])"
    unfolding html_run_append run_attrs[OF assms] by (simp add: steps)
  then show ?thesis unfolding form by (simp only: html_run.simps steps)
qed

lemma piece_tag:
  assumes "html_name n" and "\<forall>a\<in>set atts. html_name (fst a) \<and> quote \<notin> set (snd a)"
  shows "piece (tag n atts) [Open n (map fst atts)]"
proof -
  obtain c cs where n: "n = c # cs" using assms(1) by (cases n) (auto simp: html_name_def)
  have c: "html_letter c" "list_all (\<lambda>c. html_letter c \<or> c = CHR ''-'') cs"
    using assms(1) by (auto simp: n html_name_def)
  have "html_run (TagName [c]) (cs @ concat (map attr atts) @ ''>'') = (Text, [Open n (map fst atts)])"
    using run_tag_name[OF c(2), of "[c]"] run_attrs_of_tag[OF assms(2), of n] by (simp add: html_run_append[of _ cs] n)
  then show ?thesis
    by (simp add: piece_def tag_def n steps first_letter[OF c(1)])
qed

lemma run_end_name: "list_all html_letter n \<Longrightarrow> html_run (EndName p) (n @ ''>'') = (Text, [Close (p @ n)])"
proof (induction n arbitrary: p)
  case (Cons c n)
  then have "html_step (EndName p) c = (EndName (p @ [c]), [])"
    using html_letter_plain[of c] by (simp add: html_step_def)
  with Cons show ?case by simp
qed (simp add: steps)

lemma piece_elem:
  assumes "html_name n" and "list_all html_letter n"
    and "\<forall>a\<in>set atts. html_name (fst a) \<and> quote \<notin> set (snd a)" and "piece body ms"
  shows "piece (elem n atts body) (Open n (map fst atts) # ms @ [Close n])"
proof -
  have "piece (''</'' @ n @ ''>'') [Close n]"
    using run_end_name[OF assms(2), of "[]"] by (simp add: piece_def steps)
  from piece_append[OF piece_tag[OF assms(1,3)] piece_append[OF assms(4) this]] show ?thesis
    by (simp add: elem_def)
qed

section \<open>The tags of the templates\<close>

text \<open>No script among the elements, and no event handler among the attributes.\<close>

definition template_markup :: "markup list" where
  "template_markup =
     [Open ''div'' [''class''], Open ''span'' [''class''], Open ''span'' [''class'', ''style''], Open ''span'' [''style''],
      Open ''span'' [''class'', ''title''], Open ''span'' [], Open ''b'' [], Open ''option'' [''value''],
      Open ''button'' [''class'', ''data-act'', ''data-name''],
      Open ''table'' [], Open ''thead'' [], Open ''tbody'' [], Open ''tr'' [], Open ''th'' [], Open ''td'' [],
      Open ''td'' [''class''], Open ''td'' [''style''], Open ''td'' [''class'', ''style''],
      Close ''div'', Close ''span'', Close ''b'', Close ''option'', Close ''button'', Close ''table'', Close ''thead'',
      Close ''tbody'', Close ''tr'', Close ''th'', Close ''td'']"

definition templated :: "string \<Rightarrow> bool" where
  "templated s \<longleftrightarrow> (\<exists>ms. piece s ms \<and> set ms \<subseteq> set template_markup)"

named_theorems templates \<open>texts whose tags are those of the templates\<close>

lemma templated_tags: "templated s \<Longrightarrow> set (markup_of s) \<subseteq> set template_markup"
  by (auto simp: templated_def markup_of_piece)

lemma templated_Nil [templates]: "templated []"
  using piece_Nil by (auto simp: templated_def)

lemma templated_append [templates]: "templated s \<Longrightarrow> templated t \<Longrightarrow> templated (s @ t)"
  unfolding templated_def by (metis piece_append set_append Un_least)

lemma templated_concat: "(\<And>x. x \<in> set xs \<Longrightarrow> templated (f x)) \<Longrightarrow> templated (concat (map f xs))"
  by (induction xs) (auto intro: templated_append templated_Nil)

lemma templated_text: "CHR ''<'' \<notin> set s \<Longrightarrow> templated s"
  unfolding templated_def by (intro exI[of _ "[]"]) (simp add: piece_text)

lemma templated_esc [templates]: "templated (esc_html s)"
  unfolding templated_def by (intro exI[of _ "[]"]) (simp add: piece_esc)

lemma templated_if [templates]: "templated s \<Longrightarrow> templated t \<Longrightarrow> templated (if b then s else t)"
  by simp

lemma templated_option [templates]:
  "templated s \<Longrightarrow> (\<And>x. templated (f x)) \<Longrightarrow> templated (case v of None \<Rightarrow> s | Some x \<Rightarrow> f x)"
  by (cases v) auto

definition element_name :: "string \<Rightarrow> bool" where
  "element_name n \<longleftrightarrow> n \<in> set [''div'', ''span'', ''b'', ''option'', ''button'', ''table'', ''thead'', ''tbody'', ''tr'', ''th'', ''td'']"

definition attribute_name :: "string \<Rightarrow> bool" where
  "attribute_name a \<longleftrightarrow> a \<in> set [''class'', ''style'', ''title'', ''value'', ''data-act'', ''data-name'']"

lemma template_names:
  "element_name n \<Longrightarrow> html_name n \<and> list_all html_letter n" "attribute_name a \<Longrightarrow> html_name a"
proof -
  have "list_all (\<lambda>n. html_name n \<and> list_all html_letter n)
     [''div'', ''span'', ''b'', ''option'', ''button'', ''table'', ''thead'', ''tbody'', ''tr'', ''th'', ''td'']"
    "list_all html_name [''class'', ''style'', ''title'', ''value'', ''data-act'', ''data-name'']"
    by code_simp+
  then show "element_name n \<Longrightarrow> html_name n \<and> list_all html_letter n" "attribute_name a \<Longrightarrow> html_name a"
    unfolding element_name_def attribute_name_def list_all_iff by blast+
qed

lemma templated_elem:
  assumes "templated body" and "\<forall>a\<in>set atts. quote \<notin> set (snd a)"
    and "Open n (map fst atts) \<in> set template_markup" and "Close n \<in> set template_markup"
    and "element_name n" and "\<forall>a\<in>set atts. attribute_name (fst a)"
  shows "templated (elem n atts body)"
proof -
  obtain ms where ms: "piece body ms" "set ms \<subseteq> set template_markup" using assms(1) by (auto simp: templated_def)
  have "piece (elem n atts body) (Open n (map fst atts) # ms @ [Close n])"
    using template_names assms(2,5,6) ms(1) by (intro piece_elem) auto
  then show ?thesis
    using assms(3,4) ms(2) unfolding templated_def by (intro exI[of _ "Open n (map fst atts) # ms @ [Close n]"]) simp
qed

text \<open>The elements as the templates use them.\<close>

lemma templated_plain [templates]:
  assumes "templated body"
  shows "templated (elem ''b'' [] body)" "templated (elem ''span'' [] body)" "templated (elem ''tr'' [] body)"
    "templated (elem ''td'' [] body)" "templated (elem ''th'' [] body)" "templated (elem ''table'' [] body)"
    "templated (elem ''thead'' [] body)" "templated (elem ''tbody'' [] body)"
  using assms by (auto intro!: templated_elem simp: template_markup_def element_name_def)

lemma templated_attr [templates]:
  assumes "templated body" and "quote \<notin> set v"
  shows "templated (elem ''div'' [(''class'', v)] body)" "templated (elem ''span'' [(''class'', v)] body)"
    "templated (elem ''span'' [(''style'', v)] body)" "templated (elem ''td'' [(''class'', v)] body)"
    "templated (elem ''td'' [(''style'', v)] body)" "templated (elem ''option'' [(''value'', v)] body)"
  using assms by (auto intro!: templated_elem simp: template_markup_def element_name_def attribute_name_def)

lemma templated_attrs [templates]:
  assumes "templated body" and "quote \<notin> set v" and "quote \<notin> set v'"
  shows "templated (elem ''span'' [(''class'', v), (''style'', v')] body)"
    "templated (elem ''td'' [(''class'', v), (''style'', v')] body)"
    "templated (elem ''span'' [(''class'', v), (''title'', v')] body)"
  using assms by (auto intro!: templated_elem simp: template_markup_def element_name_def attribute_name_def)

lemma templated_button [templates]:
  assumes "templated body" and "quote \<notin> set v" and "quote \<notin> set v'" and "quote \<notin> set v''"
  shows "templated (elem ''button'' [(''class'', v), (''data-act'', v'), (''data-name'', v'')] body)"
  using assms by (auto intro!: templated_elem simp: template_markup_def element_name_def attribute_name_def)

text \<open>Constants of the templates, and numbers.\<close>

definition template_text :: "string \<Rightarrow> bool" where
  "template_text s \<longleftrightarrow> list_all (\<lambda>c. c \<noteq> CHR ''<'' \<and> c \<noteq> quote) s"

lemma template_textD: "template_text s \<Longrightarrow> templated s" "template_text s \<Longrightarrow> quote \<notin> set s"
  by (auto simp: template_text_def list_all_iff intro: templated_text)

lemma template_text_simps:
  "template_text []" "template_text (c # s) \<longleftrightarrow> c \<noteq> CHR ''<'' \<and> c \<noteq> CHR 0x27 \<and> template_text s"
  "template_text (s @ t) \<longleftrightarrow> template_text s \<and> template_text t"
  by (auto simp: template_text_def quote_def)

lemma template_text_numbers:
  "template_text (show_nat n)" "template_text (show_int i)" "template_text (toFixed0 x)" "template_text (toFixed1 x)"
  "template_text (fmtB x)" "template_text (fmtAge x)" "template_text (fmtSecs x)"
proof -
  have "\<not> is_digit CHR ''<''" "\<not> is_digit quote" by (simp_all add: is_digit_def quote_def)
  then have n: "template_text (show_nat n)" for n
    using show_nat_digits[of _ n] by (auto simp: template_text_def list_all_iff)
  have i: "template_text (show_int i)" for i
    by (simp add: show_int_def template_text_simps n)
  have f0: "template_text (toFixed0 x)" and f1: "template_text (toFixed1 x)" for x
    by (simp_all add: toFixed0_def toFixed1_def Let_def template_text_simps i)
  obtain v k where u: "unit_of 4 x 0 = (v, k)" by fastforce
  have "k \<le> 4"
  proof -
    have "snd (unit_of n y j) \<le> j + n" for n j and y :: real
      by (induction n y j rule: unit_of.induct) auto
    from this[of 4 x 0] u show ?thesis by simp
  qed
  then have "template_text ([''B'', ''KiB'', ''MiB'', ''GiB'', ''TiB''] ! k)"
    by (auto simp: le_Suc_eq numeral_eq_Suc template_text_simps)
  then show "template_text (fmtB x)" by (simp add: fmtB_def u template_text_simps f0 f1)
  show "template_text (fmtAge x)" "template_text (fmtSecs x)"
    by (simp_all add: fmtAge_def fmtSecs_def Let_def template_text_simps i)
  show "template_text (show_nat n)" "template_text (show_int i)" "template_text (toFixed0 x)" "template_text (toFixed1 x)"
    by (rule n i f0 f1)+
qed

lemmas templated_numbers [templates] = template_text_numbers[THEN template_textD(1)]

lemmas template_consts = template_text_simps template_text_numbers em_dash_def ellipsis_def middle_dot_def

section \<open>Rows that keep data as text\<close>

lemma templated_process_row: "templated (process_row p)"
  unfolding process_row_def right_cell_def
  by (intro templates) (rule template_textD, simp add: template_consts)+

lemma templated_pod_row: "templated (pod_row p)"
  unfolding pod_row_def right_cell_def span_style_def
  by (intro templates) (rule template_textD, simp add: template_consts)+

lemma templated_interface_row: "templated (interface_row s i)"
  unfolding interface_row_def right_cell_def span_style_def Let_def
  by (intro templates) (rule template_textD, simp add: template_consts)+

lemma templated_interfaces: "templated (snd (renderInterfaces s m))"
  by (simp add: renderInterfaces_def Let_def templated_concat templated_interface_row)

lemma templated_detail_inventory: "templated (detail_inventory m)"
  unfolding detail_inventory_def by (intro templated_concat) (auto intro!: templates split: prod.splits)

lemma templated_label_chips: "templated (label_chips labels)"
  unfolding label_chips_def
proof (rule templated_concat)
  fix x :: "string \<times> string"
  obtain k v where x: "x = (k, v)" by (cases x)
  show "templated (case x of (k, v) \<Rightarrow> elem ''span'' [(''class'', ''chip'')] (esc_html k @ ''='' @ esc_html v))"
    unfolding x prod.case by (intro templates) (rule template_textD, simp add: template_consts)+
qed

lemma templated_card_ip: "templated (card_ip iv)"
  unfolding card_ip_def by (intro templates) (rule template_textD, simp add: template_consts)+

lemma templated_detail_state: "templated (detail_state now live m)"
  unfolding detail_state_def up_dot_def span_style_def Let_def
  by (intro templates) (rule template_textD, simp add: template_consts)+

lemma templated_module_row: "templated (module_row_html sts sp)"
  unfolding module_row_html_def Let_def
  by (intro templates) (rule template_textD, simp add: template_consts)+

lemma templated_module_table: "templated (module_table m)"
  unfolding module_table_def Let_def
  by (intro templates templated_concat templated_module_row) (rule template_textD, simp add: template_consts)+

lemma templated_gpu_box: "(\<And>x. template_text (number x)) \<Longrightarrow> templated (gpu_box number g)"
  unfolding gpu_box_def Let_def
  by (intro templates) (rule template_textD, simp add: template_consts)+

lemma templated_banner: "template_text clock \<Longrightarrow> templated (banner clock m up)"
  unfolding banner_def by (intro templates) (rule template_textD, simp add: template_consts)+

lemma templated_stat: "template_text k \<Longrightarrow> template_text v \<Longrightarrow> templated (stat k v bad)"
  unfolding stat_def by (intro templates) (rule template_textD, simp add: template_consts)+

lemma templated_summary: "templated (summary now live ms)"
  unfolding summary_def Let_def
  by (intro templated_append templated_stat) (simp_all add: template_consts)

text \<open>
  What a machine says about itself stays text on the page. Whatever host names,
  addresses, processes, pods, graphics cards, labels, module names and reported details are,
  the HTML of the tables has only the tags and attributes of the templates: no script element
  and no event handler. (The clock and the text of a number have no angle bracket or quote.)
\<close>

theorem tables_keep_their_markup:
  assumes "\<And>x. template_text (number x)" and "template_text clock"
  shows "list_all (\<lambda>h. set (markup_of h) \<subseteq> set template_markup)
    [detail_inventory m, detail_state now live m, module_table m, snd (renderInterfaces s m), label_chips (m_Labels m),
     card_ip (m_Inventory m), process_row p, pod_row d, gpu_box number g, banner clock m up, summary now live ms]"
  using templated_detail_inventory templated_detail_state templated_module_table templated_interfaces templated_label_chips
    templated_card_ip templated_process_row templated_pod_row templated_gpu_box[OF assms(1)] templated_banner[OF assms(2)]
    templated_summary
  by (simp add: templated_tags)

text \<open>A machine whose name is a script.\<close>

definition hostile_machine :: machine where
  "hostile_machine =
     \<lparr>m_ID = ''m'', m_TenantID = ''t'', m_Name = ''<script>x</script>'', m_Labels = fmempty, m_Enrolled = 0, m_LastSeen = 0,
      m_Inventory = zero_inventory\<lparr>inv_Hostname := ''<img src=x onerror=y>''\<rparr>, m_Override = [],
      m_Desired = zero_desired, m_Status = []\<rparr>"

lemma tables_keep_their_markup_witness:
  "set (markup_of (banner ''12:00:00'' hostile_machine False)) \<subseteq> set template_markup \<and>
   set (markup_of (detail_inventory hostile_machine)) \<subseteq> set template_markup \<and>
   m_Name hostile_machine = ''<script>x</script>''"
  using tables_keep_their_markup[of "\<lambda>_. ''1''" "''12:00:00''" hostile_machine]
  by (simp add: template_text_simps) (simp add: hostile_machine_def)

section \<open>Rows of commands and groups\<close>

lemma templated_cmdRow:
  assumes "quote \<notin> set (st_State st)" and "quote \<notin> set (ms_Name sp)"
  shows "templated (cmdRow local_time sp st c)"
proof -
  have plain: "quote \<notin> set (''badge '' @ esc_html (st_State st))" "quote \<notin> set (esc_html (ms_Name sp))"
    using assms by (auto simp: quote_esc_html) (auto simp: quote_def)
  show ?thesis
    unfolding cmdRow_def Let_def
    by (intro templates) (rule plain | (rule template_textD, simp add: template_consts))+
qed

lemma templated_group_chip:
  assumes "quote \<notin> set (group_why g)"
  shows "templated (group_chip g)"
proof -
  have plain: "quote \<notin> set (esc_html (group_why g))" using assms by (simp add: quote_esc_html)
  show ?thesis
    unfolding group_chip_def
    by (intro templates) (rule plain | (rule template_textD, simp add: template_consts))+
qed

lemma cmdState_reported: "st_State (cmdState m name) = ''queued'' \<or> cmdState m name \<in> set (m_Status m)"
  by (auto simp: cmdState_def find_Some_iff split: option.splits)


definition command_spec_1 :: module_spec where
  "command_spec_1 = \<lparr>ms_Name = ''cmd-100-ab'', ms_Version = ''1'', ms_Config = fmempty\<rparr>"

definition commanded_machine :: machine where
  "commanded_machine = hostile_machine\<lparr>m_Desired := \<lparr>ds_Revision = 1, ds_Modules = Some [command_spec_1]\<rparr>\<rparr>"


text \<open>
  An agent can write attributes into the operator's page. The server stores the state a
  status report names as it is, and the row of a command puts it into an attribute in single
  quotes, which \<open>esc\<close> leaves alone: a report with a quote in the state gives the row an event
  handler. Here a machine is sent a command and reports it; the dashboard keeps the
  operator's token where a script of the page can read it.
\<close>

definition hostile_state :: string where
  "hostile_state = ''x'' @ [quote] @ '' onmouseover='' @ [quote] @ ''y''"

definition with_command :: plane where
  "with_command = snd (createCommand file_ops inproc_ops (\<lambda>p. p) plain_choices (\<lambda>_. in_order) 20 100 ''ab''
     (Some \<lparr>cc_Script = ''ls'', cc_TargetKind = ''machine'', cc_TargetID = ''m'', cc_Selector = fmempty,
            cc_Label = [], cc_Config = fmempty\<rparr>) plane5)"

definition hostile_report :: status_report where
  "hostile_report =
     \<lparr>rep_Revision = 2, rep_Modules = [\<lparr>st_Name = ''cmd-100-ab'', st_Version = ''1'', st_State = hostile_state,
        st_Detail = [], st_AtUnix = 101\<rparr>]\<rparr>"

theorem reported_state_writes_attributes:
  "case handleStatus file_ops 102 (Some hostile_report) \<lparr>idn_MachineID = ''m'', idn_TenantID = ''t''\<rparr> with_command of
     (r, w) \<Rightarrow>
       r = NoContent \<and>
       (case fmlookup (fd_Machines (fs_data (w_store w))) ''m'' of
          None \<Rightarrow> False
        | Some m \<Rightarrow>
            Open ''span'' [''class'', ''onmouseover'']
              \<in> set (markup_of (snd (renderCommands (\<lambda>_. []) (\<lambda>x. x) fmempty m))))"
  by code_simp

end
