(* ===== verification/Dashboard_Input.thy ===== *)
theory Dashboard_Input
  imports Dashboard_Text
begin

text \<open>
  What an operator types into the dashboard and what the server gets: selectors, scripts, and
  scripts that are run again.
\<close>

section \<open>Words\<close>

text \<open>Printable ASCII without the comma: no byte of it starts or ends white space.\<close>

definition word_char :: "char \<Rightarrow> bool" where
  "word_char c \<longleftrightarrow> (let n = of_char c :: nat in 33 \<le> n \<and> n \<le> 126 \<and> n \<noteq> 44)"

definition word :: "string \<Rightarrow> bool" where
  "word s \<longleftrightarrow> s \<noteq> [] \<and> list_all word_char s"

definition no_word_start :: "string list \<Rightarrow> bool" where
  "no_word_start runes \<longleftrightarrow> list_all (\<lambda>r. r \<noteq> [] \<and> \<not> word_char (hd r)) runes"

lemma word_starts:
  "no_word_start js_space" "no_word_start (map rev js_space)" "no_word_start selector_seps"
  by code_simp+

lemma leading_space_word:
  assumes "no_word_start runes" and "word_char c"
  shows "leading_space runes (c # s) = 0"
proof -
  have "\<not> HasPrefix (c # s) r" if "r \<in> set runes" for r
    using assms that by (cases r) (auto simp: no_word_start_def list_all_iff HasPrefix_def)
  then have "find (\<lambda>r. HasPrefix (c # s) r) runes = None" by (auto simp: find_None_iff)
  then show ?thesis by (simp add: leading_space_def)
qed

lemma trim_leading_word: "no_word_start runes \<Longrightarrow> word_char c \<Longrightarrow> trim_leading runes (c # s) = c # s"
  by (subst trim_leading.simps) (simp add: leading_space_word)

lemma js_trim_words:
  assumes "word_char c" and "word_char d" and "s = c # t" and "s = u @ [d]"
  shows "js_trim s = s"
proof -
  have "trim_leading js_space s = s" using assms(1,3) by (simp add: trim_leading_word word_starts)
  moreover have "trim_leading (map rev js_space) (rev s) = rev s"
    using assms(2,4) by (simp add: trim_leading_word word_starts)
  ultimately show ?thesis by (simp add: js_trim_def)
qed

section \<open>Selectors\<close>

lemma split_runs_word:
  "list_all word_char w \<Longrightarrow> split_runs selector_seps cur (w @ s) = split_runs selector_seps (cur @ w) s"
proof (induction w arbitrary: cur)
  case (Cons c w)
  then have "leading_space selector_seps (c # w @ s) = 0" by (simp add: leading_space_word word_starts)
  then have "split_runs selector_seps cur (c # w @ s) = split_runs selector_seps (cur @ [c]) (w @ s)"
    by (subst split_runs.simps) simp
  with Cons show ?case by simp
qed simp

lemma split_runs_Nil: "split_runs seps cur [] = [cur]"
  by (subst split_runs.simps) simp

lemma split_runs_space:
  assumes "word_char c"
  shows "split_runs selector_seps cur (CHR '' '' # c # s) = cur # split_runs selector_seps [] (c # s)"
proof -
  have seps: "selector_seps = [CHR '',''] # [CHR '' ''] # tl js_space" by code_simp
  have "leading_space selector_seps (CHR '' '' # c # s) = 1"
    unfolding seps by (simp add: leading_space_def HasPrefix_def)
  then show ?thesis
    by (subst split_runs.simps) (simp add: trim_leading_word[OF word_starts(3) assms])
qed

lemma split_runs_words:
  "ws \<noteq> [] \<Longrightarrow> list_all word ws \<Longrightarrow> split_runs selector_seps [] (Join ws '' '') = ws"
proof (induction ws rule: induct_list012)
  case (2 x)
  then show ?case using split_runs_word[of x "[]" "[]"] by (simp add: word_def split_runs_Nil)
next
  case (3 x y ws)
  obtain c s where rest: "Join (y # ws) '' '' = c # s" "word_char c"
    using 3(4) by (cases y; cases ws) (auto simp: word_def)
  have "split_runs selector_seps [] (Join (x # y # ws) '' '') = split_runs selector_seps x (CHR '' '' # c # s)"
    using split_runs_word[of x "[]" "CHR '' '' # c # s"] 3(4) rest(1) by (simp add: word_def)
  also have "\<dots> = x # split_runs selector_seps [] (Join (y # ws) '' '')"
    using split_runs_space[OF rest(2)] rest(1) by simp
  also have "\<dots> = x # y # ws" using 3 by simp
  finally show ?case .
qed simp

lemma Join_ends:
  "ws \<noteq> [] \<Longrightarrow> list_all word ws \<Longrightarrow> \<exists>c d t u. word_char c \<and> word_char d \<and> Join ws '' '' = c # t \<and> Join ws '' '' = u @ [d]"
proof (induction ws rule: induct_list012)
  case (2 x)
  then obtain c t where "x = c # t" "word_char c" by (cases x) (auto simp: word_def)
  moreover obtain u d where "x = u @ [d]" "word_char d" using 2 by (cases x rule: rev_cases) (auto simp: word_def)
  ultimately show ?case by (intro exI[of _ c] exI[of _ d] exI[of _ t] exI[of _ u]) simp
next
  case (3 x y ws)
  then obtain d u where "word_char d" "Join (y # ws) '' '' = u @ [d]" by auto
  moreover obtain c t where "x = c # t" "word_char c" using 3(4) by (cases x) (auto simp: word_def)
  ultimately show ?case
    by (intro exI[of _ c] exI[of _ d] exI[of _ "t @ '' '' @ u @ [d]"] exI[of _ "x @ '' '' @ u"]) simp
qed simp

text \<open>A selector as an operator types it.\<close>

definition typed_selector :: "string gomap \<Rightarrow> string" where
  "typed_selector sel = Join (map (\<lambda>(k, v). k @ ''='' @ v) (sorted_list_of_fmap sel)) '' ''"

definition plain_label :: "string \<times> string \<Rightarrow> bool" where
  "plain_label kv \<longleftrightarrow> word (fst kv) \<and> CHR ''='' \<notin> set (fst kv) \<and> list_all word_char (snd kv)"

lemma add_pairs:
  "list_all plain_label kvs \<Longrightarrow> foldl add_pair m (map (\<lambda>(k, v). k @ ''='' @ v) kvs) = fold (\<lambda>(k, v). fmupd k v) kvs m"
proof (induction kvs arbitrary: m)
  case (Cons x kvs)
  obtain k v where x: "x = (k, v)" by (cases x)
  have "CHR ''='' \<notin> set k" "k \<noteq> []" using Cons.prems by (auto simp: x plain_label_def word_def)
  then have "add_pair m (k @ ''='' @ v) = fmupd k v m"
    by (simp add: add_pair_def Cut_char)
  with Cons show ?case by (simp add: x)
qed simp

lemma fold_fmupd_lookup:
  "distinct (map fst kvs) \<Longrightarrow> fmlookup (fold (\<lambda>(k, v). fmupd k v) kvs m) i = (case map_of kvs i of Some v \<Rightarrow> Some v | None \<Rightarrow> fmlookup m i)"
proof (induction kvs arbitrary: m)
  case (Cons x kvs)
  have "map_of kvs (fst x) = None" using Cons.prems by (simp add: map_of_eq_None_iff)
  then show ?case using Cons by (cases x; cases "fst x = i") (auto split: option.split)
qed simp

text \<open>
  C38: A selector typed as \<open>key=value\<close> words is read as the labels it names: every label comes
  through, whatever the order, when names and values are printable ASCII without commas.
\<close>

theorem selector_is_read_back:
  assumes "sel \<noteq> fmempty" and "\<And>k v. fmlookup sel k = Some v \<Longrightarrow> plain_label (k, v)"
  shows "parseSelector (typed_selector sel) = Some sel"
proof -
  let ?kvs = "sorted_list_of_fmap sel"
  let ?ws = "map (\<lambda>(k, v). k @ ''='' @ v) ?kvs"
  have plain: "list_all plain_label ?kvs"
    using assms(2) by (auto simp: list_all_iff in_sorted_list_of_fmap)
  then have words: "list_all word ?ws"
    by (auto simp: list_all_iff plain_label_def word_def) (simp add: word_char_def)
  obtain k v where "fmlookup sel k = Some v" using assms(1) by (metis fmap_ext fmempty_lookup option.exhaust)
  then have "(k, v) \<in> set ?kvs" by (simp add: in_sorted_list_of_fmap)
  then have "?kvs \<noteq> []" using length_pos_if_in_set by fastforce
  then have ne: "?ws \<noteq> []" by simp
  from Join_ends[OF ne words] have trim: "js_trim (typed_selector sel) = typed_selector sel" "typed_selector sel \<noteq> []"
    by (auto simp: typed_selector_def intro: js_trim_words)
  have "distinct (map fst ?kvs)" by (simp add: sorted_list_of_fmap_def comp_def)
  then have "fold (\<lambda>(k, v). fmupd k v) ?kvs fmempty = sel"
    by (intro fmap_ext) (auto simp: fold_fmupd_lookup in_sorted_list_of_fmap dest!: map_of_SomeD split: option.split)
  then have "foldl add_pair fmempty (split_runs selector_seps [] (typed_selector sel)) = sel"
    using split_runs_words[OF ne words] add_pairs[OF plain] by (simp add: typed_selector_def)
  then show ?thesis using trim assms(1) by (simp add: parseSelector_def Let_def)
qed

definition typed_witness :: "string gomap" where
  "typed_witness = fmap_of_list [(''role'', ''gpu''), (''region'', ''hk'')]"

lemma selector_is_read_back_witness:
  "parseSelector (typed_selector typed_witness) = Some typed_witness \<and> typed_selector typed_witness = ''region=hk role=gpu''"
proof -
  have "typed_witness \<noteq> fmempty" by (simp add: typed_witness_def)
  moreover have "plain_label (k, v)" if "fmlookup typed_witness k = Some v" for k v
  proof -
    have "plain_label (''role'', ''gpu'')" "plain_label (''region'', ''hk'')" by code_simp+
    with that show ?thesis by (auto simp: typed_witness_def fmlookup_of_list split: if_splits)
  qed
  ultimately have "parseSelector (typed_selector typed_witness) = Some typed_witness" by (rule selector_is_read_back)
  moreover have "typed_selector typed_witness = ''region=hk role=gpu''" by code_simp
  ultimately show ?thesis by blast
qed

lemma set_trim_leading: "set (trim_leading runes s) \<subseteq> set s"
proof (induction runes s rule: trim_leading.induct)
  case (1 runes s)
  show ?case
  proof (cases "s = [] \<or> leading_space runes s = 0")
    case True
    then show ?thesis by (subst trim_leading.simps) auto
  next
    case False
    then have "trim_leading runes s = trim_leading runes (drop (leading_space runes s) s)" by (subst trim_leading.simps) auto
    with 1 False set_drop_subset[of "leading_space runes s" s] show ?thesis by auto
  qed
qed

lemma set_js_trim: "set (js_trim s) \<subseteq> set s"
  using set_trim_leading[of "map rev js_space" "rev (trim_leading js_space s)"] set_trim_leading[of js_space s]
  by (auto simp: js_trim_def)

lemma set_split_runs: "w \<in> set (split_runs seps cur s) \<Longrightarrow> set w \<subseteq> set cur \<union> set s"
proof (induction seps cur s arbitrary: w rule: split_runs.induct)
  case (1 seps cur s)
  show ?case
  proof (cases "s = []")
    case True
    with 1(3) show ?thesis by (simp add: split_runs_Nil)
  next
    case False
    show ?thesis
    proof (cases "leading_space seps s = 0")
      case True
      then have "w \<in> set (split_runs seps (cur @ [hd s]) (tl s))" using 1(3) False by (subst (asm) split_runs.simps) simp
      from 1(1)[OF False True this] False show ?thesis by (auto dest: list.set_sel(2))
    next
      case space: False
      let ?rest = "trim_leading seps (drop (leading_space seps s) s)"
      have "w = cur \<or> w \<in> set (split_runs seps [] ?rest)" using 1(3) False space by (subst (asm) split_runs.simps) simp
      moreover have "set ?rest \<subseteq> set s"
        using set_trim_leading[of seps "drop (leading_space seps s) s"] set_drop_subset[of "leading_space seps s" s] by blast
      ultimately show ?thesis using 1(2)[OF False space, of w] by auto
    qed
  qed
qed

lemma Cut_without: "c \<notin> set s \<Longrightarrow> \<exists>b. Cut s [c] = (b, [], False)"
  by (induction s) (auto simp: HasPrefix_def split: prod.splits)

text \<open>
  A selector that was mistyped runs the command on the whole selected group: without an
  equals sign in it the text counts as no selector, and the command is queued for the group that
  happens to be chosen, however few machines were meant.
\<close>

theorem mistyped_selector_runs_on_group:
  assumes "CHR ''='' \<notin> set selector_text" and "group_id \<noteq> []" and "js_trim script \<noteq> []"
  shows "fleet_command selector_text group_id script machines =
    Inr \<lparr>cc_Script = js_trim script, cc_TargetKind = ''group'', cc_TargetID = group_id, cc_Selector = fmempty,
         cc_Label = [], cc_Config = fmempty\<rparr>"
proof -
  have "CHR ''='' \<notin> set w" if "w \<in> set (split_runs selector_seps [] (js_trim selector_text))" for w
    using set_split_runs[OF that] set_js_trim[of selector_text] assms(1) by auto
  then have "foldl add_pair fmempty (split_runs selector_seps [] (js_trim selector_text)) = fmempty"
  proof -
    have "\<forall>w\<in>set ws. CHR ''='' \<notin> set w \<Longrightarrow> foldl add_pair m ws = m" for ws m
    proof (induction ws arbitrary: m)
      case (Cons w ws)
      then obtain b where "Cut w ''='' = (b, [], False)" using Cut_without[of "CHR ''=''" w] by auto
      with Cons show ?case by (simp add: add_pair_def)
    qed simp
    with \<open>\<And>w. w \<in> set (split_runs selector_seps [] (js_trim selector_text)) \<Longrightarrow> CHR ''='' \<notin> set w\<close> show ?thesis by blast
  qed
  then have "parseSelector selector_text = None" by (simp add: parseSelector_def Let_def)
  then show ?thesis using assms(2,3) by (simp add: fleet_command_def command_for_def)
qed

lemma mistyped_selector_runs_on_group_witness:
  "fleet_command ''role:gpu'' ''all'' ''reboot'' [] =
     Inr \<lparr>cc_Script = ''reboot'', cc_TargetKind = ''group'', cc_TargetID = ''all'', cc_Selector = fmempty,
          cc_Label = [], cc_Config = fmempty\<rparr>"
proof -
  have "js_trim ''reboot'' = ''reboot''" by code_simp
  then show ?thesis using mistyped_selector_runs_on_group[of "''role:gpu''" "''all''" "''reboot''" "[]"] by simp
qed

section \<open>Running a command again\<close>

lemma trimmed_no_newline:
  assumes "TrimSpace t = t" and "t \<noteq> []"
  shows "last t \<noteq> CHR 0x0A"
proof
  assume last: "last t = CHR 0x0A"
  let ?s = "trim_leading space_runes t"
  have len: "length ?s \<le> length t" by (rule length_trim_leading)
  have again: "rev (trim_leading (map rev space_runes) (rev ?s)) = t" using assms(1) by (simp add: TrimSpace_def)
  then have "length t \<le> length ?s" using length_trim_leading[of "map rev space_runes" "rev ?s"] by (metis length_rev)
  then have "?s = t"
  proof (cases "leading_space space_runes t = 0")
    case True
    then show ?thesis by (subst trim_leading.simps) simp
  next
    case False
    have "length ?s \<le> length (drop (leading_space space_runes t) t)"
      using False assms(2) length_trim_leading[of space_runes "drop (leading_space space_runes t) t"]
      by (subst trim_leading.simps) simp
    then show ?thesis using False \<open>length t \<le> length ?s\<close> assms(2) by (cases t) auto
  qed
  then have fix_rev: "trim_leading (map rev space_runes) (rev t) = rev t" using again by (metis rev_rev_ident)
  obtain u where t: "rev t = CHR 0x0A # u" using last assms(2) by (metis hd_rev list.collapse rev_is_Nil_conv)
  have "leading_space (map rev space_runes) (CHR 0x0A # u) = 1"
    by (simp add: leading_space_def space_runes_def HasPrefix_def)
  then have "trim_leading (map rev space_runes) (rev t) = trim_leading (map rev space_runes) u"
    by (subst trim_leading.simps) (simp add: t)
  then have "length (rev t) \<le> length u" using fix_rev length_trim_leading[of "map rev space_runes" u] by simp
  then show False by (simp add: t)
qed

lemma strip_newlines: "t \<noteq> [] \<Longrightarrow> last t \<noteq> CHR 0x0A \<Longrightarrow> rev (dropWhile (\<lambda>c. c = CHR 0x0A) (rev t)) = t"
  by (cases t rule: rev_cases) auto

lemma TrimPrefix_append: "TrimPrefix (p @ s) p = s"
  by (simp add: TrimPrefix_def)



text \<open>
  A script with its own first line for \<open>/bin/sh\<close> is run differently the second time: the page
  takes the line off and the server adds its own, with \<open>set -eu\<close> and \<open>cd /\<close>.
\<close>

theorem rerun_changes_own_shell_line:
  "command_script (TrimSpace (cc_Script (rerun_command (command_script (''#!/bin/sh'' @ newline @ ''ls'')) ''m''))) =
     ''#!/bin/sh'' @ newline @ ''set -eu'' @ newline @ ''cd /'' @ newline @ ''ls'' @ newline \<and>
   command_script (''#!/bin/sh'' @ newline @ ''ls'') = ''#!/bin/sh'' @ newline @ ''ls''"
  by code_simp

end
