(* ===== verification/Dashboard_State.thy ===== *)
theory Dashboard_State
  imports Dashboard_Rows
begin

text \<open>
  The state of the dashboard's page (\<open>internal/server/dashboard.go\<close>, the script) and its
  handlers: the poll of the fleet, the stream of the open machine, the rolling histories, the
  banners, the grid of cards. Each handler runs to its end before the next, as in a
  browser; what a \<open>fetch\<close> answers comes as a handler of its own.
\<close>

section \<open>Histories\<close>

record history =
  hi_At :: "int list"
  hi_CPU :: "real list"
  hi_Mem :: "real list"
  hi_Rx :: "real list"
  hi_Tx :: "real list"
  hi_Disk :: "real list"
  hi_LastAt :: int
  hi_Last :: "metrics_sample option"

definition empty_history :: history where
  "empty_history = \<lparr>hi_At = [], hi_CPU = [], hi_Mem = [], hi_Rx = [], hi_Tx = [], hi_Disk = [], hi_LastAt = 0, hi_Last = None\<rparr>"

definition window :: nat where
  "window = 120"

definition push :: "'a list \<Rightarrow> 'a \<Rightarrow> 'a list" where
  "push a v = (let b = a @ [v] in if window < length b then tl b else b)"

definition record_sample :: "metrics_sample \<Rightarrow> history \<Rightarrow> history" where
  "record_sample s h =
     (let t = sint (mt_AtUnix s)
      in \<lparr>hi_At = push (hi_At h) t, hi_CPU = push (hi_CPU h) (mt_CPUPercent s), hi_Mem = push (hi_Mem h) (bytes_of (mt_MemUsed s)),
          hi_Rx = push (hi_Rx h) (mt_NetRxBps s), hi_Tx = push (hi_Tx h) (mt_NetTxBps s),
          hi_Disk = push (hi_Disk h) (bytes_of (mt_DiskUsed s)), hi_LastAt = max (hi_LastAt h) t, hi_Last = Some s\<rparr>)"

section \<open>The page\<close>

text \<open>
  The children of the grid; the fetch of a stream with the machine it was opened for,
  whether its answer has come, and the text not yet cut into events.
\<close>

datatype grid_item = NoMachines | Card string

record stream_fetch =
  sf_Machine :: string
  sf_Open :: bool
  sf_Buf :: string

datatype view = Locked | Overview | Detail

record page =
  pg_Tok :: string
  pg_View :: view
  pg_Machines :: "machine list"
  pg_Live :: "metrics_sample gomap"
  pg_Selected :: "string option"
  pg_Ctrl :: "stream_fetch option"
  pg_Polling :: bool
  pg_Streaming :: bool
  pg_Hist :: "history gomap"
  pg_PrevUp :: "bool gomap"
  pg_Banners :: "(string \<times> bool) list"
  pg_Grid :: "grid_item list"
  pg_Cards :: "string list"
  pg_Filter :: string
  pg_Health :: "string \<times> bool \<times> string"
  pg_Status :: string
  pg_Commands :: "command_info gomap"
  pg_CmdCap :: int
  pg_Groups :: "group_row list"
  pg_Theme :: string

definition fresh_page :: page where
  "fresh_page =
     \<lparr>pg_Tok = [], pg_View = Locked, pg_Machines = [], pg_Live = fmempty, pg_Selected = None, pg_Ctrl = None, pg_Polling = False,
      pg_Streaming = False, pg_Hist = fmempty, pg_PrevUp = fmempty, pg_Banners = [], pg_Grid = [], pg_Cards = [], pg_Filter = [],
      pg_Health = ([], False, ''fleetcore''), pg_Status = [], pg_Commands = fmempty, pg_CmdCap = 0, pg_Groups = [],
      pg_Theme = ''system''\<rparr>"

definition hist_of :: "page \<Rightarrow> string \<Rightarrow> history" where
  "hist_of pg i = (case fmlookup (pg_Hist pg) i of None \<Rightarrow> empty_history | Some h \<Rightarrow> h)"

text \<open>Looking a history up makes it.\<close>

definition histFor :: "string \<Rightarrow> page \<Rightarrow> page" where
  "histFor i pg = pg\<lparr>pg_Hist := fmupd i (hist_of pg i) (pg_Hist pg)\<rparr>"

definition ingest :: "string \<Rightarrow> metrics_sample \<Rightarrow> bool \<Rightarrow> page \<Rightarrow> page" where
  "ingest i s fromStream pg =
     (if mt_AtUnix s = 0 then pg
      else
        let pg1 = histFor i pg; h = hist_of pg i
        in if \<not> fromStream \<and> (pg_Streaming pg \<and> pg_Selected pg = Some i \<or> sint (mt_AtUnix s) \<le> hi_LastAt h) then pg1
           else pg1\<lparr>pg_Hist := fmupd i (record_sample s h) (pg_Hist pg1)\<rparr>)"

text \<open>\<open>render\<close>; painting the charts makes the history too.\<close>

definition redraw :: "metrics_sample option \<Rightarrow> page \<Rightarrow> page" where
  "redraw s pg = (case (s, pg_Selected pg) of (Some _, Some i) \<Rightarrow> histFor i pg | _ \<Rightarrow> pg)"

definition render :: "metrics_sample option \<Rightarrow> bool \<Rightarrow> page \<Rightarrow> page" where
  "render s fromStream pg =
     (case (s, pg_Selected pg) of
        (Some x, Some i) \<Rightarrow> redraw s (ingest i x fromStream pg)
      | _ \<Rightarrow> pg)"

section \<open>The overview\<close>

definition raise_banner :: "machine \<Rightarrow> bool \<Rightarrow> page \<Rightarrow> page" where
  "raise_banner m up pg = pg\<lparr>pg_Banners := (m_ID m, up) # pg_Banners pg\<rparr>"

definition transition :: "real \<Rightarrow> machine \<Rightarrow> page \<Rightarrow> page" where
  "transition now m pg =
     (let up = isUp now (pg_Live pg) m;
          was = fmlookup (pg_PrevUp pg) (m_ID m);
          pg1 = (if was \<noteq> None \<and> was \<noteq> Some up then raise_banner m up pg else pg)
      in pg1\<lparr>pg_PrevUp := fmupd (m_ID m) up (pg_PrevUp pg1)\<rparr>)"

definition detectTransitions :: "real \<Rightarrow> page \<Rightarrow> page" where
  "detectTransitions now pg = fold (transition now) (pg_Machines pg) pg"

text \<open>\<open>by_name\<close> is the order of \<open>localeCompare\<close>. A card that exists stays where it is.\<close>

definition add_card :: "machine \<Rightarrow> page \<Rightarrow> page" where
  "add_card m pg =
     (if m_ID m \<in> set (pg_Cards pg) then pg
      else pg\<lparr>pg_Cards := pg_Cards pg @ [m_ID m], pg_Grid := pg_Grid pg @ [Card (m_ID m)]\<rparr>)"

definition drop_card :: "string \<Rightarrow> page \<Rightarrow> page" where
  "drop_card i pg =
     pg\<lparr>pg_Cards := filter (\<lambda>c. c \<noteq> i) (pg_Cards pg), pg_Grid := filter (\<lambda>g. g \<noteq> Card i) (pg_Grid pg)\<rparr>"

definition shown :: "page \<Rightarrow> machine list" where
  "shown pg = filter (matchesFilter (pg_Filter pg)) (pg_Machines pg)"

definition renderOverview :: "(machine list \<Rightarrow> machine list) \<Rightarrow> page \<Rightarrow> page" where
  "renderOverview by_name pg =
     (if pg_Machines pg = [] then pg\<lparr>pg_Grid := [NoMachines], pg_Cards := []\<rparr>
      else
        let pg1 = fold add_card (by_name (shown pg)) pg
        in fold drop_card (filter (\<lambda>i. i \<notin> m_ID ` set (shown pg)) (pg_Cards pg1)) pg1)"

definition set_filter :: "(machine list \<Rightarrow> machine list) \<Rightarrow> string \<Rightarrow> page \<Rightarrow> page" where
  "set_filter by_name text pg = renderOverview by_name (pg\<lparr>pg_Filter := to_lower (js_trim text)\<rparr>)"

section \<open>The stream\<close>

definition findMachine :: "page \<Rightarrow> string \<Rightarrow> machine option" where
  "findMachine pg i = find (\<lambda>m. m_ID m = i) (pg_Machines pg)"

text \<open>An earlier fetch is aborted; its \<open>catch\<close> only sets \<open>streaming\<close> to false.\<close>

definition startStream :: "string \<Rightarrow> page \<Rightarrow> page" where
  "startStream i pg =
     pg\<lparr>pg_Ctrl := Some \<lparr>sf_Machine = i, sf_Open = False, sf_Buf = []\<rparr>, pg_Streaming := False\<rparr>"

definition stream_answered :: "page \<Rightarrow> page" where
  "stream_answered pg =
     (case pg_Ctrl pg of
        None \<Rightarrow> pg
      | Some f \<Rightarrow> pg\<lparr>pg_Ctrl := Some (f\<lparr>sf_Open := True\<rparr>), pg_Streaming := True\<rparr>)"

lemma Cut_rest_shorter:
  "Cut s sep = (b, r, True) \<Longrightarrow> sep \<noteq> [] \<Longrightarrow> length r < length s"
  by (induction s sep arbitrary: b rule: Cut.induct) (auto split: if_splits prod.splits)

text \<open>The loop over \<open>buf\<close>: the events in it, and what is left.\<close>

function cut_events :: "string \<Rightarrow> string list \<times> string" where
  "cut_events buf =
     (case Cut buf [CHR 0x0A, CHR 0x0A] of
        (chunk, rest, found) \<Rightarrow>
          if \<not> found then ([], buf)
          else (case cut_events rest of (chunks, left) \<Rightarrow> (chunk # chunks, left)))"
  by pat_completeness auto
termination
  by (relation "measure length") (auto intro: Cut_rest_shorter [OF sym])

declare cut_events.simps [simp del]

text \<open>\<open>parse\<close> is \<open>JSON.parse\<close>; a text it rejects is skipped.\<close>

definition render_event :: "(string \<Rightarrow> metrics_sample option) \<Rightarrow> string \<Rightarrow> page \<Rightarrow> page" where
  "render_event parse chunk pg =
     (if HasPrefix chunk ''data: '' then render (parse (drop 6 chunk)) True pg else pg)"

definition stream_chunk :: "(string \<Rightarrow> metrics_sample option) \<Rightarrow> string \<Rightarrow> page \<Rightarrow> page" where
  "stream_chunk parse bytes pg =
     (case pg_Ctrl pg of
        None \<Rightarrow> pg
      | Some f \<Rightarrow>
          if \<not> sf_Open f then pg
          else (case cut_events (sf_Buf f @ bytes) of
                  (chunks, rest) \<Rightarrow> fold (render_event parse) chunks (pg\<lparr>pg_Ctrl := Some (f\<lparr>sf_Buf := rest\<rparr>)\<rparr>)))"

text \<open>The end of the stream, or its failure; after a failure a timer starts it again.\<close>

definition stream_done :: "page \<Rightarrow> page" where
  "stream_done pg = pg\<lparr>pg_Streaming := False, pg_Ctrl := map_option (\<lambda>f. f\<lparr>sf_Open := False\<rparr>) (pg_Ctrl pg)\<rparr>"

definition reconnect :: "string \<Rightarrow> page \<Rightarrow> page" where
  "reconnect i pg = (if pg_Selected pg = Some i then startStream i pg else pg)"

section \<open>Views\<close>

definition openDetail :: "string \<Rightarrow> page \<Rightarrow> page" where
  "openDetail i pg =
     startStream i (histFor i (pg\<lparr>pg_Selected := Some i, pg_View := Detail, pg_Groups := []\<rparr>))"

definition groups_answered :: "string \<Rightarrow> group_row list \<Rightarrow> page \<Rightarrow> page" where
  "groups_answered i gs pg = (if pg_Selected pg = Some i then pg\<lparr>pg_Groups := gs\<rparr> else pg)"

definition closeDetail :: "(machine list \<Rightarrow> machine list) \<Rightarrow> page \<Rightarrow> page" where
  "closeDetail by_name pg =
     renderOverview by_name (pg\<lparr>pg_Selected := None, pg_Streaming := False, pg_Ctrl := None, pg_View := Overview\<rparr>)"

text \<open>Whether the commands are fetched, and what the answer adds.\<close>

definition commands_missing :: "page \<Rightarrow> bool" where
  "commands_missing pg =
     (case Option.bind (pg_Selected pg) (findMachine pg) of
        None \<Rightarrow> True
      | Some m \<Rightarrow>
          list_ex (\<lambda>sp. HasPrefix (ms_Name sp) ''cmd-'' \<and> fmlookup (pg_Commands pg) (ms_Name sp) = None)
            (case ds_Modules (m_Desired m) of None \<Rightarrow> [] | Some ms \<Rightarrow> ms))"

definition commands_answered :: "int \<Rightarrow> command_row list \<Rightarrow> page \<Rightarrow> page" where
  "commands_answered cap rows pg =
     pg\<lparr>pg_CmdCap := (if 0 < cap then cap else pg_CmdCap pg),
        pg_Commands := fold (\<lambda>r. fmupd (cmd_Name r) \<lparr>ci_Script = cmd_Script r, ci_Created = cmd_Created r\<rparr>) rows (pg_Commands pg)\<rparr>"

section \<open>Polling and connecting\<close>

definition ingest_all :: "metrics_sample gomap \<Rightarrow> page \<Rightarrow> page" where
  "ingest_all live pg = fold (\<lambda>(i, s). ingest i s False) (sorted_list_of_fmap live) pg"

definition refresh_answered ::
  "(machine list \<Rightarrow> machine list) \<Rightarrow> real \<Rightarrow> machine list \<Rightarrow> metrics_sample gomap \<Rightarrow> page \<Rightarrow> page" where
  "refresh_answered by_name now machines live pg =
     (let pg1 = ingest_all live (pg\<lparr>pg_Machines := machines, pg_Live := live, pg_Status := []\<rparr>);
          pg2 = detectTransitions now pg1;
          pg3 = pg2\<lparr>pg_Health := renderHealth now live machines\<rparr>
      in case pg_Selected pg3 of
           None \<Rightarrow> renderOverview by_name pg3
         | Some i \<Rightarrow> if pg_Streaming pg3 then pg3 else render (hi_Last (hist_of pg3 i)) False (histFor i pg3))"

definition disconnect :: "page \<Rightarrow> page" where
  "disconnect pg =
     pg\<lparr>pg_Polling := False, pg_Ctrl := None, pg_Streaming := False, pg_Tok := [], pg_Selected := None, pg_Machines := [],
        pg_Live := fmempty, pg_PrevUp := fmempty, pg_Commands := fmempty, pg_View := Locked\<rparr>"

definition refresh_failed :: "string \<Rightarrow> page \<Rightarrow> page" where
  "refresh_failed msg pg =
     (if msg = ''unauthorized''
      then disconnect (pg\<lparr>pg_Status := ''auth failed '' @ em_dash @ '' check the token''\<rparr>)
      else pg\<lparr>pg_Status := msg\<rparr>)"

definition connect :: "string \<Rightarrow> page \<Rightarrow> page" where
  "connect text pg =
     (let t = js_trim text
      in if t = [] then pg\<lparr>pg_Status := ''paste the admin token''\<rparr>
         else pg\<lparr>pg_Tok := t, pg_View := Overview, pg_Polling := True\<rparr>)"

text \<open>
  A click on the button of a card reaches the card before the listener of the grid, so it
  opens the machine; then the deletion is confirmed and sent, and answered.
\<close>

definition click_remove :: "string \<Rightarrow> page \<Rightarrow> page" where
  "click_remove i pg = openDetail i pg"

definition machine_removed :: "(machine list \<Rightarrow> machine list) \<Rightarrow> string \<Rightarrow> page \<Rightarrow> page" where
  "machine_removed by_name i pg =
     (let pg1 = drop_card i (pg\<lparr>pg_Hist := fmdrop i (pg_Hist pg)\<rparr>);
          pg2 = pg1\<lparr>pg_PrevUp := fmdrop i (pg_PrevUp pg1)\<rparr>
      in if pg_Selected pg2 = Some i then closeDetail by_name pg2 else pg2)"

section \<open>What is kept in the browser\<close>

definition stale_hist :: real where
  "stale_hist = 120"

definition saveHist :: "page \<Rightarrow> history gomap" where
  "saveHist pg = pg_Hist pg"

definition loadHist :: "real \<Rightarrow> history gomap option \<Rightarrow> page \<Rightarrow> page" where
  "loadHist now stored pg =
     (case stored of
        None \<Rightarrow> pg
      | Some hs \<Rightarrow>
          pg\<lparr>pg_Hist := fold (\<lambda>(i, h) hist.
                if hi_LastAt h = 0 \<or> stale_hist < now - real_of_int (hi_LastAt h) then hist else fmupd i h hist)
              (sorted_list_of_fmap hs) (pg_Hist pg)\<rparr>)"

definition theme_click :: "page \<Rightarrow> page" where
  "theme_click pg =
     (let pg1 = pg\<lparr>pg_Theme := (if pg_Theme pg = ''system'' then ''light'' else if pg_Theme pg = ''light'' then ''dark'' else ''system'')\<rparr>
      in case pg_Selected pg1 of None \<Rightarrow> pg1 | Some i \<Rightarrow> redraw (hi_Last (hist_of pg1 i)) (histFor i pg1))"

definition theme_label :: "page \<Rightarrow> string" where
  "theme_label pg = (if pg_Theme pg = ''system'' then ''Auto'' else if pg_Theme pg = ''dark'' then ''Dark'' else ''Light'')"

text \<open>\<open>boot\<close>: the theme and the histories stored, and the token if there is one.\<close>

definition boot :: "real \<Rightarrow> string \<Rightarrow> history gomap option \<Rightarrow> string \<Rightarrow> page" where
  "boot now theme stored token =
     (let pg = loadHist now stored (fresh_page\<lparr>pg_Theme := or_else theme ''system''\<rparr>)
      in if token \<noteq> [] then connect token pg else pg)"

section \<open>Events\<close>

datatype page_event =
  PollAnswered real "machine list" "metrics_sample gomap" | PollFailed string
| StreamAnswered | StreamBytes string | StreamEnded | Reconnect string
| CardClicked string | RemoveClicked string | MachineRemoved string | BackClicked
| FilterTyped string | GroupsAnswered string "group_row list" | CommandsAnswered int "command_row list"
| ConnectClicked string | ForgetClicked | ThemeClicked

definition page_step ::
  "(machine list \<Rightarrow> machine list) \<Rightarrow> (string \<Rightarrow> metrics_sample option) \<Rightarrow> page_event \<Rightarrow> page \<Rightarrow> page" where
  "page_step by_name parse ev =
     (case ev of
        PollAnswered now machines live \<Rightarrow> refresh_answered by_name now machines live
      | PollFailed msg \<Rightarrow> refresh_failed msg
      | StreamAnswered \<Rightarrow> stream_answered
      | StreamBytes bytes \<Rightarrow> stream_chunk parse bytes
      | StreamEnded \<Rightarrow> stream_done
      | Reconnect i \<Rightarrow> reconnect i
      | CardClicked i \<Rightarrow> openDetail i
      | RemoveClicked i \<Rightarrow> click_remove i
      | MachineRemoved i \<Rightarrow> machine_removed by_name i
      | BackClicked \<Rightarrow> closeDetail by_name
      | FilterTyped text \<Rightarrow> set_filter by_name text
      | GroupsAnswered i gs \<Rightarrow> groups_answered i gs
      | CommandsAnswered cap rows \<Rightarrow> commands_answered cap rows
      | ConnectClicked text \<Rightarrow> connect text
      | ForgetClicked \<Rightarrow> disconnect
      | ThemeClicked \<Rightarrow> theme_click)"

definition page_run ::
  "(machine list \<Rightarrow> machine list) \<Rightarrow> (string \<Rightarrow> metrics_sample option) \<Rightarrow> page_event list \<Rightarrow> page \<Rightarrow> page" where
  "page_run by_name parse evs = fold (page_step by_name parse) evs"

end
