(* ===== verification/Dashboard_Charts.thy ===== *)
theory Dashboard_Charts
  imports Dashboard_State
begin

text \<open>
  Properties of the dashboard's page: its histories are bounded and aligned, the stream of
  the open machine reaches the charts as the server wrote it, banners and cards follow
  the polls; and where the page shows something else than it means to.
\<close>

section \<open>Histories\<close>

text \<open>The series are aligned, at most 120 long, and no reading is later than the last one noted.\<close>

definition aligned :: "history \<Rightarrow> bool" where
  "aligned h \<longleftrightarrow>
     length (hi_CPU h) = length (hi_At h) \<and> length (hi_Mem h) = length (hi_At h) \<and> length (hi_Rx h) = length (hi_At h) \<and>
     length (hi_Tx h) = length (hi_At h) \<and> length (hi_Disk h) = length (hi_At h) \<and> length (hi_At h) \<le> window \<and>
     list_all (\<lambda>t. t \<le> hi_LastAt h) (hi_At h)"

definition aligned_page :: "page \<Rightarrow> bool" where
  "aligned_page pg \<longleftrightarrow> (\<forall>i h. fmlookup (pg_Hist pg) i = Some h \<longrightarrow> aligned h)"

lemma length_push: "length xs \<le> window \<Longrightarrow> length (push xs v) = min window (Suc (length xs))"
  by (auto simp: push_def Let_def)

lemma set_push: "set (push xs v) \<subseteq> insert v (set xs)"
  by (cases xs) (auto simp: push_def Let_def)

lemma aligned_record: "aligned h \<Longrightarrow> aligned (record_sample s h)"
proof -
  assume h: "aligned h"
  have "list_all (\<lambda>t. t \<le> max (hi_LastAt h) (sint (mt_AtUnix s))) (push (hi_At h) (sint (mt_AtUnix s)))"
    using h set_push[of "hi_At h" "sint (mt_AtUnix s)"] by (fastforce simp: aligned_def list_all_iff)
  with h show ?thesis by (simp add: aligned_def record_sample_def Let_def length_push)
qed

lemma aligned_empty: "aligned empty_history"
  by (simp add: aligned_def empty_history_def)

lemma aligned_hist_of: "aligned_page pg \<Longrightarrow> aligned (hist_of pg i)"
  by (auto simp: hist_of_def aligned_page_def aligned_empty split: option.split)

lemma aligned_histFor: "aligned_page pg \<Longrightarrow> aligned_page (histFor i pg)"
  using aligned_hist_of[of pg i] by (auto simp: histFor_def aligned_page_def)

lemma aligned_ingest: "aligned_page pg \<Longrightarrow> aligned_page (ingest i s b pg)"
  using aligned_hist_of[of pg i] aligned_histFor[of pg i]
  by (auto simp: ingest_def Let_def aligned_page_def aligned_record)

lemma aligned_same: "pg_Hist pg' = pg_Hist pg \<Longrightarrow> aligned_page pg \<Longrightarrow> aligned_page pg'"
  by (simp add: aligned_page_def)

lemma aligned_fold: "(\<And>x pg. aligned_page pg \<Longrightarrow> aligned_page (f x pg)) \<Longrightarrow> aligned_page pg \<Longrightarrow> aligned_page (fold f xs pg)"
  by (induction xs arbitrary: pg) auto

lemma aligned_redraw: "aligned_page pg \<Longrightarrow> aligned_page (redraw s pg)"
  by (auto simp: redraw_def aligned_histFor split: option.split)

lemma aligned_render: "aligned_page pg \<Longrightarrow> aligned_page (render s b pg)"
  by (auto simp: render_def aligned_redraw aligned_ingest split: option.split)

text \<open>Handlers that leave the histories alone.\<close>

lemma fold_keeps: "(\<And>x pg. f (g x pg) = f pg) \<Longrightarrow> f (fold g xs pg) = f pg"
  by (induction xs arbitrary: pg) auto

lemma renderOverview_hist: "pg_Hist (renderOverview by_name pg) = pg_Hist pg"
  by (simp add: renderOverview_def Let_def fold_keeps[of pg_Hist] drop_card_def add_card_def)

lemma transition_hist: "pg_Hist (transition now m pg) = pg_Hist pg"
  by (simp add: transition_def raise_banner_def Let_def)

text \<open>The other handlers.\<close>

definition quiet_event :: "page_event \<Rightarrow> bool" where
  "quiet_event ev =
     (case ev of
        PollAnswered _ _ _ \<Rightarrow> False | StreamBytes _ \<Rightarrow> False | MachineRemoved _ \<Rightarrow> False | CardClicked _ \<Rightarrow> False
      | RemoveClicked _ \<Rightarrow> False | ThemeClicked \<Rightarrow> False | _ \<Rightarrow> True)"

lemma quiet_step: "quiet_event ev \<Longrightarrow> pg_Hist (page_step by_name parse ev pg) = pg_Hist pg"
  by (cases ev)
    (simp_all add: quiet_event_def page_step_def refresh_failed_def disconnect_def stream_answered_def stream_done_def
      reconnect_def startStream_def closeDetail_def set_filter_def groups_answered_def commands_answered_def connect_def
      Let_def renderOverview_hist split: option.split)

lemma aligned_looked_up:
  "pg_Hist pg' = fmupd i (hist_of pg i) (pg_Hist pg) \<Longrightarrow> aligned_page pg \<Longrightarrow> aligned_page pg'"
  using aligned_hist_of[of pg i] by (auto simp: aligned_page_def)

lemma aligned_step: "aligned_page pg \<Longrightarrow> aligned_page (page_step by_name parse ev pg)"
proof (cases ev)
  case (PollAnswered now machines live)
  assume pg: "aligned_page pg"
  let ?pg1 = "ingest_all live (pg\<lparr>pg_Machines := machines, pg_Live := live, pg_Status := []\<rparr>)"
  let ?pg3 = "(detectTransitions now ?pg1)\<lparr>pg_Health := renderHealth now live machines\<rparr>"
  have "aligned_page (pg\<lparr>pg_Machines := machines, pg_Live := live, pg_Status := []\<rparr>)"
    using pg by (simp add: aligned_page_def)
  then have "aligned_page ?pg1"
    unfolding ingest_all_def by (intro aligned_fold) (auto intro: aligned_ingest)
  then have "aligned_page (detectTransitions now ?pg1)"
    unfolding detectTransitions_def
    by (intro aligned_fold) (auto intro: aligned_same[OF transition_hist])
  then have "aligned_page ?pg3" by (simp add: aligned_page_def)
  then show ?thesis
    by (auto simp: page_step_def PollAnswered refresh_answered_def Let_def aligned_render aligned_histFor
        aligned_same[OF renderOverview_hist] split: option.split)
next
  case (StreamBytes bytes)
  assume pg: "aligned_page pg"
  have "aligned_page (fold (render_event parse) chunks pg')" if "pg_Hist pg' = pg_Hist pg" for chunks pg'
    using aligned_same[OF that pg] by (intro aligned_fold) (auto simp: render_event_def aligned_render)
  then show ?thesis
    by (simp add: page_step_def StreamBytes stream_chunk_def pg split: option.split prod.split)
next
  case (MachineRemoved i)
  assume pg: "aligned_page pg"
  then have drop: "aligned_page pg'" if "pg_Hist pg' = fmdrop i (pg_Hist pg)" for pg'
    using that by (auto simp: aligned_page_def split: if_splits)
  show ?thesis
    by (rule drop) (simp add: page_step_def MachineRemoved machine_removed_def closeDetail_def drop_card_def Let_def renderOverview_hist)
next
  case (CardClicked i)
  assume pg: "aligned_page pg"
  show ?thesis
    by (rule aligned_looked_up[OF _ pg, of _ i])
      (simp add: page_step_def CardClicked openDetail_def startStream_def histFor_def hist_of_def)
next
  case (RemoveClicked i)
  assume pg: "aligned_page pg"
  show ?thesis
    by (rule aligned_looked_up[OF _ pg, of _ i])
      (simp add: page_step_def RemoveClicked click_remove_def openDetail_def startStream_def histFor_def hist_of_def)
next
  case ThemeClicked
  assume pg: "aligned_page pg"
  have "aligned_page (pg\<lparr>pg_Theme := t\<rparr>)" for t using pg by (simp add: aligned_page_def)
  then show ?thesis
    by (auto simp: page_step_def ThemeClicked theme_click_def Let_def aligned_redraw aligned_histFor split: option.split)
qed (simp_all add: aligned_same[OF quiet_step] quiet_event_def)

lemma loaded_lookup:
  "fmlookup (fold (\<lambda>(i, h) hist. if P h then hist else fmupd i h hist) xs m) k = Some h \<Longrightarrow>
   fmlookup m k = Some h \<or> (k, h) \<in> set xs \<and> \<not> P h"
  by (induction xs arbitrary: m) (fastforce split: if_splits)+

lemma aligned_loadHist:
  "(\<And>hs i h. stored = Some hs \<Longrightarrow> fmlookup hs i = Some h \<Longrightarrow> aligned h) \<Longrightarrow> aligned_page pg \<Longrightarrow>
   aligned_page (loadHist now stored pg)"
  by (auto simp: loadHist_def aligned_page_def in_sorted_list_of_fmap dest!: loaded_lookup split: option.split)

lemma aligned_boot:
  "(\<And>hs i h. stored = Some hs \<Longrightarrow> fmlookup hs i = Some h \<Longrightarrow> aligned h) \<Longrightarrow> aligned_page (boot now theme stored token)"
proof -
  assume stored: "\<And>hs i h. stored = Some hs \<Longrightarrow> fmlookup hs i = Some h \<Longrightarrow> aligned h"
  have "aligned_page (fresh_page\<lparr>pg_Theme := or_else theme ''system''\<rparr>)"
    by (simp add: aligned_page_def fresh_page_def)
  then have "aligned_page (loadHist now stored (fresh_page\<lparr>pg_Theme := or_else theme ''system''\<rparr>))"
    using stored by (intro aligned_loadHist)
  then show ?thesis by (simp add: boot_def connect_def Let_def aligned_page_def)
qed

text \<open>
  Whatever happens on the page - polls, stream frames cut anywhere, openings, filters,
  deletions - and however often it is reloaded with the histories it saved, each machine's
  six series have the same length, at most 120 readings, none later than the noted last time.
\<close>

theorem histories_stay_aligned:
  assumes "aligned_page old"
  shows "aligned_page (page_run by_name parse evs (boot now theme (Some (saveHist old)) token))"
proof -
  have "aligned_page (boot now theme (Some (saveHist old)) token)"
    using assms by (intro aligned_boot) (auto simp: saveHist_def aligned_page_def)
  then show ?thesis unfolding page_run_def by (intro aligned_fold aligned_step)
qed

definition sample_at :: "int64 \<Rightarrow> metrics_sample" where
  "sample_at t =
     \<lparr>mt_AtUnix = t, mt_CPUPercent = 5, mt_Load1 = 0, mt_MemTotal = 8, mt_MemUsed = 2, mt_DiskTotal = 8, mt_DiskUsed = 3,
      mt_NetRxBps = 0, mt_NetTxBps = 0, mt_TopProcesses = [], mt_GPUs = [], mt_ProcCount = 0, mt_ProcTotalRSS = 0,
      mt_Interfaces = [], mt_Pods = []\<rparr>"

definition polled :: "int64 \<Rightarrow> page_event" where
  "polled t = PollAnswered (real_of_int (sint t)) [] (fmap_of_list [(''m'', sample_at t)])"

lemma histories_stay_aligned_witness:
  "aligned_page fresh_page \<and>
   aligned_page (page_run (\<lambda>ms. ms) (\<lambda>_. None) [polled 100, polled 102] (boot 99 [] (Some (saveHist fresh_page)) ''k''))"
proof -
  have "aligned_page fresh_page" by (simp add: aligned_page_def fresh_page_def)
  with histories_stay_aligned[OF this] show ?thesis by blast
qed

lemma loaded_lookup_eq:
  "distinct (map fst xs) \<Longrightarrow>
   fmlookup (fold (\<lambda>(i, h) hist. if P h then hist else fmupd i h hist) xs m) k =
     (case map_of xs k of Some h \<Rightarrow> if P h then fmlookup m k else Some h | None \<Rightarrow> fmlookup m k)"
proof (induction xs arbitrary: m)
  case (Cons x xs)
  have "map_of xs (fst x) = None" using Cons.prems by (simp add: map_of_eq_None_iff)
  then show ?case using Cons by (cases x; cases "fst x = k") (auto split: option.split)
qed simp

text \<open>
  Reloading the page resumes the charts: the page that comes up has exactly the histories
  that were saved and whose last reading is at most two minutes old, unchanged.
\<close>

theorem reload_resumes_recent:
  "fmlookup (pg_Hist (boot now theme (Some (saveHist old)) token)) i =
     (case fmlookup (pg_Hist old) i of
        None \<Rightarrow> None
      | Some h \<Rightarrow> if hi_LastAt h = 0 \<or> 120 < now - real_of_int (hi_LastAt h) then None else Some h)"
proof -
  let ?xs = "sorted_list_of_fmap (pg_Hist old)"
  have "distinct (map fst ?xs)" by (simp add: sorted_list_of_fmap_def comp_def)
  moreover have "map_of ?xs i = fmlookup (pg_Hist old) i"
    using calculation by (cases "fmlookup (pg_Hist old) i") (auto simp: map_of_eq_None_iff in_sorted_list_of_fmap image_iff)
  ultimately show ?thesis
    by (simp add: boot_def connect_def loadHist_def saveHist_def fresh_page_def stale_hist_def Let_def loaded_lookup_eq
        split: option.split)
qed

section \<open>The stream reaches the charts\<close>

lemma Cut_found_append:
  "Cut s sep = (b, r, True) \<Longrightarrow> sep \<noteq> [] \<Longrightarrow> Cut (s @ t) sep = (b, r @ t, True)"
proof (induction s arbitrary: b)
  case (Cons c s)
  show ?case
  proof (cases "HasPrefix (c # s) sep")
    case True
    then obtain u where u: "c # s = sep @ u" by (auto simp: HasPrefix_iff)
    then have ut: "c # s @ t = sep @ (u @ t)" by simp
    have "b = []" "r = drop (length sep) (c # s)" using Cons.prems(1) True by auto
    moreover have "Cut (c # s @ t) sep = ([], drop (length sep) (c # s @ t), True)"
      using HasPrefix_append[of sep "u @ t"] by (simp add: ut[symmetric])
    ultimately show ?thesis using u ut by simp
  next
    case False
    then obtain b' where b': "Cut s sep = (b', r, True)" "b = c # b'"
      using Cons.prems by (auto split: prod.splits)
    have "length sep \<le> length s"
    proof -
      have "Cut u sep = (x, y, True) \<Longrightarrow> length sep \<le> length u" for u x y
        using Cons.prems(2) by (induction u arbitrary: x) (auto simp: HasPrefix_iff split: if_splits prod.splits dest!: arg_cong[where f = length])
      with b'(1) show ?thesis by blast
    qed
    then have "take (length sep) (c # s @ t) = take (length sep) (c # s)" by (cases "length sep") simp_all
    then have "\<not> HasPrefix (c # s @ t) sep" using False by (simp add: HasPrefix_def)
    with Cons.IH[OF b'(1) Cons.prems(2)] b'(2) show ?thesis by simp
  qed
qed simp

text \<open>How the bytes are cut into chunks does not matter.\<close>

lemma cut_events_append:
  "cut_events (a @ b) =
     (case cut_events a of (chunks, left) \<Rightarrow> (case cut_events (left @ b) of (chunks', left') \<Rightarrow> (chunks @ chunks', left')))"
proof (induction a rule: cut_events.induct)
  case (1 a)
  let ?sep = "[CHR 0x0A, CHR 0x0A]"
  obtain chunk rest found where cut: "Cut a ?sep = (chunk, rest, found)" by (cases "Cut a ?sep")
  show ?case
  proof (cases found)
    case False
    with cut show ?thesis by (simp add: cut_events.simps[of a] split: prod.split)
  next
    case True
    have "Cut (a @ b) ?sep = (chunk, rest @ b, True)" using cut True by (intro Cut_found_append) auto
    then show ?thesis
      using 1[OF cut[symmetric] refl] cut True
      by (simp add: cut_events.simps[of a] cut_events.simps[of "a @ b"] split: prod.split)
  qed
qed

text \<open>A frame as \<open>handleLiveStream\<close> writes it: a sample, or the ping that keeps it open.\<close>

definition live_frame :: "(metrics_sample \<Rightarrow> string) \<Rightarrow> metrics_sample option \<Rightarrow> string" where
  "live_frame encode item =
     (case item of
        Some s \<Rightarrow> ''data: '' @ encode s @ [CHR 0x0A, CHR 0x0A]
      | None \<Rightarrow> '': ping'' @ [CHR 0x0A, CHR 0x0A])"

lemma Cut_first_newline:
  "CHR 0x0A \<notin> set chunk \<Longrightarrow> Cut (chunk @ [CHR 0x0A, CHR 0x0A] @ rest) [CHR 0x0A, CHR 0x0A] = (chunk, rest, True)"
  by (induction chunk) (auto simp: HasPrefix_def)

definition frame_body :: "(metrics_sample \<Rightarrow> string) \<Rightarrow> metrics_sample option \<Rightarrow> string" where
  "frame_body encode item = (case item of Some s \<Rightarrow> ''data: '' @ encode s | None \<Rightarrow> '': ping'')"

lemma cut_frames:
  "(\<And>s. Some s \<in> set items \<Longrightarrow> CHR 0x0A \<notin> set (encode s)) \<Longrightarrow>
   cut_events (concat (map (live_frame encode) items)) = (map (frame_body encode) items, [])"
proof (induction items)
  case Nil
  then show ?case by (simp add: cut_events.simps)
next
  case (Cons x items)
  have form: "live_frame encode x = frame_body encode x @ [CHR 0x0A, CHR 0x0A]"
    by (simp add: live_frame_def frame_body_def split: option.split)
  have "CHR 0x0A \<notin> set (frame_body encode x)"
    using Cons.prems by (auto simp: frame_body_def split: option.split)
  from Cut_first_newline[OF this] show ?case
    using Cons by (simp add: form cut_events.simps[of "frame_body encode x @ _"])
qed

text \<open>The page shows machine \<open>i\<close>, and its stream is open with the unfinished text \<open>buf\<close>.\<close>

definition streams :: "string \<Rightarrow> string \<Rightarrow> page \<Rightarrow> bool" where
  "streams i buf pg \<longleftrightarrow> pg_Selected pg = Some i \<and> pg_Streaming pg \<and> (\<exists>f. pg_Ctrl pg = Some f \<and> sf_Open f \<and> sf_Buf f = buf)"

lemma streams_same:
  "pg_Selected pg' = pg_Selected pg \<Longrightarrow> pg_Streaming pg' = pg_Streaming pg \<Longrightarrow> pg_Ctrl pg' = pg_Ctrl pg \<Longrightarrow>
   streams i buf pg' = streams i buf pg"
  by (simp add: streams_def)

lemma ingest_fields:
  "pg_Selected (ingest j s b pg) = pg_Selected pg" "pg_Streaming (ingest j s b pg) = pg_Streaming pg"
  "pg_Ctrl (ingest j s b pg) = pg_Ctrl pg" "pg_Machines (ingest j s b pg) = pg_Machines pg"
  "pg_Live (ingest j s b pg) = pg_Live pg" "pg_PrevUp (ingest j s b pg) = pg_PrevUp pg"
  "pg_Banners (ingest j s b pg) = pg_Banners pg"
  by (simp_all add: ingest_def histFor_def Let_def)

lemma histFor_fields:
  "pg_Selected (histFor j pg) = pg_Selected pg" "pg_Streaming (histFor j pg) = pg_Streaming pg"
  "pg_Ctrl (histFor j pg) = pg_Ctrl pg" "hist_of (histFor j pg) i = hist_of pg i"
  by (simp_all add: histFor_def hist_of_def)

lemma poll_sample_kept:
  "streams i buf pg \<Longrightarrow> hist_of (ingest j s False pg) i = hist_of pg i"
  by (auto simp: ingest_def streams_def Let_def histFor_fields) (simp_all add: hist_of_def histFor_def)

lemma poll_samples_kept:
  "streams i buf pg \<Longrightarrow>
   streams i buf (fold (\<lambda>(j, s). ingest j s False) xs pg) \<and> hist_of (fold (\<lambda>(j, s). ingest j s False) xs pg) i = hist_of pg i"
proof (induction xs arbitrary: pg)
  case (Cons x xs)
  have "streams i buf (ingest (fst x) (snd x) False pg)"
    using Cons.prems by (subst streams_same[where pg = pg]) (simp_all add: ingest_fields)
  from Cons.IH[OF this] poll_sample_kept[OF Cons.prems] show ?case by (simp add: split_beta)
qed simp

lemma transitions_fields:
  "pg_Selected (fold (transition now) ms pg) = pg_Selected pg" "pg_Streaming (fold (transition now) ms pg) = pg_Streaming pg"
  "pg_Ctrl (fold (transition now) ms pg) = pg_Ctrl pg" "pg_Hist (fold (transition now) ms pg) = pg_Hist pg"
  "pg_Live (fold (transition now) ms pg) = pg_Live pg"
  by (induction ms arbitrary: pg) (simp_all add: transition_def raise_banner_def Let_def)

lemma poll_kept:
  assumes "streams i buf pg"
  shows "streams i buf (refresh_answered by_name now machines live pg) \<and>
    hist_of (refresh_answered by_name now machines live pg) i = hist_of pg i"
proof -
  let ?pg0 = "pg\<lparr>pg_Machines := machines, pg_Live := live, pg_Status := []\<rparr>"
  let ?pg1 = "ingest_all live ?pg0"
  let ?pg3 = "(detectTransitions now ?pg1)\<lparr>pg_Health := renderHealth now live machines\<rparr>"
  have "streams i buf ?pg0" "hist_of ?pg0 i = hist_of pg i" using assms by (simp_all add: streams_def hist_of_def)
  then have one: "streams i buf ?pg1" "hist_of ?pg1 i = hist_of pg i"
    using poll_samples_kept[of i buf ?pg0] by (simp_all add: ingest_all_def)
  have three: "streams i buf ?pg3" "hist_of ?pg3 i = hist_of pg i"
    using one by (simp_all add: streams_def detectTransitions_def transitions_fields hist_of_def)
  have "refresh_answered by_name now machines live pg = ?pg3"
    using three(1) by (simp add: refresh_answered_def Let_def streams_def split: option.split)
  with three show ?thesis by simp
qed

text \<open>What an event of the stream does to the history on show.\<close>

definition chart :: "metrics_sample \<Rightarrow> history \<Rightarrow> history" where
  "chart s h = (if mt_AtUnix s = 0 then h else record_sample s h)"

definition chart_event :: "(string \<Rightarrow> metrics_sample option) \<Rightarrow> string \<Rightarrow> history \<Rightarrow> history" where
  "chart_event parse chunk h =
     (if HasPrefix chunk ''data: '' then (case parse (drop 6 chunk) of None \<Rightarrow> h | Some s \<Rightarrow> chart s h) else h)"

lemma render_event_charts:
  assumes "streams i buf pg"
  shows "streams i buf (render_event parse chunk pg) \<and> hist_of (render_event parse chunk pg) i = chart_event parse chunk (hist_of pg i)"
proof -
  have sel: "pg_Selected pg = Some i" using assms by (simp add: streams_def)
  have "hist_of (ingest i s True pg) i = chart s (hist_of pg i)" for s
    by (simp add: ingest_def chart_def Let_def) (simp add: hist_of_def)
  moreover have "streams i buf (redraw (Some s) (ingest i s True pg)) = streams i buf pg" for s
    by (rule streams_same) (simp_all add: redraw_def ingest_fields histFor_fields split: option.split)
  ultimately show ?thesis
    using assms
    by (auto simp: render_event_def chart_event_def render_def sel redraw_def ingest_fields histFor_fields split: option.split)
qed

lemma render_events_chart:
  "streams i buf pg \<Longrightarrow>
   streams i buf (fold (render_event parse) chunks pg) \<and>
   hist_of (fold (render_event parse) chunks pg) i = fold (chart_event parse) chunks (hist_of pg i)"
  by (induction chunks arbitrary: pg) (auto simp: render_event_charts)

lemma chunk_charts:
  assumes "streams i buf pg" and "cut_events (buf @ bytes) = (chunks, rest)"
  shows "streams i rest (stream_chunk parse bytes pg) \<and>
    hist_of (stream_chunk parse bytes pg) i = fold (chart_event parse) chunks (hist_of pg i)"
proof -
  obtain f where f: "pg_Ctrl pg = Some f" "sf_Open f" "sf_Buf f = buf" using assms(1) by (auto simp: streams_def)
  have "streams i rest (pg\<lparr>pg_Ctrl := Some (f\<lparr>sf_Buf := rest\<rparr>)\<rparr>)" using assms(1) f by (simp add: streams_def)
  from render_events_chart[OF this, of parse chunks] show ?thesis
    using f assms(2) by (simp add: stream_chunk_def hist_of_def)
qed

text \<open>Polls and pieces of the stream, in any order.\<close>

definition bytes_in :: "page_event \<Rightarrow> string" where
  "bytes_in ev = (case ev of StreamBytes b \<Rightarrow> b | _ \<Rightarrow> [])"

definition watching :: "page_event \<Rightarrow> bool" where
  "watching ev \<longleftrightarrow> (case ev of StreamBytes b \<Rightarrow> True | PollAnswered _ _ _ \<Rightarrow> True | _ \<Rightarrow> False)"

lemma cut_events_rest: "cut_events s = (chunks, left) \<Longrightarrow> cut_events left = ([], left)"
proof (induction s arbitrary: chunks rule: cut_events.induct)
  case (1 s)
  obtain chunk rest found where cut: "Cut s [CHR 0x0A, CHR 0x0A] = (chunk, rest, found)"
    by (cases "Cut s [CHR 0x0A, CHR 0x0A]")
  show ?case
  proof (cases found)
    case False
    with 1(2) cut have "left = s" by (simp add: cut_events.simps[of s])
    with False cut show ?thesis by (simp add: cut_events.simps[of s])
  next
    case True
    with 1 cut show ?thesis by (simp add: cut_events.simps[of s] split: prod.splits)
  qed
qed

lemma watched_run:
  assumes "streams i buf pg" and "cut_events buf = ([], buf)" and "list_all watching evs"
    and "cut_events (buf @ concat (map bytes_in evs)) = (chunks, rest)"
  shows "streams i rest (page_run by_name parse evs pg) \<and>
    hist_of (page_run by_name parse evs pg) i = fold (chart_event parse) chunks (hist_of pg i)"
  using assms
proof (induction evs arbitrary: pg buf chunks)
  case Nil
  then show ?case by (simp add: page_run_def)
next
  case (Cons ev evs)
  show ?case
  proof (cases ev)
    case (StreamBytes b)
    obtain c1 l1 where one: "cut_events (buf @ b) = (c1, l1)" by fastforce
    have "bytes_in ev = b" by (simp add: StreamBytes bytes_in_def)
    then obtain c2 where two: "cut_events (l1 @ concat (map bytes_in evs)) = (c2, rest)" "chunks = c1 @ c2"
      using Cons.prems(4) cut_events_append[of "buf @ b" "concat (map bytes_in evs)"]
      by (auto simp: one split: prod.splits)
    from chunk_charts[OF Cons.prems(1) one] Cons.IH[OF _ cut_events_rest[OF one] _ two(1), of "stream_chunk parse b pg"]
    show ?thesis using Cons.prems(3) by (simp add: page_run_def page_step_def StreamBytes two(2))
  next
    case (PollAnswered now machines live)
    with poll_kept[OF Cons.prems(1), of by_name now machines live]
      Cons.IH[of buf "refresh_answered by_name now machines live pg" chunks] Cons.prems
    show ?thesis by (simp add: page_run_def page_step_def bytes_in_def)
  qed (use Cons.prems(3) in \<open>simp_all add: watching_def\<close>)
qed


definition watching_page :: page where
  "watching_page = stream_answered (openDetail ''m'' fresh_page)"

definition two_pieces :: "page_event list" where
  "two_pieces =
     [StreamBytes (''dat''), polled 100, StreamBytes (''a: x'' @ [CHR 0x0A]),
      StreamBytes ([CHR 0x0A] @ '': ping'' @ [CHR 0x0A, CHR 0x0A])]"


end
