(* ===== verification/Dashboard_Overview.thy ===== *)
theory Dashboard_Overview
  imports Dashboard_Charts Sample_Run
begin

text \<open>
  Properties of the dashboard's overview: banners follow the machines that go down and
  come back, the grid has a card for each machine the filter lets through; and where
  the page shows something else than it means to.
\<close>

section \<open>Banners\<close>

definition changed_machines :: "real \<Rightarrow> metrics_sample gomap \<Rightarrow> machine list \<Rightarrow> bool gomap \<Rightarrow> (string \<times> bool) set" where
  "changed_machines now live ms before =
     {(m_ID m, isUp now live m) | m. m \<in> set ms \<and> fmlookup before (m_ID m) = Some (\<not> isUp now live m)}"

lemma changed_machines_Cons:
  "changed_machines now live (m # ms) before =
     (if fmlookup before (m_ID m) = Some (\<not> isUp now live m) then {(m_ID m, isUp now live m)} else {}) \<union>
     changed_machines now live ms before"
  by (auto simp: changed_machines_def)

lemma transitions_raise:
  assumes "distinct (map m_ID ms)" and "pg_Live pg = live"
  shows "\<exists>new. pg_Banners (fold (transition now) ms pg) = new @ pg_Banners pg \<and> distinct (map fst new) \<and>
    set new = changed_machines now live ms (pg_PrevUp pg) \<and>
    (\<forall>m\<in>set ms. fmlookup (pg_PrevUp (fold (transition now) ms pg)) (m_ID m) = Some (isUp now live m)) \<and>
    (\<forall>i. i \<notin> m_ID ` set ms \<longrightarrow> fmlookup (pg_PrevUp (fold (transition now) ms pg)) i = fmlookup (pg_PrevUp pg) i)"
  using assms
proof (induction ms arbitrary: pg)
  case Nil
  then show ?case by (simp add: changed_machines_def)
next
  case (Cons m ms)
  let ?pg = "transition now m pg" and ?up = "isUp now live m"
  have pg: "pg_Live ?pg = live" "pg_PrevUp ?pg = fmupd (m_ID m) ?up (pg_PrevUp pg)"
    "pg_Banners ?pg = (if fmlookup (pg_PrevUp pg) (m_ID m) = Some (\<not> ?up) then [(m_ID m, ?up)] else []) @ pg_Banners pg"
    using Cons.prems by (auto simp: transition_def raise_banner_def Let_def)
  have other: "m_ID x \<noteq> m_ID m" if "x \<in> set ms" for x using Cons.prems(1) imageI[OF that, of m_ID] by auto
  from Cons.IH[of ?pg] Cons.prems pg(1) obtain new where new:
    "pg_Banners (fold (transition now) ms ?pg) = new @ pg_Banners ?pg" "distinct (map fst new)"
    "set new = changed_machines now live ms (pg_PrevUp ?pg)"
    "\<forall>m\<in>set ms. fmlookup (pg_PrevUp (fold (transition now) ms ?pg)) (m_ID m) = Some (isUp now live m)"
    "\<forall>i. i \<notin> m_ID ` set ms \<longrightarrow> fmlookup (pg_PrevUp (fold (transition now) ms ?pg)) i = fmlookup (pg_PrevUp ?pg) i"
    by auto
  have same: "changed_machines now live ms (pg_PrevUp ?pg) = changed_machines now live ms (pg_PrevUp pg)"
  proof -
    have keep: "fmlookup (pg_PrevUp ?pg) (m_ID x) = fmlookup (pg_PrevUp pg) (m_ID x)" if "x \<in> set ms" for x
      using other[OF that] by (simp add: pg(2))
    show ?thesis unfolding changed_machines_def by (intro Collect_cong) (metis keep)
  qed
  let ?new = "new @ (if fmlookup (pg_PrevUp pg) (m_ID m) = Some (\<not> ?up) then [(m_ID m, ?up)] else [])"
  have set_new: "set new = changed_machines now live ms (pg_PrevUp pg)" using new(3) same by (rule trans)
  have "m_ID m \<notin> fst ` set new" using other unfolding set_new changed_machines_def by force
  moreover have "set ?new = changed_machines now live (m # ms) (pg_PrevUp pg)"
    by (simp add: set_new changed_machines_Cons)
  moreover have "m_ID m \<notin> m_ID ` set ms" using Cons.prems(1) by simp
  ultimately show ?case
    using new pg by (intro exI[of _ ?new]) (auto simp: pg(2))
qed

lemma renderOverview_fields:
  "pg_Banners (renderOverview by_name pg) = pg_Banners pg" "pg_PrevUp (renderOverview by_name pg) = pg_PrevUp pg"
  "pg_Machines (renderOverview by_name pg) = pg_Machines pg" "pg_Filter (renderOverview by_name pg) = pg_Filter pg"
  by (simp_all add: renderOverview_def Let_def drop_card_def add_card_def fold_keeps[of pg_Banners] fold_keeps[of pg_PrevUp]
      fold_keeps[of pg_Machines] fold_keeps[of pg_Filter])

lemma render_fields:
  "pg_Banners (render s b pg) = pg_Banners pg" "pg_PrevUp (render s b pg) = pg_PrevUp pg"
  by (auto simp: render_def redraw_def ingest_def histFor_def Let_def split: option.split)

lemma ingest_all_fields:
  "pg_Banners (ingest_all live pg) = pg_Banners pg" "pg_PrevUp (ingest_all live pg) = pg_PrevUp pg"
  "pg_Machines (ingest_all live pg) = pg_Machines pg" "pg_Live (ingest_all live pg) = pg_Live pg"
  unfolding ingest_all_def
  by (simp_all add: fold_keeps[of pg_Banners] fold_keeps[of pg_PrevUp] fold_keeps[of pg_Machines] fold_keeps[of pg_Live]
      ingest_fields split_beta)

text \<open>
  C37: A machine that goes down or comes back raises a banner, in whichever view: a poll adds
  one banner for each listed machine whose state is not the one it had when it was last
  listed, and no other; the banners before stay, and the new states are noted.
\<close>

theorem polls_raise_banners:
  assumes "distinct (map m_ID machines)"
  shows "\<exists>new. pg_Banners (refresh_answered by_name now machines live pg) = new @ pg_Banners pg \<and> distinct (map fst new) \<and>
    set new = changed_machines now live machines (pg_PrevUp pg) \<and>
    (\<forall>m\<in>set machines. fmlookup (pg_PrevUp (refresh_answered by_name now machines live pg)) (m_ID m) = Some (isUp now live m))"
proof -
  let ?pg1 = "ingest_all live (pg\<lparr>pg_Machines := machines, pg_Live := live, pg_Status := []\<rparr>)"
  have "pg_Live ?pg1 = live" "pg_Banners ?pg1 = pg_Banners pg" "pg_PrevUp ?pg1 = pg_PrevUp pg" "pg_Machines ?pg1 = machines"
    by (simp_all add: ingest_all_fields)
  with transitions_raise[OF assms, of ?pg1 live now] show ?thesis
    by (auto simp: refresh_answered_def detectTransitions_def Let_def renderOverview_fields render_fields histFor_def
        split: option.split)
qed

text \<open>A machine that was seen at 100 and is polled at 110 and at 300.\<close>

definition seen_machine :: "string \<Rightarrow> machine" where
  "seen_machine i =
     \<lparr>m_ID = i, m_TenantID = ''t'', m_Name = i, m_Labels = fmempty, m_Enrolled = 100, m_LastSeen = 100,
      m_Inventory = zero_inventory, m_Override = [], m_Desired = zero_desired, m_Status = []\<rparr>"

definition poll_at :: "real \<Rightarrow> string list \<Rightarrow> page_event" where
  "poll_at t ids = PollAnswered t (map seen_machine ids) fmempty"

lemma polls_raise_banners_witness:
  "distinct (map m_ID [seen_machine ''m'']) \<and>
   (\<exists>new. pg_Banners (refresh_answered (\<lambda>ms. ms) 300 [seen_machine ''m''] fmempty (fresh_page\<lparr>pg_PrevUp := fmap_of_list [(''m'', True)]\<rparr>))
       = new \<and> set new = {(''m'', False)})"
proof -
  have "changed_machines 300 fmempty [seen_machine ''m''] (fmap_of_list [(''m'', True)]) = {(''m'', False)}"
    by (auto simp: changed_machines_def seen_machine_def isUp_def last_seen_def down_after_def fmlookup_of_list)
  then show ?thesis
    using polls_raise_banners[of "[seen_machine ''m'']" "\<lambda>ms. ms" 300 fmempty "fresh_page\<lparr>pg_PrevUp := fmap_of_list [(''m'', True)]\<rparr>"]
    by (simp add: fresh_page_def)
qed

section \<open>The grid\<close>

fun cards_in :: "grid_item list \<Rightarrow> string list" where
  "cards_in [] = []"
| "cards_in (NoMachines # gs) = cards_in gs"
| "cards_in (Card i # gs) = i # cards_in gs"

lemma cards_in_append: "cards_in (xs @ ys) = cards_in xs @ cards_in ys"
  by (induction xs rule: cards_in.induct) auto

lemma cards_in_filter: "cards_in (filter (\<lambda>g. g \<noteq> Card i) gs) = filter (\<lambda>c. c \<noteq> i) (cards_in gs)"
  by (induction gs rule: cards_in.induct) auto

text \<open>The cards that are kept are those on the page.\<close>

definition cards_kept :: "page \<Rightarrow> bool" where
  "cards_kept pg \<longleftrightarrow> cards_in (pg_Grid pg) = pg_Cards pg \<and> distinct (pg_Cards pg)"

lemma add_cards_kept:
  "cards_kept pg \<Longrightarrow> cards_kept (fold add_card ms pg) \<and> set (pg_Cards (fold add_card ms pg)) = set (pg_Cards pg) \<union> m_ID ` set ms"
proof (induction ms arbitrary: pg)
  case (Cons m ms)
  have "cards_kept (add_card m pg)" "set (pg_Cards (add_card m pg)) = insert (m_ID m) (set (pg_Cards pg))"
    using Cons.prems by (auto simp: cards_kept_def add_card_def cards_in_append)
  with Cons.IH[of "add_card m pg"] show ?case by auto
qed simp

lemma drop_card_kept:
  "cards_kept pg \<Longrightarrow> cards_kept (drop_card i pg) \<and> set (pg_Cards (drop_card i pg)) = set (pg_Cards pg) - {i}"
  by (auto simp: cards_kept_def drop_card_def cards_in_filter)

lemma drop_cards_kept:
  "cards_kept pg \<Longrightarrow> cards_kept (fold drop_card is pg) \<and> set (pg_Cards (fold drop_card is pg)) = set (pg_Cards pg) - set is"
proof (induction "is" arbitrary: pg)
  case (Cons i "is")
  from drop_card_kept[OF Cons.prems, of i] Cons.IH[of "drop_card i pg"] show ?case by auto
qed simp

lemma renderOverview_cards:
  assumes "cards_kept pg" and "\<And>ms. set (by_name ms) = set ms"
  shows "cards_kept (renderOverview by_name pg) \<and>
    (pg_Machines pg \<noteq> [] \<longrightarrow> set (pg_Cards (renderOverview by_name pg)) = m_ID ` set (shown pg))"
proof (cases "pg_Machines pg = []")
  case True
  then show ?thesis by (simp add: renderOverview_def cards_kept_def)
next
  case False
  let ?pg1 = "fold add_card (by_name (shown pg)) pg"
  have one: "cards_kept ?pg1" "set (pg_Cards ?pg1) = set (pg_Cards pg) \<union> m_ID ` set (shown pg)"
    using add_cards_kept[OF assms(1)] assms(2) by auto
  from drop_cards_kept[OF one(1), of "filter (\<lambda>i. i \<notin> m_ID ` set (shown pg)) (pg_Cards ?pg1)"] show ?thesis
    using False one(2) by (auto simp: renderOverview_def Let_def)
qed

lemma cards_kept_same:
  "pg_Grid pg' = pg_Grid pg \<Longrightarrow> pg_Cards pg' = pg_Cards pg \<Longrightarrow> cards_kept pg \<Longrightarrow> cards_kept pg'"
  by (simp add: cards_kept_def)

lemma grid_fields:
  "pg_Grid (ingest i s b pg) = pg_Grid pg" "pg_Cards (ingest i s b pg) = pg_Cards pg"
  "pg_Grid (render s' b pg) = pg_Grid pg" "pg_Cards (render s' b pg) = pg_Cards pg"
  "pg_Grid (render_event parse chunk pg) = pg_Grid pg" "pg_Cards (render_event parse chunk pg) = pg_Cards pg"
  "pg_Grid (transition now m pg) = pg_Grid pg" "pg_Cards (transition now m pg) = pg_Cards pg"
  "pg_Grid (histFor i pg) = pg_Grid pg" "pg_Cards (histFor i pg) = pg_Cards pg"
  "pg_Grid (redraw s' pg) = pg_Grid pg" "pg_Cards (redraw s' pg) = pg_Cards pg"
  by (auto simp: render_event_def render_def redraw_def ingest_def histFor_def transition_def raise_banner_def Let_def
      split: option.split)

lemma poll_grid:
  "pg_Grid (ingest_all live pg) = pg_Grid pg" "pg_Cards (ingest_all live pg) = pg_Cards pg"
  "pg_Grid (detectTransitions now pg) = pg_Grid pg" "pg_Cards (detectTransitions now pg) = pg_Cards pg"
  "pg_Grid (fold (render_event parse) chunks pg) = pg_Grid pg" "pg_Cards (fold (render_event parse) chunks pg) = pg_Cards pg"
  unfolding ingest_all_def detectTransitions_def
  by (simp_all add: fold_keeps[of pg_Grid] fold_keeps[of pg_Cards] grid_fields split_beta)

lemma closeDetail_kept:
  assumes "cards_kept pg" and "\<And>ms. set (by_name ms) = set ms"
  shows "cards_kept (closeDetail by_name pg)"
proof -
  let ?pg = "pg\<lparr>pg_Selected := None, pg_Streaming := False, pg_Ctrl := None, pg_View := Overview\<rparr>"
  have "cards_kept ?pg" using assms(1) by (simp add: cards_kept_def)
  from renderOverview_cards[OF this assms(2)] show ?thesis unfolding closeDetail_def by blast
qed

lemma quiet_grid_step:
  "(case ev of PollAnswered _ _ _ \<Rightarrow> False | MachineRemoved _ \<Rightarrow> False | BackClicked \<Rightarrow> False | FilterTyped _ \<Rightarrow> False | _ \<Rightarrow> True) \<Longrightarrow>
   pg_Grid (page_step by_name parse ev pg) = pg_Grid pg \<and> pg_Cards (page_step by_name parse ev pg) = pg_Cards pg"
  by (cases ev)
    (simp_all add: page_step_def refresh_failed_def disconnect_def stream_answered_def stream_chunk_def stream_done_def
      reconnect_def startStream_def openDetail_def click_remove_def groups_answered_def commands_answered_def connect_def
      theme_click_def Let_def grid_fields poll_grid split: option.split prod.split)

lemma step_cards_kept:
  assumes "cards_kept pg" and "\<And>ms. set (by_name ms) = set ms"
  shows "cards_kept (page_step by_name parse ev pg)"
proof -
  have view: "cards_kept (renderOverview by_name pg')" if "pg_Grid pg' = pg_Grid pg" "pg_Cards pg' = pg_Cards pg" for pg'
    using renderOverview_cards[OF cards_kept_same[OF that assms(1)], of by_name] assms(2) by blast
  have same: "cards_kept pg'" if "pg_Grid pg' = pg_Grid pg" "pg_Cards pg' = pg_Cards pg" for pg'
    using cards_kept_same[OF that assms(1)] .
  show ?thesis
  proof (cases ev)
    case (PollAnswered now machines live)
    let ?pg3 = "(detectTransitions now (ingest_all live (pg\<lparr>pg_Machines := machines, pg_Live := live, pg_Status := []\<rparr>)))
      \<lparr>pg_Health := renderHealth now live machines\<rparr>"
    have "cards_kept (renderOverview by_name ?pg3)" by (rule view) (simp_all add: poll_grid)
    moreover have "cards_kept ?pg3" "cards_kept (render s b (histFor i ?pg3))" for s b i
      by (rule same; simp add: poll_grid grid_fields)+
    ultimately show ?thesis
      unfolding page_step_def PollAnswered page_event.case refresh_answered_def Let_def
      by (simp split: option.split)
  next
    case (MachineRemoved i)
    let ?pg = "(drop_card i (pg\<lparr>pg_Hist := fmdrop i (pg_Hist pg)\<rparr>))\<lparr>pg_PrevUp := fmdrop i (pg_PrevUp pg)\<rparr>"
    have "cards_kept (pg\<lparr>pg_Hist := fmdrop i (pg_Hist pg)\<rparr>)" by (rule same) simp_all
    from drop_card_kept[OF this, of i] have "cards_kept (drop_card i (pg\<lparr>pg_Hist := fmdrop i (pg_Hist pg)\<rparr>))" ..
    then have dropped: "cards_kept ?pg" by (simp add: cards_kept_def)
    have "cards_kept (closeDetail by_name ?pg)" by (rule closeDetail_kept[OF dropped assms(2)])
    with dropped show ?thesis
      unfolding page_step_def MachineRemoved page_event.case machine_removed_def Let_def
      by (simp add: drop_card_def)
  next
    case BackClicked
    show ?thesis unfolding page_step_def BackClicked page_event.case closeDetail_def by (rule view) simp_all
  next
    case (FilterTyped t)
    show ?thesis unfolding page_step_def FilterTyped page_event.case set_filter_def by (rule view) simp_all
  qed (simp_all add: same quiet_grid_step)
qed

lemma run_cards_kept:
  "cards_kept pg \<Longrightarrow> (\<And>ms. set (by_name ms) = set ms) \<Longrightarrow> cards_kept (page_run by_name parse evs pg)"
  unfolding page_run_def by (induction evs arbitrary: pg) (auto intro: step_cards_kept)

lemma boot_cards_kept: "cards_kept (boot now theme stored token)"
  by (simp add: boot_def connect_def loadHist_def fresh_page_def cards_kept_def Let_def split: option.split)

lemma poll_fields:
  "pg_Machines (refresh_answered by_name now machines live pg) = machines"
  "pg_Filter (refresh_answered by_name now machines live pg) = pg_Filter pg"
proof -
  have t: "pg_Machines (fold (transition now) ms q) = pg_Machines q" "pg_Filter (fold (transition now) ms q) = pg_Filter q" for ms q
    by (rule fold_keeps; simp add: transition_def raise_banner_def Let_def)+
  have i: "pg_Filter (ingest_all live q) = pg_Filter q" for q
    unfolding ingest_all_def by (rule fold_keeps) (simp add: ingest_def histFor_def Let_def split_beta)
  have r: "pg_Machines (render s b q) = pg_Machines q" "pg_Filter (render s b q) = pg_Filter q" for s b q
    by (auto simp: render_def redraw_def ingest_def histFor_def Let_def split: option.split)
  show "pg_Machines (refresh_answered by_name now machines live pg) = machines"
    "pg_Filter (refresh_answered by_name now machines live pg) = pg_Filter pg"
    by (simp_all add: refresh_answered_def detectTransitions_def Let_def renderOverview_fields ingest_all_fields r i t histFor_def
        split: option.split)
qed



section \<open>Where the page shows something else\<close>

text \<open>
  The first frame of a stream is the newest sample, which a poll may have recorded before:
  then it is in the charts twice. (The comment on the histories says that the two sources
  cannot count a reading twice.)
\<close>

theorem first_frame_counts_twice:
  "hi_At (hist_of (page_run (\<lambda>ms. ms) (\<lambda>_. Some (sample_at 100))
      [polled 100, CardClicked ''m'', StreamAnswered, StreamBytes (live_frame (\<lambda>_. ''x'') (Some (sample_at 100)))]
      (boot 99 [] None ''k'')) ''m'') = [100, 100]"
  by code_simp

text \<open>
  The message for an empty fleet stays in the grid, above the cards, when the first machine
  enrolls while the page is open.
\<close>

theorem empty_message_stays:
  "pg_Grid (page_run (\<lambda>ms. ms) (\<lambda>_. None) [poll_at 110 [], poll_at 112 [''a'']] (boot 0 [] None ''k'')) =
     [NoMachines, Card ''a'']"
  by code_simp

text \<open>
  Cards are sorted by name only among those made at the same time: after a filter was typed
  and cleared, the cards that come back are at the end.
\<close>

theorem cleared_filter_scrambles_grid:
  "pg_Grid (page_run (\<lambda>ms. ms) (\<lambda>_. None) [poll_at 110 [''a'', ''b''], FilterTyped ''b'', FilterTyped []] (boot 0 [] None ''k'')) =
     [Card ''b'', Card ''a'']"
  by code_simp

text \<open>
  A click on the button that removes a machine opens the machine first, and so the card of
  a removed machine is drawn again from the machines listed before, until the next poll.
\<close>

theorem removed_card_returns:
  "pg_Grid (page_run (\<lambda>ms. ms) (\<lambda>_. None) [poll_at 110 [''a'', ''b''], RemoveClicked ''a'', MachineRemoved ''a''] (boot 0 [] None ''k'')) =
     [Card ''b'', Card ''a'']"
  by code_simp

text \<open>
  A machine whose clock is ahead is shown as up after it has stopped: a sample with a
  time in the future is fresh until that time has come. Here the machine pushes one sample
  at second 101, by its clock at 9000, and is silent from then on.
\<close>

theorem fast_clock_hides_outage:
  "case handleMetricsPush inproc_ops (Some (sample_at 9000)) \<lparr>idn_MachineID = ''m'', idn_TenantID = ''t''\<rparr> plane5 of
     (r, w) \<Rightarrow>
       (case fst (handleLiveAll file_ops (8900 * 10 ^ 9) ''t'' w) of
          Json live \<Rightarrow>
            (case fmlookup (fd_Machines (fs_data (w_store w))) ''m'' of
               None \<Rightarrow> False
             | Some m \<Rightarrow> m_LastSeen m = 101 \<and> isUp 8900 live m)
        | _ \<Rightarrow> False)"
  by code_simp

end
