(* ===== verification/Dashboard_Cards.thy ===== *)
theory Dashboard_Cards
  imports Dashboard_Overview Request_Routing
begin

text \<open>
  The cards of the overview, the charts and the requests of the buttons
  (\<open>internal/server/dashboard.go\<close>, the script). A canvas is the list of the points a line is
  drawn through; colours and grid lines are left out.
\<close>

section \<open>Cards\<close>

definition barRow :: "string \<Rightarrow> string" where
  "barRow label =
     elem ''div'' [(''class'', ''brow'')]
       (elem ''span'' [(''class'', ''blabel'')] label @
        elem ''span'' [(''class'', ''btrack'')] (elem ''span'' [(''class'', ''bfill'')] []) @
        elem ''span'' [(''class'', ''bval'')] [])"

definition machineCard :: string where
  "machineCard =
     elem ''div'' [(''class'', ''mhead'')]
       (elem ''span'' [(''class'', ''dot'')] [] @ elem ''span'' [(''class'', ''mname'')] [] @
        elem ''span'' [(''class'', ''mseen'')] [] @
        elem ''button'' [(''class'', ''ghost mrm''), (''title'', ''Remove this machine from the fleet'')] ''Remove'') @
     elem ''div'' [(''class'', ''mip'')] [] @ elem ''div'' [(''class'', ''msub'')] [] @
     elem ''div'' [(''class'', ''bars'')] (barRow ''cpu'' @ barRow ''mem'' @ barRow ''disk'') @
     elem ''div'' [(''class'', ''nodata hidden'')] [] @
     elem ''canvas'' [(''class'', ''spark'')] [] @ elem ''div'' [(''class'', ''chips'')] []"

record bar =
  br_Percent :: real
  br_Width :: string
  br_Color :: string
  br_Text :: string

definition setBar :: "real \<Rightarrow> string \<Rightarrow> bar" where
  "setBar pct text =
     (let p = max 0 (min 100 pct)
      in \<lparr>br_Percent = p, br_Width = toFixed1 p @ ''%'', br_Color = barColor p, br_Text = text\<rparr>)"

text \<open>
  What a card shows. The bars are hidden without a sample, the message with one; the chips of
  the labels are built again only when their signature has changed.
\<close>

record card =
  cd_Class :: string
  cd_Dot :: string
  cd_Name :: string
  cd_Seen :: "string \<times> string"
  cd_IP :: string
  cd_Sub :: string
  cd_Bars :: "bar list option"
  cd_None :: "string option"
  cd_Sig :: "string option"
  cd_Chips :: string

definition card_sub :: "inventory \<Rightarrow> string" where
  "card_sub iv =
     or_else (inv_OS iv) ''?'' @ '' '' @ inv_OSVersion iv @ middle_dot @ or_else (inv_Arch iv) ''?'' @
     (if inv_CPUCores iv = 0 then [] else middle_dot @ show_int (sint (inv_CPUCores iv)) @ '' cores'') @
     (if inv_UptimeSec iv = 0 then [] else middle_dot @ ''up '' @ fmtUp (real_of_int (sint (inv_UptimeSec iv)))) @
     (if inv_Kubernetes iv = [] then [] else middle_dot @ ''k8s '' @ inv_Kubernetes iv)"

definition percent_of :: "uint64 \<Rightarrow> uint64 \<Rightarrow> real" where
  "percent_of used all = (if all = 0 then 0 else 100 * bytes_of used / bytes_of all)"

definition card_bars :: "metrics_sample \<Rightarrow> bar list" where
  "card_bars s =
     (let disk = percent_of (mt_DiskUsed s) (mt_DiskTotal s)
      in [setBar (mt_CPUPercent s) (toFixed1 (mt_CPUPercent s) @ ''%''),
          setBar (percent_of (mt_MemUsed s) (mt_MemTotal s)) (fmtB (bytes_of (mt_MemUsed s)) @ ''/'' @ fmtB (bytes_of (mt_MemTotal s))),
          setBar disk (show_int (js_round disk) @ ''% of '' @ fmtB (bytes_of (mt_DiskTotal s)))])"

definition label_sig :: "string gomap \<Rightarrow> string" where
  "label_sig labels = Join (map (\<lambda>(k, v). k @ ''='' @ v) (sorted_list_of_fmap labels)) '',''"

definition updateCard :: "real \<Rightarrow> metrics_sample gomap \<Rightarrow> machine \<Rightarrow> card \<Rightarrow> card" where
  "updateCard now live m c =
     (let up = isUp now live m; s = fmlookup live (m_ID m); seen = seenLabel now live m;
          sig = label_sig (m_Labels m); same = cd_Sig c = Some sig
      in \<lparr>cd_Class = ''mcard'' @ (if up then [] else '' down''), cd_Dot = ''dot '' @ (if up then ''up'' else ''down''),
          cd_Name = display_name m, cd_Seen = (fst seen, ''mseen'' @ snd seen), cd_IP = card_ip (m_Inventory m),
          cd_Sub = card_sub (m_Inventory m), cd_Bars = map_option card_bars s,
          cd_None = (if s = None then Some (if up then ''no live sample (metrics disabled?)'' else ''not reporting'') else None),
          cd_Sig = Some sig, cd_Chips = (if same then cd_Chips c else label_chips (m_Labels m))\<rparr>)"

text \<open>
  The signature joins pairs with a comma that a value may have too, so the chips of a card can
  stay as they were when the labels change.
\<close>

theorem changed_labels_keep_chips:
  "let before = fmap_of_list [(''a'', ''1,b=2'')]; after = fmap_of_list [(''a'', ''1''), (''b'', ''2'')]
   in label_chips before \<noteq> label_chips after \<and>
     cd_Chips (updateCard now live (m\<lparr>m_Labels := after\<rparr>) (updateCard now' live' (m'\<lparr>m_Labels := before\<rparr>) c)) =
       cd_Chips (updateCard now' live' (m'\<lparr>m_Labels := before\<rparr>) c)"
proof -
  have "label_sig (fmap_of_list [(''a'', ''1,b=2'')]) = label_sig (fmap_of_list [(''a'', ''1''), (''b'', ''2'')])"
    "label_chips (fmap_of_list [(''a'', ''1,b=2'')]) \<noteq> label_chips (fmap_of_list [(''a'', ''1''), (''b'', ''2'')])"
    by code_simp+
  then show ?thesis by (simp add: updateCard_def Let_def)
qed

section \<open>Charts\<close>

text \<open>\<open>w\<close> and \<open>h\<close> are the sizes of the canvas; the fill below the line follows the same points.\<close>

definition drawSpark :: "real \<Rightarrow> real \<Rightarrow> real list \<Rightarrow> (real \<times> real) list" where
  "drawSpark w h data =
     (if length data < 2 then []
      else map (\<lambda>i. (real i * (w / (real (length data) - 1)), h - max 0 (min 100 (data ! i)) / 100 * (h - 3) - 2)) [0..<length data])"

definition draw_line :: "real \<Rightarrow> real \<Rightarrow> real \<Rightarrow> real list \<Rightarrow> (real \<times> real) list" where
  "draw_line w h upper data =
     (if length data < 2 then []
      else map (\<lambda>i. ((real window - real (length data) + real i) * (w / (real window - 1)),
                     h - (if 0 < upper then data ! i / upper else 0) * (h - 6) - 3)) [0..<length data])"

text \<open>The four charts with their scales.\<close>

definition net_scale :: "history \<Rightarrow> real" where
  "net_scale hi = foldr max (hi_Rx hi @ hi_Tx hi) 1024"

definition charts :: "real \<Rightarrow> real \<Rightarrow> metrics_sample \<Rightarrow> history \<Rightarrow> (real \<times> real) list list" where
  "charts w h s hi =
     [draw_line w h 100 (hi_CPU hi), draw_line w h (bytes_of (mt_MemTotal s)) (hi_Mem hi),
      draw_line w h (net_scale hi) (hi_Rx hi), draw_line w h (net_scale hi) (hi_Tx hi),
      draw_line w h (bytes_of (mt_DiskTotal s)) (hi_Disk hi)]"

text \<open>The numbers above the charts and the process list; \<open>number\<close> is the text of a number.\<close>

definition chart_labels :: "(real \<Rightarrow> string) \<Rightarrow> metrics_sample \<Rightarrow> string list" where
  "chart_labels number s =
     [toFixed1 (mt_CPUPercent s) @ ''%'' @ middle_dot @ ''load '' @ number (mt_Load1 s),
      fmtB (bytes_of (mt_MemUsed s)) @ '' / '' @ fmtB (bytes_of (mt_MemTotal s)),
      [CHR 0xE2, CHR 0x86, CHR 0x93] @ fmtB (mt_NetRxBps s) @ ''/s '' @ [CHR 0xE2, CHR 0x86, CHR 0x91] @ fmtB (mt_NetTxBps s) @ ''/s'',
      fmtB (bytes_of (mt_DiskUsed s)) @ '' / '' @ fmtB (bytes_of (mt_DiskTotal s)),
      show_int (if mt_ProcCount s = 0 then int (length (mt_TopProcesses s)) else sint (mt_ProcCount s)) @ '' running'' @
        middle_dot @ fmtB (bytes_of (mt_ProcTotalRSS s)) @ '' resident total'']"

section \<open>Buttons\<close>

definition unreserved :: "char \<Rightarrow> bool" where
  "unreserved c \<longleftrightarrow>
     (let n = of_char c :: nat
      in 48 \<le> n \<and> n \<le> 57 \<or> 65 \<le> n \<and> n \<le> 90 \<or> 97 \<le> n \<and> n \<le> 122) \<or> c \<in> set (''-_.!~*()'' @ [quote])"

definition encodeURIComponent :: "string \<Rightarrow> string" where
  "encodeURIComponent s =
     concat (map (\<lambda>c. if unreserved c then [c]
       else [CHR ''%'', ''0123456789ABCDEF'' ! (of_char c div 16), ''0123456789ABCDEF'' ! (of_char c mod 16)]) s)"

text \<open>The question before a removal, the request after it, and the request that cancels a command.\<close>

definition remove_prompt :: "real \<Rightarrow> metrics_sample gomap \<Rightarrow> machine \<Rightarrow> string" where
  "remove_prompt now live m =
     ''Remove '' @ display_name m @ '' from the fleet?'' @ [CHR 0x0A, CHR 0x0A] @
     ''This deletes its record and revokes its certificate immediately.'' @ [CHR 0x0A] @
     (if isUp now live m
      then ''This machine is still ONLINE - if its agent holds an enrolment token it will re-enrol as a new machine.'' @ [CHR 0x0A]
      else []) @ [CHR 0x0A] @ ''This cannot be undone.''"

definition removeMachine :: "string \<Rightarrow> machine \<Rightarrow> http_request" where
  "removeMachine tok m =
     \<lparr>hq_Method = ''DELETE'', hq_Path = [''admin'', ''machines'', encodeURIComponent (m_ID m)],
      hq_Authorization = ''Bearer '' @ tok, hq_TLS = None\<rparr>"

definition cancel_request :: "string \<Rightarrow> string \<Rightarrow> string \<Rightarrow> http_request \<times> string" where
  "cancel_request tok name selected =
     (\<lparr>hq_Method = ''DELETE'', hq_Path = [''admin'', ''commands'', encodeURIComponent name],
       hq_Authorization = ''Bearer '' @ tok, hq_TLS = None\<rparr>,
      ''target_kind=machine&target_id='' @ encodeURIComponent selected)"

definition api_get :: "string \<Rightarrow> string list \<Rightarrow> http_request" where
  "api_get tok path = \<lparr>hq_Method = ''GET'', hq_Path = path, hq_Authorization = ''Bearer '' @ tok, hq_TLS = None\<rparr>"

definition poll_requests :: "string \<Rightarrow> http_request list" where
  "poll_requests tok = [api_get tok [''admin'', ''machines''], api_get tok [''admin'', ''live'']]"

definition detail_requests :: "string \<Rightarrow> string \<Rightarrow> http_request list" where
  "detail_requests tok i =
     [api_get tok [''admin'', ''machines'', i, ''groups''], api_get tok [''admin'', ''commands''],
      api_get tok [''admin'', ''machines'', i, ''live'']]"

section \<open>What the charts show\<close>

lemma share_of_width:
  fixes k n w :: real
  assumes "0 \<le> k" and "k \<le> n" and "0 < n" and "0 \<le> w"
  shows "0 \<le> k * (w / n) \<and> k * (w / n) \<le> w"
proof -
  have "k / n * w \<le> 1 * w" using assms by (intro mult_right_mono) simp_all
  then show ?thesis using assms by simp
qed

lemma draw_line_across:
  assumes "(x, y) \<in> set (draw_line w h upper data)" and "length data \<le> window" and "0 \<le> w"
  shows "0 \<le> x \<and> x \<le> w"
proof -
  from assms(1) obtain i where i: "i < length data" "x = (real window - real (length data) + real i) * (w / (real window - 1))"
    by (auto simp: draw_line_def split: if_splits)
  define k where "k = real window - real (length data) + real i"
  have k: "0 \<le> k" "k \<le> real window - 1" using i(1) assms(2) by (simp_all add: k_def)
  from share_of_width[OF k _ assms(3)] show ?thesis using i(2) by (simp add: k_def window_def)
qed

lemma draw_line_newest: "draw_line w h upper data \<noteq> [] \<Longrightarrow> fst (last (draw_line w h upper data)) = w"
  by (auto simp: draw_line_def last_map window_def of_nat_diff split: if_splits)

lemma draw_line_below:
  assumes "(x, y) \<in> set (draw_line w h upper data)" and "\<And>v. v \<in> set data \<Longrightarrow> v \<le> upper" and "6 \<le> h" and "0 < upper"
  shows "3 \<le> y"
proof -
  from assms(1,4) obtain i where i: "i < length data" "y = h - data ! i / upper * (h - 6) - 3"
    by (auto simp: draw_line_def split: if_splits)
  have "data ! i / upper \<le> 1" using assms(2,4) i(1) by (simp add: field_simps)
  then have "data ! i / upper * (h - 6) \<le> 1 * (h - 6)" using assms(3) by (intro mult_right_mono) simp_all
  then show ?thesis using i(2) by simp
qed

lemma net_scale_upper: "1024 \<le> net_scale hi \<and> (\<forall>v\<in>set (hi_Rx hi) \<union> set (hi_Tx hi). v \<le> net_scale hi)"
proof -
  have "(a::real) \<le> foldr max xs a \<and> (\<forall>v\<in>set xs. v \<le> foldr max xs a)" for a xs
    by (induction xs) (auto simp: le_max_iff_disj)
  from this[of 1024 "hi_Rx hi @ hi_Tx hi"] show ?thesis unfolding net_scale_def set_append .
qed

lemma drawSpark_inside:
  assumes "(x, y) \<in> set (drawSpark w h data)" and "0 \<le> w" and "3 \<le> h"
  shows "0 \<le> x \<and> x \<le> w \<and> 1 \<le> y \<and> y \<le> h - 2"
proof -
  from assms(1) obtain i where i: "i < length data" "2 \<le> length data" "x = real i * (w / (real (length data) - 1))"
      "y = h - max 0 (min 100 (data ! i)) / 100 * (h - 3) - 2"
    by (auto simp: drawSpark_def split: if_splits)
  define n where "n = real (length data) - 1"
  have n: "0 < n" "real i \<le> n" using i(1,2) by (simp_all add: n_def)
  from share_of_width[of "real i" n w] n assms(2) i(3) have x: "0 \<le> x" "x \<le> w" by (simp_all add: n_def)
  define p where "p = max 0 (min 100 (data ! i)) / 100"
  have p: "0 \<le> p" "p \<le> 1" by (simp_all add: p_def)
  then have "0 * (h - 3) \<le> p * (h - 3)" "p * (h - 3) \<le> 1 * (h - 3)" using assms(3) by (intro mult_right_mono; simp)+
  then show ?thesis using x i(4) by (simp add: p_def)
qed

lemma bars_in_range: "b \<in> set (card_bars s) \<Longrightarrow> 0 \<le> br_Percent b \<and> br_Percent b \<le> 100"
  by (auto simp: card_bars_def setBar_def Let_def)

text \<open>
  C33: Whatever happened on the page, the charts of a machine stay on their canvas: every point
  is between the left and the right edge, the newest reading is at the right edge, the network
  line never leaves the canvas at the top, and the sparkline of a card is inside on all sides.
\<close>

theorem charts_stay_inside:
  assumes "aligned_page old" and "0 \<le> w" and "6 \<le> h"
    and "hi = hist_of (page_run by_name parse evs (boot now theme (Some (saveHist old)) token)) i"
  shows "(\<forall>l\<in>set (charts w h s hi). (\<forall>(x, y)\<in>set l. 0 \<le> x \<and> x \<le> w) \<and> (l \<noteq> [] \<longrightarrow> fst (last l) = w)) \<and>
    (\<forall>(x, y)\<in>set (draw_line w h (net_scale hi) (hi_Rx hi)) \<union> set (draw_line w h (net_scale hi) (hi_Tx hi)). 3 \<le> y) \<and>
    (\<forall>(x, y)\<in>set (drawSpark w h (hi_CPU hi)). 0 \<le> x \<and> x \<le> w \<and> 1 \<le> y \<and> y \<le> h - 2)"
proof -
  have "aligned_page (boot now theme (Some (saveHist old)) token)"
    using assms(1) by (intro aligned_boot) (auto simp: saveHist_def aligned_page_def)
  then have "aligned_page (page_run by_name parse evs (boot now theme (Some (saveHist old)) token))"
    unfolding page_run_def by (intro aligned_fold aligned_step)
  then have hi: "aligned hi" unfolding assms(4) by (rule aligned_hist_of)
  have "length d \<le> window" if "d \<in> {hi_CPU hi, hi_Mem hi, hi_Rx hi, hi_Tx hi, hi_Disk hi}" for d
    using hi that by (auto simp: aligned_def)
  then have "(\<forall>(x, y)\<in>set l. 0 \<le> x \<and> x \<le> w) \<and> (l \<noteq> [] \<longrightarrow> fst (last l) = w)" if "l \<in> set (charts w h s hi)" for l
    using that draw_line_across[OF _ _ assms(2)] draw_line_newest unfolding charts_def by fastforce
  moreover have "3 \<le> y" if "(x, y) \<in> set (draw_line w h (net_scale hi) d)" "d = hi_Rx hi \<or> d = hi_Tx hi" for x y d
    using draw_line_below[OF that(1) _ assms(3)] net_scale_upper[of hi] that(2) by fastforce
  moreover have "0 \<le> x \<and> x \<le> w \<and> 1 \<le> y \<and> y \<le> h - 2" if "(x, y) \<in> set (drawSpark w h (hi_CPU hi))" for x y
    using drawSpark_inside[OF that assms(2)] assms(3) by simp
  ultimately show ?thesis by blast
qed

lemma charts_stay_inside_witness:
  "let hi = hist_of (page_run (\<lambda>ms. ms) (\<lambda>_. None) [polled 100, polled 102] (boot 99 [] (Some (saveHist fresh_page)) ''k'')) ''m''
   in (\<forall>(x, y)\<in>set (drawSpark 60 20 (hi_CPU hi)). 0 \<le> x \<and> x \<le> 60 \<and> 1 \<le> y \<and> y \<le> 18) \<and> aligned_page fresh_page"
proof -
  have "aligned_page fresh_page" by (simp add: aligned_page_def fresh_page_def)
  with charts_stay_inside[OF this _ _ refl, where w = 60 and h = 20 and by_name = "\<lambda>ms. ms" and parse = "\<lambda>_. None" and
      evs = "[polled 100, polled 102]" and now = 99 and theme = "[]" and token = "''k''" and i = "''m''"]
  show ?thesis by (simp add: Let_def)
qed

section \<open>Which handlers the buttons reach\<close>

lemma unhex_digit:
  assumes "n < 16"
  shows "unhex (''0123456789ABCDEF'' ! n) = Some n"
proof -
  have "list_all (\<lambda>n. unhex (''0123456789ABCDEF'' ! n) = Some n) [0..<16]" by code_simp
  with assms show ?thesis by (simp add: list_all_iff)
qed

lemma unescape_plain: "c \<noteq> CHR ''%'' \<Longrightarrow> unescape (c # s) = c # unescape s"
  by (cases s; cases "tl s") auto

lemma unescape_escaped:
  "unescape (CHR ''%'' # ''0123456789ABCDEF'' ! (of_char c div 16) # ''0123456789ABCDEF'' ! (of_char c mod 16) # s) = c # unescape s"
proof -
  have "of_char c div 16 < (16::nat)" by (cases c) (simp add: less_mult_imp_div_less)
  then show ?thesis by (simp add: unhex_digit)
qed

lemma unescape_encode: "unescape (encodeURIComponent s) = s"
proof (induction s)
  case (Cons c s)
  have "\<not> unreserved (CHR ''%'')" by code_simp
  then have "unreserved c \<Longrightarrow> c \<noteq> CHR ''%''" by auto
  then show ?case using Cons.IH unescape_escaped[of c]
    by (auto simp: encodeURIComponent_def unescape_plain simp del: unescape.simps)
qed (simp add: encodeURIComponent_def)

text \<open>A segment that the multiplexer neither redirects nor takes for a slash.\<close>

definition routable :: "string \<Rightarrow> bool" where
  "routable i \<longleftrightarrow> i \<notin> {[], ''.'', ''..'', ''/''}"

lemma encode_routable:
  assumes "routable i"
  shows "encodeURIComponent i \<noteq> [] \<and> encodeURIComponent i \<noteq> ''.'' \<and> encodeURIComponent i \<noteq> ''..'' \<and> i \<noteq> ''/''"
proof -
  have "unescape [] = []" "unescape ''.'' = ''.''" "unescape ''..'' = ''..''" by code_simp+
  then show ?thesis using assms unescape_encode[of i] by (auto simp: routable_def)
qed

lemma dispatch_to:
  assumes "ro \<in> set admin_routes" and "ro = route_of pattern act"
    and "hq_Method rq = ro_Method ro" and "match_segments (ro_Pattern ro) (hq_Path rq) = Some vals" and "clean_path (hq_Path rq)"
  shows "dispatch admin_routes rq = Handle (ro_Handler ro) vals"
proof -
  have fits: "route_fits ro rq" using assms(3,4) by (simp add: route_fits_def method_fits_def)
  then obtain ro' where f: "find (\<lambda>ro. route_fits ro rq) admin_routes = Some ro'"
    using assms(1) by (cases "find (\<lambda>ro. route_fits ro rq) admin_routes") (auto simp: find_None_iff)
  then have ro': "ro' \<in> set admin_routes" "route_fits ro' rq" by (auto simp: find_Some_iff)
  have "routes_apart admin_routes" by code_simp
  from routes_apart_unique[OF this, of rq] have one: "length (filter (\<lambda>ro. route_fits ro rq) admin_routes) \<le> 1" .
  have "{ro, ro'} \<subseteq> set (filter (\<lambda>ro. route_fits ro rq) admin_routes)" using fits assms(1) ro' by auto
  with one have "ro' = ro" by (cases "filter (\<lambda>ro. route_fits ro rq) admin_routes") auto
  then show ?thesis using f assms(4,5) by (simp add: dispatch_def)
qed

lemma literal_segments:
  "unescape ''admin'' = ''admin''" "unescape ''machines'' = ''machines''" "unescape ''commands'' = ''commands''"
  by code_simp+

lemma auth_own_token: "path \<noteq> ''/healthz'' \<Longrightarrow> auth token path (''Bearer '' @ token) nxt w = nxt w"
  by (simp add: auth_def CutPrefix_def HasPrefix_def)

lemma AdminHandler_own_token:
  assumes "hq_Authorization rq = ''Bearer '' @ token" and "url_path rq \<noteq> ''/healthz''"
    and "dispatch admin_routes rq = Handle act vals"
  shows "AdminHandler token run rq w = run act vals w"
  unfolding AdminHandler_def assms(1) auth_own_token[OF assms(2)] assms(3) by (simp add: answer_def)

text \<open>
  C34: The buttons of the page do what they say: for the token of the server, the request of
  \<open>Remove\<close> runs \<open>deleteMachine\<close> with exactly the ID of the machine, whatever bytes are in it, the
  request of \<open>Cancel\<close> runs \<open>cancelCommand\<close> with exactly the name of the command, and its query
  decodes to the machine that is open. (An ID that is empty, a dot or two, or a slash is no
  path segment.)
\<close>

theorem buttons_reach_handlers:
  assumes "routable (m_ID m)" and "routable name"
  shows "AdminHandler tok run (removeMachine tok m) w = run A_deleteMachine [m_ID m] w \<and>
    AdminHandler tok run (fst (cancel_request tok name i)) w = run A_cancelCommand [name] w \<and>
    unescape (TrimPrefix (snd (cancel_request tok name i)) ''target_kind=machine&target_id='') = i"
proof (intro conjI)
  have m: "unescape (encodeURIComponent x) = x" for x by (rule unescape_encode)
  have pat: "ro_Pattern (route_of ''DELETE /admin/machines/{id}'' A_deleteMachine) = [Lit ''admin'', Lit ''machines'', Wild]"
    "ro_Method (route_of ''DELETE /admin/machines/{id}'' A_deleteMachine) = ''DELETE''"
    "ro_Handler (route_of ''DELETE /admin/machines/{id}'' A_deleteMachine) = A_deleteMachine"
    "ro_Pattern (route_of ''DELETE /admin/commands/{name}'' A_cancelCommand) = [Lit ''admin'', Lit ''commands'', Wild]"
    "ro_Method (route_of ''DELETE /admin/commands/{name}'' A_cancelCommand) = ''DELETE''"
    "ro_Handler (route_of ''DELETE /admin/commands/{name}'' A_cancelCommand) = A_cancelCommand" by code_simp+
  have "dispatch admin_routes (removeMachine tok m) = Handle A_deleteMachine [m_ID m]"
    using dispatch_to[OF _ refl, of "''DELETE /admin/machines/{id}''" A_deleteMachine "removeMachine tok m" "[m_ID m]"]
      encode_routable[OF assms(1)]
    by (simp add: pat admin_routes_def removeMachine_def clean_path_def literal_segments m del: unescape.simps)
  moreover have "url_path (removeMachine tok m) \<noteq> ''/healthz''"
    by (simp add: url_path_def removeMachine_def literal_segments del: unescape.simps)
  ultimately show "AdminHandler tok run (removeMachine tok m) w = run A_deleteMachine [m_ID m] w"
    by (intro AdminHandler_own_token) (simp_all add: removeMachine_def)
  have "dispatch admin_routes (fst (cancel_request tok name i)) = Handle A_cancelCommand [name]"
    using dispatch_to[OF _ refl, of "''DELETE /admin/commands/{name}''" A_cancelCommand "fst (cancel_request tok name i)" "[name]"]
      encode_routable[OF assms(2)]
    by (simp add: pat admin_routes_def cancel_request_def clean_path_def literal_segments m del: unescape.simps)
  moreover have "url_path (fst (cancel_request tok name i)) \<noteq> ''/healthz''"
    by (simp add: url_path_def cancel_request_def literal_segments del: unescape.simps)
  ultimately show "AdminHandler tok run (fst (cancel_request tok name i)) w = run A_cancelCommand [name] w"
    by (intro AdminHandler_own_token) (simp_all add: cancel_request_def)
  show "unescape (TrimPrefix (snd (cancel_request tok name i)) ''target_kind=machine&target_id='') = i"
    by (simp add: cancel_request_def TrimPrefix_def HasPrefix_def unescape_encode)
qed

lemma buttons_reach_handlers_witness:
  "AdminHandler ''tok'' (\<lambda>h vals w. (Plain (concat vals), w)) (removeMachine ''tok'' (seen_machine ''a/b c%'')) () =
     (Plain ''a/b c%'', ())"
proof -
  have "m_ID (seen_machine ''a/b c%'') = ''a/b c%''" by (simp add: seen_machine_def)
  moreover have "routable ''a/b c%''" "routable ''cmd-1''" by code_simp+
  ultimately show ?thesis
    using buttons_reach_handlers[THEN conjunct1, of "seen_machine ''a/b c%''" "''cmd-1''" "''tok''"
      "\<lambda>h vals w. (Plain (concat vals), w)" "()"] by simp
qed

end
