(* ===== verification/Dashboard_Page.thy ===== *)
theory Dashboard_Page
  imports Dashboard_Cards
begin

text \<open>
  The elements of the dashboard's page (\<open>internal/server/dashboard.go\<close>, the constant before the
  script) and the parts of the script that fill the choice of groups and follow up on a
  command. The style sheet is left out.
\<close>

section \<open>The body\<close>

definition page_lines :: "string list" where
  "page_lines =
     [''<header>'',
      ''  <h1>fleetcore</h1>'',
      ''  <div id=\"health\" class=\"hidden\" title=\"Click to return to the fleet overview\">'',
      ''    <span class=\"dot\"></span><span id=\"health-text\"></span>'',
      ''  </div>'',
      ''  <div class=\"spacer\"></div>'',
      ''  <button id=\"theme\" class=\"ghost\" title=\"Switch between system, light and dark\"></button>'',
      ''  <input id=\"token\" type=\"password\" placeholder=\"admin token\" size=\"26\">'',
      ''  <button id=\"connect\">Connect</button>'',
      ''  <button id=\"forget\" class=\"ghost hidden\">Sign out</button>'',
      ''  <span id=\"status\"></span>'',
      ''</header>'',
      [],
      ''<div id=\"events\"></div>'',
      [],
      ''<section id=\"overview\" class=\"hidden\">'',
      ''  <div class=\"summary\" id=\"summary\"></div>'',
      ''  <div class=\"crow\" style=\"margin-bottom:14px\">'',
      ''    <input id=\"filter\" placeholder=\"filter by name, IP, OS, label or k8s role\" style=\"flex:1;min-width:240px\">'',
      ''    <span id=\"filter-count\" style=\"color:var(--muted);font-size:12px;align-self:center\"></span>'',
      ''  </div>'',
      ''  <div class=\"console\">'',
      ''    <h2>run command on a group</h2>'',
      ''    <div class=\"crow\">'',
      ''      <select id=\"g-target\"></select>'',
      ''      <input id=\"g-selector\" placeholder=\"or labels: role=gpu region=hk\" style=\"min-width:210px\">'',
      ''      <textarea id=\"g-script\" placeholder=\"uptime&#10;df -h /\"></textarea>'',
      ''      <button id=\"g-run\">Run</button>'',
      ''    </div>'',
      ''    <div class=\"chint\">Runs as root via /bin/sh, working directory <b>/</b>. Agents <b>pull</b> it on their next'',
      ''      reconcile &mdash; usually within a second &mdash; so machines behind NAT need no inbound access.'',
      ''      Fill the label box to target every machine matching <i>all</i> those labels, across groups; leave it empty to use the group.</div>'',
      ''    <div id=\"g-msg\" class=\"cmsg\"></div>'',
      ''  </div>'',
      ''  <div class=\"grid\" id=\"mgrid\"></div>'',
      ''</section>'',
      [],
      ''<section id=\"detail\" class=\"hidden\">'',
      ''  <div class=\"detail-head\">'',
      ''    <button id=\"back\" class=\"ghost\">&larr; Fleet</button>'',
      ''    <button id=\"d-remove\" class=\"ghost mrm\" style=\"opacity:1;order:99\">Remove machine</button>'',
      ''    <h2 id=\"d-name\"></h2>'',
      ''    <span id=\"d-state\"></span>'',
      ''    <span id=\"d-id\" class=\"mono\"></span>'',
      ''  </div>'',
      ''  <div id=\"d-groups\" class=\"chips\" style=\"margin:-6px 0 14px\"></div>'',
      ''  <div class=\"cards\">'',
      ''    <div class=\"card\"><h2>cpu <span id=\"v-cpu\"></span></h2><canvas id=\"c-cpu\"></canvas></div>'',
      ''    <div class=\"card\"><h2>memory <span id=\"v-mem\"></span></h2><canvas id=\"c-mem\"></canvas></div>'',
      ''    <div class=\"card\"><h2>network <span id=\"v-net\"></span></h2><canvas id=\"c-net\"></canvas></div>'',
      ''    <div class=\"card\"><h2>disk <span id=\"v-disk\"></span></h2><canvas id=\"c-disk\"></canvas></div>'',
      ''  </div>'',
      ''  <div class=\"console\" style=\"margin-top:13px\">'',
      ''    <h2>run command on this machine</h2>'',
      ''    <div class=\"crow\">'',
      ''      <textarea id=\"m-script\" placeholder=\"systemctl status fleet-agent&#10;journalctl -u fleet-agent -n 20\"></textarea>'',
      ''      <button id=\"m-run\">Run</button>'',
      ''    </div>'',
      ''    <div class=\"chint\">Queued into this machine''  @ [quote] @ ''s override. It overrides a group command of the same name.</div>'',
      ''    <div id=\"m-msg\" class=\"cmsg\"></div>'',
      ''  </div>'',
      ''  <div id=\"queue-section\" class=\"card hidden\" style=\"margin-bottom:13px\">'',
      ''    <h2>pending &mdash; waiting for the agent to pull <span id=\"v-queued\"></span></h2>'',
      ''    <div id=\"queuelist\"></div>'',
      ''  </div>'',
      ''  <div class=\"card\" style=\"margin-bottom:13px\"><h2>command history <span id=\"v-cmds\"></span></h2>'',
      ''    <div id=\"cmdlist\"></div>'',
      ''  </div>'',
      ''  <div id=\"pod-section\" class=\"card hidden\" style=\"margin-top:13px\">'',
      ''    <h2>pods <span id=\"v-pods\"></span></h2>'',
      ''    <table><thead><tr><th>namespace</th><th>pod</th><th>containers</th>'',
      ''      <th style=\"text-align:right\">cpu</th><th style=\"text-align:right\">memory</th></tr></thead>'',
      ''      <tbody id=\"podbody\"></tbody></table>'',
      ''  </div>'',
      ''  <div class=\"card\" style=\"margin-top:13px\"><h2>processes <span id=\"v-procs\"></span></h2>'',
      ''    <table><thead><tr><th>pid</th><th>process</th><th>service</th>'',
      ''      <th style=\"text-align:right\">cpu</th><th style=\"text-align:right\">mem</th></tr></thead>'',
      ''      <tbody id=\"procbody\"></tbody></table>'',
      ''    <div id=\"procnone\" class=\"nodata hidden\">no live sample &mdash; machine is not reporting</div>'',
      ''  </div>'',
      ''  <div class=\"card\" style=\"margin-top:13px\"><h2>network interfaces <span id=\"v-ifaces\"></span></h2>'',
      ''    <table><thead><tr><th>interface</th><th>addresses</th><th>mac</th>'',
      ''      <th style=\"text-align:right\">link</th><th style=\"text-align:right\">rx</th><th style=\"text-align:right\">tx</th></tr></thead>'',
      ''      <tbody id=\"ifacebody\"></tbody></table>'',
      ''  </div>'',
      ''  <div id=\"gpu-section\" class=\"card hidden\" style=\"margin-top:13px\">'',
      ''    <h2>gpus <span id=\"v-gpu\"></span></h2><div id=\"gpubody\" style=\"margin-top:6px;font-size:12px\"></div>'',
      ''  </div>'',
      ''  <div class=\"cards\" style=\"margin-top:13px\">'',
      ''    <div class=\"card\"><h2>inventory</h2><div class=\"kv\" id=\"d-inv\"></div></div>'',
      ''    <div class=\"card\"><h2>modules</h2><div id=\"d-mods\"></div></div>'',
      ''  </div>'',
      ''</section>'']"

text \<open>The identifiers in a line of markup, and those the script looks up.\<close>

fun ids_of_line :: "string \<Rightarrow> string list" where
  "ids_of_line [] = []"
| "ids_of_line (c # s) =
     (if HasPrefix (c # s) ('' id='' @ [CHR 0x22])
      then takeWhile (\<lambda>d. d \<noteq> CHR 0x22) (drop 5 (c # s)) # ids_of_line s else ids_of_line s)"

definition script_ids :: "string list" where
  "script_ids =
    [''theme'', ''health'', ''health-text'', ''events'', ''summary'', ''mgrid'', ''filter-count'', ''queue-section'',
     ''v-queued'', ''queuelist'', ''v-cmds'', ''cmdlist'', ''d-groups'', ''g-target'', ''overview'', ''detail'',
     ''d-name'', ''d-id'', ''d-state'', ''d-inv'', ''d-mods'', ''v-ifaces'', ''ifacebody'', ''v-cpu'',
     ''v-mem'', ''v-net'', ''v-disk'', ''c-cpu'', ''c-mem'', ''c-net'', ''c-disk'', ''procbody'',
     ''procnone'', ''v-procs'', ''pod-section'', ''v-pods'', ''podbody'', ''gpu-section'', ''gpubody'', ''status'',
     ''token'', ''connect'', ''forget'', ''g-run'', ''g-selector'', ''g-msg'', ''g-script'', ''m-run'',
     ''m-script'', ''m-msg'', ''filter'', ''back'', ''d-remove'']"

text \<open>
  The script never looks up an element in vain, and no lookup is ambiguous: each identifier
  it uses is that of exactly one element of the body.
\<close>

lemma elements_exist:
  assumes "i \<in> set script_ids"
  shows "count_list (concat (map ids_of_line page_lines)) i = 1"
proof -
  have "list_all (\<lambda>i. count_list (concat (map ids_of_line page_lines)) i = 1) script_ids" by code_simp
  with assms show ?thesis by (simp add: list_all_iff)
qed

section \<open>The choice of groups\<close>

text \<open>
  \<open>fillGroupSelect\<close>: the tenants whose groups are fetched, in the order the machines name
  them, and whether the groups then count as loaded; the options once all lists have come.
  A list that could not be fetched is empty.
\<close>

fun first_seen :: "string list \<Rightarrow> string list \<Rightarrow> string list" where
  "first_seen acc [] = acc"
| "first_seen acc (t # ts) = first_seen (if t \<in> set acc then acc else acc @ [t]) ts"

definition fillGroupSelect :: "bool \<Rightarrow> machine list \<Rightarrow> string list \<times> bool" where
  "fillGroupSelect groupsLoaded machines =
     (if groupsLoaded then ([], True)
      else
        let ids = first_seen [] (map m_TenantID machines)
        in if ids = [] then ([], False) else (ids, True))"

definition group_options :: "group list option list \<Rightarrow> string" where
  "group_options answers = concat (map group_option (concat (map (\<lambda>l. case l of None \<Rightarrow> [] | Some gs \<Rightarrow> gs) answers)))"

lemma set_first_seen: "set (first_seen acc ts) = set acc \<union> set ts" "distinct acc \<Longrightarrow> distinct (first_seen acc ts)"
  by (induction acc ts rule: first_seen.induct) auto

text \<open>Each tenant that has a machine is asked for once.\<close>

lemma tenants_asked_once:
  "distinct (fst (fillGroupSelect False machines)) \<and> set (fst (fillGroupSelect False machines)) = m_TenantID ` set machines"
  using set_first_seen[of "[]" "map m_TenantID machines"] by (auto simp: fillGroupSelect_def Let_def)

text \<open>
  The choice is filled after the first poll of a connection only. If that finds no machine,
  or fails, it stays empty, and a command for a group cannot be sent from this page: the
  button says that no group is selected.
\<close>

lemma no_machines_no_groups:
  assumes "parseSelector selector_text = None"
  shows "fillGroupSelect False [] = ([], False) \<and> fleet_command selector_text [] script machines = Inl ''no group selected''"
  using assms by (simp add: fillGroupSelect_def fleet_command_def)

section \<open>After a command\<close>

text \<open>\<open>apiPost\<close>: the error of an answer that is not a success; then what the page says.\<close>

definition post_error :: "string \<Rightarrow> nat \<Rightarrow> string" where
  "post_error body status = or_else (js_trim body) (''HTTP '' @ show_int (int status))"

definition apiPost :: "'a reply \<Rightarrow> string + 'a" where
  "apiPost rep =
     (case rep of
        Unreachable e \<Rightarrow> Inl e
      | Answer code status body decoded \<Rightarrow> if 200 \<le> code \<and> code < 300 then decoded else Inl (post_error body code))"

definition api_answer :: "'a reply \<Rightarrow> string + 'a" where
  "api_answer rep =
     (case rep of
        Unreachable e \<Rightarrow> Inl e
      | Answer code status body decoded \<Rightarrow>
          if code = 401 then Inl ''unauthorized''
          else if 200 \<le> code \<and> code < 300 then decoded else Inl (''HTTP '' @ show_int (int code)))"

text \<open>The class and the text of the message below the input; \<open>matched\<close> is absent or counts the machines.\<close>

definition runCommand :: "string + string \<times> nat \<Rightarrow> string \<times> string" where
  "runCommand answered =
     (case answered of
        Inl e \<Rightarrow> (''cmsg err'', e)
      | Inr (name, matched) \<Rightarrow>
          (''cmsg ok'', ''queued as '' @ name @ (if 1 < matched then '' on '' @ show_int (int matched) @ '' machines'' else []) @
             '' '' @ em_dash @ '' agents pull it on their next reconcile''))"

text \<open>A click on the buttons of a command.\<close>

definition onCmdClick ::
  "string \<Rightarrow> command_info gomap \<Rightarrow> string option \<Rightarrow> string \<Rightarrow> string \<Rightarrow>
   (create_command_req + http_request \<times> string) option" where
  "onCmdClick tok commands selected act name =
     (case selected of
        None \<Rightarrow> None
      | Some i \<Rightarrow>
          if act = ''rerun''
          then map_option (\<lambda>c. Inl (rerun_command (ci_Script c) i)) (fmlookup commands name)
          else Some (Inr (cancel_request tok name i)))"

text \<open>A refused token ends the session; any other failure of a poll leaves it.\<close>

lemma refused_token_disconnects:
  assumes "api_answer (Answer code status body decoded) = Inl e" and "code < 200 \<or> 300 \<le> code"
  shows "pg_View (refresh_failed e pg) = (if code = 401 then Locked else pg_View pg) \<and>
    pg_Tok (refresh_failed e pg) = (if code = 401 then [] else pg_Tok pg)"
proof -
  have "e = (if code = 401 then ''unauthorized'' else ''HTTP '' @ show_int (int code))"
    using assms by (auto simp: api_answer_def split: if_splits)
  then show ?thesis by (simp add: refresh_failed_def disconnect_def)
qed

end
