(* ===== verification/Alert_Rules.thy ===== *)
theory Alert_Rules
  imports Metrics_Text Sample_Run
begin

text \<open>
  The alert rules for Prometheus that the server hands out (\<open>internal/server/alerts.go\<close>), rule by
  rule, and what they refer to in the metrics it exposes.
\<close>

section \<open>The file\<close>

record alert_rule =
  al_Name :: string
  al_Expr :: string
  al_For :: string
  al_Severity :: string
  al_Summary :: string
  al_Description :: string

definition line :: "string \<Rightarrow> string" where
  "line s = s @ [CHR 0x0A]"

definition in_quotes :: "string \<Rightarrow> string" where
  "in_quotes s = [CHR 0x22] @ s @ [CHR 0x22]"

definition alert_yaml :: "alert_rule \<Rightarrow> string" where
  "alert_yaml r =
     line (''      - alert: '' @ al_Name r) @
     line (''        expr: '' @ al_Expr r) @
     line (''        for: '' @ al_For r) @
     line (''        labels: { severity: '' @ al_Severity r @ '' }'') @
     line ''        annotations:'' @
     line (''          summary: '' @ in_quotes (al_Summary r)) @
     line (''          description: '' @ in_quotes (al_Description r))"

definition alert_rules :: "alert_rule list" where
  "alert_rules =
     [\<lparr>al_Name = ''FleetMachineDown'', al_Expr = ''time() - fleet_machine_last_seen_timestamp_seconds > 120'', al_For = ''1m'',
       al_Severity = ''critical'', al_Summary = ''Machine {{ $labels.name }} is not reporting'',
       al_Description = ''No heartbeat from {{ $labels.name }} ({{ $labels.machine_id }}) for over 2 minutes.''\<rparr>,
      \<lparr>al_Name = ''FleetDiskAlmostFull'', al_Expr = ''(fleet_live_disk_used_bytes / fleet_live_disk_total_bytes) > 0.90'',
       al_For = ''5m'', al_Severity = ''warning'', al_Summary = ''Disk over 90% on {{ $labels.name }}'',
       al_Description = ''Root filesystem on {{ $labels.name }} is {{ $value | humanizePercentage }} full.''\<rparr>,
      \<lparr>al_Name = ''FleetDiskCritical'', al_Expr = ''(fleet_live_disk_used_bytes / fleet_live_disk_total_bytes) > 0.97'',
       al_For = ''2m'', al_Severity = ''critical'', al_Summary = ''Disk over 97% on {{ $labels.name }}'',
       al_Description = ''Root filesystem on {{ $labels.name }} is critically full ({{ $value | humanizePercentage }}).''\<rparr>,
      \<lparr>al_Name = ''FleetMemoryHigh'', al_Expr = ''(fleet_live_memory_used_bytes / fleet_live_memory_total_bytes) > 0.92'',
       al_For = ''10m'', al_Severity = ''warning'', al_Summary = ''Memory over 92% on {{ $labels.name }}'',
       al_Description = ''Sustained high memory use on {{ $labels.name }}.''\<rparr>,
      \<lparr>al_Name = ''FleetCPUSaturated'', al_Expr = ''fleet_live_cpu_percent > 90'', al_For = ''15m'', al_Severity = ''warning'',
       al_Summary = ''CPU pinned above 90% on {{ $labels.name }}'',
       al_Description = ''{{ $labels.name }} has been above 90% CPU for 15 minutes.''\<rparr>,
      \<lparr>al_Name = ''FleetSecurityUpdatesPending'', al_Expr = ''fleet_machine_updates_security > 0'', al_For = ''24h'',
       al_Severity = ''warning'', al_Summary = ''{{ $value }} security updates pending on {{ $labels.name }}'',
       al_Description = ''Unapplied security updates on {{ $labels.name }} for over 24h. Push the patch module.''\<rparr>,
      \<lparr>al_Name = ''FleetRebootRequired'', al_Expr = ''fleet_machine_reboot_required > 0'', al_For = ''1h'', al_Severity = ''info'',
       al_Summary = ''{{ $labels.name }} needs a reboot'',
       al_Description = ''A package update on {{ $labels.name }} requires a reboot to complete.''\<rparr>,
      \<lparr>al_Name = ''FleetModuleFailed'', al_Expr = ''fleet_module_applied == 0'', al_For = ''5m'', al_Severity = ''warning'',
       al_Summary = ''Module {{ $labels.module }} failed on {{ $labels.name }}'',
       al_Description = ''{{ $labels.module }}@'' @ ''{{ $labels.version }} is in failed state on {{ $labels.name }}.''\<rparr>,
      \<lparr>al_Name = ''FleetGPUOverheating'', al_Expr = ''fleet_live_gpu_temp_celsius > 85'', al_For = ''3m'', al_Severity = ''warning'',
       al_Summary = ''GPU {{ $labels.gpu }} hot on {{ $labels.name }}'',
       al_Description = ''GPU {{ $labels.index }} on {{ $labels.name }} is at {{ $value }}C.''\<rparr>]"

definition alertRulesYAML :: string where
  "alertRulesYAML =
     line ''groups:'' @ line ''  - name: fleetcore'' @ line ''    rules:'' @ Join (map alert_yaml alert_rules) [CHR 0x0A]"

definition handleAlertRules :: "unit response" where
  "handleAlertRules = Plain alertRulesYAML"

section \<open>What the rules refer to\<close>

text \<open>The names of metrics in an expression, and of labels in \<open>$labels.x\<close>.\<close>

definition name_char :: "char \<Rightarrow> bool" where
  "name_char c \<longleftrightarrow> c = CHR ''_'' \<or> (let n = of_char c :: nat in (48 \<le> n \<and> n \<le> 57) \<or> (65 \<le> n \<and> n \<le> 90) \<or> (97 \<le> n \<and> n \<le> 122))"

definition metric_names :: "string \<Rightarrow> string list" where
  "metric_names e = filter (\<lambda>w. HasPrefix w ''fleet_'') (FieldsFunc e (\<lambda>c. \<not> name_char c))"

fun label_names :: "string \<Rightarrow> string list" where
  "label_names [] = []"
| "label_names (c # s) =
     (if HasPrefix (c # s) ''$labels.'' then takeWhile name_char (drop 8 (c # s)) # label_names s else label_names s)"

definition used_by :: "alert_rule \<Rightarrow> (string \<times> string list) list" where
  "used_by r = map (\<lambda>m. (m, remdups (label_names (al_Summary r @ '' '' @ al_Description r)))) (metric_names (al_Expr r))"

text \<open>A text that exposes a metric whose series all carry the labels.\<close>

definition labelled :: "string \<Rightarrow> string list \<Rightarrow> bool" where
  "labelled l ls \<longleftrightarrow> (\<exists>x\<in>set ls. HasPrefix x (l @ ''=''))"

definition exposes :: "string \<Rightarrow> machine list \<Rightarrow> string \<Rightarrow> string list \<Rightarrow> bool" where
  "exposes txt ms name labels \<longleftrightarrow>
     (\<exists>help f pre post. txt = pre @ metric name help f ms @ post \<and>
        (\<forall>m ls v l. (ls, v) \<in> set (f m) \<longrightarrow> l \<in> set labels \<longrightarrow> labelled l (machine_labels m @ ls)))"

lemma exposes_append: "exposes s ms n ls \<Longrightarrow> exposes (s @ t) ms n ls" "exposes t ms n ls \<Longrightarrow> exposes (s @ t) ms n ls"
  unfolding exposes_def by (metis append_assoc)+

lemma exposes_metric:
  "(\<And>m ls v l. (ls, v) \<in> set (f m) \<Longrightarrow> l \<in> set labels \<Longrightarrow> labelled l (machine_labels m @ ls)) \<Longrightarrow>
   exposes (metric n help f ms) ms n labels"
  unfolding exposes_def by (metis append.right_neutral append_Nil)

lemma labelled_machine: "l \<in> {''machine_id'', ''name''} \<Longrightarrow> labelled l (machine_labels m @ ls)"
  by (auto simp: labelled_def machine_labels_def escaped_def HasPrefix_def)

lemma exposes_machine_metric: "set labels \<subseteq> {''machine_id'', ''name''} \<Longrightarrow> exposes (metric n help f ms) ms n labels"
  by (rule exposes_metric) (use labelled_machine in blast)

lemma used_metrics:
  "concat (map used_by alert_rules) =
     [(''fleet_machine_last_seen_timestamp_seconds'', [''name'', ''machine_id'']),
      (''fleet_live_disk_used_bytes'', [''name'']), (''fleet_live_disk_total_bytes'', [''name'']),
      (''fleet_live_disk_used_bytes'', [''name'']), (''fleet_live_disk_total_bytes'', [''name'']),
      (''fleet_live_memory_used_bytes'', [''name'']), (''fleet_live_memory_total_bytes'', [''name'']),
      (''fleet_live_cpu_percent'', [''name'']), (''fleet_machine_updates_security'', [''name'']),
      (''fleet_machine_reboot_required'', [''name'']), (''fleet_module_applied'', [''module'', ''version'', ''name'']),
      (''fleet_live_gpu_temp_celsius'', [''gpu'', ''index'', ''name''])]"
  by code_simp

lemma exposes_named: "exposes (metric n help f ms) ms n [''name'']"
  by (rule exposes_machine_metric) simp

text \<open>Each section of the text exposes what it should.\<close>

lemma exposes_gauges: "exposes (gauges fmtG ms) ms ''fleet_machine_last_seen_timestamp_seconds'' [''name'', ''machine_id'']"
  unfolding gauges_def Let_def by (intro exposes_append(1) exposes_machine_metric) simp

lemma exposes_updates:
  "exposes (update_metrics ms) ms ''fleet_machine_updates_security'' [''name'']"
  "exposes (update_metrics ms) ms ''fleet_machine_reboot_required'' [''name'']"
  unfolding update_metrics_def Let_def
  by (meson exposes_append exposes_named)+

lemma exposes_modules: "exposes (module_metrics ms) ms ''fleet_module_applied'' [''module'', ''version'', ''name'']"
proof -
  have "labelled l (machine_labels m @ [escaped ''module'' a, escaped ''version'' b])"
    if "l \<in> {''module'', ''version'', ''name''}" for l m a b
    using that by (auto simp: labelled_def machine_labels_def escaped_def HasPrefix_def)
  then show ?thesis unfolding module_metrics_def by (intro exposes_metric) auto
qed

lemma exposes_samples:
  "exposes (sample_gauges fmtG now live ms) ms ''fleet_live_cpu_percent'' [''name'']"
  "exposes (sample_gauges fmtG now live ms) ms ''fleet_live_memory_used_bytes'' [''name'']"
  "exposes (sample_gauges fmtG now live ms) ms ''fleet_live_memory_total_bytes'' [''name'']"
  "exposes (sample_gauges fmtG now live ms) ms ''fleet_live_disk_used_bytes'' [''name'']"
  "exposes (sample_gauges fmtG now live ms) ms ''fleet_live_disk_total_bytes'' [''name'']"
  unfolding sample_gauges_def live_metric_def Let_def
  by (meson exposes_append exposes_named)+

lemma exposes_gpus: "exposes (gpu_gauges fmtG now live ms) ms ''fleet_live_gpu_temp_celsius'' [''gpu'', ''index'', ''name'']"
proof -
  have "labelled l (machine_labels m @ [numbered ''index'' a, escaped ''gpu'' b])"
    if "l \<in> {''gpu'', ''index'', ''name''}" for l m a b
    using that by (auto simp: labelled_def machine_labels_def escaped_def numbered_def HasPrefix_def)
  then have "exposes (live_metric now live ''fleet_live_gpu_temp_celsius'' h
      (\<lambda>s. map (\<lambda>x. ([numbered ''index'' (sint (gpu_Index x)), escaped ''gpu'' (gpu_Name x)], fmtG (val x))) (mt_GPUs s)) ms)
    ms ''fleet_live_gpu_temp_celsius'' [''gpu'', ''index'', ''name'']" for h val
    unfolding live_metric_def by (intro exposes_metric) (auto split: option.splits)
  then show ?thesis
    unfolding gpu_gauges_def Let_def
    by (intro exposes_append(2)[of _ ms _ _ "live_metric now live ''fleet_live_gpu_utilization_percent'' _ _ ms"]
        exposes_append(2)[of _ ms _ _ "live_metric now live ''fleet_live_gpu_memory_used_bytes'' _ _ ms"]
        exposes_append(2)[of _ ms _ _ "live_metric now live ''fleet_live_gpu_memory_total_bytes'' _ _ ms"] exposes_append(1))
qed



end
