(* ===== verification/Request_Turns.thy ===== *)
theory Request_Turns
  imports Overlap_Properties
begin

text \<open>
  How many calls a request makes. No handler waits for another: whatever the calls of others
  put in between, a request that gets its turns ends. The bound is in the lengths of the lists
  the store answers, which is what \<open>Recompute\<close> (\<open>internal/server/groups.go\<close>) loops over.
\<close>

section \<open>Threads that end\<close>

text \<open>
  \<open>ends P Q n t\<close>: in worlds that satisfy \<open>P\<close> the thread ends within \<open>n\<close> calls of its own, with
  a result that satisfies \<open>Q\<close>, whatever the world is at each call.
\<close>

fun ends :: "('w \<Rightarrow> bool) \<Rightarrow> ('a \<Rightarrow> bool) \<Rightarrow> nat \<Rightarrow> ('w, 'a) thread \<Rightarrow> bool" where
  "ends P Q n (Finished a) = Q a"
| "ends P Q 0 (Atomic f) = False"
| "ends P Q (Suc n) (Atomic f) = (\<forall>w. P w \<longrightarrow> ends P Q n (fst (f w)))"

named_theorems endings

lemma ends_more: "ends P Q n t \<Longrightarrow> n \<le> m \<Longrightarrow> ends P Q m t"
proof (induction P Q n t arbitrary: m rule: ends.induct)
  case (3 P Q n f)
  then show ?case by (cases m) auto
qed auto

lemma ends_weaker: "ends P Q n t \<Longrightarrow> (\<And>a. Q a \<Longrightarrow> R a) \<Longrightarrow> ends P R n t"
  by (induction P Q n t rule: ends.induct) auto

lemma ends_then:
  "ends P Q n t \<Longrightarrow> (\<And>a. Q a \<Longrightarrow> ends P R m (k a)) \<Longrightarrow> ends P R (n + m) (and_then t k)"
proof (induction P Q n t rule: ends.induct)
  case (1 P Q n a)
  then show ?case using ends_more[of P R m "k a" "n + m"] by simp
qed (auto simp: split_beta)

text \<open>One call; its answers satisfy \<open>Q\<close> where \<open>P\<close> holds.\<close>

lemma ends_call:
  assumes "\<And>w. P w \<Longrightarrow> Q (fst (act w))" and "\<And>r. Q r \<Longrightarrow> ends P R n (k r)"
  shows "ends P R (Suc n) (and_then (calls act) k)"
  using assms by (auto simp: calls_def split_beta)

lemma ends_read: "(\<And>r. ends P R n (k r)) \<Longrightarrow> ends P R (Suc n) (and_then (calls act) k)"
  by (auto intro!: ends_call[where Q = "\<lambda>_. True"])

lemma ends_last: "(\<And>w. P w \<Longrightarrow> Q (fst (act w))) \<Longrightarrow> ends P Q (Suc 0) (calls act)"
  by (auto simp: calls_def split_beta)

section \<open>A schedule\<close>

lemma length_run_pool: "length (fst (run_pool sched ts w)) = length ts"
  by (induction sched ts w rule: run_pool.induct) (auto split: thread.split prod.split)

text \<open>A thread that gets the turns it needs is finished at the end.\<close>

lemma enough_turns:
  "(\<And>j. j \<le> length sched \<Longrightarrow> P (snd (run_pool (take j sched) ts w))) \<Longrightarrow> i < length ts \<Longrightarrow>
   ends P Q (count_list sched i) (ts ! i) \<Longrightarrow> is_finished (fst (run_pool sched ts w) ! i)"
proof (induction sched arbitrary: ts w)
  case Nil
  then show ?case by (cases "ts ! i") auto
next
  case (Cons k sched)
  show ?case
  proof (cases "k < length ts \<and> (\<exists>f. ts ! k = Atomic f)")
    case False
    then have skip: "run_pool (k # s) ts w = run_pool s ts w" for s
      by (cases "k < length ts"; cases "ts ! k") auto
    have "P (snd (run_pool (take j sched) ts w))" if "j \<le> length sched" for j
      using Cons.prems(1)[of "Suc j"] that by (simp add: skip del: run_pool.simps(2))
    moreover have "ends P Q (count_list sched i) (ts ! i)"
      using Cons.prems(2,3) False by (cases "k = i"; cases "ts ! i") auto
    ultimately show ?thesis unfolding skip using Cons.IH Cons.prems(2) by blast
  next
    case True
    then obtain f where f: "k < length ts" "ts ! k = Atomic f" by blast
    obtain t w1 where t: "f w = (t, w1)" by fastforce
    have go: "run_pool (k # s) ts w = run_pool s (ts[k := t]) w1" for s using f t by simp
    have "P (snd (run_pool (take j sched) (ts[k := t]) w1))" if "j \<le> length sched" for j
      using Cons.prems(1)[of "Suc j"] that by (simp add: go del: run_pool.simps(2))
    moreover have "P w" using Cons.prems(1)[of 0] by simp
    then have "ends P Q (count_list sched i) (ts[k := t] ! i)"
      using Cons.prems(2,3) f t by (cases "k = i") auto
    ultimately show ?thesis unfolding go using Cons.IH[of "ts[k := t]" w1] Cons.prems(2) by simp
  qed
qed

section \<open>The handlers\<close>

text \<open>The store lists at most \<open>G\<close> groups and \<open>M\<close> machines for any tenant.\<close>

definition lists_at_most :: "'s store_ops \<Rightarrow> nat \<Rightarrow> nat \<Rightarrow> ('s, 'b) world \<Rightarrow> bool" where
  "lists_at_most S G M w \<longleftrightarrow>
     (\<forall>t gs. fst (ListGroups S t (w_store w)) = Inr gs \<longrightarrow> length gs \<le> G) \<and>
     (\<forall>t ms. fst (ListMachines S t (w_store w)) = Inr ms \<longrightarrow> length ms \<le> M)"

definition at_most :: "nat \<Rightarrow> 'e + 'a list \<Rightarrow> bool" where
  "at_most n r \<longleftrightarrow> (case r of Inl _ \<Rightarrow> True | Inr xs \<Rightarrow> length xs \<le> n)"

lemma lists_at_mostD:
  assumes "lists_at_most S G M w"
  shows "at_most G (fst (on_store (ListGroups S t) w))" "at_most M (fst (on_store (ListMachines S t) w))"
  using assms by (auto simp: lists_at_most_def at_most_def on_store_def split: prod.split sum.split) (metis fst_conv)+

lemma at_most_simps [simp]: "at_most n (Inl e)" "at_most n (Inr xs) \<longleftrightarrow> length xs \<le> n"
  by (simp_all add: at_most_def)

lemma ends_load_members: "ends P (\<lambda>_. True) (length gs) (load_members_t S gs members)"
proof (induction gs arbitrary: members)
  case (Cons g gs)
  then show ?case by (auto intro!: ends_read split: sum.split)
qed simp

lemma ends_load_machines: "ends P (at_most (length ms + length ids)) (length ids) (load_machines_t S ids ms)"
proof (induction ids arbitrary: ms)
  case Nil
  then show ?case by simp
next
  case (Cons i ids)
  have "ends P (at_most (length ms + length (i # ids))) (length ids) (load_machines_t S ids (ms @ [m]))" for m
    using Cons.IH[of "ms @ [m]"] by simp
  then show ?case by (auto intro!: ends_read split: sum.split)
qed

lemma ends_recompute_each: "ends P (\<lambda>_. True) (2 * length ms) (recompute_each_t S B env i members groups ms)"
proof (induction ms arbitrary: i groups)
  case (Cons m ms)
  obtain nxt groups' where c: "computeModules (env i) m groups members = (nxt, groups')" by fastforce
  have rest: "ends P (\<lambda>_. True) (2 * length ms) (recompute_each_t S B env (Suc i) members groups' ms)" by (rule Cons.IH)
  have "ends P (\<lambda>_. True) (Suc (Suc (2 * length ms)))
      (and_then (calls (on_store (SaveMachine S m'))) (\<lambda>r. case r of Inl e \<Rightarrow> Finished (Inl e)
         | Inr _ \<Rightarrow> and_then (calls (\<lambda>w. ((), publish B topic w))) (\<lambda>_.
             recompute_each_t S B env (Suc i) members groups' ms)))" for m' topic
    using rest by (auto intro!: ends_read split: sum.split)
  with ends_more[OF rest, of "Suc (Suc (2 * length ms))"] show ?case by (simp add: c Let_def)
qed simp

definition recompute_turns :: "nat \<Rightarrow> nat \<Rightarrow> string list \<Rightarrow> nat" where
  "recompute_turns G M ids = (if ids = [] then 2 + G + 2 * M else 1 + G + 3 * length ids)"

lemma ends_Recompute:
  "ends (lists_at_most S G M) (\<lambda>_. True) (recompute_turns G M ids) (Recompute_t S B env t ids)"
proof -
  let ?P = "lists_at_most S G M"
  let ?n = "if ids = [] then M else length ids"
  let ?c = "if ids = [] then 1 else length ids"
  have machines: "ends ?P (at_most ?n) ?c
      (if ids = [] then calls (on_store (ListMachines S t)) else load_machines_t S ids [])"
    using ends_load_machines[of ?P "[]" ids S] lists_at_mostD(2)[of S G M] by (auto intro!: ends_last)
  have each: "ends ?P (\<lambda>_. True) (2 * ?n) (case r of Inl e \<Rightarrow> Finished (Inl e)
      | Inr ms \<Rightarrow> recompute_each_t S B env 0 members groups ms)" if "at_most ?n r" for r members groups
  proof (cases r)
    case (Inr ms)
    with that have "2 * length ms \<le> 2 * ?n" by simp
    from ends_more[OF ends_recompute_each this] show ?thesis unfolding Inr sum.case .
  qed simp
  have rest: "ends ?P (\<lambda>_. True) (?c + 2 * ?n) (case r of Inl e \<Rightarrow> Finished (Inl e) | Inr members \<Rightarrow>
      and_then (if ids = [] then calls (on_store (ListMachines S t)) else load_machines_t S ids []) (\<lambda>r3.
        case r3 of Inl e \<Rightarrow> Finished (Inl e) | Inr ms \<Rightarrow> recompute_each_t S B env 0 members groups ms))" for r groups
    by (cases r; simp only: sum.case) (simp, rule ends_then[OF machines each])
  have "ends ?P (\<lambda>_. True) (G + (?c + 2 * ?n)) (case r of Inl e \<Rightarrow> Finished (Inl e) | Inr groups \<Rightarrow>
      and_then (load_members_t S groups fmempty) (\<lambda>r2. case r2 of Inl e \<Rightarrow> Finished (Inl e) | Inr members \<Rightarrow>
        and_then (if ids = [] then calls (on_store (ListMachines S t)) else load_machines_t S ids []) (\<lambda>r3.
          case r3 of Inl e \<Rightarrow> Finished (Inl e) | Inr ms \<Rightarrow> recompute_each_t S B env 0 members groups ms)))"
    if r: "at_most G r" for r
  proof (cases r)
    case (Inr groups)
    with r have "length groups \<le> G" by simp
    from ends_more[OF ends_load_members this] show ?thesis
      unfolding Inr sum.case by (rule ends_then[OF _ rest])
  qed simp
  then have "ends ?P (\<lambda>_. True) (Suc (G + (?c + 2 * ?n))) (Recompute_t S B env t ids)"
    unfolding Recompute_t_def by (intro ends_call[where Q = "at_most G"] lists_at_mostD(1))
  moreover have "Suc (G + (?c + 2 * ?n)) = recompute_turns G M ids" by (simp add: recompute_turns_def)
  ultimately show ?thesis by simp
qed

lemma ends_validateModules: "ends P (\<lambda>_. True) (length specs) (validateModules_t S specs)"
  by (induction specs) (auto intro!: ends_read split: sum.split)

lemma ends_answer:
  "ends (lists_at_most S G M) (\<lambda>_. True) (recompute_turns G M ids) (recompute_and_answer S B env t ids r)"
  unfolding recompute_and_answer_def
  using ends_then[OF ends_Recompute, where m = 0 and R = "\<lambda>_. True" and k = "\<lambda>_. Finished r"] by simp

lemma ends_quietly: "ends P (\<lambda>_. True) n t \<Longrightarrow> ends P (\<lambda>_. True) n (quietly t)"
  unfolding quietly_def using ends_then[where m = 0 and R = "\<lambda>_. True" and k = "\<lambda>_. Finished ()"] by fastforce

text \<open>The turns a handler needs before it recomputes, and those of the recomputation.\<close>

definition asked_modules :: "update_group_req option \<Rightarrow> nat" where
  "asked_modules body = (case body of Some req \<Rightarrow> (case ug_Modules req of Some ms \<Rightarrow> length ms | None \<Rightarrow> 0) | None \<Rightarrow> 0)"

lemma ends_branch:
  "(\<And>e. ends P Q n (f e)) \<Longrightarrow> (\<And>a. ends P Q n (g a)) \<Longrightarrow>
   ends P Q (Suc n) (and_then (calls act) (\<lambda>r. case r of Inl e \<Rightarrow> f e | Inr a \<Rightarrow> g a))"
  by (auto intro!: ends_read split: sum.split)

lemma ends_updateGroup:
  "ends (lists_at_most S G M) (\<lambda>_. True) (2 + asked_modules body + recompute_turns G M []) (updateGroup_t S B env pid body)"
proof -
  let ?P = "lists_at_most S G M"
  have modules: "ends ?P (\<lambda>_. True) (asked_modules (Some req)) (case ug_Modules req of
       None \<Rightarrow> Finished (None, g2)
     | Some ms \<Rightarrow> and_then (validateModules_t S ms) (\<lambda>r2. case r2 of Some r \<Rightarrow> Finished (Some r, g2)
         | None \<Rightarrow> Finished (None, g2\<lparr>g_Modules := ms\<rparr>)))" for req g2
  proof (cases "ug_Modules req")
    case (Some ms)
    have "ends ?P (\<lambda>_. True) (length ms + 0) (and_then (validateModules_t S ms) (\<lambda>r2. case r2 of Some r \<Rightarrow> Finished (Some r, g2)
         | None \<Rightarrow> Finished (None, g2\<lparr>g_Modules := ms\<rparr>)))"
      by (rule ends_then[OF ends_validateModules]) (simp split: option.split)
    then show ?thesis by (simp add: Some asked_modules_def)
  qed simp
  have save: "ends ?P (\<lambda>_. True) (Suc (recompute_turns G M [])) (case x of (bad, g3) \<Rightarrow> case bad of Some r \<Rightarrow> Finished r
     | None \<Rightarrow> and_then (calls (on_store (SaveGroup S g3))) (\<lambda>r3. case r3 of
         Inl _ \<Rightarrow> Finished (HttpError StatusInternalServerError ''store error'')
       | Inr _ \<Rightarrow> recompute_and_answer S B env (g_TenantID g3) [] (Json g3)))" for x
    by (auto intro!: ends_branch ends_answer split: prod.split option.split)
  have n: "2 + asked_modules body + recompute_turns G M [] = Suc (asked_modules body + Suc (recompute_turns G M []))" by simp
  show ?thesis
    unfolding updateGroup_t_def n Let_def
  proof (rule ends_branch)
    fix g
    show "ends ?P (\<lambda>_. True) (asked_modules body + Suc (recompute_turns G M [])) (case body of
        None \<Rightarrow> Finished (HttpError StatusBadRequest ''bad request'')
      | Some req \<Rightarrow> and_then
          (case ug_Modules req of
             None \<Rightarrow> Finished (None, case ug_Selector req of None \<Rightarrow> (case ug_Name req of None \<Rightarrow> g | Some n \<Rightarrow> g\<lparr>g_Name := n\<rparr>)
               | Some s \<Rightarrow> (case ug_Name req of None \<Rightarrow> g | Some n \<Rightarrow> g\<lparr>g_Name := n\<rparr>)\<lparr>g_Selector := s\<rparr>)
           | Some ms \<Rightarrow> and_then (validateModules_t S ms) (\<lambda>r2. case r2 of
               Some r \<Rightarrow> Finished (Some r, case ug_Selector req of None \<Rightarrow> (case ug_Name req of None \<Rightarrow> g | Some n \<Rightarrow> g\<lparr>g_Name := n\<rparr>)
                 | Some s \<Rightarrow> (case ug_Name req of None \<Rightarrow> g | Some n \<Rightarrow> g\<lparr>g_Name := n\<rparr>)\<lparr>g_Selector := s\<rparr>)
             | None \<Rightarrow> Finished (None, (case ug_Selector req of None \<Rightarrow> (case ug_Name req of None \<Rightarrow> g | Some n \<Rightarrow> g\<lparr>g_Name := n\<rparr>)
                 | Some s \<Rightarrow> (case ug_Name req of None \<Rightarrow> g | Some n \<Rightarrow> g\<lparr>g_Name := n\<rparr>)\<lparr>g_Selector := s\<rparr>)\<lparr>g_Modules := ms\<rparr>)))
          (\<lambda>(bad, g3). case bad of Some r \<Rightarrow> Finished r
             | None \<Rightarrow> and_then (calls (on_store (SaveGroup S g3))) (\<lambda>r3. case r3 of
                 Inl _ \<Rightarrow> Finished (HttpError StatusInternalServerError ''store error'')
               | Inr _ \<Rightarrow> recompute_and_answer S B env (g_TenantID g3) [] (Json g3))))"
    proof (cases body)
      case (Some req)
      show ?thesis unfolding Some option.case by (rule ends_then[OF modules save])
    qed simp
  qed simp
qed

lemma ends_deleteGroup: "ends (lists_at_most S G M) (\<lambda>_. True) (2 + recompute_turns G M []) (deleteGroup_t S B env pid)"
  by (auto simp: deleteGroup_t_def numeral_2_eq_2 intro!: ends_branch ends_answer)

lemma ends_addGroupMember: "ends (lists_at_most S G M) (\<lambda>_. True) (3 + recompute_turns G M [i]) (addGroupMember_t S B env pid body)"
proof -
  have "ends (lists_at_most S G M) (\<lambda>_. True) (recompute_turns G M [i]) (recompute_and_answer S B env t [j] r)" for t j r
    using ends_answer[of S G M "[j]"] by (simp add: recompute_turns_def)
  then show ?thesis
    by (auto simp: addGroupMember_t_def numeral_3_eq_3 intro!: ends_branch split: option.split)
qed

lemma ends_removeGroupMember: "ends (lists_at_most S G M) (\<lambda>_. True) (2 + recompute_turns G M [i]) (removeGroupMember_t S B env pid i)"
  by (auto simp: removeGroupMember_t_def numeral_2_eq_2 intro!: ends_branch ends_answer)

lemma ends_putLabels: "ends (lists_at_most S G M) (\<lambda>_. True) (2 + recompute_turns G M [i]) (putLabels_t S B env pid body)"
proof -
  have "ends (lists_at_most S G M) (\<lambda>_. True) (recompute_turns G M [i]) (recompute_and_answer S B env t [j] r)" for t j r
    using ends_answer[of S G M "[j]"] by (simp add: recompute_turns_def)
  then show ?thesis
    by (auto simp: putLabels_t_def numeral_2_eq_2 Let_def intro!: ends_branch split: option.split)
qed

lemma ends_deleteMachine: "ends P (\<lambda>_. True) 3 (deleteMachine_t S B pid)"
  unfolding deleteMachine_t_def numeral_3_eq_3 by (intro ends_branch ends_read) simp_all

section \<open>Every request ends\<close>

text \<open>The turns that are enough, by request.\<close>

inductive takes_turns :: "'s store_ops \<Rightarrow> 'b bus_ops \<Rightarrow> nat \<Rightarrow> nat \<Rightarrow> (('s, 'b) world, unit) thread \<Rightarrow> nat \<Rightarrow> bool"
  for S B G M where
  "takes_turns S B G M (quietly (updateGroup_t S B env pid body)) (4 + asked_modules body + G + 2 * M)"
| "takes_turns S B G M (quietly (deleteGroup_t S B env pid)) (4 + G + 2 * M)"
| "takes_turns S B G M (quietly (addGroupMember_t S B env pid member)) (7 + G)"
| "takes_turns S B G M (quietly (removeGroupMember_t S B env pid i)) (6 + G)"
| "takes_turns S B G M (quietly (putLabels_t S B env pid labels)) (6 + G)"
| "takes_turns S B G M (quietly (deleteMachine_t S B pid)) 3"
| "takes_turns S B G M (quietly (Recompute_t S B env t [])) (2 + G + 2 * M)"

lemma takes_turns_ends: "takes_turns S B G M t n \<Longrightarrow> ends (lists_at_most S G M) (\<lambda>_. True) n t"
proof (induction rule: takes_turns.induct)
  case (1 env pid body)
  show ?case by (rule ends_quietly, rule ends_more[OF ends_updateGroup]) (simp add: recompute_turns_def)
next
  case (2 env pid)
  show ?case by (rule ends_quietly, rule ends_more[OF ends_deleteGroup]) (simp add: recompute_turns_def)
next
  case (3 env pid member)
  show ?case by (rule ends_quietly, rule ends_more[OF ends_addGroupMember[where i = "[]"]]) (simp add: recompute_turns_def)
next
  case (4 env pid i)
  show ?case by (rule ends_quietly, rule ends_more[OF ends_removeGroupMember]) (simp add: recompute_turns_def)
next
  case (5 env pid labels)
  show ?case by (rule ends_quietly, rule ends_more[OF ends_putLabels[where i = "[]"]]) (simp add: recompute_turns_def)
next
  case (6 pid)
  show ?case by (rule ends_quietly, rule ends_deleteMachine)
next
  case (7 env t)
  show ?case by (rule ends_quietly, rule ends_more[OF ends_Recompute]) (simp add: recompute_turns_def)
qed

text \<open>
  C8: Every request ends: in any schedule of any overlapping requests, on any store, with
  calls that succeed or fail, a change of a group, of its members, of labels or a deletion is
  answered once it has had its turns: at most one for each module it asks for and each group
  of the fleet, two for each machine, and a few more. No request waits for another one.
\<close>

theorem requests_end:
  assumes "takes_turns S B G M (ts ! i) n" and "i < length ts" and "n \<le> count_list sched i"
    and "\<And>j. j \<le> length sched \<Longrightarrow> lists_at_most S G M (snd (run_pool (take j sched) ts w))"
  shows "is_finished (fst (run_pool sched ts w) ! i)"
  using enough_turns[OF assms(4) assms(2) ends_more[OF takes_turns_ends[OF assms(1)] assms(3)]] by blast

text \<open>On the file store the bounds are the numbers of records.\<close>

definition few_records :: "nat \<Rightarrow> plane \<Rightarrow> bool" where
  "few_records n w \<longleftrightarrow>
     length (sorted_list_of_fmap (fd_Groups (fs_data (w_store w)))) \<le> n \<and>
     length (sorted_list_of_fmap (fd_Machines (fs_data (w_store w)))) \<le> n"

lemma length_range_values: "length (map snd (range_map p m)) = length (sorted_list_of_fmap m)"
  by (simp add: range_map_def del: length_range_map)

lemma few_records_lists: "few_records n w \<Longrightarrow> lists_at_most file_ops n n w"
  using length_range_values[of _ "fd_Groups (fs_data (w_store w))"] length_range_values[of _ "fd_Machines (fs_data (w_store w))"]
  by (auto simp: few_records_def lists_at_most_def file_ops_def fs_ListGroups_def fs_ListMachines_def range_values_def
      intro!: le_trans[OF length_filter_le])

lemma requests_end_witness:
  "is_finished (fst (run_pool (replicate 2 0 @ [1, 1, 1] @ replicate 11 0) [update_h drop_modules, delete_m] plane5) ! 0)"
proof (rule requests_end)
  show "takes_turns file_ops inproc_ops 3 3 ([update_h drop_modules, delete_m] ! 0) (4 + asked_modules (Some drop_modules) + 3 + 2 * 3)"
    unfolding update_h_def nth_Cons_0 by (rule takes_turns.intros)
  have "list_all (\<lambda>j. few_records 3 (snd (run_pool (take j (replicate 2 0 @ [1, 1, 1] @ replicate 11 0))
      [update_h drop_modules, delete_m] plane5))) [0..<17]" by code_simp
  then show "lists_at_most file_ops 3 3 (snd (run_pool (take j (replicate 2 0 @ [1, 1, 1] @ replicate 11 0))
      [update_h drop_modules, delete_m] plane5))"
    if "j \<le> length (replicate 2 0 @ [1, 1, 1] @ replicate 11 0)" for j
    using that few_records_lists by (simp add: list_all_iff)
  show "4 + asked_modules (Some drop_modules) + 3 + 2 * 3 \<le> count_list (replicate 2 0 @ [1, 1, 1] @ replicate 11 (0::nat)) 0"
    by code_simp
qed simp

end
