(* ===== verification/Startup.thy ===== *)
theory Startup
  imports Server_Setup Authority_Properties Turso_Schema Store_Steps Agent_Runtime Sample_Run
begin

text \<open>
  The two commands (\<open>cmd/fleet-server/main.go\<close>, \<open>cmd/fleet-agent/main.go\<close>): their flags, how
  the server puts its parts together at a start, and what the agent's subcommands do before
  they run. What a restart finds is what the run before left on disk.
\<close>

section \<open>Flags\<close>

text \<open>
  Go's \<open>flag\<close> package for flags that take a value: \<open>-name value\<close>, \<open>-name=value\<close>, one dash or
  two, up to the first argument that is no flag. \<open>check\<close> says whether a value suits a flag.
\<close>

datatype flag_error = BadSyntax | HelpAsked | NotDefined | NeedsArgument | BadValue

definition flag_name :: "string \<Rightarrow> string" where
  "flag_name s = (if HasPrefix s ''--'' then drop 2 s else drop 1 s)"

fun parse_flags ::
  "string list \<Rightarrow> (string \<Rightarrow> string \<Rightarrow> bool) \<Rightarrow> string list \<Rightarrow> string gomap \<Rightarrow> flag_error + string gomap" where
  "parse_flags names check [] vals = Inr vals"
| "parse_flags names check (s # rest) vals =
     (if length s < 2 \<or> \<not> HasPrefix s ''-'' \<or> s = ''--'' then Inr vals
      else
        let nm = flag_name s
        in if nm = [] \<or> HasPrefix nm ''-'' \<or> HasPrefix nm ''='' then Inl BadSyntax
           else
             (case Cut nm ''='' of
                (name, val, given) \<Rightarrow>
                  if name \<notin> set names then Inl (if name = ''help'' \<or> name = ''h'' then HelpAsked else NotDefined)
                  else if given
                  then if check name val then parse_flags names check rest (fmupd name val vals) else Inl BadValue
                  else
                    (case rest of
                       [] \<Rightarrow> Inl NeedsArgument
                     | v # rest' \<Rightarrow>
                         if check name v then parse_flags names check rest' (fmupd name v vals) else Inl BadValue)))"

text \<open>The exit code of \<open>flag.ExitOnError\<close>.\<close>

definition flag_exit :: "flag_error \<Rightarrow> nat" where
  "flag_exit e = (if e = HelpAsked then 0 else 2)"

definition flag_or :: "string gomap \<Rightarrow> string \<Rightarrow> string \<Rightarrow> string" where
  "flag_or vals name dflt = (case fmlookup vals name of None \<Rightarrow> dflt | Some v \<Rightarrow> v)"

section \<open>The server\<close>

record server_flags =
  sf_Data :: string
  sf_AgentAddr :: string
  sf_AdminAddr :: string
  sf_AdminToken :: string
  sf_SAN :: string
  sf_DBURL :: string
  sf_DBToken :: string
  sf_Binaries :: string
  sf_CmdHistory :: int64

definition server_flag_names :: "string list" where
  "server_flag_names =
     [''data'', ''agent-addr'', ''admin-addr'', ''admin-token'', ''san'', ''db-url'', ''db-token'', ''binaries'', ''max-command-history'']"

text \<open>\<open>getenv\<close> is \<open>os.Getenv\<close>, \<open>parse_int\<close> the parser of \<open>flag.Int\<close>.\<close>

definition server_flags_of ::
  "(string \<Rightarrow> int64 option) \<Rightarrow> (string \<Rightarrow> string) \<Rightarrow> string list \<Rightarrow> flag_error + server_flags" where
  "server_flags_of parse_int getenv args =
     (case parse_flags server_flag_names (\<lambda>n v. n = ''max-command-history'' \<longrightarrow> parse_int v \<noteq> None) args fmempty of
        Inl e \<Rightarrow> Inl e
      | Inr vals \<Rightarrow>
          Inr \<lparr>sf_Data = flag_or vals ''data'' ''/var/lib/fleet-server'',
               sf_AgentAddr = flag_or vals ''agent-addr'' '':8443'',
               sf_AdminAddr = flag_or vals ''admin-addr'' ''127.0.0.1:8080'',
               sf_AdminToken = flag_or vals ''admin-token'' (getenv ''FLEET_ADMIN_TOKEN''),
               sf_SAN = flag_or vals ''san'' ''localhost,127.0.0.1'',
               sf_DBURL = flag_or vals ''db-url'' (getenv ''FLEET_DB_URL''),
               sf_DBToken = flag_or vals ''db-token'' (getenv ''FLEET_DB_TOKEN''),
               sf_Binaries = flag_or vals ''binaries'' [],
               sf_CmdHistory = (case Option.bind (fmlookup vals ''max-command-history'') parse_int of None \<Rightarrow> 20 | Some n \<Rightarrow> n)\<rparr>)"

text \<open>The listener's TLS: the chain and its key, the roots that client certificates are verified by.\<close>

record tls_config =
  tc_Certificates :: "bytes list \<times> bytes"
  tc_ClientCAs :: "certificate list"

definition TLSConfig ::
  "crypto \<Rightarrow> (string \<Rightarrow> bool) \<Rightarrow> ca_env \<Rightarrow> ca \<Rightarrow> string list \<Rightarrow> ca_error + tls_config" where
  "TLSConfig cr isIP env c sans =
     (case ServerTLSCert cr isIP env c sans of
        Inl e \<Rightarrow> Inl e
      | Inr serverCert \<Rightarrow> Inr \<lparr>tc_Certificates = serverCert, tc_ClientCAs = [ca_Cert c]\<rparr>)"

text \<open>
  The disk: the files of the authority's directory, the store file with its temporary file,
  the database. A start is given random bytes, the answers to the authority and to the
  certificate it issues, to the statements, and the later outcomes of a file store.
\<close>

record disk =
  dk_Files :: "bytes gomap"
  dk_Store :: file_content
  dk_Tmp :: file_content
  dk_DB :: sql_database

record start_env =
  se_Rand :: "bytes option"
  se_CA :: ca_env
  se_TLS :: ca_env
  se_Statements :: "nat \<Rightarrow> request_outcome"
  se_Readable :: bool
  se_Outcome :: "nat \<Rightarrow> flush_outcome"
  se_Order :: "nat \<Rightarrow> shuffle"

datatype opened_store = FileStore file_store | TursoStore turso_store

record server =
  sv_Authority :: ca
  sv_Fingerprint :: string
  sv_Store :: opened_store
  sv_AdminToken :: string
  sv_TLS :: tls_config
  sv_Installer :: installer
  sv_CmdHistory :: int64

datatype start_failure = RandFails | AuthorityFails ca_error | TursoFails string | FileFails store_error | TLSFails ca_error

definition admin_token_of :: "server_flags \<Rightarrow> bytes option \<Rightarrow> string option" where
  "admin_token_of fl rand = (if sf_AdminToken fl \<noteq> [] then Some (sf_AdminToken fl) else map_option hex_encode rand)"

definition open_store :: "start_env \<Rightarrow> server_flags \<Rightarrow> disk \<Rightarrow> (start_failure + opened_store) \<times> disk" where
  "open_store env fl d =
     (if sf_DBURL fl \<noteq> []
      then (case OpenTurso (sf_DBURL fl) (sf_DBToken fl) (se_Statements env) (dk_DB d) of
              (Inl e, db) \<Rightarrow> (Inl (TursoFails e), d\<lparr>dk_DB := db\<rparr>)
            | (Inr ts, db) \<Rightarrow> (Inr (TursoStore ts), d\<lparr>dk_DB := db\<rparr>))
      else (case OpenFile (se_Outcome env) (se_Order env) (se_Readable env) (dk_Tmp d) (dk_Store d) of
              Inl e \<Rightarrow> (Inl (FileFails e), d)
            | Inr fs \<Rightarrow> (Inr (FileStore fs), d)))"

text \<open>\<open>main\<close> up to the listeners. \<open>digest\<close> is SHA-256.\<close>

definition start_server ::
  "crypto \<Rightarrow> (string \<Rightarrow> bool) \<Rightarrow> (bytes \<Rightarrow> bytes) \<Rightarrow> start_env \<Rightarrow> server_flags \<Rightarrow> disk \<Rightarrow> (start_failure + server) \<times> disk" where
  "start_server cr isIP digest env fl d =
     (case admin_token_of fl (se_Rand env) of
        None \<Rightarrow> (Inl RandFails, d)
      | Some token \<Rightarrow>
          (case LoadOrCreate cr (se_CA env) (JoinPath [sf_Data fl, ''ca'']) (dk_Files d) of
             (Inl e, files) \<Rightarrow> (Inl (AuthorityFails e), d\<lparr>dk_Files := files\<rparr>)
           | (Inr authority, files) \<Rightarrow>
               (case open_store env fl (d\<lparr>dk_Files := files\<rparr>) of
                  (Inl e, d1) \<Rightarrow> (Inl e, d1)
                | (Inr st, d1) \<Rightarrow>
                    (let fp = hex_encode (digest (ca_Raw authority))
                     in case TLSConfig cr isIP (se_TLS env) authority (splitCSV (sf_SAN fl)) of
                          Inl e \<Rightarrow> (Inl (TLSFails e), d1)
                        | Inr tls \<Rightarrow>
                            (Inr \<lparr>sv_Authority = authority, sv_Fingerprint = fp, sv_Store = st, sv_AdminToken = token, sv_TLS = tls,
                                  sv_Installer = \<lparr>in_BinDir = sf_Binaries fl, in_CAFingerprint = fp, in_Sums = fmempty\<rparr>,
                                  sv_CmdHistory = sf_CmdHistory fl\<rparr>, d1)))))"

section \<open>The agent\<close>

definition hostnameOr :: "string option \<Rightarrow> string \<Rightarrow> string" where
  "hostnameOr host dflt = (case host of Some h \<Rightarrow> h | None \<Rightarrow> dflt)"

text \<open>
  What a run of the command is given: \<open>os.Hostname\<close>, the environment variables, the answers
  to an enrollment and to a renewal, the clock, and the library's parsers.
\<close>

record agent_env =
  cm_Hostname :: "string option"
  cm_Getenv :: "string \<Rightarrow> string"
  cm_Digest :: "bytes \<Rightarrow> bytes"
  cm_Enroll :: enroll_env
  cm_KeyPair :: "bytes \<Rightarrow> bytes \<Rightarrow> bool"
  cm_AppendCerts :: "bytes \<Rightarrow> bool"
  cm_Renew :: renew_env
  cm_Now :: int
  cm_Int :: "string \<Rightarrow> int64 option"
  cm_Duration :: "string \<Rightarrow> int64 option"

definition value_or :: "(string \<Rightarrow> int64 option) \<Rightarrow> string gomap \<Rightarrow> string \<Rightarrow> int64 \<Rightarrow> int64" where
  "value_or parse vals name dflt = (case Option.bind (fmlookup vals name) parse of None \<Rightarrow> dflt | Some n \<Rightarrow> n)"

text \<open>The process exits with a code, or the loops run with their settings.\<close>

record agent_settings =
  as_Server :: string
  as_Heartbeat :: int64
  as_MetricsEvery :: int64
  as_TopProcesses :: int64

datatype command_result = Exits nat | Running agent_settings runtime | Crashed

text \<open>The agent the process makes over a data directory, whose files and applied record are on disk.\<close>

definition new_agent :: "string \<Rightarrow> applied_file \<Rightarrow> bytes gomap \<Rightarrow> agent" where
  "new_agent dir applied files =
     \<lparr>ag_DataDir = dir, ag_MachineID = [], ag_ModKey = [], ag_PushHelper = [], ag_Applied = applied, ag_Files = files,
      ag_Runs = [], ag_Reports = []\<rparr>"

text \<open>\<open>Run\<close> up to its loops; a nil block in the renewal ends the process with a panic.\<close>

definition Run :: "agent_env \<Rightarrow> agent_settings \<Rightarrow> agent \<Rightarrow> command_result \<times> agent" where
  "Run env st a =
     (case agent_init (cm_KeyPair env) (cm_AppendCerts env) \<lparr>rt_Agent = a, rt_Client = None, rt_LastDesired = None\<rparr> of
        (Some e, rt) \<Rightarrow> (Exits 1, rt_Agent rt)
      | (None, rt) \<Rightarrow>
          (case maybeRenewCert (cm_KeyPair env) (cm_AppendCerts env) (cm_Renew env) (cm_Now env) rt of
             (Panicked, rt') \<Rightarrow> (Crashed, rt_Agent rt')
           | (_, rt') \<Rightarrow> (Running (st\<lparr>as_Heartbeat := heartbeat_interval (as_Heartbeat st)\<rparr>) rt', rt_Agent rt')))"

definition default_data :: string where
  "default_data = ''/var/lib/fleet-agent''"

definition enroll_command ::
  "agent_env \<Rightarrow> string list \<Rightarrow> applied_file \<Rightarrow> bytes gomap \<Rightarrow> command_result \<times> bytes gomap" where
  "enroll_command env args applied files =
     (case parse_flags [''server'', ''data'', ''token'', ''fingerprint'', ''name''] (\<lambda>_ _. True) args fmempty of
        Inl e \<Rightarrow> (Exits (flag_exit e), files)
      | Inr vals \<Rightarrow>
          let token = flag_or vals ''token'' [];
              a = new_agent (flag_or vals ''data'' default_data) applied files
          in if flag_or vals ''server'' [] = [] \<or> token = [] then (Exits 2, files)
             else if Enrolled a then (Exits 1, files)
             else (case Enroll (cm_Digest env) (cm_Enroll env) token
                      (flag_or vals ''name'' (hostnameOr (cm_Hostname env) [])) (flag_or vals ''fingerprint'' []) a of
                     (Some e, a1) \<Rightarrow> (Exits 1, ag_Files a1)
                   | (None, a1) \<Rightarrow> (Exits 0, ag_Files a1)))"

definition run_flag_names :: "string list" where
  "run_flag_names =
     [''server'', ''data'', ''heartbeat'', ''metrics-interval'', ''top-processes'', ''token'', ''fingerprint'', ''name'']"

definition run_flag_ok :: "agent_env \<Rightarrow> string \<Rightarrow> string \<Rightarrow> bool" where
  "run_flag_ok env n v =
     (if n = ''heartbeat'' \<or> n = ''metrics-interval'' then cm_Duration env v \<noteq> None
      else if n = ''top-processes'' then cm_Int env v \<noteq> None else True)"

definition run_command ::
  "agent_env \<Rightarrow> string list \<Rightarrow> applied_file \<Rightarrow> bytes gomap \<Rightarrow> command_result \<times> bytes gomap" where
  "run_command env args applied files =
     (case parse_flags run_flag_names (run_flag_ok env) args fmempty of
        Inl e \<Rightarrow> (Exits (flag_exit e), files)
      | Inr vals \<Rightarrow>
          let a = new_agent (flag_or vals ''data'' default_data) applied files;
              st = \<lparr>as_Server = flag_or vals ''server'' [],
                    as_Heartbeat = value_or (cm_Duration env) vals ''heartbeat'' 30000000000,
                    as_MetricsEvery = value_or (cm_Duration env) vals ''metrics-interval'' 10000000000,
                    as_TopProcesses = value_or (cm_Int env) vals ''top-processes'' 5\<rparr>
          in if as_Server st = [] then (Exits 2, files)
             else (case self_enroll (cm_Digest env) (cm_Enroll env) (flag_or vals ''token'' (cm_Getenv env ''FLEET_TOKEN''))
                      (flag_or vals ''name'' (hostnameOr (cm_Hostname env) []))
                      (flag_or vals ''fingerprint'' (cm_Getenv env ''FLEET_CA_FINGERPRINT'')) a of
                     (Inl e, a1) \<Rightarrow> (Exits 1, ag_Files a1)
                   | (Inr _, a1) \<Rightarrow> (case Run env st a1 of (r, a2) \<Rightarrow> (r, ag_Files a2))))"

definition usage :: command_result where
  "usage = Exits 2"

text \<open>\<open>main\<close>; the arguments without the name of the program.\<close>

definition fleet_agent ::
  "agent_env \<Rightarrow> string list \<Rightarrow> applied_file \<Rightarrow> bytes gomap \<Rightarrow> command_result \<times> bytes gomap" where
  "fleet_agent env args applied files =
     (case args of
        [] \<Rightarrow> (usage, files)
      | cmd # rest \<Rightarrow>
          if cmd = ''enroll'' then enroll_command env rest applied files
          else if cmd = ''run'' then run_command env rest applied files
          else (usage, files))"

section \<open>Restarts of the server\<close>

text \<open>What a run on the file store leaves on disk.\<close>

definition after_run :: "store_call list \<Rightarrow> file_store \<Rightarrow> disk \<Rightarrow> disk" where
  "after_run cs fs d = d\<lparr>dk_Store := fs_path (fs_run cs fs), dk_Tmp := fs_tmp (fs_run cs fs)\<rparr>"

lemma started_parts:
  assumes "start_server cr isIP digest env fl d = (Inr sv, d')"
  shows "LoadOrCreate cr (se_CA env) (JoinPath [sf_Data fl, ''ca'']) (dk_Files d) = (Inr (sv_Authority sv), dk_Files d')"
    and "sf_DBURL fl = [] \<Longrightarrow> \<exists>fs. sv_Store sv = FileStore fs \<and> dk_Store d' = dk_Store d \<and>
      OpenFile (se_Outcome env) (se_Order env) (se_Readable env) (dk_Tmp d) (dk_Store d) = Inr fs"
    and "sv_Fingerprint sv = hex_encode (digest (ca_Raw (sv_Authority sv)))"
  using assms by (auto simp: start_server_def open_store_def Let_def split: option.splits prod.splits sum.splits if_splits)

lemma started_store:
  assumes "start_server cr isIP digest env fl d = (Inr sv, d')" and "sf_DBURL fl = []" and "dk_Store d = Whole data"
  obtains fs where "sv_Store sv = FileStore fs" "fs_path fs = Whole (fs_data fs)" "fs_data fs = data"
  using started_parts(2)[OF assms(1,2)] assms(3) by (auto simp: OpenFile_def Let_def split: if_splits)

text \<open>
  C11: A restart of the server loses nothing: whatever calls a run made on the file store, with
  writes that failed anywhere, the next start on the same data directory comes up with the
  same authority, so the same fingerprint and module key, and with the records as they were
  after some call since which no change was acknowledged. It can fail only for lack of random
  bytes or of a certificate for its listener.
\<close>

theorem restart_keeps_fleet:
  assumes "start_server cr isIP digest env fl d = (Inr sv, d')" and "sv_Store sv = FileStore fs"
    and "dk_Store d = Whole data" and "sf_DBURL fl = []" and "sf_DBURL fl2 = []" and "sf_Data fl2 = sf_Data fl"
    and "ce_MkdirOk (se_CA env2)" and "se_Readable env2"
  shows "case start_server cr isIP digest env2 fl2 (after_run cs fs d') of
      (Inl e, d2) \<Rightarrow> e = RandFails \<or> (\<exists>c. e = TLSFails c)
    | (Inr sv2, d2) \<Rightarrow> sv_Authority sv2 = sv_Authority sv \<and> sv_Fingerprint sv2 = sv_Fingerprint sv \<and> d2 = after_run cs fs d' \<and>
        (\<exists>n fs2. n \<le> length cs \<and> sv_Store sv2 = FileStore fs2 \<and> fs_data fs2 = fs_data (fs_run (take n cs) fs) \<and>
           (\<forall>i. n \<le> i \<longrightarrow> i < length cs \<longrightarrow> \<not> acked (cs ! i) (fs_run (take i cs) fs)))"
proof -
  let ?d = "after_run cs fs d'"
  from started_store[OF assms(1,4,3)] assms(2) have whole: "fs_path fs = Whole (fs_data fs)" by auto
  from file_holds_past_state[OF whole, of cs] obtain n where n: "n \<le> length cs"
      "fs_path (fs_run cs fs) = Whole (fs_data (fs_run (take n cs) fs))"
      "\<forall>i. n \<le> i \<longrightarrow> i < length cs \<longrightarrow> \<not> acked (cs ! i) (fs_run (take i cs) fs)"
    by blast
  have ca: "LoadOrCreate cr (se_CA env2) (JoinPath [sf_Data fl2, ''ca'']) (dk_Files ?d) = (Inr (sv_Authority sv), dk_Files ?d)"
    using LoadOrCreate_again[OF started_parts(1)[OF assms(1)] assms(7)] by (simp add: assms(6) after_run_def)
  obtain fs2 where fs2: "open_store env2 fl2 ?d = (Inr (FileStore fs2), ?d)" "fs_data fs2 = fs_data (fs_run (take n cs) fs)"
    using n(2) assms(5,8) by (simp add: open_store_def OpenFile_def Let_def after_run_def)
  have files: "?d\<lparr>dk_Files := dk_Files ?d\<rparr> = ?d" by simp
  show ?thesis
    using n(1,3) fs2 started_parts(3)[OF assms(1)]
    by (auto simp: start_server_def ca files Let_def simp del: disk.surjective split: option.split sum.split)
qed

text \<open>A server with a store file in which a token is saved while writes fail, then started again.\<close>

definition server_crypto :: crypto where
  "server_crypto = sample_crypto\<lparr>cr_CreateCertificate := (\<lambda>_ _ _ _. Some ''root'')\<rparr>"

definition sample_start_env :: "(nat \<Rightarrow> flush_outcome) \<Rightarrow> start_env" where
  "sample_start_env outcome =
     \<lparr>se_Rand = Some ''r'', se_CA = sample_ca_env (\<lambda>_. Written), se_TLS = sample_ca_env (\<lambda>_. Written),
      se_Statements = answered, se_Readable = True, se_Outcome = outcome, se_Order = (\<lambda>_. in_order)\<rparr>"

definition sample_flags :: server_flags where
  "sample_flags = projr (server_flags_of (\<lambda>_. None) (\<lambda>_. []) [''-data'', ''/d'', ''--san=cp''])"

definition sample_disk :: disk where
  "sample_disk =
     \<lparr>dk_Files = fmempty, dk_Store = Whole empty_data, dk_Tmp = Missing, dk_DB = \<lparr>db_Tables = fmempty, db_Indexes = []\<rparr>\<rparr>"

definition first_start :: "(start_failure + server) \<times> disk" where
  "first_start = start_server server_crypto (\<lambda>_. False) (\<lambda>b. b) (sample_start_env (\<lambda>_. WriteFails)) sample_flags sample_disk"

definition file_store_of :: "server \<Rightarrow> file_store" where
  "file_store_of sv = (case sv_Store sv of FileStore fs \<Rightarrow> fs | TursoStore _ \<Rightarrow> fresh_store)"

lemma restart_keeps_fleet_witness:
  "\<not> isl (fst first_start) \<and>
   (case start_server server_crypto (\<lambda>_. False) (\<lambda>b. b) (sample_start_env (\<lambda>_. FlushOk)) sample_flags
      (after_run [CallSaveToken (token_for ''k'' ''acme'' 2)] (file_store_of (projr (fst first_start))) (snd first_start)) of
      (Inl e, d2) \<Rightarrow> e = RandFails \<or> (\<exists>c. e = TLSFails c)
    | (Inr sv2, d2) \<Rightarrow> sv_Authority sv2 = sv_Authority (projr (fst first_start)))"
proof -
  have ok: "\<not> isl (fst first_start)" by code_simp
  then have start: "start_server server_crypto (\<lambda>_. False) (\<lambda>b. b) (sample_start_env (\<lambda>_. WriteFails)) sample_flags sample_disk =
      (Inr (projr (fst first_start)), snd first_start)"
    by (metis first_start_def prod.collapse sum.collapse(2))
  have url: "sf_DBURL sample_flags = []" by code_simp
  have "dk_Store sample_disk = Whole empty_data" by (simp add: sample_disk_def)
  from started_store[OF start url this]
  have "sv_Store (projr (fst first_start)) = FileStore (file_store_of (projr (fst first_start)))"
    by (metis file_store_of_def opened_store.case(1))
  from restart_keeps_fleet[OF start this _ url url refl, of empty_data "sample_start_env (\<lambda>_. FlushOk)" "[CallSaveToken (token_for ''k'' ''acme'' 2)]"]
  have "case start_server server_crypto (\<lambda>_. False) (\<lambda>b. b) (sample_start_env (\<lambda>_. FlushOk)) sample_flags
      (after_run [CallSaveToken (token_for ''k'' ''acme'' 2)] (file_store_of (projr (fst first_start))) (snd first_start)) of
      (Inl e, d2) \<Rightarrow> e = RandFails \<or> (\<exists>c. e = TLSFails c)
    | (Inr sv2, d2) \<Rightarrow> sv_Authority sv2 = sv_Authority (projr (fst first_start))"
    by (auto simp: sample_disk_def sample_start_env_def sample_ca_env_def split: prod.splits sum.splits)
  with ok show ?thesis by blast
qed

section \<open>An identity is kept\<close>

text \<open>
  C26: An identity the agent has is kept: on a data directory with a certificate the command
  \<open>enroll\<close> exits with an error and changes no file, whatever the server would answer, and what
  the command \<open>run\<close> does does not depend on what an enrollment would get.
\<close>

theorem existing_identity_wins:
  assumes "parse_flags [''server'', ''data'', ''token'', ''fingerprint'', ''name''] (\<lambda>_ _. True) args fmempty = Inr vals"
    and "Enrolled (new_agent (flag_or vals ''data'' default_data) applied files)"
    and "parse_flags run_flag_names (run_flag_ok env) args' fmempty = Inr vals'"
    and "Enrolled (new_agent (flag_or vals' ''data'' default_data) applied files)"
  shows "(fleet_agent env (''enroll'' # args) applied files = (Exits 1, files) \<or>
     fleet_agent env (''enroll'' # args) applied files = (Exits 2, files) \<and>
       (flag_or vals ''server'' [] = [] \<or> flag_or vals ''token'' [] = [])) \<and>
    fleet_agent env (''run'' # args') applied files = fleet_agent (env\<lparr>cm_Enroll := other\<rparr>) (''run'' # args') applied files"
proof -
  have "run_flag_ok (env\<lparr>cm_Enroll := other\<rparr>) = run_flag_ok env" by (intro ext) (simp add: run_flag_ok_def)
  moreover have same: "cm_KeyPair (env\<lparr>cm_Enroll := other\<rparr>) = cm_KeyPair env" "cm_Renew (env\<lparr>cm_Enroll := other\<rparr>) = cm_Renew env"
    "cm_AppendCerts (env\<lparr>cm_Enroll := other\<rparr>) = cm_AppendCerts env" "cm_Now (env\<lparr>cm_Enroll := other\<rparr>) = cm_Now env"
    by simp_all
  moreover have "Run (env\<lparr>cm_Enroll := other\<rparr>) st a = Run env st a" for st a
    unfolding Run_def same by (rule refl)
  ultimately show ?thesis
    using assms by (auto simp: fleet_agent_def enroll_command_def run_command_def self_enroll_def Let_def)
qed

definition sample_agent_env :: "(enroll_request \<Rightarrow> enroll_response reply) \<Rightarrow> agent_env" where
  "sample_agent_env post =
     \<lparr>cm_Hostname = Some ''box'', cm_Getenv = (\<lambda>_. []), cm_Digest = (\<lambda>b. b),
      cm_Enroll = \<lparr>ee_MkdirOk = True, ee_Key = Some (Some ''k''), ee_CSR = Some ''csr'', ee_Chain = Some [],
        ee_Post = post, ee_Order = in_order, ee_Write = (\<lambda>_. Written)\<rparr>,
      cm_KeyPair = (\<lambda>_ _. True), cm_AppendCerts = (\<lambda>_. True),
      cm_Renew = \<lparr>re_NotAfter = (\<lambda>_. None), re_ParseKey = (\<lambda>_. NoBlock), re_CSR = (\<lambda>_. None), re_Post = (\<lambda>_. Unreachable []),
        re_Write = Written\<rparr>,
      cm_Now = 0, cm_Int = (\<lambda>_. None), cm_Duration = (\<lambda>_. None)\<rparr>"

definition run_args :: "string list" where
  "run_args = [''--server'', ''https://cp'', ''-data=/a'', ''-token'', ''ab'']"

lemma existing_identity_wins_witness:
  "let files = fmap_of_list [(''/a/cert.pem'', ''cert'')]
   in fleet_agent (sample_agent_env (\<lambda>_. Unreachable [])) (''run'' # run_args) NoFile files =
     fleet_agent ((sample_agent_env (\<lambda>_. Unreachable []))\<lparr>cm_Enroll := cm_Enroll (sample_agent_env (\<lambda>_. Answer 500 [] [] (Inl [])))\<rparr>)
       (''run'' # run_args) NoFile files"
proof -
  let ?files = "fmap_of_list [(''/a/cert.pem'', ''cert'')]"
  let ?env = "sample_agent_env (\<lambda>_. Unreachable [])"
  let ?names = "[''server'', ''data'', ''token'', ''fingerprint'', ''name'']"
  let ?v1 = "projr (parse_flags ?names (\<lambda>_ _. True) run_args fmempty)"
  let ?v2 = "projr (parse_flags run_flag_names (run_flag_ok ?env) run_args fmempty)"
  have "\<not> isl (parse_flags ?names (\<lambda>_ _. True) run_args fmempty)"
    "\<not> isl (parse_flags run_flag_names (run_flag_ok ?env) run_args fmempty)" by code_simp+
  then have "parse_flags ?names (\<lambda>_ _. True) run_args fmempty = Inr ?v1"
    "parse_flags run_flag_names (run_flag_ok ?env) run_args fmempty = Inr ?v2" by (metis sum.collapse(2))+
  moreover have "Enrolled (new_agent (flag_or ?v1 ''data'' default_data) NoFile ?files)"
    "Enrolled (new_agent (flag_or ?v2 ''data'' default_data) NoFile ?files)" by code_simp+
  ultimately show ?thesis
    unfolding Let_def by (intro existing_identity_wins[THEN conjunct2])
qed

text \<open>
  What is not kept is an identity the agent never got: when the answer to an enrollment is
  lost, the server has spent a use of the token and has the machine, the agent has nothing,
  and the next start enrolls again. The fleet then has the machine twice.
\<close>

definition box_request :: enroll_request where
  "box_request = \<lparr>er_Token = ''ab'', er_CSRPEM = ''csr'', er_Name = ''box''\<rparr>"

definition two_uses :: plane where
  "two_uses = snd (createToken file_ops 100 ''a'' ''b''
     (Some \<lparr>ct_TenantID = ''t'', ct_Labels = fmempty, ct_TTLSec = 0, ct_MaxUses = 2\<rparr>) plane3)"

definition enroll_box :: "string \<Rightarrow> plane \<Rightarrow> enroll_response response \<times> plane" where
  "enroll_box i w = handleEnroll file_ops inproc_ops (\<lambda>_ _ _. Some ''cert'') (Some ''pub'') ''ca'' plain_choices 101 i (Some box_request) w"

definition only_box :: "enroll_response reply \<Rightarrow> enroll_request \<Rightarrow> enroll_response reply" where
  "only_box rep rq = (if rq = box_request then rep else Answer 400 ''400 Bad Request'' [] (Inl []))"

definition is_running :: "command_result \<Rightarrow> bool" where
  "is_running r = (case r of Running _ _ \<Rightarrow> True | _ \<Rightarrow> False)"

theorem lost_reply_enrolls_twice:
  "let w1 = snd (enroll_box ''m'' two_uses); (r2, w2) = enroll_box ''n'' w1;
       (cut, files) = fleet_agent (sample_agent_env (only_box (Unreachable ''EOF''))) (''run'' # run_args) NoFile fmempty;
       (again, files2) = fleet_agent (sample_agent_env (only_box (carried r2))) (''run'' # run_args) NoFile files
   in cut = Exits 1 \<and> files = fmempty \<and> is_running again \<and>
     map (\<lambda>(i, m). (i, m_Name m)) (sorted_list_of_fmap (fd_Machines (fs_data (w_store w2)))) = [(''m'', ''box''), (''n'', ''box'')]"
  by code_simp

end
