(* ===== verification/Fleet_Converges.thy ===== *)
theory Fleet_Converges
  imports Overlap_Properties Runtime_Properties
begin

text \<open>
  The path of a change through the whole system: the requests of operators, the store, the
  bus and the stream of the server (\<open>internal/server\<close>, \<open>internal/store\<close>, \<open>internal/bus\<close>), and the
  stream and the reconciler of the agent (\<open>internal/agent\<close>).
\<close>

section \<open>What the agent holds after a stream\<close>

text \<open>The reconciler, event by event, with its record saved each time.\<close>

lemma reconcile_events_applied:
  assumes "\<And>j. rn_Save (envs j) = Saved" and "dss \<noteq> []"
  shows "fset (fmdom (loadApplied (rt_Agent (reconcile_events parse edVerify envs i dss rt)))) =
    appliedKey ` set (specs_of (last dss))"
  using assms(2)
proof (induction dss arbitrary: i rt)
  case (Cons ds dss)
  show ?case
  proof (cases "dss = []")
    case True
    then show ?thesis by (simp add: reconcile_now_def assms(1) reconcile_remembers_desired)
  next
    case False
    then show ?thesis using Cons.IH by simp
  qed
qed simp

lemma reconcile_reports:
  "ag_Reports (reconcile parse edVerify envs p stuck so ds a) \<noteq> [] \<and>
   rep_Revision (last (ag_Reports (reconcile parse edVerify envs p stuck so ds a))) = ds_Revision ds"
  by (simp add: reconcile_def reconcile_loaded_def Let_def)

lemma reconcile_events_report:
  "dss \<noteq> [] \<Longrightarrow> rep_Revision (last (ag_Reports (rt_Agent (reconcile_events parse edVerify envs i dss rt)))) = ds_Revision (last dss)"
  by (induction dss arbitrary: i rt) (auto simp: reconcile_now_def reconcile_reports)

lemma last_sent_last: "last_sent y = Some ds \<Longrightarrow> str_Sent (sy_stream y) \<noteq> [] \<and> last (str_Sent (sy_stream y)) = ds"
  by (cases "str_Sent (sy_stream y)" rule: rev_cases) (auto simp: last_sent_def)


text \<open>A group loses its modules while the stream of its machine is open; the stream wakes and sends.\<close>

lemma overlap_streams:
  assumes "overlap_run ov0 \<lparr>ov_threads = ts, ov_world = sy_world y, ov_stream = sy_stream y\<rparr>" and "system_step y y'"
    and "sy_owed y = {}" and "sy_owed y' = {}" and "w_store (sy_world y') = w_store (sy_world y)"
  shows "overlap_run ov0 \<lparr>ov_threads = ts, ov_world = sy_world y', ov_stream = sy_stream y'\<rparr>"
proof (rule overlap_go [OF assms(1)], rule overlap_step.streams)
  show "system_step (as_system \<lparr>ov_threads = ts, ov_world = sy_world y, ov_stream = sy_stream y\<rparr> {})
      (as_system \<lparr>ov_threads = ts, ov_world = sy_world y', ov_stream = sy_stream y'\<rparr> {})"
    using assms(2) by (simp only: as_system_of [OF assms(3)] as_system_of [OF assms(4)])
qed (simp_all add: assms(5))

definition after_update :: "unit plane_thread list \<times> plane" where
  "after_update = run_pool (replicate 10 0) [update_h drop_modules] (sy_world connected)"

definition updated :: system where
  "updated = \<lparr>sy_world = snd after_update, sy_stream = sy_stream connected, sy_owed = {}\<rparr>"

definition woken :: system where
  "woken = stream_wake (the (Receive inproc_ops (str_Chan (sy_stream updated)) (w_bus (sy_world updated)))) updated"

definition served :: system where
  "served = stream_send True woken"

definition served_overlap :: overlap where
  "served_overlap = \<lparr>ov_threads = fst after_update, ov_world = sy_world served, ov_stream = sy_stream served\<rparr>"

definition served_frames :: "desired_state option list" where
  "served_frames = None # map Some (str_Sent (sy_stream served))"

definition by_revision :: "desired_state \<Rightarrow> string" where
  "by_revision ds = FormatInt (ds_Revision ds)"

definition from_revision :: "string \<Rightarrow> desired_state option" where
  "from_revision s = find (\<lambda>ds. by_revision ds = s) (str_Sent (sy_stream served))"

definition waiting_unsignalled :: "system \<Rightarrow> bool" where
  "waiting_unsignalled y \<longleftrightarrow> str_Phase (sy_stream y) = Waiting \<and> \<not> bus_signal (w_bus (sy_world y)) (str_Chan (sy_stream y))"

definition stream_facts :: "system \<Rightarrow> bool \<times> string \<times> string list" where
  "stream_facts y = (waiting_unsignalled y, str_MachineID (sy_stream y), map by_revision (str_Sent (sy_stream y)))"

lemma find_distinct_key: "distinct (map f xs) \<Longrightarrow> x \<in> set xs \<Longrightarrow> find (\<lambda>y. f y = f x) xs = Some x"
  by (induction xs) (auto simp: image_iff)

lemma served_run: "overlap_run (fresh_overlap [update_h drop_modules] plane5 ''m'') served_overlap"
proof -
  have "overlap_run (fresh_overlap [update_h drop_modules] plane5 ''m'')
      \<lparr>ov_threads = fst after_update, ov_world = snd after_update, ov_stream = sy_stream connected\<rparr>"
    using run_pool_overlap [OF overlap_connected_run [unfolded overlap_connected_def]]
    unfolding after_update_def by (metis prod.collapse)
  then have up: "overlap_run (fresh_overlap [update_h drop_modules] plane5 ''m'')
      \<lparr>ov_threads = fst after_update, ov_world = sy_world updated, ov_stream = sy_stream updated\<rparr>"
    by (simp add: updated_def)
  have "Receive inproc_ops (str_Chan (sy_stream updated)) (w_bus (sy_world updated)) \<noteq> None"
    unfolding updated_def after_update_def connected_def fresh_stream_def by code_simp
  then have rcv: "Receive inproc_ops (str_Chan (sy_stream updated)) (w_bus (sy_world updated)) =
      Some (the (Receive inproc_ops (str_Chan (sy_stream updated)) (w_bus (sy_world updated))))" by simp
  have "str_Phase (sy_stream updated) = Waiting" using connected_run(2) by (simp add: updated_def)
  from system_step.wake [OF this rcv] have wk: "system_step updated woken" unfolding woken_def .
  have "str_Phase (sy_stream woken) = Sending" by (simp add: woken_def stream_wake_def)
  from system_step.send [OF this, of True] have sd: "system_step woken served" unfolding served_def .
  have owed: "sy_owed updated = {}" "sy_owed woken = {}" "sy_owed served = {}"
    by (simp_all add: updated_def woken_def served_def stream_wake_def send_frame)
  have store: "w_store (sy_world woken) = w_store (sy_world updated)" "w_store (sy_world served) = w_store (sy_world woken)"
    by (simp_all add: woken_def served_def stream_wake_def send_frame)
  from overlap_streams [OF overlap_streams [OF up wk owed(1,2) store(1)] sd owed(2,3) store(2)]
  show ?thesis unfolding served_overlap_def .
qed


end
