(* ===== verification/Spec2Isabelle.thy ===== *)
theory Spec2Isabelle
  imports Plane_Findings Command_Properties Live_Stream Agent_Reports Store_Steps Agent_Properties Host_Properties
    Host_Metrics Metrics_Text Server_Setup Turso_Properties Runtime_Properties Authority_Properties Module_Transfer
    Overlap_Properties Request_Routing Turso_Schema Dashboard_Markup Dashboard_Input
    Dashboard_Page Alert_Rules Request_Turns Startup Fleet_Converges
begin

text \<open>
  \<^bold>\<open>fleetcore: a verification library.\<close>

  fleetcore manages a fleet of machines. A control plane (\<open>internal/server\<close>,
  \<open>internal/store\<close>, \<open>internal/bus\<close>, \<open>internal/ca\<close>) keeps tenants, machines, groups and
  modules and computes for each machine the modules it should have; an agent on each
  machine (\<open>internal/agent\<close>) enrolls with a token, reports inventory and metrics, listens
  on a stream for its desired state and runs the signed modules it names. The wire types
  are in \<open>internal/api\<close>. All paths below are relative to \<open>src/\<close>.

  \<^bold>\<open>How the model corresponds to the code.\<close>
  A struct is a \<open>record\<close> with a prefix per struct, a Go string a list of bytes (\<open>string\<close>),
  \<open>int\<close> and \<open>int64\<close> a signed 64-bit word, \<open>uint64\<close> an unsigned one (\<open>+\<close> and \<open>-\<close> wrap), a map
  a finite map, an error the left summand of a sum. A \<open>float64\<close> is a real number: rounding,
  NaN and infinities are not modelled. Code that mutates state becomes a function from state to state;
  \<open>(r, w')\<close> is the answer and the next state. What the language or the environment leaves
  open is an argument: the order in which a map is gone through and the ties of an
  unstable sort are a \<open>shuffle\<close>; the clock, random IDs, the outcome of each write, each request, each download,
  each program run are given by an environment record or function. JSON is taken to decode
  to what was encoded for valid UTF-8; the places where its text matters (\<open>omitempty\<close>,
  truncated files, \<open>null\<close> against \<open>[]\<close>, line breaks on the stream) are modelled. Logging and
  HTTP headers are left out.

  \<^bold>\<open>Shared theories.\<close>
  \<^item> \<open>Prelude\<close>: the integer types, finite maps as Go maps (\<open>range_map\<close>, \<open>go_index\<close>,
    \<open>gomap_len\<close>), permutations, unstable sorting (\<open>sort_slice\<close>).
  \<^item> \<open>Go_Strings\<close>: the used part of \<open>strings\<close> and \<open>strconv\<close>; \<open>Go_Paths\<close>: \<open>filepath\<close> and
    \<open>os.WriteFile\<close>; \<open>Api_Types\<close>: \<open>internal/api/types.go\<close>; \<open>Http\<close>: responses.

  \<^bold>\<open>Stores.\<close>
  \<^item> \<open>Store_Interface\<close>: the \<open>Store\<close> interface (\<open>store_ops\<close>), the abstract \<open>fleet\<close> and the
    contract between them as the locale \<open>store_contract\<close>: each operation does to the view
    of the store what its name says while the I/O behind it succeeds (\<open>healthy\<close>).
  \<^item> \<open>File_Store\<close>: \<open>store.go\<close>: one JSON file replaced through a temporary file; interpretation
    \<open>fs\<close> of the contract. \<open>Store_Steps\<close>: runs with failing flushes and restarts: a token is
    not spent more often than allowed, an acknowledged write is there after a restart.
  \<^item> \<open>Hrana_Wire\<close>, \<open>Turso_Store\<close>, \<open>Turso_Correct\<close>: \<open>turso.go\<close>: the wire values with base64,
    the tables and the statements, each atomic, with requests and replies lost;
    interpretation \<open>sql\<close> of the same contract. \<open>Turso_Steps\<close>, \<open>Turso_Properties\<close>: the bound
    on tokens on the database, the control plane on it, and where the two stores agree and differ.
  \<^item> \<open>Turso_Schema\<close>: opening the database: the schema statements, an opening that is cut off and
    repeated, and the rows of older versions.

  \<^bold>\<open>Control plane.\<close>
  \<^item> \<open>Event_Bus\<close>: \<open>internal/bus\<close>, with the locale \<open>event_bus\<close> and its interpretation \<open>bus\<close>.
  \<^item> \<open>Resolver\<close>, \<open>Recompute_Correct\<close>: \<open>computeModules\<close> and \<open>Recompute\<close> of \<open>groups.go\<close>;
    \<open>modules_of\<close> and \<open>settle\<close> are their specifications.
  \<^item> \<open>Group_Api\<close>, \<open>Admin_Api\<close>, \<open>Command_Api\<close>, \<open>Agent_Api\<close>: the handlers of \<open>groups.go\<close>,
    \<open>admin.go\<close>, \<open>commands.go\<close>, \<open>server.go\<close> and the registry of \<open>live.go\<close>, one definition per handler,
    for any store and any bus.
  \<^item> \<open>Fleet_Steps\<close>: the abstract specification, a step relation on \<open>fleet\<close>, and its invariant
    \<open>tidy\<close> (every machine's desired modules are those its groups and its override give).
    \<open>Handler_Steps\<close>, \<open>Group_Api_Correct\<close>, \<open>Control_Correct\<close>, \<open>Control_Plane\<close>: every handler
    implements such a step and publishes every machine whose desired state changed, for
    any store that keeps the contract; reachable states of both APIs together.
  \<^item> \<open>Sample_Run\<close>: a concrete run for the witnesses. \<open>Plane_Properties\<close>, \<open>Plane_Findings\<close>,
    \<open>Command_Properties\<close>: the properties of the handlers.
  \<^item> \<open>Reconcile_Stream\<close>: \<open>handleStream\<close> as a step relation with writers, publishers and other
    streams interleaved: no change of the desired state is lost. \<open>Live_Stream\<close>: the same for
    \<open>handleLiveStream\<close> and the pushed samples.
  \<^item> \<open>Request_Threads\<close>, \<open>Overlap_Properties\<close>: the same handlers as threads of atomic calls, run
    under any schedule: what streams still get, and what overlapping requests can lose.
    \<open>Request_Turns\<close>: how many calls a request makes at most, under any schedule.
  \<^item> \<open>Request_Routing\<close>: the route tables of both servers behind the bearer check and the
    client certificates.
  \<^item> \<open>Metrics_Text\<close>: the Prometheus text of \<open>server/metrics.go\<close> and of the gauges in \<open>live.go\<close>;
    \<open>Server_Setup\<close>: the installer of \<open>install.go\<close> and \<open>splitCSV\<close>. \<open>Alert_Rules\<close>: the rules of
    \<open>alerts.go\<close> and the metrics they refer to.
  \<^item> \<open>Dashboard_Text\<close>, \<open>Dashboard_Rows\<close>, \<open>Dashboard_State\<close>: the script of \<open>dashboard.go\<close>: what it
    computes from text and numbers, the HTML it builds, and the page with the handler of every
    answer, timer and click. \<open>Dashboard_Input\<close>: what the operator types;
    \<open>Dashboard_Markup\<close>: which tags data can bring into the page; \<open>Dashboard_Charts\<close>: the
    rolling histories and the stream that fills them; \<open>Dashboard_Overview\<close>: banners and the grid;
    \<open>Dashboard_Cards\<close>: what a card shows, the points of the charts, the requests of the buttons;
    \<open>Dashboard_Page\<close>: the elements of the body, the choice of groups, what follows a command.
  \<^item> \<open>Startup\<close>: both commands of \<open>cmd\<close>: flags, the start of the server up to its listeners and
    what a restart finds, the subcommands of the agent up to its loops.
  \<^item> \<open>Certificate_Authority\<close>, \<open>Authority_Properties\<close>: \<open>internal/ca\<close>, with Go's cryptography as a
    record of functions and its documented laws as named hypotheses.

  \<^bold>\<open>Agent.\<close>
  \<^item> \<open>Agent_Reconcile\<close>, \<open>Agent_Properties\<close>: \<open>modules.go\<close>: only signed payloads run, each once.
  \<^item> \<open>Agent_Runtime\<close>, \<open>Runtime_Properties\<close>: \<open>agent.go\<close>: enrollment, start, renewal, the stream's
    client side, retries.
  \<^item> \<open>Host_Files\<close>, \<open>Host_Inventory\<close>, \<open>Host_Processes\<close>, \<open>Host_Network\<close>, \<open>Host_Pods\<close>,
    \<open>Host_Updates\<close>, \<open>Host_Metrics\<close>, \<open>Host_Properties\<close>: the collectors (\<open>inventory.go\<close>,
    \<open>procsample.go\<close>, \<open>netinfo.go\<close>, \<open>kubernetes.go\<close>, \<open>updates.go\<close>, \<open>metrics.go\<close>) as
    functions of what the host's files say.
  \<^item> \<open>Agent_Reports\<close>: the inventory as a whole, the heartbeats and \<open>localpush.go\<close>, and what
    becomes of them in the server.
  \<^item> \<open>Fleet_Converges\<close>: a change from the requests of operators over store, bus and stream to
    what the agent has applied and reports.
  \<^item> \<open>Module_Transfer\<close>: a module from its upload to its run, over both stores (locale
    \<open>module_store\<close>, an extension of the contract, with two interpretations).

  \<^bold>\<open>Bounds and fuel.\<close> No definition uses fuel: every loop of the code runs over a finite list, map
  or text and is structural or has a measure. Endless loops (streams, tickers) are step
  relations, or functions of the finite list of what happened so far.

  \<^bold>\<open>Concurrency.\<close> A file store operation holds one lock and is one step; a statement of the
  database is one step. A handler is run as a whole in \<open>Control_Plane\<close>, so the invariant on
  desired states is one of requests that do not overlap; \<open>Request_Threads\<close> splits the handlers
  of the file store's fleet into their calls, and \<open>Overlap_Properties\<close> says what holds and what fails when
  they overlap. \<open>Store_Steps\<close>, \<open>Turso_Steps\<close> and \<open>Reconcile_Stream\<close> interleave single operations.

  \<^bold>\<open>Not modelled.\<close> The style sheet, the colours and the strokes of the dashboard's page
  (\<open>dashboard.go\<close>), which compute nothing; what the install script does on the machine (its text
  is modelled); in \<open>cmd\<close> listening, signals and shutting down; \<open>agent/json.go\<close>, one call of the
  library; TLS itself and the tickers.
\<close>

end
